(* ===== verification/Prelude.thy ===== *)
theory Prelude
  imports Main "HOL-Library.Word"
begin

text \<open>
  What every component of the model shares, independently of the school platform itself:
  \<^item> Go values: byte strings with \<open>strings.TrimSpace\<close>, \<open>strings.ToLower\<close>, \<open>strings.ToUpper\<close> and
    \<open>strings.EqualFold\<close>, and 64-bit integers (wrap-around of a product, truncating division,
    the range of a 32-bit SQL \<open>INTEGER\<close>);
  \<^item> SQL tables as lists of rows: selection, update in place, counting, a page of a result;
  \<^item> the collections \<open>wp\<close> and \<open>moves\<close>, which the theories of the effects and of the components
    fill and use.
\<close>

named_theorems wp "weakest-precondition equations of operations"
named_theorems moves "closure rules for relations between initial and final states"

section \<open>Strings\<close>

text \<open>
  A Go string is a sequence of bytes, so a \<open>string\<close> (a list of 8-bit characters). \<open>TrimSpace\<close>
  removes the runes with the Unicode property White\_Space at both ends. The model recognises
  their UTF-8 encodings: one byte for the ASCII ones, two or three bytes for the others.
\<close>

definition ascii_space :: "char \<Rightarrow> bool" where
  "ascii_space c \<longleftrightarrow> c = CHR 0x09 \<or> c = CHR 0x0A \<or> c = CHR 0x0B \<or> c = CHR 0x0C
     \<or> c = CHR 0x0D \<or> c = CHR 0x20"

text \<open>The number of bytes of a White\_Space rune with first byte \<open>a\<close> and next bytes \<open>b\<close>, \<open>c\<close>.\<close>

definition space_len :: "char \<Rightarrow> char option \<Rightarrow> char option \<Rightarrow> nat" where
  "space_len a b c =
     (if ascii_space a then 1
      else if a = CHR 0xC2 \<and> (b = Some (CHR 0x85) \<or> b = Some (CHR 0xA0)) then 2
      else if a = CHR 0xE1 \<and> b = Some (CHR 0x9A) \<and> c = Some (CHR 0x80) then 3
      else if a = CHR 0xE2 \<and> b = Some (CHR 0x80) \<and> (case c of None \<Rightarrow> False
             | Some d \<Rightarrow> (of_char d :: nat) \<in> {128..138} \<or> d = CHR 0xA8 \<or> d = CHR 0xA9 \<or> d = CHR 0xAF)
           then 3
      else if a = CHR 0xE2 \<and> b = Some (CHR 0x81) \<and> c = Some (CHR 0x9F) then 3
      else if a = CHR 0xE3 \<and> b = Some (CHR 0x80) \<and> c = Some (CHR 0x80) then 3
      else 0)"

fun lead_space :: "string \<Rightarrow> nat" where
  "lead_space [] = 0"
| "lead_space [a] = space_len a None None"
| "lead_space [a, b] = space_len a (Some b) None"
| "lead_space (a # b # c # _) = space_len a (Some b) (Some c)"

text \<open>The same at the end of a string that is given reversed: its last bytes come first.\<close>

fun trail_space :: "string \<Rightarrow> nat" where
  "trail_space [] = 0"
| "trail_space [a] = space_len a None None"
| "trail_space [a, b] =
     (if space_len a None None = 1 then 1 else if space_len b (Some a) None = 2 then 2 else 0)"
| "trail_space (a # b # c # _) =
     (if space_len a None None = 1 then 1
      else if space_len b (Some a) None = 2 then 2
      else if space_len c (Some b) (Some a) = 3 then 3 else 0)"

function trim_left :: "string \<Rightarrow> string" where
  "trim_left s = (if s = [] \<or> lead_space s = 0 then s else trim_left (drop (lead_space s) s))"
  by pat_completeness auto
termination
  by (relation "measure length") auto

function trim_right_rev :: "string \<Rightarrow> string" where
  "trim_right_rev s =
     (if s = [] \<or> trail_space s = 0 then s else trim_right_rev (drop (trail_space s) s))"
  by pat_completeness auto
termination
  by (relation "measure length") auto

declare trim_left.simps [simp del] trim_right_rev.simps [simp del]

definition trim_space :: "string \<Rightarrow> string" where
  "trim_space s = rev (trim_right_rev (rev (trim_left s)))"

text \<open>
  \<open>ToLower\<close>, \<open>ToUpper\<close> and \<open>EqualFold\<close> on ASCII letters; other bytes are kept, so the model agrees
  with Go and with SQL \<open>lower()\<close> on ASCII texts.
\<close>

definition lower_char :: "char \<Rightarrow> char" where
  "lower_char c = (let n = (of_char c :: nat) in if 65 \<le> n \<and> n \<le> 90 then char_of (n + 32) else c)"

definition upper_char :: "char \<Rightarrow> char" where
  "upper_char c = (let n = (of_char c :: nat) in if 97 \<le> n \<and> n \<le> 122 then char_of (n - 32) else c)"

definition to_lower :: "string \<Rightarrow> string" where
  "to_lower = map lower_char"

definition to_upper :: "string \<Rightarrow> string" where
  "to_upper = map upper_char"

definition equal_fold :: "string \<Rightarrow> string \<Rightarrow> bool" where
  "equal_fold s t \<longleftrightarrow> to_lower s = to_lower t"

lemma lower_char_idem [simp]: "lower_char (lower_char c) = lower_char c"
  by (auto simp: lower_char_def Let_def)

lemma to_lower_idem [simp]: "to_lower (to_lower s) = to_lower s"
  by (simp add: to_lower_def)

lemma to_lower_eq_Nil [simp]: "to_lower s = [] \<longleftrightarrow> s = []"
  by (simp add: to_lower_def)

lemma to_upper_eq_Nil [simp]: "to_upper s = [] \<longleftrightarrow> s = []"
  by (simp add: to_upper_def)

lemma lower_upper_char [simp]: "lower_char (upper_char c) = lower_char c"
  by (auto simp: lower_char_def upper_char_def Let_def)

lemma to_lower_upper [simp]: "to_lower (to_upper s) = to_lower s"
  by (simp add: to_lower_def to_upper_def)

lemma trim_left_Nil [simp]: "trim_left [] = []"
  by (simp add: trim_left.simps)

lemma trim_right_rev_Nil [simp]: "trim_right_rev [] = []"
  by (simp add: trim_right_rev.simps)

lemma trim_space_Nil [simp]: "trim_space [] = []"
  by (simp add: trim_space_def)

lemma space_len_more:
  "space_len a None None \<noteq> 0 \<Longrightarrow> space_len a b c = space_len a None None"
  "space_len a b None \<noteq> 0 \<Longrightarrow> space_len a b c = space_len a b None"
  by (auto simp: space_len_def split: if_splits)

lemma lead_space_append: "lead_space s \<noteq> 0 \<Longrightarrow> lead_space (s @ t) = lead_space s"
proof (cases s rule: lead_space.cases)
  case (2 a)
  assume "lead_space s \<noteq> 0"
  with 2 have "space_len a None None \<noteq> 0" by simp
  with 2 show ?thesis
    using space_len_more(1) [of a] by (cases t rule: lead_space.cases) auto
next
  case (3 a b)
  assume "lead_space s \<noteq> 0"
  with 3 have "space_len a (Some b) None \<noteq> 0" by simp
  with 3 show ?thesis
    using space_len_more(2) [of a "Some b"] by (cases t) auto
qed auto

lemma trim_left_lead: "trim_left s = [] \<or> lead_space (trim_left s) = 0"
  by (induction s rule: trim_left.induct) (metis trim_left.simps)

lemma trim_right_trail: "trim_right_rev s = [] \<or> trail_space (trim_right_rev s) = 0"
  by (induction s rule: trim_right_rev.induct) (metis trim_right_rev.simps)

lemma trim_right_suffix: "\<exists>p. s = p @ trim_right_rev s"
proof (induction s rule: trim_right_rev.induct)
  case (1 s)
  show ?case
  proof (cases "s = [] \<or> trail_space s = 0")
    case False
    with 1 obtain p where "drop (trail_space s) s = p @ trim_right_rev (drop (trail_space s) s)" by auto
    moreover have "trim_right_rev s = trim_right_rev (drop (trail_space s) s)"
      using False by (subst trim_right_rev.simps) simp
    ultimately show ?thesis by (metis append.assoc append_take_drop_id)
  qed (simp add: trim_right_rev.simps)
qed

lemma trim_space_idem [simp]: "trim_space (trim_space s) = trim_space s"
proof -
  let ?t = "trim_left s"
  let ?u = "rev (trim_right_rev (rev ?t))"
  obtain p where "rev ?t = p @ trim_right_rev (rev ?t)" using trim_right_suffix by blast
  then have t: "?t = ?u @ rev p" by (metis rev_append rev_rev_ident)
  have "?u = [] \<or> lead_space ?u = 0"
    using trim_left_lead [of s] t lead_space_append [of ?u "rev p"] by (metis append_is_Nil_conv)
  then have "trim_left ?u = ?u" by (auto simp: trim_left.simps)
  moreover have "trim_right_rev (rev ?u) = rev ?u"
    using trim_right_trail [of "rev ?t"] by (auto simp: trim_right_rev.simps)
  ultimately show ?thesis by (simp add: trim_space_def)
qed
section \<open>Integers\<close>

text \<open>A Go \<open>int\<close> has 64 bits: a product wraps around, a quotient is truncated towards zero.\<close>

definition wrap64 :: "int \<Rightarrow> int" where
  "wrap64 x = (x + 2 ^ 63) mod 2 ^ 64 - 2 ^ 63"

definition go_mul :: "int \<Rightarrow> int \<Rightarrow> int" where
  "go_mul a b = wrap64 (a * b)"

definition go_quot :: "int \<Rightarrow> int \<Rightarrow> int" where
  "go_quot a b = sgn a * sgn b * (\<bar>a\<bar> div \<bar>b\<bar>)"

text \<open>A value that fits a PostgreSQL \<open>INTEGER\<close> column.\<close>

definition int4 :: "int \<Rightarrow> bool" where
  "int4 x \<longleftrightarrow> - (2 ^ 31) \<le> x \<and> x < 2 ^ 31"

lemma wrap64_word: "wrap64 x = sint (word_of_int x :: 64 word)"
  by (simp add: wrap64_def int_word_sint)

lemma wrap64_id: "- (2 ^ 63) \<le> x \<Longrightarrow> x < 2 ^ 63 \<Longrightarrow> wrap64 x = x"
  by (simp add: wrap64_def)

lemma go_quot_nonneg: "0 \<le> a \<Longrightarrow> 0 < b \<Longrightarrow> go_quot a b = a div b"
  by (cases "a = 0") (auto simp: go_quot_def)

lemma go_mul_small:
  assumes "0 \<le> a" "a < 2 ^ 31" "0 \<le> b" "b < 2 ^ 31"
  shows "go_mul a b = a * b"
proof -
  have "a * b \<le> 2 ^ 31 * 2 ^ 31"
    using assms by (intro mult_mono) auto
  moreover have "0 \<le> a * b"
    using assms by simp
  ultimately show ?thesis
    unfolding go_mul_def by (intro wrap64_id) simp_all
qed

section \<open>Tables\<close>

text \<open>
  A table is the list of its rows in insertion order. \<open>find\<close> is a \<open>SELECT\<close> by a key, \<open>upd_where\<close>
  an \<open>UPDATE ... WHERE\<close>, \<open>cnt\<close> a \<open>SELECT COUNT(*)\<close>.
\<close>

definition upd_where :: "('r \<Rightarrow> bool) \<Rightarrow> ('r \<Rightarrow> 'r) \<Rightarrow> 'r list \<Rightarrow> 'r list" where
  "upd_where p f rs = map (\<lambda>r. if p r then f r else r) rs"

definition cnt :: "('r \<Rightarrow> bool) \<Rightarrow> 'r list \<Rightarrow> nat" where
  "cnt p rs = length (filter p rs)"

text \<open>\<open>LIMIT per OFFSET (page - 1) * per\<close>.\<close>

definition page_of :: "int \<Rightarrow> int \<Rightarrow> 'r list \<Rightarrow> 'r list" where
  "page_of page per rs = take (nat per) (drop (nat ((page - 1) * per)) rs)"

text \<open>\<open>ORDER BY key DESC\<close>: rows with equal keys keep their insertion order (SQL leaves it open).\<close>

definition order_desc :: "('r \<Rightarrow> int) \<Rightarrow> 'r list \<Rightarrow> 'r list" where
  "order_desc key rs = sort_key (\<lambda>r. - key r) rs"

lemma upd_where_simps [simp]:
  "upd_where p f [] = []"
  "upd_where p f (r # rs) = (if p r then f r else r) # upd_where p f rs"
  "upd_where p f (rs @ ss) = upd_where p f rs @ upd_where p f ss"
  by (simp_all add: upd_where_def)

lemma length_upd_where [simp]: "length (upd_where p f rs) = length rs"
  by (simp add: upd_where_def)

lemma set_upd_where: "set (upd_where p f rs) = (\<lambda>r. if p r then f r else r) ` set rs"
  by (simp add: upd_where_def)

lemma map_upd_where [simp]:
  "(\<And>r. g (f r) = g r) \<Longrightarrow> map g (upd_where p f rs) = map g rs"
  by (induction rs) auto

lemma upd_where_none: "(\<And>r. r \<in> set rs \<Longrightarrow> \<not> p r) \<Longrightarrow> upd_where p f rs = rs"
  by (induction rs) auto

lemma cnt_simps [simp]:
  "cnt p [] = 0"
  "cnt p (r # rs) = (if p r then Suc (cnt p rs) else cnt p rs)"
  "cnt p (rs @ ss) = cnt p rs + cnt p ss"
  by (simp_all add: cnt_def)

lemma cnt_le_length: "cnt p rs \<le> length rs"
  by (simp add: cnt_def)

lemma cnt_mono: "(\<And>r. r \<in> set rs \<Longrightarrow> p r \<Longrightarrow> q r) \<Longrightarrow> cnt p rs \<le> cnt q rs"
  by (induction rs) (auto simp: le_SucI)

lemma cnt_upd_where_same:
  "(\<And>r. r \<in> set rs \<Longrightarrow> p r \<Longrightarrow> q (f r) = q r) \<Longrightarrow> cnt q (upd_where p f rs) = cnt q rs"
  by (induction rs) auto

lemma find_append: "find p (rs @ ss) = (case find p rs of None \<Rightarrow> find p ss | Some r \<Rightarrow> Some r)"
  by (induction rs) auto

lemma find_SomeD: "find p rs = Some r \<Longrightarrow> r \<in> set rs \<and> p r"
  by (auto simp: find_Some_iff)

lemma find_upd_where:
  "(\<And>r. q (f r) = q r) \<Longrightarrow>
   find q (upd_where p f rs) = map_option (\<lambda>r. if p r then f r else r) (find q rs)"
  by (induction rs) auto

lemma find_upd_other:
  "(\<And>r. r \<in> set rs \<Longrightarrow> p r \<Longrightarrow> \<not> q r \<and> \<not> q (f r)) \<Longrightarrow> find q (upd_where p f rs) = find q rs"
  by (induction rs) auto

lemma list_all_upd_where:
  "(\<And>r. p r \<Longrightarrow> Q (f r)) \<Longrightarrow> (\<And>r. \<not> p r \<Longrightarrow> Q r) \<Longrightarrow> list_all Q (upd_where p f rs)"
  by (induction rs) auto

text \<open>With a key that is distinct in the table, a key selects at most one row.\<close>

lemma distinct_key_unique:
  "distinct (map k rs) \<Longrightarrow> r \<in> set rs \<Longrightarrow> s \<in> set rs \<Longrightarrow> k r = k s \<Longrightarrow> r = s"
  by (metis distinct_map inj_onD)

lemma distinct_key_same:
  "distinct (map k rs) \<Longrightarrow> k r = k s \<Longrightarrow> r \<in> set rs \<Longrightarrow> s \<in> set rs \<Longrightarrow> g r = g s"
  using distinct_key_unique by metis

lemma find_distinct_key:
  "distinct (map k rs) \<Longrightarrow> r \<in> set rs \<Longrightarrow> find (\<lambda>s. k s = k r) rs = Some r"
  by (induction rs) (auto simp: image_iff)

lemma cnt_upd_key:
  assumes "distinct (map k rs)" and "r \<in> set rs"
  shows "int (cnt q (upd_where (\<lambda>s. k s = k r) f rs))
           = int (cnt q rs) - of_bool (q r) + of_bool (q (f r))"
  using assms
proof (induction rs)
  case Nil
  then show ?case by simp
next
  case (Cons s rs)
  show ?case
  proof (cases "s = r")
    case True
    have "upd_where (\<lambda>s. k s = k r) f rs = rs"
      using Cons.prems True by (intro upd_where_none) (auto simp: image_iff)
    with True show ?thesis by auto
  next
    case False
    then have "k s \<noteq> k r" and "r \<in> set rs" and "distinct (map k rs)"
      using Cons.prems by (auto simp: image_iff)
    with Cons.IH show ?thesis by auto
  qed
qed

lemma length_page_of: "0 \<le> per \<Longrightarrow> length (page_of page per rs) \<le> nat per"
  by (simp add: page_of_def)

lemma set_page_of: "set (page_of page per rs) \<subseteq> set rs"
  by (auto simp: page_of_def dest: in_set_takeD in_set_dropD)

lemma set_order_desc [simp]: "set (order_desc key rs) = set rs"
  by (simp add: order_desc_def)

lemma length_order_desc [simp]: "length (order_desc key rs) = length rs"
  by (simp add: order_desc_def)

lemma length_filter_all: "length xs \<le> length (filter P xs) \<longleftrightarrow> list_all P xs"
proof
  assume "length xs \<le> length (filter P xs)"
  then show "list_all P xs"
    unfolding list_all_iff using length_filter_less [of _ xs P] by (meson leD)
qed (simp add: list_all_iff)

lemma filter_upd_where_other:
  "(\<And>r. r \<in> set rs \<Longrightarrow> p r \<Longrightarrow> \<not> q r \<and> \<not> q (f r)) \<Longrightarrow> filter q (upd_where p f rs) = filter q rs"
  by (induction rs) auto

end
