(* ===== verification/Effects.thy ===== *)
theory Effects
  imports Prelude
begin

text \<open>
  Operations of the server as functions of an explicit state: an operation takes the state and
  returns an error or a value, together with the state it leaves behind. An operation that fails
  keeps the writes it made before the failure, as the service code does, which runs its statements
  one by one on the connection pool, without a transaction.

  Two calculi. The equations of \<open>wp\<close> turn a statement about a run into a first-order formula,
  branch by branch. The locale \<open>effect_order\<close> is the interface for a relation between the states
  before and after an operation (a reflexive and transitive one); its rules prove such a relation
  for an operation from its statements alone, so for every prefix at which the run may stop.
\<close>

type_synonym ('s, 'e, 'a) op = "'s \<Rightarrow> ('e + 'a) \<times> 's"

definition ret :: "'a \<Rightarrow> ('s, 'e, 'a) op" where
  "ret a = (\<lambda>s. (Inr a, s))"

definition raise :: "'e \<Rightarrow> ('s, 'e, 'a) op" where
  "raise e = (\<lambda>s. (Inl e, s))"

text \<open>\<open>x, err := m; if err != nil { return err }; f(x)\<close>.\<close>

definition andThen :: "('s, 'e, 'a) op \<Rightarrow> ('a \<Rightarrow> ('s, 'e, 'b) op) \<Rightarrow> ('s, 'e, 'b) op" where
  "andThen m f = (\<lambda>s. case m s of (Inl e, s') \<Rightarrow> (Inl e, s') | (Inr a, s') \<Rightarrow> f a s')"

text \<open>\<open>if !c { return e }\<close>.\<close>

definition guard :: "bool \<Rightarrow> 'e \<Rightarrow> ('s, 'e, unit) op" where
  "guard c e = (if c then ret () else raise e)"

text \<open>A pure check that returns an error or nothing (\<open>if err := check(); err != nil\<close>).\<close>

definition check :: "'e option \<Rightarrow> ('s, 'e, unit) op" where
  "check r = (case r of None \<Rightarrow> ret () | Some e \<Rightarrow> raise e)"

text \<open>A read of the state that cannot fail.\<close>

definition asks :: "('s \<Rightarrow> 'a) \<Rightarrow> ('s, 'e, 'a) op" where
  "asks f = (\<lambda>s. (Inr (f s), s))"

text \<open>
  \<open>x, err := m; if err == nil { ... x ... } else if !p(err) { return err }\<close>: an error that
  satisfies \<open>p\<close> is the absence of a value, any other error is passed on.
\<close>

definition optional :: "('e \<Rightarrow> bool) \<Rightarrow> ('s, 'e, 'a) op \<Rightarrow> ('s, 'e, 'a option) op" where
  "optional p m = (\<lambda>s. case m s of
       (Inl e, s') \<Rightarrow> (if p e then Inr None else Inl e, s')
     | (Inr a, s') \<Rightarrow> (Inr (Some a), s'))"

text \<open>\<open>x, err := m; if err != nil { ... h(err) ... }\<close>: the error is handled by another operation.\<close>

definition orElse :: "('s, 'e, 'a) op \<Rightarrow> ('e \<Rightarrow> ('s, 'e, 'a) op) \<Rightarrow> ('s, 'e, 'a) op" where
  "orElse m h = (\<lambda>s. case m s of (Inl e, s') \<Rightarrow> h e s' | (Inr a, s') \<Rightarrow> (Inr a, s'))"

text \<open>\<open>for _, x := range xs { if err := f(x); err != nil { return err } }\<close>.\<close>

primrec for_each :: "'a list \<Rightarrow> ('a \<Rightarrow> ('s, 'e, unit) op) \<Rightarrow> ('s, 'e, unit) op" where
  "for_each [] f = ret ()"
| "for_each (x # xs) f = andThen (f x) (\<lambda>_. for_each xs f)"

text \<open>The same loop, collecting a value per element.\<close>

primrec map_each :: "'a list \<Rightarrow> ('a \<Rightarrow> ('s, 'e, 'b) op) \<Rightarrow> ('s, 'e, 'b list) op" where
  "map_each [] f = ret []"
| "map_each (x # xs) f = andThen (f x) (\<lambda>y. andThen (map_each xs f) (\<lambda>ys. ret (y # ys)))"

section \<open>Weakest preconditions\<close>

definition wpre :: "('s, 'e, 'a) op \<Rightarrow> ('a \<Rightarrow> 's \<Rightarrow> bool) \<Rightarrow> ('e \<Rightarrow> 's \<Rightarrow> bool) \<Rightarrow> 's \<Rightarrow> bool" where
  "wpre m Q E s = (case m s of (Inl e, s') \<Rightarrow> E e s' | (Inr a, s') \<Rightarrow> Q a s')"

lemma wp_ret [wp]: "wpre (ret a) Q E s = Q a s"
  by (simp add: wpre_def ret_def)

lemma wp_raise [wp]: "wpre (raise e) Q E s = E e s"
  by (simp add: wpre_def raise_def)

lemma wp_andThen [wp]: "wpre (andThen m f) Q E s = wpre m (\<lambda>a. wpre (f a) Q E) E s"
  by (simp add: wpre_def andThen_def split: prod.split sum.split)

lemma wp_guard [wp]: "wpre (guard c e) Q E s = (if c then Q () s else E e s)"
  by (simp add: guard_def wp_ret wp_raise)

lemma wp_check [wp]: "wpre (check r) Q E s = (case r of None \<Rightarrow> Q () s | Some e \<Rightarrow> E e s)"
  by (simp add: check_def wp_ret wp_raise split: option.split)

lemma wp_asks [wp]: "wpre (asks f) Q E s = Q (f s) s"
  by (simp add: wpre_def asks_def)

lemma wp_asks_then: "wpre (andThen (asks f) g) Q E s = wpre (g (f s)) Q E s"
  by (simp add: wp_andThen wp_asks)

lemma wp_guard_then:
  "wpre (andThen (guard c e) g) Q E s = (if c then wpre (g ()) Q E s else E e s)"
  by (simp add: wp_andThen wp_guard)

lemma wp_optional [wp]:
  "wpre (optional p m) Q E s = wpre m (\<lambda>a. Q (Some a)) (\<lambda>e s'. if p e then Q None s' else E e s') s"
  by (simp add: wpre_def optional_def split: prod.split sum.split)

lemma wp_orElse [wp]: "wpre (orElse m h) Q E s = wpre m Q (\<lambda>e. wpre (h e) Q E) s"
  by (simp add: wpre_def orElse_def split: prod.split sum.split)

lemma wp_if [wp]:
  "wpre (if c then m else n) Q E s = (if c then wpre m Q E s else wpre n Q E s)"
  by simp

lemma wp_case_option [wp]:
  "wpre (case x of None \<Rightarrow> m | Some a \<Rightarrow> n a) Q E s
     = (case x of None \<Rightarrow> wpre m Q E s | Some a \<Rightarrow> wpre (n a) Q E s)"
  by (simp split: option.split)

lemma wp_case_prod [wp]:
  "wpre (case x of (a, b) \<Rightarrow> m a b) Q E s = (case x of (a, b) \<Rightarrow> wpre (m a b) Q E s)"
  by (simp split: prod.split)

lemma wp_Inr: "wpre m Q E s \<Longrightarrow> m s = (Inr a, s') \<Longrightarrow> Q a s'"
  by (simp add: wpre_def)

lemma wp_Inl: "wpre m Q E s \<Longrightarrow> m s = (Inl e, s') \<Longrightarrow> E e s'"
  by (simp add: wpre_def)

lemma wp_mono:
  "wpre m Q E s \<Longrightarrow> (\<And>a s'. Q a s' \<Longrightarrow> Q' a s') \<Longrightarrow> (\<And>e s'. E e s' \<Longrightarrow> E' e s') \<Longrightarrow> wpre m Q' E' s"
  by (auto simp: wpre_def split: prod.splits sum.splits)

lemma wp_map_each_all:
  assumes "\<And>x s. x \<in> set xs \<Longrightarrow> wpre (f x) (\<lambda>y _. P y) (\<lambda>_ _. True) s"
  shows "wpre (map_each xs f) (\<lambda>ys _. list_all P ys) (\<lambda>_ _. True) s"
  using assms
proof (induction xs arbitrary: s)
  case Nil
  then show ?case by (simp add: wp_ret)
next
  case (Cons a xs s)
  have "wpre (andThen (map_each xs f) (\<lambda>ys. ret (y # ys))) (\<lambda>ys _. list_all P ys) (\<lambda>_ _. True) t" if "P y" for y t
    unfolding wp_andThen wp_ret by (rule wp_mono [OF Cons.IH]) (use that Cons.prems in auto)
  moreover have "wpre (f a) (\<lambda>y _. P y) (\<lambda>_ _. True) s" by (rule Cons.prems) simp
  ultimately show ?case
    by (simp only: map_each.simps wp_andThen [of "f a"]) (auto elim: wp_mono)
qed

lemma wp_conj: "wpre m Q E s \<Longrightarrow> wpre m Q' E' s \<Longrightarrow> wpre m (\<lambda>a t. Q a t \<and> Q' a t) (\<lambda>e t. E e t \<and> E' e t) s"
  by (auto simp: wpre_def split: prod.splits sum.splits)

lemma wp_run: "(\<And>r t. m s = (r, t) \<Longrightarrow> case r of Inl e \<Rightarrow> E e t | Inr a \<Rightarrow> Q a t) \<Longrightarrow> wpre m Q E s"
  by (cases "m s") (auto simp: wpre_def split: sum.splits)

lemma wp_any: "(\<And>a t. wpre (f a) Q (\<lambda>_ _. True) t) \<Longrightarrow> wpre (andThen m f) Q (\<lambda>_ _. True) s"
  unfolding wp_andThen by (rule wp_run) (simp split: sum.split)

text \<open>An operation that cannot succeed.\<close>

lemma wp_refused:
  assumes "wpre m (\<lambda>_ _. False) (\<lambda>_. P) s"
  shows "\<exists>e. fst (m s) = Inl e" and "P (snd (m s))"
  using assms by (auto simp: wpre_def split: prod.splits sum.splits)

text \<open>The exact run of an operation: a value, and the state left behind.\<close>

lemma wp_returns: "m s = (Inr a, s') \<longleftrightarrow> wpre m (\<lambda>b t. b = a \<and> t = s') (\<lambda>_ _. False) s"
  by (auto simp: wpre_def split: prod.splits sum.splits)

lemma wp_fails: "m s = (Inl e, s') \<longleftrightarrow> wpre m (\<lambda>_ _. False) (\<lambda>d t. d = e \<and> t = s') s"
  by (auto simp: wpre_def split: prod.splits sum.splits)

text \<open>A loop over an indexed list, with an invariant.\<close>

lemma wp_for_each_enumerate_from:
  assumes "\<And>k s. n \<le> k \<Longrightarrow> k < n + length xs \<Longrightarrow> I k s \<Longrightarrow> wpre (f (k, xs ! (k - n))) (\<lambda>_. I (Suc k)) E s"
    and "I n s"
  shows "wpre (for_each (enumerate n xs) f) (\<lambda>_. I (n + length xs)) E s"
  using assms
proof (induction xs arbitrary: n s)
  case Nil
  then show ?case by (simp add: wp_ret)
next
  case (Cons x xs)
  have "wpre (f (n, x)) (\<lambda>_. I (Suc n)) E s" using Cons.prems(1) [of n s] Cons.prems(2) by simp
  moreover have "wpre (for_each (enumerate (Suc n) xs) f) (\<lambda>_. I (n + length (x # xs))) E t" if "I (Suc n) t" for t
  proof -
    have "wpre (f (k, xs ! (k - Suc n))) (\<lambda>_. I (Suc k)) E u"
      if "Suc n \<le> k" "k < Suc n + length xs" "I k u" for k u
      using Cons.prems(1) [of k u] that by (simp add: nth_Cons' Suc_diff_Suc)
    from Cons.IH [OF this \<open>I (Suc n) t\<close>] show ?thesis by simp
  qed
  ultimately show ?case unfolding enumerate_simps for_each.simps wp_andThen by (rule wp_mono)
qed

lemma wp_for_each_enumerate:
  assumes "\<And>k s. k < length xs \<Longrightarrow> I k s \<Longrightarrow> wpre (f (k, xs ! k)) (\<lambda>_. I (Suc k)) E s" and "I 0 s"
  shows "wpre (for_each (enumerate 0 xs) f) (\<lambda>_. I (length xs)) E s"
  using wp_for_each_enumerate_from [of 0 xs I f E s] assms by simp

section \<open>Relations between the states before and after\<close>

text \<open>\<open>changes R m\<close>: whatever \<open>m\<close> returns, the state it leaves is related by \<open>R\<close> to the one it got.\<close>

definition changes :: "('s \<Rightarrow> 's \<Rightarrow> bool) \<Rightarrow> ('s, 'e, 'a) op \<Rightarrow> bool" where
  "changes R m \<longleftrightarrow> (\<forall>s. R s (snd (m s)))"

lemma changesD: "changes R m \<Longrightarrow> m s = (r, s') \<Longrightarrow> R s s'"
  by (metis changes_def snd_conv)

lemma wp_any_related:
  assumes "changes R m" and "\<And>a u. R s u \<Longrightarrow> wpre (f a) Q (\<lambda>_ _. True) u"
  shows "wpre (andThen m f) Q (\<lambda>_ _. True) s"
  unfolding wp_andThen by (rule wp_run) (use assms in \<open>auto dest: changesD split: sum.split\<close>)

text \<open>The relation of a state property that no step may break.\<close>

definition keeping :: "('s \<Rightarrow> bool) \<Rightarrow> 's \<Rightarrow> 's \<Rightarrow> bool" where
  "keeping I s t \<longleftrightarrow> (I s \<longrightarrow> I t)"

lemma keepingD: "changes (keeping I) m \<Longrightarrow> I s \<Longrightarrow> m s = (r, s') \<Longrightarrow> I s'"
  by (auto simp: keeping_def dest: changesD)

lemma wp_keeping: "changes (keeping I) m \<Longrightarrow> I s \<Longrightarrow> wpre m (\<lambda>_. I) (\<lambda>_. I) s"
  by (rule wp_run) (auto dest: keepingD split: sum.split)

lemma keeping_wp: "(\<And>s. I s \<Longrightarrow> wpre m (\<lambda>_. I) (\<lambda>_. I) s) \<Longrightarrow> changes (keeping I) m"
  unfolding changes_def keeping_def wpre_def
  by (metis (no_types, lifting) old.prod.case prod.exhaust_sel sum.case_eq_if)

lemma wp_then_keeping:
  assumes "wpre m (\<lambda>_. I) (\<lambda>_. I) s" and "\<And>a. changes (keeping I) (f a)"
  shows "wpre (andThen m f) (\<lambda>_. I) (\<lambda>_. I) s"
  unfolding wpre_def andThen_def
  using assms by (auto simp: wpre_def split: prod.splits sum.splits) (metis keepingD)+

lemma wp_use: "wpre m P F s \<Longrightarrow> wpre m Q E s \<Longrightarrow> (\<And>a t. P a t \<Longrightarrow> Q a t \<Longrightarrow> R a t) \<Longrightarrow> (\<And>e t. E e t \<Longrightarrow> G e t) \<Longrightarrow> wpre m R G s"
  by (auto simp: wpre_def split: prod.splits sum.splits)

lemma keeping_then:
  assumes "changes (keeping I) m" and "\<And>s. I s \<Longrightarrow> wpre m P (\<lambda>_ _. True) s"
    and "\<And>a s. P a s \<Longrightarrow> I s \<Longrightarrow> wpre (f a) (\<lambda>_. I) (\<lambda>_. I) s"
  shows "changes (keeping I) (andThen m f)"
proof (rule keeping_wp)
  fix s assume I: "I s"
  show "wpre (andThen m f) (\<lambda>_. I) (\<lambda>_. I) s"
    unfolding wp_andThen
    by (rule wp_use [OF assms(2) [OF I] wp_keeping [OF assms(1) I]]) (auto intro: assms(3))
qed

locale effect_order =
  fixes R :: "'s \<Rightarrow> 's \<Rightarrow> bool"
  assumes R_refl: "R s s"
    and R_trans: "R s t \<Longrightarrow> R t u \<Longrightarrow> R s u"
begin

lemma changes_ret [moves]: "changes R (ret a)"
  by (simp add: changes_def ret_def R_refl)

lemma changes_raise [moves]: "changes R (raise e)"
  by (simp add: changes_def raise_def R_refl)

lemma changes_guard [moves]: "changes R (guard c e)"
  by (simp add: guard_def changes_ret changes_raise)

lemma changes_check [moves]: "changes R (check r)"
  by (simp add: check_def changes_ret changes_raise split: option.split)

lemma changes_asks [moves]: "changes R (asks f)"
  by (simp add: changes_def asks_def R_refl)

lemma changes_andThen [moves]:
  assumes "changes R m" and "\<And>a. changes R (f a)"
  shows "changes R (andThen m f)"
  unfolding changes_def
proof
  fix s
  show "R s (snd (andThen m f s))"
  proof (cases "m s")
    case (Pair r s')
    with assms(1) have step: "R s s'" by (rule changesD)
    show ?thesis
    proof (cases r)
      case (Inl e)
      with Pair step show ?thesis by (simp add: andThen_def)
    next
      case (Inr a)
      from assms(2) have "R s' (snd (f a s'))" by (simp add: changes_def)
      with step have "R s (snd (f a s'))" by (rule R_trans)
      with Pair Inr show ?thesis by (simp add: andThen_def)
    qed
  qed
qed

lemma changes_optional [moves]: "changes R m \<Longrightarrow> changes R (optional p m)"
  by (auto simp: changes_def optional_def split: prod.split sum.split) (metis snd_conv)+

lemma changes_orElse [moves]:
  assumes "changes R m" and "\<And>e. changes R (h e)"
  shows "changes R (orElse m h)"
  using assms by (auto simp: changes_def orElse_def split: prod.split sum.split)
    (metis R_trans snd_conv)+

lemma changes_if [moves]: "changes R m \<Longrightarrow> changes R n \<Longrightarrow> changes R (if c then m else n)"
  by simp

lemma changes_case_option [moves]:
  "changes R m \<Longrightarrow> (\<And>a. changes R (n a)) \<Longrightarrow> changes R (case x of None \<Rightarrow> m | Some a \<Rightarrow> n a)"
  by (simp split: option.split)

lemma changes_case_prod [moves]:
  "(\<And>a b. changes R (m a b)) \<Longrightarrow> changes R (case x of (a, b) \<Rightarrow> m a b)"
  by (simp split: prod.split)

lemma wp_changes: "changes R m \<Longrightarrow> R s t \<Longrightarrow> wpre m (\<lambda>_ u. R s u) (\<lambda>_ u. R s u) t"
  by (rule wp_run) (auto dest: changesD intro: R_trans split: sum.split)

lemma wp_then_changes:
  assumes "wpre m (\<lambda>_ u. R s u) (\<lambda>_ u. R s u) t" and "\<And>a. changes R (f a)"
  shows "wpre (andThen m f) (\<lambda>_ u. R s u) (\<lambda>_ u. R s u) t"
  unfolding wp_andThen using assms(1) by (rule wp_mono) (auto intro: wp_changes assms(2))

lemma wp_changes_first:
  assumes "changes R m" and "R s t"
    and "\<And>a u. R s u \<Longrightarrow> wpre (f a) (\<lambda>_ u. R s u) (\<lambda>_ u. R s u) u"
  shows "wpre (andThen m f) (\<lambda>_ u. R s u) (\<lambda>_ u. R s u) t"
  unfolding wp_andThen using wp_changes [OF assms(1,2)] by (rule wp_mono) (auto intro: assms(3))

lemma changes_wp: "(\<And>s. wpre m (\<lambda>_ t. R s t) (\<lambda>_ t. R s t) s) \<Longrightarrow> changes R m"
  unfolding changes_def wpre_def
  by (metis (no_types, lifting) old.prod.case prod.exhaust_sel sum.case_eq_if)

lemma changes_for_each [moves]: "(\<And>x. changes R (f x)) \<Longrightarrow> changes R (for_each xs f)"
  by (induction xs) (auto intro: changes_ret changes_andThen)

lemma changes_map_each [moves]: "(\<And>x. changes R (f x)) \<Longrightarrow> changes R (map_each xs f)"
  by (induction xs) (auto intro: changes_ret changes_andThen)

end

text \<open>A state property gives such a relation, so every invariant is proved by the rules above.\<close>

locale state_invariant =
  fixes I :: "'s \<Rightarrow> bool"
begin

sublocale keeps: effect_order "keeping I"
  by unfold_locales (auto simp: keeping_def)

end

end
