(* ===== verification/Apperr.thy ===== *)
theory Apperr
  imports Effects
begin

text \<open>
  Typed application errors (\<open>internal/apperr/errors.go\<close>) and the failure side of the response
  envelope (\<open>internal/response/response.go\<close>). An error value is an application error (which may
  carry a cause), an error wrapped by \<open>fmt.Errorf("...: %w", err)\<close>, or an error of the database
  driver with its SQLSTATE. A run-time panic of a handler ends the request as an error does; the recovery
  of the server answers it with a bare status 500.
\<close>

datatype app_code =
    CodeInternal | CodeValidation | CodeUnauthorized | CodeForbidden
  | CodeNotFound | CodeConflict | CodeRateLimited

fun code_text :: "app_code \<Rightarrow> string" where
  "code_text CodeInternal = ''internal_error''"
| "code_text CodeValidation = ''validation_error''"
| "code_text CodeUnauthorized = ''unauthorized''"
| "code_text CodeForbidden = ''forbidden''"
| "code_text CodeNotFound = ''not_found''"
| "code_text CodeConflict = ''conflict''"
| "code_text CodeRateLimited = ''rate_limited''"

datatype err =
    AppError app_code string int "err option"
  | WrapError string err
  | DriverError string
  | Panic string

definition new_error :: "app_code \<Rightarrow> string \<Rightarrow> int \<Rightarrow> err" where
  "new_error c msg status = AppError c msg status None"

definition wrap_error :: "err \<Rightarrow> app_code \<Rightarrow> string \<Rightarrow> int \<Rightarrow> err" where
  "wrap_error e c msg status = AppError c msg status (Some e)"

definition internal :: "string \<Rightarrow> err" where
  "internal msg = new_error CodeInternal msg 500"

definition validation :: "string \<Rightarrow> err" where
  "validation msg = new_error CodeValidation msg 400"

definition unauthorized :: "string \<Rightarrow> err" where
  "unauthorized msg = new_error CodeUnauthorized msg 401"

definition forbidden :: "string \<Rightarrow> err" where
  "forbidden msg = new_error CodeForbidden msg 403"

definition not_found :: "string \<Rightarrow> err" where
  "not_found msg = new_error CodeNotFound msg 404"

definition conflict :: "string \<Rightarrow> err" where
  "conflict msg = new_error CodeConflict msg 409"

text \<open>The text of an error: \<open>(*Error).Error\<close> and \<open>fmt.Errorf\<close> both append the cause.\<close>

fun err_text :: "err \<Rightarrow> string" where
  "err_text (AppError c msg st None) = msg"
| "err_text (AppError c msg st (Some e)) = msg @ '': '' @ err_text e"
| "err_text (WrapError msg e) = msg @ '': '' @ err_text e"
| "err_text (DriverError st) = ''SQLSTATE '' @ st"
| "err_text (Panic msg) = msg"

text \<open>\<open>As\<close>: the first application error of the chain of causes.\<close>

fun as_app :: "err \<Rightarrow> err option" where
  "as_app (AppError c msg st cause) = Some (AppError c msg st cause)"
| "as_app (WrapError msg e) = as_app e"
| "as_app (DriverError st) = None"
| "as_app (Panic msg) = None"

fun app_code_of :: "err \<Rightarrow> app_code" where
  "app_code_of (AppError c msg st cause) = c"
| "app_code_of _ = CodeInternal"

definition is_not_found :: "err \<Rightarrow> bool" where
  "is_not_found e = (case as_app e of None \<Rightarrow> False | Some a \<Rightarrow> app_code_of a = CodeNotFound)"

section \<open>The error envelope\<close>

record fail_body =
  fb_status :: int
  fb_success :: bool
  fb_code :: string
  fb_message :: string

text \<open>
  \<open>response.Fail\<close>: an error that is not an application error is reported as an internal one, with
  a fixed text, so that nothing of its own text reaches the client.
\<close>

fun app_fail :: "err \<Rightarrow> fail_body" where
  "app_fail (AppError c msg st cause)
     = \<lparr>fb_status = st, fb_success = False, fb_code = code_text c, fb_message = msg\<rparr>"
| "app_fail _ = \<lparr>fb_status = 500, fb_success = False, fb_code = code_text CodeInternal,
     fb_message = ''an unexpected error occurred''\<rparr>"

definition fail_response :: "err \<Rightarrow> fail_body" where
  "fail_response e =
     (let a = (case as_app e of Some x \<Rightarrow> x | None \<Rightarrow> internal ''an unexpected error occurred'')
      in app_fail a)"

lemmas err_defs = internal_def validation_def unauthorized_def forbidden_def not_found_def
  conflict_def new_error_def

lemma is_not_found_simps [simp]:
  "is_not_found (not_found m)"
  "\<not> is_not_found (internal m)"
  "\<not> is_not_found (validation m)"
  "\<not> is_not_found (unauthorized m)"
  "\<not> is_not_found (forbidden m)"
  "\<not> is_not_found (conflict m)"
  "is_not_found (WrapError m e) = is_not_found e"
  "\<not> is_not_found (DriverError st)"
  "\<not> is_not_found (Panic msg)"
  by (simp_all add: is_not_found_def err_defs)

lemma err_distinct [simp]:
  "validation m \<noteq> conflict n" "validation m \<noteq> forbidden n" "validation m \<noteq> not_found n"
  "conflict m \<noteq> validation n" "conflict m \<noteq> forbidden n" "conflict m \<noteq> not_found n"
  "forbidden m \<noteq> validation n" "forbidden m \<noteq> conflict n" "forbidden m \<noteq> not_found n"
  "not_found m \<noteq> validation n" "not_found m \<noteq> conflict n" "not_found m \<noteq> forbidden n"
  by (simp_all add: err_defs)

lemma err_wrap_distinct [simp]:
  "WrapError m e \<noteq> validation n" "WrapError m e \<noteq> conflict n"
  "WrapError m e \<noteq> forbidden n" "WrapError m e \<noteq> not_found n"
  "validation n \<noteq> WrapError m e" "conflict n \<noteq> WrapError m e"
  "forbidden n \<noteq> WrapError m e" "not_found n \<noteq> WrapError m e"
  by (simp_all add: err_defs)

lemma as_app_is_app: "as_app e = Some a \<Longrightarrow> \<exists>c m st cause. a = AppError c m st cause"
  by (induction e) auto

lemma fail_hides_driver_text:
  "as_app e = None \<Longrightarrow> fail_response e = \<lparr>fb_status = 500, fb_success = False, fb_code = ''internal_error'',
     fb_message = ''an unexpected error occurred''\<rparr>"
  by (simp add: fail_response_def err_defs)

end
