(* ===== verification/Schema.thy ===== *)
theory Schema
  imports Apperr
begin

text \<open>
  The data model (\<open>internal/domain\<close>) and the database the repositories run on
  (\<open>migrations/*.up.sql\<close>): one record per entity, one list of rows per table. An entity holds the
  fields of the Go struct; the fields the repositories fill by a \<open>LEFT JOIN\<close> are empty in the
  stored row and are filled by the query that reads it. Identifiers are canonical UUID texts.

  The state \<open>world\<close> also holds what the server gets from outside: the clock (\<open>time.Now\<close> and
  \<open>NOW()\<close>), the supply of fresh identifiers (\<open>gen_random_uuid()\<close>) and the driver's answers to the
  next statements (\<open>faults\<close>: \<open>True\<close> for a statement that fails, the empty list for none).
\<close>

type_synonym uuid = string
type_synonym time = int

section \<open>Entities\<close>

datatype course_status = CourseDraft | CoursePublished | CourseArchived

fun course_status_text :: "course_status \<Rightarrow> string" where
  "course_status_text CourseDraft = ''draft''"
| "course_status_text CoursePublished = ''published''"
| "course_status_text CourseArchived = ''archived''"

datatype enrollment_status = EnActive | EnWaitlisted | EnCancelled

fun enrollment_status_text :: "enrollment_status \<Rightarrow> string" where
  "enrollment_status_text EnActive = ''active''"
| "enrollment_status_text EnWaitlisted = ''waitlisted''"
| "enrollment_status_text EnCancelled = ''cancelled''"

datatype enrollment_source = SourceSelf | SourceInviteCode | SourceTeacher | SourcePayment

datatype enrollment_event_type = EvEnrolled | EvWaitlisted | EvActivated | EvCancelled

datatype order_status = OrderPending | OrderPaid | OrderFailed | OrderRefunded | OrderCancelled

fun order_status_text :: "order_status \<Rightarrow> string" where
  "order_status_text OrderPending = ''pending''"
| "order_status_text OrderPaid = ''paid''"
| "order_status_text OrderFailed = ''failed''"
| "order_status_text OrderRefunded = ''refunded''"
| "order_status_text OrderCancelled = ''cancelled''"

datatype lesson_status = LessonDraft | LessonPublished

datatype progress_status = ProgressInProgress | ProgressCompleted

text \<open>\<open>domain.User\<close>, with the column \<open>deleted_at\<close>; the role code is joined from \<open>roles\<close>.\<close>

record role =
  ro_id :: uuid
  ro_code :: string
  ro_name :: string
  ro_description :: string
  ro_created_at :: time
  ro_updated_at :: time

record user =
  us_id :: uuid
  us_email :: string
  us_password_hash :: string
  us_full_name :: string
  us_bio :: string
  us_avatar_url :: string
  us_phone :: string
  us_locale :: string
  us_timezone :: string
  us_role_id :: uuid
  us_role_code :: string
  us_email_verified_at :: "time option"
  us_is_active :: bool
  us_created_at :: time
  us_updated_at :: time
  us_deleted_at :: "time option"

record refresh_token =
  rt_id :: uuid
  rt_user_id :: uuid
  rt_hash :: string
  rt_expires_at :: time
  rt_revoked_at :: "time option"
  rt_created_at :: time

text \<open>\<open>PasswordResetToken\<close> and \<open>EmailVerificationToken\<close> have the same fields.\<close>

record one_time_token =
  ot_id :: uuid
  ot_user_id :: uuid
  ot_hash :: string
  ot_expires_at :: time
  ot_used_at :: "time option"
  ot_created_at :: time

record category =
  cat_id :: uuid
  cat_name :: string
  cat_slug :: string
  cat_description :: string
  cat_created_at :: time
  cat_updated_at :: time

record tag =
  tag_id :: uuid
  tag_name :: string
  tag_slug :: string
  tag_created_at :: time

text \<open>\<open>domain.Course\<close>, with the column \<open>deleted_at\<close> of its row and, last, the joined fields.\<close>

record course =
  co_id :: uuid
  co_organization_id :: "uuid option"
  co_teacher_id :: uuid
  co_category_id :: "uuid option"
  co_title :: string
  co_slug :: string
  co_summary :: string
  co_description :: string
  co_status :: course_status
  co_cover_url :: string
  co_price_cents :: int
  co_currency :: string
  co_level :: string
  co_language :: string
  co_published_at :: "time option"
  co_created_at :: time
  co_updated_at :: time
  co_capacity :: "int option"
  co_enrollment_open :: bool
  co_waitlist_enabled :: bool
  co_deleted_at :: "time option"
  co_category_name :: string
  co_teacher_name :: string
  co_tag_slugs :: "string list"

record organization =
  org_id :: uuid
  org_name :: string
  org_slug :: string
  org_description :: string
  org_logo_url :: string
  org_created_by :: "uuid option"
  org_created_at :: time
  org_updated_at :: time
  org_deleted_at :: "time option"

record org_member =
  om_id :: uuid
  om_org_id :: uuid
  om_user_id :: uuid
  om_role :: string
  om_joined_at :: time
  om_created_at :: time
  om_user_email :: string
  om_user_name :: string

record org_invite =
  oi_id :: uuid
  oi_org_id :: uuid
  oi_email :: string
  oi_role :: string
  oi_token_hash :: string
  oi_invited_by :: "uuid option"
  oi_expires_at :: time
  oi_accepted_at :: "time option"
  oi_revoked_at :: "time option"
  oi_created_at :: time

record course_module =
  mo_id :: uuid
  mo_course_id :: uuid
  mo_title :: string
  mo_position :: int
  mo_created_at :: time
  mo_updated_at :: time

record lesson =
  le_id :: uuid
  le_module_id :: uuid
  le_title :: string
  le_slug :: string
  le_summary :: string
  le_status :: lesson_status
  le_position :: int
  le_prerequisite :: "uuid option"
  le_minutes :: int
  le_created_at :: time
  le_updated_at :: time

record content_block =
  cb_id :: uuid
  cb_lesson_id :: uuid
  cb_type :: string
  cb_title :: string
  cb_body :: string
  cb_media_url :: string
  cb_quiz_ref :: "uuid option"
  cb_position :: int
  cb_created_at :: time
  cb_updated_at :: time

record enrollment =
  en_id :: uuid
  en_course_id :: uuid
  en_user_id :: uuid
  en_status :: enrollment_status
  en_source :: enrollment_source
  en_invite_id :: "uuid option"
  en_enrolled_at :: "time option"
  en_waitlisted_at :: "time option"
  en_cancelled_at :: "time option"
  en_created_at :: time
  en_updated_at :: time
  en_user_email :: string
  en_user_name :: string
  en_course_title :: string
  en_course_slug :: string

record invite_code =
  inv_id :: uuid
  inv_course_id :: uuid
  inv_code :: string
  inv_max_uses :: "int option"
  inv_uses :: int
  inv_expires_at :: "time option"
  inv_created_by :: uuid
  inv_revoked_at :: "time option"
  inv_created_at :: time
  inv_updated_at :: time

record enrollment_event =
  ev_id :: uuid
  ev_enrollment_id :: uuid
  ev_course_id :: uuid
  ev_user_id :: uuid
  ev_type :: enrollment_event_type
  ev_created_at :: time

record coupon =
  cp_id :: uuid
  cp_code :: string
  cp_discount_type :: string
  cp_discount_value :: int
  cp_currency :: string
  cp_course_id :: "uuid option"
  cp_max_uses :: "int option"
  cp_uses :: int
  cp_valid_from :: "time option"
  cp_valid_until :: "time option"
  cp_created_by :: uuid
  cp_revoked_at :: "time option"
  cp_created_at :: time
  cp_updated_at :: time

record purchase_order =
  od_id :: uuid
  od_user_id :: uuid
  od_course_id :: uuid
  od_status :: order_status
  od_amount :: int
  od_discount :: int
  od_total :: int
  od_currency :: string
  od_coupon_id :: "uuid option"
  od_provider :: string
  od_provider_ref :: string
  od_idem_key :: string
  od_enrollment_id :: "uuid option"
  od_paid_at :: "time option"
  od_failed_at :: "time option"
  od_refunded_at :: "time option"
  od_cancelled_at :: "time option"
  od_created_at :: time
  od_updated_at :: time
  od_user_email :: string
  od_user_name :: string
  od_course_title :: string
  od_course_slug :: string
  od_coupon_code :: string

record webhook_event =
  wh_id :: uuid
  wh_provider :: string
  wh_event_id :: string
  wh_event_type :: string
  wh_payload :: string
  wh_order_id :: "uuid option"
  wh_processed_at :: time
  wh_created_at :: time

record lesson_progress =
  lp_id :: uuid
  lp_user_id :: uuid
  lp_course_id :: uuid
  lp_lesson_id :: uuid
  lp_status :: progress_status
  lp_percent :: int
  lp_last_position :: string
  lp_completed_at :: "time option"
  lp_created_at :: time
  lp_updated_at :: time
  lp_lesson_title :: string
  lp_lesson_slug :: string

record course_progress =
  pr_id :: uuid
  pr_user_id :: uuid
  pr_course_id :: uuid
  pr_enrollment_id :: "uuid option"
  pr_percent :: int
  pr_completed :: int
  pr_total :: int
  pr_last_lesson_id :: "uuid option"
  pr_completed_at :: "time option"
  pr_created_at :: time
  pr_updated_at :: time
  pr_course_title :: string
  pr_course_slug :: string

text \<open>Assessments: quizzes and assignments. The questions of a quiz and the answers of an attempt are filled
  by the service.\<close>

datatype quiz_status = QuizDraft | QuizPublished

datatype attempt_status = AttemptInProgress | AttemptSubmitted | AttemptGraded

datatype assignment_status = AssignmentDraft | AssignmentPublished

datatype submission_status = SubmissionDraft | SubmissionSubmitted | SubmissionGraded | SubmissionReturned

fun submission_status_text :: "submission_status \<Rightarrow> string" where
  "submission_status_text SubmissionDraft = ''draft''"
| "submission_status_text SubmissionSubmitted = ''submitted''"
| "submission_status_text SubmissionGraded = ''graded''"
| "submission_status_text SubmissionReturned = ''returned''"

abbreviation type_mcq :: string where "type_mcq \<equiv> ''mcq''"
abbreviation type_short_answer :: string where "type_short_answer \<equiv> ''short_answer''"

record quiz_option =
  op_id :: string
  op_text :: string
  op_correct :: bool

record rubric_criterion =
  rc_id :: string
  rc_criterion :: string
  rc_max_points :: int

record quiz_question =
  qq_id :: uuid
  qq_quiz_id :: uuid
  qq_type :: string
  qq_prompt :: string
  qq_points :: int
  qq_position :: int
  qq_options :: "quiz_option list"
  qq_correct_answer :: string
  qq_created_at :: time
  qq_updated_at :: time

record quiz =
  qz_id :: uuid
  qz_course_id :: uuid
  qz_title :: string
  qz_description :: string
  qz_status :: quiz_status
  qz_time_limit :: "int option"
  qz_max_attempts :: "int option"
  qz_pass_percent :: int
  qz_shuffle :: bool
  qz_created_at :: time
  qz_updated_at :: time
  qz_questions :: "quiz_question list"

record attempt_answer =
  an_id :: uuid
  an_attempt_id :: uuid
  an_question_id :: uuid
  an_selected :: "string list"
  an_text :: string
  an_correct :: "bool option"
  an_points :: int
  an_created_at :: time
  an_updated_at :: time

record quiz_attempt =
  at_id :: uuid
  at_quiz_id :: uuid
  at_user_id :: uuid
  at_number :: int
  at_status :: attempt_status
  at_score :: int
  at_max :: int
  at_percent :: int
  at_passed :: bool
  at_started_at :: time
  at_submitted_at :: "time option"
  at_graded_at :: "time option"
  at_created_at :: time
  at_updated_at :: time
  at_answers :: "attempt_answer list"
  at_user_email :: string
  at_user_name :: string

record assignment =
  as_id :: uuid
  as_course_id :: uuid
  as_title :: string
  as_description :: string
  as_status :: assignment_status
  as_max_score :: int
  as_due_at :: "time option"
  as_allow_late :: bool
  as_rubric :: "rubric_criterion list"
  as_created_at :: time
  as_updated_at :: time

record submission =
  sb_id :: uuid
  sb_assignment_id :: uuid
  sb_user_id :: uuid
  sb_status :: submission_status
  sb_body :: string
  sb_attachment_url :: string
  sb_score :: "int option"
  sb_feedback :: string
  sb_rubric_scores :: "string \<rightharpoonup> int"
  sb_submitted_at :: "time option"
  sb_graded_at :: "time option"
  sb_graded_by :: "uuid option"
  sb_created_at :: time
  sb_updated_at :: time
  sb_user_email :: string
  sb_user_name :: string

text \<open>Certificates.\<close>

record certificate =
  ce_id :: uuid
  ce_course_id :: uuid
  ce_user_id :: uuid
  ce_code :: string
  ce_learner_name :: string
  ce_course_title :: string
  ce_storage_key :: string
  ce_public_url :: string
  ce_issued_at :: time
  ce_revoked_at :: "time option"
  ce_created_at :: time
  ce_updated_at :: time
  ce_course_slug :: string
  ce_user_email :: string

text \<open>Live sessions and who attended them.\<close>

datatype session_status = SessionDraft | SessionScheduled | SessionCompleted | SessionCancelled

record live_session =
  ls_id :: uuid
  ls_course_id :: uuid
  ls_lesson_id :: "uuid option"
  ls_title :: string
  ls_description :: string
  ls_status :: session_status
  ls_starts_at :: time
  ls_ends_at :: time
  ls_timezone :: string
  ls_provider :: string
  ls_join_url :: string
  ls_host_url :: string
  ls_external_id :: string
  ls_metadata :: "string \<rightharpoonup> string"
  ls_created_by :: uuid
  ls_created_at :: time
  ls_updated_at :: time
  ls_course_title :: string
  ls_course_slug :: string

record attendance =
  sa_id :: uuid
  sa_session_id :: uuid
  sa_user_id :: uuid
  sa_status :: string
  sa_joined_at :: "time option"
  sa_left_at :: "time option"
  sa_marked_by :: "uuid option"
  sa_note :: string
  sa_created_at :: time
  sa_updated_at :: time
  sa_user_email :: string
  sa_user_name :: string

text \<open>Communication: announcements, discussions, direct messages and the notification outbox.\<close>

datatype announcement_status = AnnouncementDraft | AnnouncementPublished

datatype thread_status = ThreadOpen | ThreadLocked

datatype notification_channel = ChannelInApp | ChannelEmail

datatype notification_status = NotificationPending | NotificationSent | NotificationFailed

record announcement =
  ann_id :: uuid
  ann_course_id :: uuid
  ann_author_id :: uuid
  ann_title :: string
  ann_body :: string
  ann_status :: announcement_status
  ann_pinned :: bool
  ann_published_at :: "time option"
  ann_created_at :: time
  ann_updated_at :: time
  ann_author_name :: string

record discussion_thread =
  dt_id :: uuid
  dt_course_id :: uuid
  dt_author_id :: uuid
  dt_title :: string
  dt_status :: thread_status
  dt_created_at :: time
  dt_updated_at :: time
  dt_author_name :: string
  dt_post_count :: int

record discussion_post =
  dp_id :: uuid
  dp_thread_id :: uuid
  dp_author_id :: uuid
  dp_parent_id :: "uuid option"
  dp_body :: string
  dp_created_at :: time
  dp_updated_at :: time
  dp_author_name :: string

record dm_conversation =
  dc_id :: uuid
  dc_user_a :: uuid
  dc_user_b :: uuid
  dc_created_at :: time
  dc_updated_at :: time
  dc_other_id :: uuid
  dc_other_name :: string
  dc_last_message :: string
  dc_unread :: int

record dm_message =
  dm_id :: uuid
  dm_conversation_id :: uuid
  dm_sender_id :: uuid
  dm_body :: string
  dm_read_at :: "time option"
  dm_created_at :: time

record notification =
  nt_id :: uuid
  nt_user_id :: uuid
  nt_channel :: notification_channel
  nt_event_type :: string
  nt_subject :: string
  nt_body :: string
  nt_payload :: "string \<rightharpoonup> string"
  nt_status :: notification_status
  nt_read_at :: "time option"
  nt_created_at :: time
  nt_sent_at :: "time option"

text \<open>Media: the purpose and the result of the virus scan are kept as the strings the code compares.\<close>

datatype media_status = MediaPending | MediaUploaded | MediaReady | MediaRejected | MediaDeleted

record media_asset =
  ma_id :: uuid
  ma_owner_id :: uuid
  ma_course_id :: "uuid option"
  ma_purpose :: string
  ma_status :: media_status
  ma_content_type :: string
  ma_filename :: string
  ma_size :: int
  ma_storage_key :: string
  ma_public_url :: string
  ma_duration :: "int option"
  ma_width :: "int option"
  ma_height :: "int option"
  ma_scan_status :: string
  ma_scan_note :: string
  ma_created_at :: time
  ma_updated_at :: time
  ma_deleted_at :: "time option"

text \<open>Guardians and their learners.\<close>

record parent_link =
  pl_id :: uuid
  pl_parent_id :: uuid
  pl_student_id :: uuid
  pl_status :: string
  pl_created_at :: time
  pl_updated_at :: time
  pl_student_email :: string
  pl_student_name :: string

section \<open>The world\<close>

record world =
  clock :: time
  uuid_gen :: "nat \<Rightarrow> uuid"
  uuid_next :: nat
  faults :: "bool list"
  roles :: "role list"
  users :: "user list"
  refresh_tokens :: "refresh_token list"
  reset_tokens :: "one_time_token list"
  verify_tokens :: "one_time_token list"
  organizations :: "organization list"
  org_members :: "org_member list"
  org_invites :: "org_invite list"
  categories :: "category list"
  tags :: "tag list"
  course_tags :: "(uuid \<times> uuid) list"
  courses :: "course list"
  course_modules :: "course_module list"
  lessons :: "lesson list"
  content_blocks :: "content_block list"
  enrollments :: "enrollment list"
  invite_codes :: "invite_code list"
  enrollment_events :: "enrollment_event list"
  coupons :: "coupon list"
  orders :: "purchase_order list"
  webhook_events :: "webhook_event list"
  lesson_progresses :: "lesson_progress list"
  course_progresses :: "course_progress list"
  quizzes :: "quiz list"
  quiz_questions :: "quiz_question list"
  quiz_attempts :: "quiz_attempt list"
  attempt_answers :: "attempt_answer list"
  assignments :: "assignment list"
  submissions :: "submission list"
  certificates :: "certificate list"
  live_sessions :: "live_session list"
  attendances :: "attendance list"
  course_announcements :: "announcement list"
  discussion_threads :: "discussion_thread list"
  discussion_posts :: "discussion_post list"
  dm_conversations :: "dm_conversation list"
  dm_messages :: "dm_message list"
  notification_outbox :: "notification list"
  media_assets :: "media_asset list"
  store_deletes :: "string list"
  parent_links :: "parent_link list"

type_synonym 'a act = "(world, err, 'a) op"

definition fresh_uuid :: "world \<Rightarrow> uuid" where
  "fresh_uuid w = uuid_gen w (uuid_next w)"

text \<open>The primary key: the identifier drawn for an \<open>INSERT\<close> is not in the table yet.\<close>

definition pk_free :: "uuid list \<Rightarrow> world \<Rightarrow> bool" where
  "pk_free ids w \<longleftrightarrow> fresh_uuid w \<notin> set ids"

text \<open>One statement takes one answer of the driver.\<close>

definition down :: "world \<Rightarrow> bool" where
  "down w \<longleftrightarrow> (case faults w of [] \<Rightarrow> False | b # _ \<Rightarrow> b)"

definition pop :: "world \<Rightarrow> world" where
  "pop w = w\<lparr>faults := tl (faults w)\<rparr>"

abbreviation quiet :: "world \<Rightarrow> bool" where
  "quiet w \<equiv> faults w = []"

text \<open>SQLSTATE of a lost connection and of the constraint violations.\<close>

abbreviation st_connection :: string where "st_connection \<equiv> ''08006''"
abbreviation st_unique :: string where "st_unique \<equiv> ''23505''"
abbreviation st_check :: string where "st_check \<equiv> ''23514''"
abbreviation st_foreign :: string where "st_foreign \<equiv> ''23503''"
abbreviation st_range :: string where "st_range \<equiv> ''22003''"

section \<open>Statements\<close>

text \<open>
  The shapes of a repository method. \<open>fetch_row\<close>: \<open>QueryRow\<close> of a \<open>SELECT\<close> that yields one row,
  with \<open>pgx.ErrNoRows\<close> turned into a not-found error. \<open>fetch_val\<close>: a \<open>COUNT\<close> or a list, always a
  result. \<open>exec_rows\<close>: an \<open>UPDATE\<close>, an error when no row is affected; \<open>exec_check\<close> the same, of
  columns with constraints; \<open>exec_count\<close> an \<open>UPDATE\<close> whose number of rows is looked at by the
  caller, or not at all. \<open>insert_row\<close>: an \<open>INSERT ... RETURNING\<close>, whose constraint violations
  arrive as SQLSTATEs.
\<close>

definition fetch_row :: "(world \<Rightarrow> 'a option) \<Rightarrow> string \<Rightarrow> string \<Rightarrow> 'a act" where
  "fetch_row sel missing ctx = (\<lambda>w.
     if down w then (Inl (WrapError ctx (DriverError st_connection)), pop w)
     else (case sel (pop w) of
             None \<Rightarrow> (Inl (not_found missing), pop w)
           | Some a \<Rightarrow> (Inr a, pop w)))"

text \<open>The same two shapes with another error than not-found for no row.\<close>

definition fetch_or :: "(world \<Rightarrow> 'a option) \<Rightarrow> err \<Rightarrow> string \<Rightarrow> 'a act" where
  "fetch_or sel missing ctx = (\<lambda>w.
     if down w then (Inl (WrapError ctx (DriverError st_connection)), pop w)
     else (case sel (pop w) of
             None \<Rightarrow> (Inl missing, pop w)
           | Some a \<Rightarrow> (Inr a, pop w)))"

definition exec_or :: "(world \<Rightarrow> nat) \<Rightarrow> (world \<Rightarrow> world) \<Rightarrow> err \<Rightarrow> string \<Rightarrow> unit act" where
  "exec_or affected change missing ctx = (\<lambda>w.
     if down w then (Inl (WrapError ctx (DriverError st_connection)), pop w)
     else if affected (pop w) = 0 then (Inl missing, pop w)
     else (Inr (), change (pop w)))"

definition fetch_val :: "(world \<Rightarrow> 'a) \<Rightarrow> string \<Rightarrow> 'a act" where
  "fetch_val sel ctx = (\<lambda>w.
     if down w then (Inl (WrapError ctx (DriverError st_connection)), pop w)
     else (Inr (sel (pop w)), pop w))"

definition exec_rows :: "(world \<Rightarrow> nat) \<Rightarrow> (world \<Rightarrow> world) \<Rightarrow> string \<Rightarrow> string \<Rightarrow> unit act" where
  "exec_rows affected change missing ctx = (\<lambda>w.
     if down w then (Inl (WrapError ctx (DriverError st_connection)), pop w)
     else if affected (pop w) = 0 then (Inl (not_found missing), pop w)
     else (Inr (), change (pop w)))"

definition exec_check ::
  "(world \<Rightarrow> nat) \<Rightarrow> (world \<Rightarrow> string option) \<Rightarrow> (world \<Rightarrow> world) \<Rightarrow> string \<Rightarrow> string \<Rightarrow> unit act" where
  "exec_check affected violated change missing ctx = (\<lambda>w.
     if down w then (Inl (WrapError ctx (DriverError st_connection)), pop w)
     else if affected (pop w) = 0 then (Inl (not_found missing), pop w)
     else (case violated (pop w) of
             Some st \<Rightarrow> (Inl (WrapError ctx (DriverError st)), pop w)
           | None \<Rightarrow> (Inr (), change (pop w))))"

definition exec_count ::
  "(world \<Rightarrow> nat) \<Rightarrow> (world \<Rightarrow> string option) \<Rightarrow> (world \<Rightarrow> world) \<Rightarrow> string \<Rightarrow> nat act" where
  "exec_count affected violated change ctx = (\<lambda>w.
     if down w then (Inl (WrapError ctx (DriverError st_connection)), pop w)
     else (case violated (pop w) of
             Some st \<Rightarrow> (Inl (WrapError ctx (DriverError st)), pop w)
           | None \<Rightarrow> (Inr (affected (pop w)), change (pop w))))"

definition insert_row ::
  "(world \<Rightarrow> string option) \<Rightarrow> (world \<Rightarrow> 'r) \<Rightarrow> ('r \<Rightarrow> world \<Rightarrow> world) \<Rightarrow> (string \<Rightarrow> err) \<Rightarrow> 'r act" where
  "insert_row violated mk add on_err = (\<lambda>w.
     if down w then (Inl (on_err st_connection), pop w)
     else (case violated (pop w) of
             Some st \<Rightarrow> (Inl (on_err st), pop w)
           | None \<Rightarrow> (let r = mk (pop w)
                      in (Inr r, add r ((pop w)\<lparr>uuid_next := Suc (uuid_next w)\<rparr>)))))"

text \<open>
  \<open>INSERT ... ON CONFLICT DO UPDATE\<close>: the row that is there is changed, else a row is added; each of the
  two with its constraints.
\<close>

definition upsert_row ::
  "(world \<Rightarrow> bool) \<Rightarrow> (world \<Rightarrow> string option) \<Rightarrow> (world \<Rightarrow> world) \<Rightarrow>
   (world \<Rightarrow> string option) \<Rightarrow> (world \<Rightarrow> world) \<Rightarrow> (string \<Rightarrow> err) \<Rightarrow> unit act" where
  "upsert_row there upd_violated upd ins_violated ins on_err = (\<lambda>w.
     if down w then (Inl (on_err st_connection), pop w)
     else if there (pop w)
       then (case upd_violated (pop w) of
               Some st \<Rightarrow> (Inl (on_err st), pop w)
             | None \<Rightarrow> (Inr (), upd (pop w)))
       else (case ins_violated (pop w) of
               Some st \<Rightarrow> (Inl (on_err st), pop w)
             | None \<Rightarrow> (Inr (), (ins (pop w))\<lparr>uuid_next := Suc (uuid_next w)\<rparr>)))"

text \<open>\<open>23505\<close> is reported as a conflict, every other failure of an \<open>INSERT\<close> is wrapped.\<close>

definition insert_err :: "string \<Rightarrow> string \<Rightarrow> string \<Rightarrow> err" where
  "insert_err dup ctx st = (if st = st_unique then conflict dup else WrapError ctx (DriverError st))"

definition violation :: "bool \<Rightarrow> bool \<Rightarrow> bool \<Rightarrow> bool \<Rightarrow> string option" where
  "violation rng chk uniq fk =
     (if \<not> rng then Some st_range else if \<not> chk then Some st_check
      else if \<not> uniq then Some st_unique else if \<not> fk then Some st_foreign else None)"

definition user_email_of :: "world \<Rightarrow> uuid \<Rightarrow> string" where
  "user_email_of w u = (case find (\<lambda>r. us_id r = u) (users w) of None \<Rightarrow> '''' | Some r \<Rightarrow> us_email r)"

definition user_name_of :: "world \<Rightarrow> uuid \<Rightarrow> string" where
  "user_name_of w u =
     (case find (\<lambda>r. us_id r = u) (users w) of None \<Rightarrow> '''' | Some r \<Rightarrow> us_full_name r)"

definition course_title_of :: "world \<Rightarrow> uuid \<Rightarrow> string" where
  "course_title_of w c =
     (case find (\<lambda>r. co_id r = c) (courses w) of None \<Rightarrow> '''' | Some r \<Rightarrow> co_title r)"

definition course_slug_of :: "world \<Rightarrow> uuid \<Rightarrow> string" where
  "course_slug_of w c =
     (case find (\<lambda>r. co_id r = c) (courses w) of None \<Rightarrow> '''' | Some r \<Rightarrow> co_slug r)"

definition has_user :: "world \<Rightarrow> uuid \<Rightarrow> bool" where
  "has_user w u \<longleftrightarrow> u \<in> set (map us_id (users w))"

text \<open>\<open>char_length(trim(s)) > 0\<close>: SQL's \<open>trim\<close> removes blanks only.\<close>

definition sql_nonblank :: "string \<Rightarrow> bool" where
  "sql_nonblank s \<longleftrightarrow> list_ex (\<lambda>c. c \<noteq> CHR '' '') s"

definition has_course :: "world \<Rightarrow> uuid \<Rightarrow> bool" where
  "has_course w c \<longleftrightarrow> c \<in> set (map co_id (courses w))"

subsection \<open>What a statement does\<close>

lemma pop_quiet [simp]: "quiet w \<Longrightarrow> pop w = w"
  by (simp add: pop_def)

lemma down_quiet [simp]: "quiet w \<Longrightarrow> \<not> down w"
  by (simp add: down_def)

lemma pop_frame [simp]:
  "clock (pop w) = clock w" "uuid_gen (pop w) = uuid_gen w" "uuid_next (pop w) = uuid_next w"
  "users (pop w) = users w" "courses (pop w) = courses w" "categories (pop w) = categories w"
  "tags (pop w) = tags w" "course_tags (pop w) = course_tags w"
  "organizations (pop w) = organizations w" "org_members (pop w) = org_members w"
  "course_modules (pop w) = course_modules w" "lessons (pop w) = lessons w"
  "enrollments (pop w) = enrollments w" "invite_codes (pop w) = invite_codes w"
  "enrollment_events (pop w) = enrollment_events w" "coupons (pop w) = coupons w"
  "orders (pop w) = orders w" "webhook_events (pop w) = webhook_events w"
  "lesson_progresses (pop w) = lesson_progresses w"
  "course_progresses (pop w) = course_progresses w" "content_blocks (pop w) = content_blocks w"
  "roles (pop w) = roles w" "refresh_tokens (pop w) = refresh_tokens w"
  "reset_tokens (pop w) = reset_tokens w" "verify_tokens (pop w) = verify_tokens w"
  "org_invites (pop w) = org_invites w"
  "quizzes (pop w) = quizzes w" "quiz_questions (pop w) = quiz_questions w"
  "quiz_attempts (pop w) = quiz_attempts w" "attempt_answers (pop w) = attempt_answers w"
  "assignments (pop w) = assignments w" "submissions (pop w) = submissions w"
  "certificates (pop w) = certificates w" "live_sessions (pop w) = live_sessions w"
  "attendances (pop w) = attendances w"
  "course_announcements (pop w) = course_announcements w" "discussion_threads (pop w) = discussion_threads w"
  "discussion_posts (pop w) = discussion_posts w" "dm_conversations (pop w) = dm_conversations w"
  "dm_messages (pop w) = dm_messages w" "notification_outbox (pop w) = notification_outbox w"
  "media_assets (pop w) = media_assets w" "store_deletes (pop w) = store_deletes w"
  "parent_links (pop w) = parent_links w"
  by (simp_all add: pop_def)

lemma fresh_uuid_pop [simp]: "fresh_uuid (pop w) = fresh_uuid w"
  by (simp add: fresh_uuid_def)

lemma pk_free_pop [simp]: "pk_free ids (pop w) = pk_free ids w"
  by (simp add: pk_free_def)

lemma joined_pop [simp]:
  "user_email_of (pop w) u = user_email_of w u" "user_name_of (pop w) u = user_name_of w u"
  "course_title_of (pop w) c = course_title_of w c" "course_slug_of (pop w) c = course_slug_of w c"
  "has_user (pop w) u = has_user w u" "has_course (pop w) c = has_course w c"
  by (simp_all add: user_email_of_def user_name_of_def course_title_of_def course_slug_of_def
        has_user_def has_course_def)

lemma wp_fetch_row [wp]:
  "wpre (fetch_row sel missing ctx) Q E w =
     (if down w then E (WrapError ctx (DriverError st_connection)) (pop w)
      else (case sel (pop w) of None \<Rightarrow> E (not_found missing) (pop w) | Some a \<Rightarrow> Q a (pop w)))"
  by (simp add: wpre_def fetch_row_def split: option.split)

lemma wp_fetch_or [wp]:
  "wpre (fetch_or sel missing ctx) Q E w =
     (if down w then E (WrapError ctx (DriverError st_connection)) (pop w)
      else (case sel (pop w) of None \<Rightarrow> E missing (pop w) | Some a \<Rightarrow> Q a (pop w)))"
  by (simp add: wpre_def fetch_or_def split: option.split)

lemma wp_exec_or [wp]:
  "wpre (exec_or affected change missing ctx) Q E w =
     (if down w then E (WrapError ctx (DriverError st_connection)) (pop w)
      else if affected (pop w) = 0 then E missing (pop w)
      else Q () (change (pop w)))"
  by (simp add: wpre_def exec_or_def)

lemma wp_fetch_val [wp]:
  "wpre (fetch_val sel ctx) Q E w =
     (if down w then E (WrapError ctx (DriverError st_connection)) (pop w)
      else Q (sel (pop w)) (pop w))"
  by (simp add: wpre_def fetch_val_def)

lemma wp_exec_rows [wp]:
  "wpre (exec_rows affected change missing ctx) Q E w =
     (if down w then E (WrapError ctx (DriverError st_connection)) (pop w)
      else if affected (pop w) = 0 then E (not_found missing) (pop w)
      else Q () (change (pop w)))"
  by (simp add: wpre_def exec_rows_def)

lemma wp_exec_check [wp]:
  "wpre (exec_check affected violated change missing ctx) Q E w =
     (if down w then E (WrapError ctx (DriverError st_connection)) (pop w)
      else if affected (pop w) = 0 then E (not_found missing) (pop w)
      else (case violated (pop w) of
              Some st \<Rightarrow> E (WrapError ctx (DriverError st)) (pop w)
            | None \<Rightarrow> Q () (change (pop w))))"
  by (simp add: wpre_def exec_check_def split: option.split)

lemma wp_exec_count [wp]:
  "wpre (exec_count affected violated change ctx) Q E w =
     (if down w then E (WrapError ctx (DriverError st_connection)) (pop w)
      else (case violated (pop w) of
              Some st \<Rightarrow> E (WrapError ctx (DriverError st)) (pop w)
            | None \<Rightarrow> Q (affected (pop w)) (change (pop w))))"
  by (simp add: wpre_def exec_count_def split: option.split)

lemma wp_upsert_row [wp]:
  "wpre (upsert_row there upd_violated upd ins_violated ins on_err) Q E w =
     (if down w then E (on_err st_connection) (pop w)
      else if there (pop w)
        then (case upd_violated (pop w) of Some st \<Rightarrow> E (on_err st) (pop w) | None \<Rightarrow> Q () (upd (pop w)))
        else (case ins_violated (pop w) of Some st \<Rightarrow> E (on_err st) (pop w)
              | None \<Rightarrow> Q () ((ins (pop w))\<lparr>uuid_next := Suc (uuid_next w)\<rparr>)))"
  by (simp add: wpre_def upsert_row_def split: option.split)

lemma wp_insert_row [wp]:
  "wpre (insert_row violated mk add on_err) Q E w =
     (if down w then E (on_err st_connection) (pop w)
      else (case violated (pop w) of
              Some st \<Rightarrow> E (on_err st) (pop w)
            | None \<Rightarrow> Q (mk (pop w))
                       (add (mk (pop w)) ((pop w)\<lparr>uuid_next := Suc (uuid_next w)\<rparr>))))"
  by (simp add: wpre_def insert_row_def Let_def split: option.split)

lemma wp_insert_quiet:
  "quiet w \<Longrightarrow> violated w = None \<Longrightarrow> Q (mk w) (add (mk w) (w\<lparr>uuid_next := Suc (uuid_next w)\<rparr>)) \<Longrightarrow>
   wpre (insert_row violated mk add on_err) Q E w"
  by (simp add: wp)

lemma violation_None [simp]:
  "violation rg ck un fk = None \<longleftrightarrow> rg \<and> ck \<and> un \<and> fk"
  by (simp add: violation_def)

subsection \<open>Reads\<close>

text \<open>An operation that only reads takes the driver's answers and changes no table.\<close>

definition read_only :: "world \<Rightarrow> world \<Rightarrow> bool" where
  "read_only w w' \<longleftrightarrow> w' = w\<lparr>faults := faults w'\<rparr>"

interpretation reads: effect_order read_only
proof unfold_locales
  fix w v u :: world
  assume "read_only w v" "read_only v u"
  then have "v = w\<lparr>faults := faults v\<rparr>" "u = v\<lparr>faults := faults u\<rparr>"
    by (simp_all add: read_only_def)
  then have "u = (w\<lparr>faults := faults v\<rparr>)\<lparr>faults := faults u\<rparr>" by metis
  then show "read_only w u" by (simp add: read_only_def)
qed (simp add: read_only_def)

lemma read_only_fetch [moves]:
  "changes read_only (fetch_row sel missing ctx)" "changes read_only (fetch_val val ctx)"
  "changes read_only (fetch_or sel e ctx)"
  by (auto simp: changes_def fetch_row_def fetch_val_def fetch_or_def read_only_def pop_def split: option.split)

lemma wp_reads:
  assumes "changes read_only m" and "\<And>a f. Q a (w\<lparr>faults := f\<rparr>)" and "\<And>e f. E e (w\<lparr>faults := f\<rparr>)"
  shows "wpre m Q E w"
proof (rule wp_run)
  fix r t assume "m w = (r, t)"
  with assms(1) have "read_only w t" by (rule changesD)
  then have t: "t = w\<lparr>faults := faults t\<rparr>" by (simp add: read_only_def)
  show "case r of Inl e \<Rightarrow> E e t | Inr a \<Rightarrow> Q a t"
    using assms(2) [of _ "faults t"] assms(3) [of _ "faults t"] t by (cases r) auto
qed

lemma wp_read_then:
  assumes "changes read_only m" and "\<And>e f. E e (w\<lparr>faults := f\<rparr>)" and "\<And>a f. wpre (g a) Q E (w\<lparr>faults := f\<rparr>)"
  shows "wpre (andThen m g) Q E (w\<lparr>faults := h\<rparr>)"
  unfolding wp_andThen by (rule wp_reads [OF assms(1)]) (simp_all add: assms(2,3))

lemma wp_read_start:
  assumes "changes read_only m" and "\<And>e f. E e (w\<lparr>faults := f\<rparr>)" and "\<And>a f. wpre (g a) Q E (w\<lparr>faults := f\<rparr>)"
  shows "wpre (andThen m g) Q E w"
  unfolding wp_andThen by (rule wp_reads [OF assms(1)]) (simp_all add: assms(2,3))

lemma read_only_faults [simp]: "read_only w (w\<lparr>faults := f\<rparr>)"
  by (simp add: read_only_def)

lemma reads_respect: "changes read_only m \<Longrightarrow> (\<And>w f. R w (w\<lparr>faults := f\<rparr>)) \<Longrightarrow> changes R m"
  unfolding changes_def read_only_def by metis

lemma joined_faults [simp]:
  "user_email_of (w\<lparr>faults := f\<rparr>) u = user_email_of w u"
  "user_name_of (w\<lparr>faults := f\<rparr>) u = user_name_of w u"
  "course_title_of (w\<lparr>faults := f\<rparr>) c = course_title_of w c"
  "course_slug_of (w\<lparr>faults := f\<rparr>) c = course_slug_of w c"
  "has_user (w\<lparr>faults := f\<rparr>) u = has_user w u" "has_course (w\<lparr>faults := f\<rparr>) c = has_course w c"
  "fresh_uuid (w\<lparr>faults := f\<rparr>) = fresh_uuid w" "pk_free ids (w\<lparr>faults := f\<rparr>) = pk_free ids w"
  by (simp_all add: user_email_of_def user_name_of_def course_title_of_def course_slug_of_def
        has_user_def has_course_def fresh_uuid_def pk_free_def)

subsection \<open>Relations kept by statements\<close>

text \<open>
  A relation between worlds that does not look at the driver's answers and the supply of
  identifiers: then a read keeps it, and a write keeps it as soon as its change of the tables does.
\<close>

locale world_order = effect_order R for R :: "world \<Rightarrow> world \<Rightarrow> bool" +
  assumes R_pop: "R w (pop w)"
    and R_uuid: "R w (w\<lparr>uuid_next := n\<rparr>)"
begin

lemma changes_fetch_row [moves]: "changes R (fetch_row sel missing ctx)"
  by (auto simp: changes_def fetch_row_def R_pop split: option.split)

lemma changes_fetch_val [moves]: "changes R (fetch_val sel ctx)"
  by (auto simp: changes_def fetch_val_def R_pop)

lemma changes_exec_rows:
  "(\<And>w. affected w \<noteq> 0 \<Longrightarrow> R w (change w)) \<Longrightarrow> changes R (exec_rows affected change missing ctx)"
  by (auto simp: changes_def exec_rows_def R_pop intro: R_trans [OF R_pop])

lemma changes_fetch_or [moves]: "changes R (fetch_or sel e ctx)"
  by (auto simp: changes_def fetch_or_def R_pop split: option.split)

lemma changes_exec_or:
  "(\<And>w. affected w \<noteq> 0 \<Longrightarrow> R w (change w)) \<Longrightarrow> changes R (exec_or affected change e ctx)"
  by (auto simp: changes_def exec_or_def R_pop intro: R_trans [OF R_pop])

lemma changes_exec_check:
  "(\<And>w. affected w \<noteq> 0 \<Longrightarrow> violated w = None \<Longrightarrow> R w (change w)) \<Longrightarrow>
   changes R (exec_check affected violated change missing ctx)"
  by (auto simp: changes_def exec_check_def R_pop intro: R_trans [OF R_pop] split: option.split)

lemma changes_exec_count:
  "(\<And>w. violated w = None \<Longrightarrow> R w (change w)) \<Longrightarrow> changes R (exec_count affected violated change ctx)"
  by (auto simp: changes_def exec_count_def R_pop intro: R_trans [OF R_pop] split: option.split)

lemma changes_upsert_row:
  assumes "\<And>w. there w \<Longrightarrow> upd_violated w = None \<Longrightarrow> R w (upd w)"
    and "\<And>w. \<not> there w \<Longrightarrow> ins_violated w = None \<Longrightarrow> R w (ins w)"
  shows "changes R (upsert_row there upd_violated upd ins_violated ins on_err)"
proof -
  have "R w ((ins (pop w))\<lparr>uuid_next := n\<rparr>)" if "\<not> there (pop w)" "ins_violated (pop w) = None" for w n
    using R_trans [OF R_trans [OF R_pop assms(2) [OF that]] R_uuid] .
  moreover have "R w (upd (pop w))" if "there (pop w)" "upd_violated (pop w) = None" for w
    using R_trans [OF R_pop assms(1) [OF that]] .
  ultimately show ?thesis by (auto simp: changes_def upsert_row_def R_pop split: option.split)
qed

lemma changes_insert_row:
  assumes "\<And>w v. violated w = None \<Longrightarrow> uuid_gen v = uuid_gen w \<Longrightarrow> R w v \<Longrightarrow>
             v = w\<lparr>uuid_next := Suc (uuid_next w)\<rparr> \<Longrightarrow> R w (add (mk w) v)"
  shows "changes R (insert_row violated mk add on_err)"
proof -
  have "R w (add (mk (pop w)) ((pop w)\<lparr>uuid_next := Suc (uuid_next w)\<rparr>))"
    if "violated (pop w) = None" for w
  proof -
    have "R (pop w) (add (mk (pop w)) ((pop w)\<lparr>uuid_next := Suc (uuid_next w)\<rparr>))"
      using that by (intro assms R_uuid) simp_all
    with R_pop show ?thesis by (rule R_trans)
  qed
  then show ?thesis
    by (auto simp: changes_def insert_row_def Let_def R_pop split: option.split)
qed

end

text \<open>A world invariant that does not look at the driver's answers and the supply of identifiers.\<close>

locale world_invariant = state_invariant I for I :: "world \<Rightarrow> bool" +
  assumes I_faults: "I (w\<lparr>faults := f\<rparr>) = I w"
    and I_uuid: "I (w\<lparr>uuid_next := n\<rparr>) = I w"
begin

sublocale kept: world_order "keeping I"
  by unfold_locales (auto simp: keeping_def pop_def I_faults I_uuid)

lemma I_pop: "I (pop w) = I w"
  by (simp add: pop_def I_faults)

end

end
