(* ===== verification/CourseRepo.thy ===== *)
theory CourseRepo
  imports Schema "HOL-Library.Char_ord" "HOL-Library.List_Lexorder"
begin

text \<open>
  The catalogue tables: \<open>CourseRepository\<close> (\<open>internal/repository/postgres/course.go\<close>),
  \<open>CategoryRepository\<close> and \<open>TagRepository\<close> (\<open>category_tag.go\<close>). One definition per method, the
  condition of each \<open>WHERE\<close> clause as the predicate of the row selection. Texts are ordered byte by
  byte (\<open>ORDER BY name\<close> with the C collation).
\<close>

section \<open>Courses\<close>

definition course_live :: "course \<Rightarrow> bool" where
  "course_live r \<longleftrightarrow> co_deleted_at r = None"

definition category_name_of :: "world \<Rightarrow> uuid option \<Rightarrow> string" where
  "category_name_of w c = (case c of None \<Rightarrow> ''''
     | Some i \<Rightarrow> (case find (\<lambda>r. cat_id r = i) (categories w) of None \<Rightarrow> '''' | Some r \<Rightarrow> cat_name r))"

definition category_slug_of :: "world \<Rightarrow> uuid option \<Rightarrow> string option" where
  "category_slug_of w c = (case c of None \<Rightarrow> None
     | Some i \<Rightarrow> map_option cat_slug (find (\<lambda>r. cat_id r = i) (categories w)))"

text \<open>\<open>scanCourse\<close> on a row joined with its category and its teacher.\<close>

definition scan_course :: "world \<Rightarrow> course \<Rightarrow> course" where
  "scan_course w r = r\<lparr>co_category_name := category_name_of w (co_category_id r),
     co_teacher_name := user_name_of w (co_teacher_id r), co_tag_slugs := []\<rparr>"

definition course_checks :: "string \<Rightarrow> string \<Rightarrow> int \<Rightarrow> string \<Rightarrow> string \<Rightarrow> bool" where
  "course_checks title slug price currency level \<longleftrightarrow>
     sql_nonblank title \<and> sql_nonblank slug \<and> 0 \<le> price \<and> length currency = 3
     \<and> level \<in> {''beginner'', ''intermediate'', ''advanced''}"

definition slug_taken :: "world \<Rightarrow> string \<Rightarrow> bool" where
  "slug_taken w s \<longleftrightarrow> list_ex (\<lambda>r. course_live r \<and> to_lower (co_slug r) = to_lower s) (courses w)"

definition has_category :: "world \<Rightarrow> uuid option \<Rightarrow> bool" where
  "has_category w c \<longleftrightarrow> (case c of None \<Rightarrow> True | Some i \<Rightarrow> i \<in> set (map cat_id (categories w)))"

definition has_org :: "world \<Rightarrow> uuid option \<Rightarrow> bool" where
  "has_org w c \<longleftrightarrow> (case c of None \<Rightarrow> True | Some i \<Rightarrow> i \<in> set (map org_id (organizations w)))"

definition courses_create :: "course \<Rightarrow> course act" where
  "courses_create c = insert_row
     (\<lambda>w. violation (int4 (co_price_cents c))
            (course_checks (co_title c) (co_slug c) (co_price_cents c) (co_currency c) (co_level c))
            (\<not> slug_taken w (co_slug c) \<and> pk_free (map co_id (courses w)) w)
            (has_user w (co_teacher_id c) \<and> has_category w (co_category_id c)
             \<and> has_org w (co_organization_id c)))
     (\<lambda>w. c\<lparr>co_id := fresh_uuid w, co_created_at := clock w, co_updated_at := clock w,
            co_published_at := None, co_capacity := None, co_enrollment_open := True,
            co_waitlist_enabled := False, co_deleted_at := None\<rparr>)
     (\<lambda>r w. w\<lparr>courses := courses w @ [r]\<rparr>)
     (insert_err ''course slug already exists'' ''create course'')"

definition courses_get_by_id :: "uuid \<Rightarrow> course act" where
  "courses_get_by_id i = fetch_row
     (\<lambda>w. map_option (scan_course w) (find (\<lambda>r. co_id r = i \<and> course_live r) (courses w)))
     ''course not found'' ''get course''"

definition courses_get_by_slug :: "string \<Rightarrow> course act" where
  "courses_get_by_slug s = fetch_row
     (\<lambda>w. map_option (scan_course w)
            (find (\<lambda>r. to_lower (co_slug r) = to_lower s \<and> course_live r) (courses w)))
     ''course not found'' ''get course by slug''"

text \<open>An \<open>UPDATE ... WHERE id = $1 AND deleted_at IS NULL\<close>; the trigger sets \<open>updated_at\<close>.\<close>

definition course_rows :: "uuid \<Rightarrow> world \<Rightarrow> nat" where
  "course_rows i w = cnt (\<lambda>r. co_id r = i \<and> course_live r) (courses w)"

definition course_set :: "uuid \<Rightarrow> (course \<Rightarrow> course) \<Rightarrow> world \<Rightarrow> world" where
  "course_set i f w = w\<lparr>courses := upd_where (\<lambda>r. co_id r = i \<and> course_live r)
     (\<lambda>r. (f r)\<lparr>co_updated_at := clock w\<rparr>) (courses w)\<rparr>"

record course_patch =
  cu_category_id :: "uuid option"
  cu_title :: "string option"
  cu_summary :: "string option"
  cu_description :: "string option"
  cu_cover_url :: "string option"
  cu_price_cents :: "int option"
  cu_currency :: "string option"
  cu_level :: "string option"
  cu_language :: "string option"

definition courses_update :: "uuid \<Rightarrow> course_patch \<Rightarrow> course act" where
  "courses_update i p =
     andThen (courses_get_by_id i) (\<lambda>cur.
     let title = (case cu_title p of None \<Rightarrow> co_title cur | Some t \<Rightarrow> trim_space t);
         summary = (case cu_summary p of None \<Rightarrow> co_summary cur | Some t \<Rightarrow> trim_space t);
         descr = (case cu_description p of None \<Rightarrow> co_description cur | Some t \<Rightarrow> trim_space t);
         cover = (case cu_cover_url p of None \<Rightarrow> co_cover_url cur | Some t \<Rightarrow> trim_space t);
         price = (case cu_price_cents p of None \<Rightarrow> co_price_cents cur | Some n \<Rightarrow> n);
         currency = (case cu_currency p of None \<Rightarrow> co_currency cur
                     | Some t \<Rightarrow> to_upper (trim_space t));
         level = (case cu_level p of None \<Rightarrow> co_level cur | Some t \<Rightarrow> t);
         language = (case cu_language p of None \<Rightarrow> co_language cur | Some t \<Rightarrow> trim_space t);
         category = (case cu_category_id p of None \<Rightarrow> co_category_id cur
                     | Some t \<Rightarrow> if t = '''' then None else Some t)
     in andThen (exec_check (course_rows i)
          (\<lambda>w. violation (int4 price) (course_checks title (co_slug cur) price currency level) True
                 (has_category w category))
          (course_set i (\<lambda>r. r\<lparr>co_category_id := category, co_title := title, co_summary := summary,
             co_description := descr, co_cover_url := cover, co_price_cents := price,
             co_currency := currency, co_level := level, co_language := language\<rparr>))
          ''course not found'' ''update course'') (\<lambda>_.
        courses_get_by_id i))"

definition courses_set_status :: "uuid \<Rightarrow> course_status \<Rightarrow> time option \<Rightarrow> course act" where
  "courses_set_status i st at =
     andThen (exec_rows (course_rows i)
       (course_set i (\<lambda>r. r\<lparr>co_status := st, co_published_at := at\<rparr>))
       ''course not found'' ''set course status'') (\<lambda>_.
     courses_get_by_id i)"

definition courses_soft_delete :: "uuid \<Rightarrow> time \<Rightarrow> unit act" where
  "courses_soft_delete i at = exec_rows (course_rows i)
     (course_set i (\<lambda>r. r\<lparr>co_deleted_at := Some at, co_status := CourseArchived\<rparr>))
     ''course not found'' ''delete course''"

record enrollment_settings =
  es_capacity :: "int option"
  es_open :: bool
  es_waitlist :: bool

definition courses_update_enrollment_settings :: "uuid \<Rightarrow> enrollment_settings \<Rightarrow> course act" where
  "courses_update_enrollment_settings i s =
     andThen (exec_check (course_rows i)
       (\<lambda>w. case es_capacity s of None \<Rightarrow> None | Some n \<Rightarrow> violation (int4 n) (0 < n) True True)
       (course_set i (\<lambda>r. r\<lparr>co_capacity := es_capacity s, co_enrollment_open := es_open s,
          co_waitlist_enabled := es_waitlist s\<rparr>))
       ''course not found'' ''update enrollment settings'') (\<lambda>_.
     courses_get_by_id i)"

text \<open>
  \<open>List\<close>: the filter's conditions in the order the query is built. The full-text condition
  \<open>search_vector @@ plainto_tsquery(...)\<close> is PostgreSQL's text search: the parameter \<open>search\<close>.
\<close>

record course_filter =
  cf_query :: string
  cf_status :: string
  cf_category_slug :: string
  cf_tag_slug :: string
  cf_organization_id :: string
  cf_teacher_id :: string
  cf_level :: string
  cf_page :: int
  cf_per_page :: int
  cf_owner_id :: string
  cf_admin :: bool

definition course_has_tag :: "world \<Rightarrow> uuid \<Rightarrow> string \<Rightarrow> bool" where
  "course_has_tag w c s \<longleftrightarrow> list_ex (\<lambda>(ci, ti). ci = c
     \<and> list_ex (\<lambda>t. tag_id t = ti \<and> to_lower (tag_slug t) = to_lower s) (tags w)) (course_tags w)"

definition course_visible :: "course_filter \<Rightarrow> course \<Rightarrow> bool" where
  "course_visible f r \<longleftrightarrow>
     (if cf_admin f then True
      else if cf_owner_id f \<noteq> '''' then co_status r = CoursePublished \<or> co_teacher_id r = cf_owner_id f
      else co_status r = CoursePublished)"

definition course_matches ::
  "(string \<Rightarrow> course \<Rightarrow> bool) \<Rightarrow> world \<Rightarrow> course_filter \<Rightarrow> course \<Rightarrow> bool" where
  "course_matches search w f r \<longleftrightarrow>
     course_live r \<and> course_visible f r
     \<and> (cf_status f = '''' \<or> course_status_text (co_status r) = cf_status f)
     \<and> (trim_space (cf_query f) = '''' \<or> search (trim_space (cf_query f)) r)
     \<and> (cf_category_slug f = '''' \<or> category_slug_of w (co_category_id r) = Some (cf_category_slug f))
     \<and> (cf_tag_slug f = '''' \<or> course_has_tag w (co_id r) (cf_tag_slug f))
     \<and> (cf_organization_id f = '''' \<or> co_organization_id r = Some (cf_organization_id f))
     \<and> (cf_teacher_id f = '''' \<or> co_teacher_id r = cf_teacher_id f)
     \<and> (cf_level f = '''' \<or> co_level r = cf_level f)"

definition norm_page :: "int \<Rightarrow> int" where
  "norm_page p = (if p < 1 then 1 else p)"

definition norm_per_page :: "int \<Rightarrow> int" where
  "norm_per_page p = (if p < 1 \<or> p > 100 then 20 else p)"

definition courses_list ::
  "(string \<Rightarrow> course \<Rightarrow> bool) \<Rightarrow> course_filter \<Rightarrow> (course list \<times> nat) act" where
  "courses_list search f =
     andThen (fetch_val (\<lambda>w. cnt (course_matches search w f) (courses w)) ''count courses'') (\<lambda>total.
     andThen (fetch_val (\<lambda>w. map (scan_course w)
         (page_of (norm_page (cf_page f)) (norm_per_page (cf_per_page f))
           (order_desc co_created_at (filter (course_matches search w f) (courses w)))))
         ''list courses'') (\<lambda>rows.
     ret (rows, total)))"

section \<open>Categories and tags\<close>

definition categories_list :: "category list act" where
  "categories_list = fetch_val (\<lambda>w. sort_key cat_name (categories w)) ''list categories''"

definition categories_get_by_id :: "uuid \<Rightarrow> category act" where
  "categories_get_by_id i = fetch_row (\<lambda>w. find (\<lambda>r. cat_id r = i) (categories w))
     ''category not found'' ''get category''"

definition categories_get_by_slug :: "string \<Rightarrow> category act" where
  "categories_get_by_slug s =
     fetch_row (\<lambda>w. find (\<lambda>r. to_lower (cat_slug r) = to_lower s) (categories w))
     ''category not found'' ''get category by slug''"

definition categories_create :: "string \<Rightarrow> string \<Rightarrow> string \<Rightarrow> category act" where
  "categories_create name slug descr = insert_row
     (\<lambda>w. violation True (sql_nonblank name \<and> sql_nonblank slug)
            (\<not> list_ex (\<lambda>r. to_lower (cat_slug r) = to_lower slug) (categories w)
             \<and> pk_free (map cat_id (categories w)) w) True)
     (\<lambda>w. \<lparr>cat_id = fresh_uuid w, cat_name = name, cat_slug = slug, cat_description = descr,
            cat_created_at = clock w, cat_updated_at = clock w\<rparr>)
     (\<lambda>r w. w\<lparr>categories := categories w @ [r]\<rparr>)
     (insert_err ''category slug already exists'' ''create category'')"

text \<open>
  One iteration of \<open>GetOrCreateByNames\<close>: the upsert on \<open>lower(slug)\<close>; when it fails, a select;
  when that fails, a plain insert; when the insert finds the slug taken, the select again.
\<close>

definition tag_lookup :: "string \<Rightarrow> world \<Rightarrow> tag option" where
  "tag_lookup slug w = find (\<lambda>r. to_lower (tag_slug r) = to_lower slug) (tags w)"

definition tag_row :: "string \<Rightarrow> string \<Rightarrow> world \<Rightarrow> tag" where
  "tag_row name slug w =
     \<lparr>tag_id = fresh_uuid w, tag_name = name, tag_slug = slug, tag_created_at = clock w\<rparr>"

definition tag_upsert :: "string \<Rightarrow> string \<Rightarrow> tag act" where
  "tag_upsert name slug = (\<lambda>w.
     if down w then (Inl (DriverError st_connection), pop w)
     else if \<not> (sql_nonblank name \<and> sql_nonblank slug) then (Inl (DriverError st_check), pop w)
     else (case tag_lookup slug (pop w) of
             Some t \<Rightarrow> (Inr (t\<lparr>tag_name := name\<rparr>),
               (pop w)\<lparr>tags := upd_where (\<lambda>r. to_lower (tag_slug r) = to_lower slug)
                 (\<lambda>r. r\<lparr>tag_name := name\<rparr>) (tags w)\<rparr>)
           | None \<Rightarrow>
               (if \<not> pk_free (map tag_id (tags w)) w then (Inl (DriverError st_unique), pop w)
                else (Inr (tag_row name slug w),
                  (pop w)\<lparr>tags := tags w @ [tag_row name slug w], uuid_next := Suc (uuid_next w)\<rparr>))))"

definition tag_select :: "string \<Rightarrow> tag act" where
  "tag_select slug = (\<lambda>w.
     if down w then (Inl (DriverError st_connection), pop w)
     else (case tag_lookup slug (pop w) of
             Some t \<Rightarrow> (Inr t, pop w)
           | None \<Rightarrow> (Inl (DriverError ''no rows''), pop w)))"

definition tag_insert :: "string \<Rightarrow> string \<Rightarrow> tag act" where
  "tag_insert name slug = insert_row
     (\<lambda>w. violation True (sql_nonblank name \<and> sql_nonblank slug) 
            (tag_lookup slug w = None \<and> pk_free (map tag_id (tags w)) w) True)
     (tag_row name slug)
     (\<lambda>r w. w\<lparr>tags := tags w @ [r]\<rparr>)
     DriverError"

definition tag_get_or_create :: "string \<Rightarrow> string \<Rightarrow> tag act" where
  "tag_get_or_create name slug =
     orElse (tag_upsert name slug) (\<lambda>_.
     orElse (tag_select slug) (\<lambda>_.
     orElse (tag_insert name slug) (\<lambda>e3.
       if e3 = DriverError st_unique
       then orElse (tag_select slug) (\<lambda>e4. raise (WrapError ''get or create tag'' e4))
       else raise (WrapError ''get or create tag'' e3))))"

definition tag_slug_text :: "string \<Rightarrow> string" where
  "tag_slug_text name = to_lower (map (\<lambda>c. if c = CHR '' '' then CHR ''-'' else c) name)"

fun tags_get_or_create_from :: "string list \<Rightarrow> string list \<Rightarrow> tag list act" where
  "tags_get_or_create_from seen [] = ret []"
| "tags_get_or_create_from seen (raw # raws) =
     (let name = trim_space raw; slug = tag_slug_text name in
      if name = '''' then tags_get_or_create_from seen raws
      else if slug \<in> set seen then tags_get_or_create_from seen raws
      else andThen (tag_get_or_create name slug) (\<lambda>t.
           andThen (tags_get_or_create_from (slug # seen) raws) (\<lambda>ts.
           ret (t # ts))))"

definition tags_get_or_create_by_names :: "string list \<Rightarrow> tag list act" where
  "tags_get_or_create_by_names names = tags_get_or_create_from [] names"

definition tags_list_by_course :: "uuid \<Rightarrow> tag list act" where
  "tags_list_by_course c = fetch_val
     (\<lambda>w. sort_key tag_name (filter (\<lambda>t. (c, tag_id t) \<in> set (course_tags w)) (tags w)))
     ''list course tags''"

text \<open>
  A transaction: when a statement inside fails, the tables are those before it (identifiers and
  driver answers stay consumed). \<open>Begin\<close> and \<open>Commit\<close> are statements of their own.
\<close>

definition statement :: "(err \<Rightarrow> err) \<Rightarrow> unit act" where
  "statement on_err = (\<lambda>w.
     if down w then (Inl (on_err (DriverError st_connection)), pop w) else (Inr (), pop w))"

definition rollback_to :: "world \<Rightarrow> world \<Rightarrow> world" where
  "rollback_to w w' = w\<lparr>faults := faults w', uuid_next := uuid_next w'\<rparr>"

definition in_tx :: "string \<Rightarrow> 'a act \<Rightarrow> 'a act" where
  "in_tx ctx body = andThen (statement (WrapError ctx)) (\<lambda>_ w.
     case andThen body (\<lambda>a. andThen (statement (\<lambda>e. e)) (\<lambda>_. ret a)) w of
       (Inl e, w') \<Rightarrow> (Inl e, rollback_to w w')
     | (Inr a, w') \<Rightarrow> (Inr a, w'))"

definition tags_replace_course_tags :: "uuid \<Rightarrow> uuid list \<Rightarrow> unit act" where
  "tags_replace_course_tags c ids = in_tx ''begin tag replace'' (
     andThen (statement (WrapError ''clear course tags'')) (\<lambda>_.
     andThen (\<lambda>w. (Inr (), w\<lparr>course_tags := filter (\<lambda>(ci, ti). ci \<noteq> c) (course_tags w)\<rparr>)) (\<lambda>_.
     for_each ids (\<lambda>i.
       andThen (statement (WrapError ''insert course tag'')) (\<lambda>_ w.
         case violation True True ((c, i) \<notin> set (course_tags w))
                (has_course w c \<and> i \<in> set (map tag_id (tags w))) of
           Some st \<Rightarrow> (Inl (WrapError ''insert course tag'' (DriverError st)), w)
         | None \<Rightarrow> (Inr (), w\<lparr>course_tags := course_tags w @ [(c, i)]\<rparr>))))))"

section \<open>Facts about the catalogue\<close>

lemma course_live_scan [simp]: "course_live (scan_course w r) = course_live r"
  by (simp add: course_live_def scan_course_def)

lemma scan_course_simps [simp]:
  "co_id (scan_course w r) = co_id r" "co_status (scan_course w r) = co_status r"
  "co_teacher_id (scan_course w r) = co_teacher_id r"
  "co_price_cents (scan_course w r) = co_price_cents r"
  "co_currency (scan_course w r) = co_currency r"
  "co_capacity (scan_course w r) = co_capacity r"
  "co_enrollment_open (scan_course w r) = co_enrollment_open r"
  "co_waitlist_enabled (scan_course w r) = co_waitlist_enabled r"
  "co_title (scan_course w r) = co_title r" "co_slug (scan_course w r) = co_slug r"
  "co_published_at (scan_course w r) = co_published_at r"
  by (simp_all add: scan_course_def)

text \<open>The live course with an identifier, as the repository reads it.\<close>

definition live_course :: "world \<Rightarrow> uuid \<Rightarrow> course option" where
  "live_course w i = map_option (scan_course w) (find (\<lambda>r. co_id r = i \<and> course_live r) (courses w))"

lemma category_name_of_pop [simp]: "category_name_of (pop w) c = category_name_of w c"
  by (simp add: category_name_of_def cong: option.case_cong)

lemma scan_course_pop [simp]: "scan_course (pop w) r = scan_course w r"
  by (simp add: scan_course_def)

lemma live_course_pop [simp]: "live_course (pop w) i = live_course w i"
  by (simp add: live_course_def fun_eq_iff cong: option.map_cong)

lemma catalogue_faults [simp]:
  "category_name_of (w\<lparr>faults := f\<rparr>) k = category_name_of w k"
  "scan_course (w\<lparr>faults := f\<rparr>) r = scan_course w r"
  "live_course (w\<lparr>faults := f\<rparr>) i = live_course w i"
  by (simp_all add: category_name_of_def scan_course_def live_course_def fun_eq_iff
        cong: option.case_cong option.map_cong)

lemma courses_get_by_id_eq:
  "courses_get_by_id i = fetch_row (\<lambda>w. live_course w i) ''course not found'' ''get course''"
  by (simp add: courses_get_by_id_def live_course_def)

lemma live_course_SomeD:
  "live_course w i = Some c \<Longrightarrow> co_id c = i \<and> course_live c \<and> (\<exists>r \<in> set (courses w). c = scan_course w r)"
  by (auto simp: live_course_def dest: find_SomeD)

lemma live_course_id: "live_course w i = Some c \<Longrightarrow> co_id c = i"
  by (auto dest: live_course_SomeD)

lemma live_course_cong:
  "courses v = courses w \<Longrightarrow> categories v = categories w \<Longrightarrow> users v = users w \<Longrightarrow>
   live_course v c = live_course w c"
proof -
  assume eq: "courses v = courses w" "categories v = categories w" "users v = users w"
  then have "scan_course v = scan_course w"
    by (simp add: fun_eq_iff scan_course_def category_name_of_def user_name_of_def cong: option.case_cong)
  with eq show "live_course v c = live_course w c" by (simp add: live_course_def)
qed

lemma wp_course:
  assumes "\<And>e f. E e (w\<lparr>faults := f\<rparr>)"
    and "\<And>course f. live_course w c = Some course \<Longrightarrow> wpre (g course) Q E (w\<lparr>faults := f\<rparr>)"
  shows "wpre (andThen (courses_get_by_id c) g) Q E (w\<lparr>faults := h\<rparr>)"
  using assms by (auto simp: courses_get_by_id_eq wp_andThen wp_fetch_row pop_def split: option.split)

lemma wp_course_start:
  assumes "\<And>e f. E e (w\<lparr>faults := f\<rparr>)"
    and "\<And>course f. live_course w c = Some course \<Longrightarrow> wpre (g course) Q E (w\<lparr>faults := f\<rparr>)"
  shows "wpre (andThen (courses_get_by_id c) g) Q E w"
  using wp_course [of E w c g Q "faults w"] assms by simp

lemma courses_get_reads [moves]: "changes read_only (courses_get_by_id c)"
  by (simp add: courses_get_by_id_eq read_only_fetch)

section \<open>Transactions\<close>

lemma wp_statement [wp]:
  "wpre (statement on_err) Q E w = (if down w then E (on_err (DriverError st_connection)) (pop w) else Q () (pop w))"
  by (simp add: wpre_def statement_def)

lemma in_tx_eq:
  "in_tx ctx body w = (if down w then (Inl (WrapError ctx (DriverError st_connection)), pop w)
     else case andThen body (\<lambda>a. andThen (statement (\<lambda>e. e)) (\<lambda>_. ret a)) (pop w) of
       (Inl e, v) \<Rightarrow> (Inl e, rollback_to (pop w) v) | (Inr a, v) \<Rightarrow> (Inr a, v))"
  by (simp add: in_tx_def andThen_def statement_def)

lemma in_tx_fails:
  assumes "in_tx ctx body w = (Inl e, w')"
  shows "w' = rollback_to w w'"
proof (cases "down w")
  case False
  obtain r v where r: "andThen body (\<lambda>a. andThen (statement (\<lambda>e. e)) (\<lambda>_. ret a)) (pop w) = (r, v)" by force
  with assms False show ?thesis
    by (cases r) (auto simp: in_tx_eq rollback_to_def pop_def)
qed (use assms in \<open>auto simp: in_tx_eq rollback_to_def pop_def\<close>)

lemma wp_in_tx_quiet:
  assumes "quiet w" and "wpre body (\<lambda>a v. quiet v \<and> Q a v) (\<lambda>_ _. False) w"
  shows "wpre (in_tx ctx body) Q E w"
proof -
  obtain r v where r: "body w = (r, v)" by force
  with assms show ?thesis
    by (cases r) (auto simp: wpre_def in_tx_eq andThen_def statement_def ret_def)
qed

lemma changes_in_tx:
  assumes "changes R body" and "\<And>w f n. R w (w\<lparr>faults := f, uuid_next := n\<rparr>)" and "\<And>s t u. R s t \<Longrightarrow> R t u \<Longrightarrow> R s u"
  shows "changes R (in_tx ctx body)"
  unfolding changes_def
proof
  fix w
  show "R w (snd (in_tx ctx body w))"
  proof (cases "in_tx ctx body w")
    case (Pair r v)
    show ?thesis
    proof (cases r)
      case (Inl e)
      with Pair have "v = w\<lparr>faults := faults v, uuid_next := uuid_next v\<rparr>"
        using in_tx_fails by (auto simp: rollback_to_def)
      with assms(2) Pair show ?thesis by (metis snd_conv)
    next
      case (Inr a)
      obtain b u where body: "body (pop w) = (b, u)" by force
      with Pair Inr have v: "v = pop u" and "b = Inr a"
        by (auto simp: in_tx_eq andThen_def statement_def ret_def split: if_splits sum.splits)
      have faults: "R t (t\<lparr>faults := f\<rparr>)" for t f
        using assms(2) [where w = t and f = f and n = "uuid_next t"] by simp
      have "R (pop w) u" using assms(1) body by (rule changesD)
      with faults [of w "tl (faults w)"] have "R w u"
        using assms(3) by (simp add: pop_def)
      with v Pair faults [of u "tl (faults u)"] show ?thesis
        using assms(3) [of w u v] by (simp add: pop_def)
    qed
  qed
qed

context world_invariant begin

lemma keeps_in_tx: "changes (keeping I) body \<Longrightarrow> changes (keeping I) (in_tx ctx body)"
  by (rule changes_in_tx) (auto simp: keeping_def I_faults I_uuid)

end

end
