(* ===== verification/EnrollmentRepo.thy ===== *)
theory EnrollmentRepo
  imports CourseRepo
begin

text \<open>
  \<open>EnrollmentRepository\<close> and \<open>EnrollmentInviteCodeRepository\<close>
  (\<open>internal/repository/postgres/enrollment.go\<close>): one definition per method.
\<close>

section \<open>Enrollments\<close>

definition scan_enrollment :: "world \<Rightarrow> enrollment \<Rightarrow> enrollment" where
  "scan_enrollment w e = e\<lparr>en_user_email := user_email_of w (en_user_id e),
     en_user_name := user_name_of w (en_user_id e),
     en_course_title := course_title_of w (en_course_id e),
     en_course_slug := course_slug_of w (en_course_id e)\<rparr>"

definition blank_joins :: "enrollment \<Rightarrow> enrollment" where
  "blank_joins e =
     e\<lparr>en_user_email := '''', en_user_name := '''', en_course_title := '''', en_course_slug := ''''\<rparr>"

definition enrollments_create :: "enrollment \<Rightarrow> enrollment act" where
  "enrollments_create e = insert_row
     (\<lambda>w. violation True True
            (\<not> list_ex (\<lambda>r. en_course_id r = en_course_id e \<and> en_user_id r = en_user_id e)
               (enrollments w) \<and> pk_free (map en_id (enrollments w)) w)
            (has_course w (en_course_id e) \<and> has_user w (en_user_id e)
             \<and> (case en_invite_id e of None \<Rightarrow> True | Some i \<Rightarrow> i \<in> set (map inv_id (invite_codes w)))))
     (\<lambda>w. e\<lparr>en_id := fresh_uuid w, en_created_at := clock w, en_updated_at := clock w\<rparr>)
     (\<lambda>r w. w\<lparr>enrollments := enrollments w @ [blank_joins r]\<rparr>)
     (insert_err ''already enrolled in this course'' ''create enrollment'')"

definition enrollments_get_by_id :: "uuid \<Rightarrow> enrollment act" where
  "enrollments_get_by_id i = fetch_row
     (\<lambda>w. map_option (scan_enrollment w) (find (\<lambda>r. en_id r = i) (enrollments w)))
     ''enrollment not found'' ''get enrollment''"

definition enrollments_get_by_course_user :: "uuid \<Rightarrow> uuid \<Rightarrow> enrollment act" where
  "enrollments_get_by_course_user c u = fetch_row
     (\<lambda>w. map_option (scan_enrollment w)
            (find (\<lambda>r. en_course_id r = c \<and> en_user_id r = u) (enrollments w)))
     ''enrollment not found'' ''get enrollment by course user''"

definition enrollment_write :: "enrollment \<Rightarrow> time \<Rightarrow> enrollment \<Rightarrow> enrollment" where
  "enrollment_write e now r = r\<lparr>en_status := en_status e, en_source := en_source e,
     en_invite_id := en_invite_id e, en_enrolled_at := en_enrolled_at e,
     en_waitlisted_at := en_waitlisted_at e, en_cancelled_at := en_cancelled_at e,
     en_updated_at := now\<rparr>"

definition enrollments_update_status :: "enrollment \<Rightarrow> unit act" where
  "enrollments_update_status e = exec_rows
     (\<lambda>w. cnt (\<lambda>r. en_id r = en_id e) (enrollments w))
     (\<lambda>w. w\<lparr>enrollments :=
        upd_where (\<lambda>r. en_id r = en_id e) (enrollment_write e (clock w)) (enrollments w)\<rparr>)
     ''enrollment not found'' ''update enrollment''"

definition seats :: "uuid \<Rightarrow> enrollment_status \<Rightarrow> enrollment list \<Rightarrow> nat" where
  "seats c st es = cnt (\<lambda>r. en_course_id r = c \<and> en_status r = st) es"

definition enrollments_count_by_course_status :: "uuid \<Rightarrow> enrollment_status \<Rightarrow> nat act" where
  "enrollments_count_by_course_status c st =
     fetch_val (\<lambda>w. seats c st (enrollments w)) ''count enrollments''"

record enrollment_filter =
  ef_page :: int
  ef_per_page :: int
  ef_status :: string

definition enrollments_list ::
  "(enrollment \<Rightarrow> bool) \<Rightarrow> enrollment_filter \<Rightarrow> (enrollment list \<times> nat) act" where
  "enrollments_list base f =
     (let pg = norm_page (ef_page f);
          per = norm_per_page (ef_per_page f);
          sel = (\<lambda>r. base r \<and> (ef_status f = '''' \<or> enrollment_status_text (en_status r) = ef_status f))
      in andThen (fetch_val (\<lambda>w. cnt sel (enrollments w)) ''count enrollments list'') (\<lambda>total.
         andThen (fetch_val (\<lambda>w. map (scan_enrollment w)
            (page_of pg per (order_desc en_created_at (filter sel (enrollments w)))))
            ''list enrollments'') (\<lambda>rows.
         ret (rows, total))))"

definition enrollments_list_by_user ::
  "uuid \<Rightarrow> enrollment_filter \<Rightarrow> (enrollment list \<times> nat) act" where
  "enrollments_list_by_user u f = enrollments_list (\<lambda>r. en_user_id r = u) f"

definition enrollments_list_by_course ::
  "uuid \<Rightarrow> enrollment_filter \<Rightarrow> (enrollment list \<times> nat) act" where
  "enrollments_list_by_course c f = enrollments_list (\<lambda>r. en_course_id r = c) f"

text \<open>\<open>ORDER BY waitlisted_at ASC NULLS LAST, created_at ASC LIMIT 1\<close>: the first minimal row.\<close>

definition waits_before :: "enrollment \<Rightarrow> enrollment \<Rightarrow> bool" where
  "waits_before a b \<longleftrightarrow> (case (en_waitlisted_at a, en_waitlisted_at b) of
       (Some x, Some y) \<Rightarrow> x < y \<or> x = y \<and> en_created_at a < en_created_at b
     | (Some x, None) \<Rightarrow> True
     | (None, Some y) \<Rightarrow> False
     | (None, None) \<Rightarrow> en_created_at a < en_created_at b)"

fun first_waiting :: "enrollment list \<Rightarrow> enrollment option" where
  "first_waiting [] = None"
| "first_waiting (r # rs) = (case first_waiting rs of
       None \<Rightarrow> Some r
     | Some s \<Rightarrow> if waits_before s r then Some s else Some r)"

definition next_waitlisted_row :: "uuid \<Rightarrow> enrollment list \<Rightarrow> enrollment option" where
  "next_waitlisted_row c es =
     first_waiting (filter (\<lambda>r. en_course_id r = c \<and> en_status r = EnWaitlisted) es)"

definition enrollments_next_waitlisted :: "uuid \<Rightarrow> enrollment act" where
  "enrollments_next_waitlisted c = fetch_row
     (\<lambda>w. map_option (scan_enrollment w) (next_waitlisted_row c (enrollments w)))
     ''no waitlisted enrollment'' ''next waitlisted''"

definition enrollments_append_event ::
  "uuid \<Rightarrow> uuid \<Rightarrow> uuid \<Rightarrow> enrollment_event_type \<Rightarrow> enrollment_event act" where
  "enrollments_append_event e c u t = insert_row
     (\<lambda>w. violation True True (pk_free (map ev_id (enrollment_events w)) w)
            (e \<in> set (map en_id (enrollments w)) \<and> has_course w c \<and> has_user w u))
     (\<lambda>w. \<lparr>ev_id = fresh_uuid w, ev_enrollment_id = e, ev_course_id = c, ev_user_id = u,
            ev_type = t, ev_created_at = clock w\<rparr>)
     (\<lambda>r w. w\<lparr>enrollment_events := enrollment_events w @ [r]\<rparr>)
     (\<lambda>st. WrapError ''append enrollment event'' (DriverError st))"

section \<open>Invite codes\<close>

definition invites_create :: "invite_code \<Rightarrow> invite_code act" where
  "invites_create c = insert_row
     (\<lambda>w. violation (case inv_max_uses c of None \<Rightarrow> True | Some n \<Rightarrow> int4 n)
            (sql_nonblank (inv_code c) \<and> (case inv_max_uses c of None \<Rightarrow> True | Some n \<Rightarrow> 0 < n))
            (\<not> list_ex (\<lambda>r. inv_course_id r = inv_course_id c
                        \<and> to_lower (inv_code r) = to_lower (inv_code c)) (invite_codes w)
             \<and> pk_free (map inv_id (invite_codes w)) w)
            (has_course w (inv_course_id c) \<and> has_user w (inv_created_by c)))
     (\<lambda>w. c\<lparr>inv_id := fresh_uuid w, inv_uses := 0, inv_revoked_at := None,
            inv_created_at := clock w, inv_updated_at := clock w\<rparr>)
     (\<lambda>r w. w\<lparr>invite_codes := invite_codes w @ [r]\<rparr>)
     (insert_err ''invite code already exists for this course'' ''create invite code'')"

definition invites_get_by_id :: "uuid \<Rightarrow> invite_code act" where
  "invites_get_by_id i = fetch_row (\<lambda>w. find (\<lambda>r. inv_id r = i) (invite_codes w))
     ''invite code not found'' ''get invite code''"

definition invites_get_by_course_code :: "uuid \<Rightarrow> string \<Rightarrow> invite_code act" where
  "invites_get_by_course_code c code = fetch_row
     (\<lambda>w. find (\<lambda>r. inv_course_id r = c \<and> to_lower (inv_code r) = to_lower (trim_space code))
            (invite_codes w))
     ''invite code not found'' ''get invite code by course''"

definition invites_list_by_course :: "uuid \<Rightarrow> invite_code list act" where
  "invites_list_by_course c = fetch_val
     (\<lambda>w. order_desc inv_created_at (filter (\<lambda>r. inv_course_id r = c) (invite_codes w)))
     ''list invite codes''"

definition invites_revoke :: "uuid \<Rightarrow> unit act" where
  "invites_revoke i = exec_rows
     (\<lambda>w. cnt (\<lambda>r. inv_id r = i \<and> inv_revoked_at r = None) (invite_codes w))
     (\<lambda>w. w\<lparr>invite_codes := upd_where (\<lambda>r. inv_id r = i \<and> inv_revoked_at r = None)
        (\<lambda>r. r\<lparr>inv_revoked_at := Some (clock w), inv_updated_at := clock w\<rparr>) (invite_codes w)\<rparr>)
     ''invite code not found'' ''revoke invite code''"

definition invites_increment_uses :: "uuid \<Rightarrow> unit act" where
  "invites_increment_uses i = exec_check
     (\<lambda>w. cnt (\<lambda>r. inv_id r = i) (invite_codes w))
     (\<lambda>w. if list_ex (\<lambda>r. inv_id r = i \<and> \<not> int4 (inv_uses r + 1)) (invite_codes w)
          then Some st_range else None)
     (\<lambda>w. w\<lparr>invite_codes := upd_where (\<lambda>r. inv_id r = i)
        (\<lambda>r. r\<lparr>inv_uses := inv_uses r + 1, inv_updated_at := clock w\<rparr>) (invite_codes w)\<rparr>)
     ''invite code not found'' ''increment invite uses''"

section \<open>Facts\<close>

lemma scan_enrollment_simps [simp]:
  "en_id (scan_enrollment w e) = en_id e" "en_status (scan_enrollment w e) = en_status e"
  "en_course_id (scan_enrollment w e) = en_course_id e"
  "en_user_id (scan_enrollment w e) = en_user_id e"
  "en_source (scan_enrollment w e) = en_source e"
  "en_invite_id (scan_enrollment w e) = en_invite_id e"
  "en_enrolled_at (scan_enrollment w e) = en_enrolled_at e"
  "en_waitlisted_at (scan_enrollment w e) = en_waitlisted_at e"
  "en_cancelled_at (scan_enrollment w e) = en_cancelled_at e"
  by (simp_all add: scan_enrollment_def)

lemma scan_enrollment_faults [simp]: "scan_enrollment (w\<lparr>faults := f\<rparr>) e = scan_enrollment w e"
  by (simp add: scan_enrollment_def)

lemma scan_enrollment_pop [simp]: "scan_enrollment (pop w) e = scan_enrollment w e"
  by (simp add: scan_enrollment_def)

lemma blank_joins_simps [simp]:
  "en_id (blank_joins e) = en_id e" "en_status (blank_joins e) = en_status e"
  "en_course_id (blank_joins e) = en_course_id e" "en_user_id (blank_joins e) = en_user_id e"
  "en_source (blank_joins e) = en_source e" "en_invite_id (blank_joins e) = en_invite_id e"
  "en_enrolled_at (blank_joins e) = en_enrolled_at e"
  "en_waitlisted_at (blank_joins e) = en_waitlisted_at e"
  "en_cancelled_at (blank_joins e) = en_cancelled_at e"
  by (simp_all add: blank_joins_def)

lemma enrollment_write_simps [simp]:
  "en_id (enrollment_write e n r) = en_id r" "en_course_id (enrollment_write e n r) = en_course_id r"
  "en_user_id (enrollment_write e n r) = en_user_id r"
  "en_status (enrollment_write e n r) = en_status e"
  "en_source (enrollment_write e n r) = en_source e"
  "en_invite_id (enrollment_write e n r) = en_invite_id e"
  "en_enrolled_at (enrollment_write e n r) = en_enrolled_at e"
  "en_waitlisted_at (enrollment_write e n r) = en_waitlisted_at e"
  "en_cancelled_at (enrollment_write e n r) = en_cancelled_at e"
  by (simp_all add: enrollment_write_def)

text \<open>The queue: the row the query returns waits, and no waiting row of the course is before it.\<close>

lemma waits_before_irrefl [simp]: "\<not> waits_before a a"
  by (simp add: waits_before_def split: option.split)

lemma waits_before_trans: "waits_before a b \<Longrightarrow> waits_before b c \<Longrightarrow> waits_before a c"
  by (auto simp: waits_before_def split: option.splits)

lemma waits_before_negtrans: "\<not> waits_before a b \<Longrightarrow> \<not> waits_before b c \<Longrightarrow> \<not> waits_before a c"
  by (auto simp: waits_before_def split: option.splits)

lemma first_waiting_None [simp]: "first_waiting rs = None \<longleftrightarrow> rs = []"
  by (cases rs) (auto split: option.splits)

lemma first_waiting_Some:
  "first_waiting rs = Some r \<Longrightarrow> r \<in> set rs \<and> (\<forall>s \<in> set rs. \<not> waits_before s r)"
proof (induction rs arbitrary: r)
  case Nil
  then show ?case by simp
next
  case (Cons a rs)
  show ?case
  proof (cases "first_waiting rs")
    case None
    with Cons.prems show ?thesis by simp
  next
    case (Some s)
    with Cons.IH have s: "s \<in> set rs" "\<forall>t \<in> set rs. \<not> waits_before t s" by auto
    show ?thesis
    proof (cases "waits_before s a")
      case True
      with Cons.prems Some have "r = s" by simp
      moreover have "\<not> waits_before a s"
        using True waits_before_trans waits_before_irrefl by blast
      ultimately show ?thesis using s by auto
    next
      case False
      with Cons.prems Some have "r = a" by simp
      then show ?thesis
        using s False waits_before_negtrans by auto
    qed
  qed
qed

lemma next_waitlisted_None:
  "next_waitlisted_row c es = None \<longleftrightarrow> seats c EnWaitlisted es = 0"
  by (simp add: next_waitlisted_row_def seats_def cnt_def)

lemma next_waitlisted_Some:
  assumes "next_waitlisted_row c es = Some r"
  shows "r \<in> set es" "en_course_id r = c" "en_status r = EnWaitlisted"
    "\<And>s. s \<in> set es \<Longrightarrow> en_course_id s = c \<Longrightarrow> en_status s = EnWaitlisted \<Longrightarrow> \<not> waits_before s r"
  using first_waiting_Some [OF assms [unfolded next_waitlisted_row_def]] by auto

end
