(* ===== verification/Enrollments.thy ===== *)
theory Enrollments
  imports EnrollmentRepo
begin

text \<open>
  \<open>EnrollmentService\<close> (\<open>internal/service/enrollment.go\<close>): seats, waitlist, invite codes, access.
  One definition per method; the order of the checks and of the statements is the code's. The clock
  is read once per request.
\<close>

definition validate_invite :: "time \<Rightarrow> invite_code \<Rightarrow> err option" where
  "validate_invite now iv =
     (if inv_revoked_at iv \<noteq> None then Some (forbidden ''invite code has been revoked'')
      else if (case inv_expires_at iv of None \<Rightarrow> False | Some t \<Rightarrow> t < now)
        then Some (forbidden ''invite code has expired'')
      else if (case inv_max_uses iv of None \<Rightarrow> False | Some n \<Rightarrow> n \<le> inv_uses iv)
        then Some (forbidden ''invite code has reached its use limit'')
      else None)"

definition decide_seat :: "course \<Rightarrow> (enrollment_status \<times> enrollment_event_type) act" where
  "decide_seat course =
     (case co_capacity course of
        None \<Rightarrow> ret (EnActive, EvEnrolled)
      | Some cap \<Rightarrow>
          andThen (enrollments_count_by_course_status (co_id course) EnActive) (\<lambda>active.
          if int active < cap then ret (EnActive, EvEnrolled)
          else if co_waitlist_enabled course then ret (EnWaitlisted, EvWaitlisted)
          else raise (conflict ''course is full'')))"

definition emit :: "enrollment \<Rightarrow> enrollment_event_type \<Rightarrow> unit act" where
  "emit en t = andThen (enrollments_append_event (en_id en) (en_course_id en) (en_user_id en) t)
     (\<lambda>_. ret ())"

definition new_enrollment ::
  "uuid \<Rightarrow> uuid \<Rightarrow> enrollment_status \<Rightarrow> enrollment_source \<Rightarrow> uuid option \<Rightarrow> time \<Rightarrow> enrollment" where
  "new_enrollment c u st src iv now =
     \<lparr>en_id = '''', en_course_id = c, en_user_id = u, en_status = st, en_source = src,
      en_invite_id = iv,
      en_enrolled_at = (if st = EnActive then Some now else None),
      en_waitlisted_at = (if st = EnActive then None else Some now),
      en_cancelled_at = None, en_created_at = 0, en_updated_at = 0,
      en_user_email = '''', en_user_name = '''', en_course_title = '''', en_course_slug = ''''\<rparr>"

definition reactivated ::
  "enrollment_status \<Rightarrow> enrollment_source \<Rightarrow> uuid option \<Rightarrow> time \<Rightarrow> enrollment \<Rightarrow> enrollment" where
  "reactivated st src iv now e = e\<lparr>en_status := st, en_cancelled_at := None, en_source := src,
     en_invite_id := iv,
     en_enrolled_at := (if st = EnActive then Some now else None),
     en_waitlisted_at := (if st = EnActive then None else Some now)\<rparr>"

definition use_invite :: "invite_code option \<Rightarrow> unit act" where
  "use_invite iv = (case iv of None \<Rightarrow> ret () | Some i \<Rightarrow> invites_increment_uses (inv_id i))"

definition reactivate :: "course \<Rightarrow> enrollment \<Rightarrow> invite_code option \<Rightarrow> enrollment act" where
  "reactivate course existing iv =
     andThen (decide_seat course) (\<lambda>(st, ev).
     andThen (asks clock) (\<lambda>now.
     let e = reactivated st (if iv = None then SourceSelf else SourceInviteCode)
               (case iv of None \<Rightarrow> en_invite_id existing | Some i \<Rightarrow> Some (inv_id i)) now existing
     in andThen (enrollments_update_status e) (\<lambda>_.
        andThen (use_invite iv) (\<lambda>_.
        andThen (emit e ev) (\<lambda>_.
        enrollments_get_by_id (en_id existing))))))"

text \<open>The invite of an enrollment request: a code is looked up and validated; without one the course
  has to be open.\<close>

definition find_invite :: "course \<Rightarrow> uuid \<Rightarrow> string \<Rightarrow> invite_code option act" where
  "find_invite course c code =
     (if code \<noteq> '''' then
        andThen (invites_get_by_course_code c code) (\<lambda>iv.
        andThen (asks clock) (\<lambda>now.
        andThen (check (validate_invite now iv)) (\<lambda>_.
        ret (Some iv))))
      else if \<not> co_enrollment_open course
        then raise (forbidden ''enrollment is closed; an invite code is required'')
      else ret None)"

text \<open>The new row, the use of the invite, the event: \<open>Enroll\<close> after the seat is decided.\<close>

definition enroll_commit ::
  "uuid \<Rightarrow> uuid \<Rightarrow> invite_code option \<Rightarrow> enrollment_status \<times> enrollment_event_type \<Rightarrow> enrollment act" where
  "enroll_commit actor c iv = (\<lambda>(st, ev).
     andThen (asks clock) (\<lambda>now.
     andThen (enrollments_create (new_enrollment c actor st
        (if iv = None then SourceSelf else SourceInviteCode)
        (map_option inv_id iv) now)) (\<lambda>en.
     andThen (use_invite iv) (\<lambda>_.
     andThen (emit en ev) (\<lambda>_.
     enrollments_get_by_id (en_id en))))))"

definition enroll :: "uuid \<Rightarrow> uuid \<Rightarrow> string \<Rightarrow> enrollment act" where
  "enroll actor c code =
     andThen (courses_get_by_id c) (\<lambda>course.
     andThen (guard (co_status course = CoursePublished)
       (validation ''only published courses accept enrollment'')) (\<lambda>_.
     andThen (guard (co_teacher_id course \<noteq> actor)
       (validation ''teachers cannot enroll in their own course'')) (\<lambda>_.
     andThen (guard (\<not> 0 < co_price_cents course)
       (validation ''paid course requires checkout; use POST /courses/:id/checkout'')) (\<lambda>_.
     andThen (find_invite course c (trim_space code)) (\<lambda>iv.
     andThen (optional is_not_found (enrollments_get_by_course_user c actor)) (\<lambda>existing.
     case existing of
       Some e \<Rightarrow> (if en_status e = EnCancelled then reactivate course e iv
                  else raise (conflict ''already enrolled in this course''))
     | None \<Rightarrow> andThen (decide_seat course) (enroll_commit actor c iv)))))))"

definition reactivate_from_payment :: "course \<Rightarrow> enrollment \<Rightarrow> enrollment act" where
  "reactivate_from_payment course existing =
     andThen (decide_seat course) (\<lambda>(st, ev).
     andThen (asks clock) (\<lambda>now.
     let e = reactivated st SourcePayment None now existing
     in andThen (enrollments_update_status e) (\<lambda>_.
        andThen (emit e ev) (\<lambda>_.
        enrollments_get_by_id (en_id existing)))))"

definition enroll_from_payment :: "uuid \<Rightarrow> uuid \<Rightarrow> enrollment act" where
  "enroll_from_payment user c =
     andThen (courses_get_by_id c) (\<lambda>course.
     andThen (guard (co_status course = CoursePublished)
       (validation ''only published courses accept enrollment'')) (\<lambda>_.
     andThen (optional is_not_found (enrollments_get_by_course_user c user)) (\<lambda>existing.
     case existing of
       Some e \<Rightarrow> (case en_status e of
           EnActive \<Rightarrow> ret e
         | EnWaitlisted \<Rightarrow> ret e
         | EnCancelled \<Rightarrow> reactivate_from_payment course e)
     | None \<Rightarrow>
         andThen (decide_seat course) (\<lambda>(st, ev).
         andThen (asks clock) (\<lambda>now.
         andThen (enrollments_create (new_enrollment c user st SourcePayment None now)) (\<lambda>en.
         andThen (emit en ev) (\<lambda>_.
         enrollments_get_by_id (en_id en))))))))"

text \<open>\<open>promoteWaitlist\<close>: the learner at the head of the queue gets the seat, if there is one free.\<close>

definition promote_next :: "uuid \<Rightarrow> unit act" where
  "promote_next c =
     andThen (optional is_not_found (enrollments_next_waitlisted c)) (\<lambda>next.
     case next of
       None \<Rightarrow> ret ()
     | Some n \<Rightarrow>
         andThen (asks clock) (\<lambda>now.
         let e = n\<lparr>en_status := EnActive, en_enrolled_at := Some now\<rparr>
         in andThen (enrollments_update_status e) (\<lambda>_.
            emit e EvActivated)))"

definition promote_waitlist :: "uuid \<Rightarrow> unit act" where
  "promote_waitlist c =
     andThen (courses_get_by_id c) (\<lambda>course.
     if \<not> co_waitlist_enabled course then ret ()
     else (case co_capacity course of
         None \<Rightarrow> promote_next c
       | Some cap \<Rightarrow>
           andThen (enrollments_count_by_course_status c EnActive) (\<lambda>active.
           if cap \<le> int active then ret () else promote_next c)))"

definition unenroll :: "uuid \<Rightarrow> uuid \<Rightarrow> bool \<Rightarrow> enrollment act" where
  "unenroll actor c admin =
     andThen (enrollments_get_by_course_user c actor) (\<lambda>en.
     andThen (guard (\<not> (en_user_id en \<noteq> actor \<and> \<not> admin))
       (forbidden ''cannot unenroll another user'')) (\<lambda>_.
     andThen (guard (en_status en \<noteq> EnCancelled)
       (conflict ''enrollment already cancelled'')) (\<lambda>_.
     andThen (asks clock) (\<lambda>now.
     let e = en\<lparr>en_status := EnCancelled, en_cancelled_at := Some now\<rparr>
     in andThen (enrollments_update_status e) (\<lambda>_.
        andThen (emit e EvCancelled) (\<lambda>_.
        andThen (if en_status en = EnActive then promote_waitlist c else ret ()) (\<lambda>_.
        enrollments_get_by_id (en_id en))))))))"

definition list_my_enrollments :: "uuid \<Rightarrow> enrollment_filter \<Rightarrow> (enrollment list \<times> nat) act" where
  "list_my_enrollments actor f = enrollments_list_by_user actor f"

definition require_course_manage :: "uuid \<Rightarrow> uuid \<Rightarrow> bool \<Rightarrow> unit act" where
  "require_course_manage actor c admin =
     andThen (courses_get_by_id c) (\<lambda>course.
     if admin \<or> co_teacher_id course = actor then ret ()
     else raise (forbidden ''only the course teacher or an admin can manage enrollments''))"

definition list_for_course ::
  "uuid \<Rightarrow> uuid \<Rightarrow> enrollment_filter \<Rightarrow> bool \<Rightarrow> (enrollment list \<times> nat) act" where
  "list_for_course actor c f admin =
     andThen (require_course_manage actor c admin) (\<lambda>_. enrollments_list_by_course c f)"

record course_access =
  ca_course_id :: uuid
  ca_can_access :: bool
  ca_is_teacher :: bool
  ca_is_admin :: bool
  ca_enrollment :: "enrollment option"

definition get_access :: "uuid \<Rightarrow> uuid \<Rightarrow> bool \<Rightarrow> course_access act" where
  "get_access actor c admin =
     andThen (courses_get_by_id c) (\<lambda>course.
     let access = \<lparr>ca_course_id = c, ca_can_access = False,
                    ca_is_teacher = (actor \<noteq> '''' \<and> co_teacher_id course = actor),
                    ca_is_admin = admin, ca_enrollment = None\<rparr>
     in if ca_is_teacher access \<or> ca_is_admin access then ret (access\<lparr>ca_can_access := True\<rparr>)
        else if actor = '''' then ret access
        else andThen (optional is_not_found (enrollments_get_by_course_user c actor)) (\<lambda>en.
          case en of
            None \<Rightarrow> ret access
          | Some e \<Rightarrow> ret (access\<lparr>ca_enrollment := Some e,
                                ca_can_access := (en_status e = EnActive)\<rparr>)))"

definition has_active_enrollment :: "uuid \<Rightarrow> uuid \<Rightarrow> bool act" where
  "has_active_enrollment c user =
     (if user = '''' then ret False
      else andThen (optional is_not_found (enrollments_get_by_course_user c user)) (\<lambda>en.
        case en of None \<Rightarrow> ret False | Some e \<Rightarrow> ret (en_status e = EnActive)))"

definition update_settings ::
  "uuid \<Rightarrow> uuid \<Rightarrow> int option \<Rightarrow> bool option \<Rightarrow> bool option \<Rightarrow> bool \<Rightarrow> course act" where
  "update_settings actor c capacity opn waitlist admin =
     andThen (require_course_manage actor c admin) (\<lambda>_.
     andThen (courses_get_by_id c) (\<lambda>course.
     courses_update_enrollment_settings c
       \<lparr>es_capacity = (case capacity of None \<Rightarrow> co_capacity course
                        | Some n \<Rightarrow> if n \<le> 0 then None else Some n),
        es_open = (case opn of None \<Rightarrow> co_enrollment_open course | Some b \<Rightarrow> b),
        es_waitlist = (case waitlist of None \<Rightarrow> co_waitlist_enabled course | Some b \<Rightarrow> b)\<rparr>))"

text \<open>\<open>hex.EncodeToString\<close>.\<close>

definition hex_digit :: "nat \<Rightarrow> char" where
  "hex_digit n = (if n < 10 then char_of (48 + n) else char_of (87 + n))"

definition hex_encode :: "string \<Rightarrow> string" where
  "hex_encode bs =
     concat (map (\<lambda>b. [hex_digit ((of_char b :: nat) div 16), hex_digit (of_char b mod 16)]) bs)"

text \<open>\<open>random4\<close>: the four bytes \<open>rand.Read\<close> yields, or its failure.\<close>

definition create_invite_code ::
  "string option \<Rightarrow> uuid \<Rightarrow> uuid \<Rightarrow> string \<Rightarrow> int option \<Rightarrow> time option \<Rightarrow> bool \<Rightarrow> invite_code act" where
  "create_invite_code random4 actor c code0 max_uses expires admin =
     andThen (require_course_manage actor c admin) (\<lambda>_.
     andThen (if trim_space code0 = '''' then
                (case random4 of
                   None \<Rightarrow> raise (internal ''failed to generate invite code'')
                 | Some raw \<Rightarrow> ret (to_upper (hex_encode raw)))
              else ret (trim_space code0)) (\<lambda>code.
     andThen (guard (case max_uses of None \<Rightarrow> True | Some n \<Rightarrow> \<not> n \<le> 0)
       (validation ''max_uses must be > 0 when set'')) (\<lambda>_.
     andThen (asks clock) (\<lambda>now.
     andThen (guard (case expires of None \<Rightarrow> True | Some t \<Rightarrow> \<not> t < now)
       (validation ''expires_at must be in the future'')) (\<lambda>_.
     invites_create \<lparr>inv_id = '''', inv_course_id = c, inv_code = code, inv_max_uses = max_uses,
       inv_uses = 0, inv_expires_at = expires, inv_created_by = actor, inv_revoked_at = None,
       inv_created_at = 0, inv_updated_at = 0\<rparr>)))))"

definition list_invite_codes :: "uuid \<Rightarrow> uuid \<Rightarrow> bool \<Rightarrow> invite_code list act" where
  "list_invite_codes actor c admin =
     andThen (require_course_manage actor c admin) (\<lambda>_. invites_list_by_course c)"

definition revoke_invite_code :: "uuid \<Rightarrow> uuid \<Rightarrow> uuid \<Rightarrow> bool \<Rightarrow> unit act" where
  "revoke_invite_code actor c i admin =
     andThen (require_course_manage actor c admin) (\<lambda>_.
     andThen (invites_get_by_id i) (\<lambda>iv.
     andThen (guard (inv_course_id iv = c) (not_found ''invite code not found'')) (\<lambda>_.
     invites_revoke i)))"

lemmas enrollment_defs = enroll_def enroll_commit_def reactivate_def find_invite_def use_invite_def
  enroll_from_payment_def reactivate_from_payment_def promote_waitlist_def promote_next_def unenroll_def
  decide_seat_def emit_def

lemmas enrollment_repo_defs = courses_get_by_id_eq enrollments_create_def enrollments_get_by_id_def
  enrollments_get_by_course_user_def enrollments_update_status_def
  enrollments_count_by_course_status_def enrollments_next_waitlisted_def
  enrollments_append_event_def invites_get_by_course_code_def invites_increment_uses_def

section \<open>Relations kept by the service\<close>

text \<open>
  A relation kept by the two writes of \<open>enrollments\<close>, and that does not look at the invite codes and
  the events, is kept by each request.
\<close>

locale enrollment_writes = world_order +
  assumes R_create: "changes R (enrollments_create e)"
    and R_update: "changes R (enrollments_update_status e)"
    and R_invites: "R w (w\<lparr>invite_codes := is\<rparr>)"
    and R_events: "R w (w\<lparr>enrollment_events := evs\<rparr>)"
begin

lemmas written [moves] = R_create R_update

lemma written_statements [moves]:
  "changes R (courses_get_by_id i)"
  "changes R (enrollments_get_by_id i)"
  "changes R (enrollments_get_by_course_user c u)"
  "changes R (enrollments_count_by_course_status c st)"
  "changes R (enrollments_next_waitlisted c)"
  "changes R (enrollments_append_event i c u t)"
  "changes R (invites_get_by_course_code c code)"
  "changes R (invites_increment_uses i)"
  "changes R (invites_create iv)"
  "changes R (invites_get_by_id i)"
  "changes R (invites_revoke i)"
  by (auto simp: enrollment_repo_defs invites_create_def invites_get_by_id_def invites_revoke_def
      R_invites
      intro!: moves changes_insert_row changes_exec_rows changes_exec_check
      intro: R_trans [OF _ R_invites] R_trans [OF _ R_events])

lemma written_requests [moves]:
  "changes R (enroll actor c code)"
  "changes R (enroll_from_payment user c)"
  "changes R (unenroll actor c admin)"
  "changes R (get_access actor c admin)"
  "changes R (has_active_enrollment c user)"
  "changes R (create_invite_code rnd actor c code n ex admin)"
  "changes R (revoke_invite_code actor c i admin)"
  by (auto simp: enrollment_defs get_access_def has_active_enrollment_def create_invite_code_def
      revoke_invite_code_def require_course_manage_def Let_def
      intro!: moves split: enrollment_status.split)

end

text \<open>
  A relation that does not look at any of the three tables the service writes: what a component
  that calls it knows of its own tables.
\<close>

locale enrollment_frame = world_order +
  assumes R_enrollments: "R w (w\<lparr>enrollments := es\<rparr>)"
    and R_codes: "R w (w\<lparr>invite_codes := is\<rparr>)"
    and R_log: "R w (w\<lparr>enrollment_events := evs\<rparr>)"
begin

sublocale framed: enrollment_writes R
  by unfold_locales
    (auto simp: enrollments_create_def enrollments_update_status_def R_enrollments R_codes R_log
      intro!: changes_insert_row changes_exec_rows intro: R_trans [OF _ R_enrollments])

end

end
