(* ===== verification/PaymentRepo.thy ===== *)
theory PaymentRepo
  imports Enrollments
begin

text \<open>
  \<open>OrderRepository\<close>, \<open>CouponRepository\<close> and \<open>PaymentWebhookRepository\<close>
  (\<open>internal/repository/postgres/payment.go\<close>): one definition per method, with the constraints of
  \<open>migrations/*_payments.up.sql\<close>. A \<open>NULL\<close> reference or key is the empty string, as the queries
  read it (\<open>COALESCE\<close>).
\<close>

section \<open>Orders\<close>

definition coupon_code_of :: "world \<Rightarrow> uuid option \<Rightarrow> string" where
  "coupon_code_of w cid = (case cid of None \<Rightarrow> ''''
     | Some i \<Rightarrow> (case find (\<lambda>r. cp_id r = i) (coupons w) of None \<Rightarrow> '''' | Some r \<Rightarrow> cp_code r))"

definition scan_order :: "world \<Rightarrow> purchase_order \<Rightarrow> purchase_order" where
  "scan_order w r = r\<lparr>od_user_email := user_email_of w (od_user_id r),
     od_user_name := user_name_of w (od_user_id r),
     od_course_title := course_title_of w (od_course_id r),
     od_course_slug := course_slug_of w (od_course_id r),
     od_coupon_code := coupon_code_of w (od_coupon_id r)\<rparr>"

text \<open>A blank text is stored as \<open>NULL\<close>, another one as it is.\<close>

definition null_blank :: "string \<Rightarrow> string" where
  "null_blank s = (if trim_space s = '''' then '''' else s)"

definition order_row :: "purchase_order \<Rightarrow> purchase_order" where
  "order_row od = od\<lparr>od_provider_ref := null_blank (od_provider_ref od),
     od_idem_key := null_blank (od_idem_key od), od_enrollment_id := None,
     od_paid_at := None, od_failed_at := None, od_refunded_at := None, od_cancelled_at := None,
     od_user_email := '''', od_user_name := '''', od_course_title := '''', od_course_slug := '''',
     od_coupon_code := ''''\<rparr>"

definition order_checks :: "purchase_order \<Rightarrow> bool" where
  "order_checks od \<longleftrightarrow> od_provider od \<in> {''manual'', ''stripe'', ''chapa''}
     \<and> 0 \<le> od_amount od \<and> 0 \<le> od_discount od \<and> 0 \<le> od_total od \<and> od_total od \<le> od_amount od"

definition orders_create :: "purchase_order \<Rightarrow> purchase_order act" where
  "orders_create od = insert_row
     (\<lambda>w. violation (int4 (od_amount od) \<and> int4 (od_discount od) \<and> int4 (od_total od)) (order_checks od)
            (\<not> (null_blank (od_idem_key od) \<noteq> ''''
                \<and> list_ex (\<lambda>r. od_idem_key r = od_idem_key od) (orders w))
             \<and> pk_free (map od_id (orders w)) w)
            (has_user w (od_user_id od) \<and> has_course w (od_course_id od)
             \<and> (case od_coupon_id od of None \<Rightarrow> True | Some i \<Rightarrow> i \<in> set (map cp_id (coupons w)))))
     (\<lambda>w. od\<lparr>od_id := fresh_uuid w, od_created_at := clock w, od_updated_at := clock w\<rparr>)
     (\<lambda>r w. w\<lparr>orders := orders w @ [order_row r]\<rparr>)
     (insert_err ''duplicate idempotency key'' ''create order'')"

definition orders_get_by_id :: "uuid \<Rightarrow> purchase_order act" where
  "orders_get_by_id i = fetch_row
     (\<lambda>w. map_option (scan_order w) (find (\<lambda>r. od_id r = i) (orders w)))
     ''order not found'' ''get order''"

definition orders_get_by_idempotency_key :: "string \<Rightarrow> purchase_order act" where
  "orders_get_by_idempotency_key key = fetch_row
     (\<lambda>w. map_option (scan_order w)
            (find (\<lambda>r. od_idem_key r \<noteq> '''' \<and> od_idem_key r = key) (orders w)))
     ''order not found'' ''get order by idempotency key''"

definition order_write :: "purchase_order \<Rightarrow> time \<Rightarrow> purchase_order \<Rightarrow> purchase_order" where
  "order_write od now r = r\<lparr>od_status := od_status od, od_provider_ref := null_blank (od_provider_ref od),
     od_enrollment_id := od_enrollment_id od, od_paid_at := od_paid_at od, od_failed_at := od_failed_at od,
     od_refunded_at := od_refunded_at od, od_cancelled_at := od_cancelled_at od, od_updated_at := now\<rparr>"

definition orders_update_status :: "purchase_order \<Rightarrow> unit act" where
  "orders_update_status od = exec_check
     (\<lambda>w. cnt (\<lambda>r. od_id r = od_id od) (orders w))
     (\<lambda>w. violation True True True
        (case od_enrollment_id od of None \<Rightarrow> True | Some e \<Rightarrow> e \<in> set (map en_id (enrollments w))))
     (\<lambda>w. w\<lparr>orders := upd_where (\<lambda>r. od_id r = od_id od) (order_write od (clock w)) (orders w)\<rparr>)
     ''order not found'' ''update order status''"

record order_filter =
  of_page :: int
  of_per_page :: int
  of_status :: string

definition normalize_order_page :: "int \<Rightarrow> int \<Rightarrow> int \<times> int" where
  "normalize_order_page page per =
     (let page = (if page < 1 then 1 else page);
          per = (if per < 1 then 20 else per);
          per = (if 100 < per then 100 else per)
      in (page, per))"

definition orders_list ::
  "(purchase_order \<Rightarrow> bool) \<Rightarrow> string \<Rightarrow> string \<Rightarrow> order_filter \<Rightarrow> (purchase_order list \<times> nat) act" where
  "orders_list base count_ctx list_ctx f =
     (let (page, per) = normalize_order_page (of_page f) (of_per_page f);
          sel = (\<lambda>r. base r \<and> (of_status f = '''' \<or> order_status_text (od_status r) = of_status f))
      in andThen (fetch_val (\<lambda>w. cnt sel (orders w)) count_ctx) (\<lambda>total.
         andThen (fetch_val (\<lambda>w. map (scan_order w)
            (page_of page per (order_desc od_created_at (filter sel (orders w))))) list_ctx) (\<lambda>rows.
         ret (rows, total))))"

definition orders_list_by_user :: "uuid \<Rightarrow> order_filter \<Rightarrow> (purchase_order list \<times> nat) act" where
  "orders_list_by_user u = orders_list (\<lambda>r. od_user_id r = u) ''count user orders'' ''list user orders''"

definition orders_list_by_course :: "uuid \<Rightarrow> order_filter \<Rightarrow> (purchase_order list \<times> nat) act" where
  "orders_list_by_course c =
     orders_list (\<lambda>r. od_course_id r = c) ''count course orders'' ''list course orders''"

section \<open>Coupons\<close>

definition null_if_empty :: "string \<Rightarrow> string option" where
  "null_if_empty s = (let t = trim_space s in if t = '''' then None else Some t)"

definition coupon_checks :: "coupon \<Rightarrow> bool" where
  "coupon_checks c \<longleftrightarrow> sql_nonblank (cp_code c) \<and> cp_discount_type c \<in> {''percent'', ''fixed''}
     \<and> 0 < cp_discount_value c
     \<and> (cp_discount_type c = ''percent'' \<longrightarrow> cp_discount_value c \<le> 100)
     \<and> (case cp_max_uses c of None \<Rightarrow> True | Some n \<Rightarrow> 0 < n)"

definition coupons_create :: "coupon \<Rightarrow> coupon act" where
  "coupons_create c = insert_row
     (\<lambda>w. violation (int4 (cp_discount_value c) \<and> (case cp_max_uses c of None \<Rightarrow> True | Some n \<Rightarrow> int4 n))
            (coupon_checks c)
            (\<not> list_ex (\<lambda>r. to_lower (cp_code r) = to_lower (cp_code c)) (coupons w)
             \<and> pk_free (map cp_id (coupons w)) w)
            ((case cp_course_id c of None \<Rightarrow> True | Some i \<Rightarrow> has_course w i) \<and> has_user w (cp_created_by c)))
     (\<lambda>w. c\<lparr>cp_id := fresh_uuid w, cp_uses := 0, cp_created_at := clock w, cp_updated_at := clock w\<rparr>)
     (\<lambda>r w. w\<lparr>coupons := coupons w @ [r\<lparr>cp_revoked_at := None,
        cp_currency := (case null_if_empty (cp_currency c) of None \<Rightarrow> '''' | Some s \<Rightarrow> s)\<rparr>]\<rparr>)
     (insert_err ''coupon code already exists'' ''create coupon'')"

definition coupons_get_by_id :: "uuid \<Rightarrow> coupon act" where
  "coupons_get_by_id i =
     fetch_row (\<lambda>w. find (\<lambda>r. cp_id r = i) (coupons w)) ''coupon not found'' ''get coupon''"

definition coupons_get_by_code :: "string \<Rightarrow> coupon act" where
  "coupons_get_by_code code = fetch_row
     (\<lambda>w. find (\<lambda>r. to_lower (cp_code r) = to_lower (trim_space code)) (coupons w))
     ''coupon not found'' ''get coupon by code''"

definition coupons_list :: "uuid option \<Rightarrow> coupon list act" where
  "coupons_list c = fetch_val
     (\<lambda>w. order_desc cp_created_at
        (filter (\<lambda>r. c = None \<or> cp_course_id r = c \<or> cp_course_id r = None) (coupons w)))
     ''list coupons''"

definition coupons_increment_uses :: "uuid \<Rightarrow> unit act" where
  "coupons_increment_uses i = exec_check
     (\<lambda>w. cnt (\<lambda>r. cp_id r = i) (coupons w))
     (\<lambda>w. if list_ex (\<lambda>r. cp_id r = i \<and> \<not> int4 (cp_uses r + 1)) (coupons w)
          then Some st_range else None)
     (\<lambda>w. w\<lparr>coupons := upd_where (\<lambda>r. cp_id r = i)
        (\<lambda>r. r\<lparr>cp_uses := cp_uses r + 1, cp_updated_at := clock w\<rparr>) (coupons w)\<rparr>)
     ''coupon not found'' ''increment coupon uses''"

definition coupons_revoke :: "uuid \<Rightarrow> unit act" where
  "coupons_revoke i = exec_rows
     (\<lambda>w. cnt (\<lambda>r. cp_id r = i \<and> cp_revoked_at r = None) (coupons w))
     (\<lambda>w. w\<lparr>coupons := upd_where (\<lambda>r. cp_id r = i \<and> cp_revoked_at r = None)
        (\<lambda>r. r\<lparr>cp_revoked_at := Some (clock w), cp_updated_at := clock w\<rparr>) (coupons w)\<rparr>)
     ''coupon not found or already revoked'' ''revoke coupon''"

section \<open>Webhook events\<close>

text \<open>\<open>Record\<close> returns \<open>false\<close> for an event that is already there (\<open>23505\<close>).\<close>

definition webhooks_record :: "webhook_event \<Rightarrow> bool act" where
  "webhooks_record e =
     orElse
       (andThen (insert_row
          (\<lambda>w. violation True (wh_provider e \<in> {''manual'', ''stripe'', ''chapa''})
                 (\<not> list_ex (\<lambda>r. wh_provider r = wh_provider e \<and> wh_event_id r = wh_event_id e)
                      (webhook_events w) \<and> pk_free (map wh_id (webhook_events w)) w)
                 (case wh_order_id e of None \<Rightarrow> True | Some i \<Rightarrow> i \<in> set (map od_id (orders w))))
          (\<lambda>w. e\<lparr>wh_id := fresh_uuid w, wh_processed_at := clock w, wh_created_at := clock w\<rparr>)
          (\<lambda>r w. w\<lparr>webhook_events := webhook_events w @ [r]\<rparr>)
          DriverError) (\<lambda>_. ret True))
       (\<lambda>d. if d = DriverError st_unique then ret False
            else raise (WrapError ''record webhook event'' d))"

section \<open>Facts\<close>

lemma scan_order_simps [simp]:
  "od_id (scan_order w r) = od_id r" "od_user_id (scan_order w r) = od_user_id r"
  "od_course_id (scan_order w r) = od_course_id r" "od_status (scan_order w r) = od_status r"
  "od_amount (scan_order w r) = od_amount r" "od_discount (scan_order w r) = od_discount r"
  "od_total (scan_order w r) = od_total r" "od_coupon_id (scan_order w r) = od_coupon_id r"
  "od_currency (scan_order w r) = od_currency r"
  "od_provider (scan_order w r) = od_provider r" "od_provider_ref (scan_order w r) = od_provider_ref r"
  "od_idem_key (scan_order w r) = od_idem_key r"
  "od_enrollment_id (scan_order w r) = od_enrollment_id r" "od_paid_at (scan_order w r) = od_paid_at r"
  "od_failed_at (scan_order w r) = od_failed_at r" "od_refunded_at (scan_order w r) = od_refunded_at r"
  "od_cancelled_at (scan_order w r) = od_cancelled_at r"
  by (simp_all add: scan_order_def)

lemma scan_order_faults [simp]:
  "scan_order (w\<lparr>faults := f\<rparr>) r = scan_order w r" "scan_order (pop w) r = scan_order w r"
  by (simp_all add: scan_order_def coupon_code_of_def cong: option.case_cong)

lemma order_row_simps [simp]:
  "od_id (order_row r) = od_id r" "od_user_id (order_row r) = od_user_id r"
  "od_course_id (order_row r) = od_course_id r" "od_status (order_row r) = od_status r"
  "od_amount (order_row r) = od_amount r" "od_discount (order_row r) = od_discount r"
  "od_total (order_row r) = od_total r" "od_coupon_id (order_row r) = od_coupon_id r"
  "od_provider (order_row r) = od_provider r" "od_idem_key (order_row r) = null_blank (od_idem_key r)"
  "od_enrollment_id (order_row r) = None" "od_paid_at (order_row r) = None"
  "od_failed_at (order_row r) = None" "od_refunded_at (order_row r) = None"
  "od_cancelled_at (order_row r) = None"
  by (simp_all add: order_row_def)

lemma order_write_simps [simp]:
  "od_id (order_write e n r) = od_id r" "od_user_id (order_write e n r) = od_user_id r"
  "od_course_id (order_write e n r) = od_course_id r" "od_status (order_write e n r) = od_status e"
  "od_amount (order_write e n r) = od_amount r" "od_discount (order_write e n r) = od_discount r"
  "od_total (order_write e n r) = od_total r" "od_coupon_id (order_write e n r) = od_coupon_id r"
  "od_provider (order_write e n r) = od_provider r" "od_idem_key (order_write e n r) = od_idem_key r"
  "od_enrollment_id (order_write e n r) = od_enrollment_id e" "od_paid_at (order_write e n r) = od_paid_at e"
  "od_failed_at (order_write e n r) = od_failed_at e" "od_refunded_at (order_write e n r) = od_refunded_at e"
  "od_cancelled_at (order_write e n r) = od_cancelled_at e"
  by (simp_all add: order_write_def)

lemma null_blank_idem [simp]: "null_blank (null_blank s) = null_blank s"
  by (simp add: null_blank_def)

end
