(* ===== verification/Providers.thy ===== *)
theory Providers
  imports Schema "HOL-Library.Char_ord"
begin

text \<open>
  The payment providers (\<open>internal/payment\<close>): manual, Stripe and Chapa, each with a checkout session
  and a webhook parser, and the registry that selects one. \<open>json.Unmarshal\<close> into the three payload
  types and \<open>hmac.New(sha256.New, secret)\<close> are parameters (the record \<open>codecs\<close>); nothing is assumed
  of them. The locale \<open>payment_provider\<close> is what the payment service relies on.
\<close>

section \<open>Sessions and results\<close>

record checkout_session =
  se_url :: string
  se_external_id :: string
  se_metadata :: "(string \<times> string) list"

record webhook_result =
  wr_event_id :: string
  wr_event_type :: string
  wr_order_id :: uuid
  wr_status :: order_status
  wr_provider_ref :: string

text \<open>\<open>http.Header\<close> by canonical name; \<open>Get\<close> of an absent header is the empty string.\<close>

type_synonym headers = "string \<rightharpoonup> string"

definition header_get :: "headers \<Rightarrow> string \<Rightarrow> string" where
  "header_get hs name = (case hs name of None \<Rightarrow> '''' | Some v \<Rightarrow> v)"

record manual_payload =
  mp_event_id :: string
  mp_order_id :: string
  mp_status :: string
  mp_provider_ref :: string

record stripe_envelope =
  sv_id :: string
  sv_type :: string
  sv_object_id :: string
  sv_client_reference_id :: string
  sv_payment_status :: string

record chapa_payload =
  ch_event :: string
  ch_tx_ref :: string
  ch_reference :: string
  ch_status :: string

record codecs =
  json_manual :: "string \<Rightarrow> manual_payload option"
  json_stripe :: "string \<Rightarrow> stripe_envelope option"
  json_chapa :: "string \<Rightarrow> chapa_payload option"
  hmac_sha256_hex :: "string \<Rightarrow> string \<Rightarrow> string"

section \<open>Text\<close>

text \<open>
  \<open>fmt\<close>'s \<open>%q\<close> of a text: Go escapes for the quote, the backslash and the control characters. Bytes
  of multi-byte runes are kept as they are.
\<close>

definition hex_lower :: "nat \<Rightarrow> char" where
  "hex_lower n = (if n < 10 then char_of (48 + n) else char_of (87 + n))"

definition quote_char :: "char \<Rightarrow> string" where
  "quote_char c =
     (if c = CHR 0x22 then [CHR 0x5C, CHR 0x22]
      else if c = CHR 0x5C then [CHR 0x5C, CHR 0x5C]
      else if c = CHR 0x07 then [CHR 0x5C, CHR ''a'']
      else if c = CHR 0x08 then [CHR 0x5C, CHR ''b'']
      else if c = CHR 0x0C then [CHR 0x5C, CHR ''f'']
      else if c = CHR 0x0A then [CHR 0x5C, CHR ''n'']
      else if c = CHR 0x0D then [CHR 0x5C, CHR ''r'']
      else if c = CHR 0x09 then [CHR 0x5C, CHR ''t'']
      else if c = CHR 0x0B then [CHR 0x5C, CHR ''v'']
      else (let n = (of_char c :: nat) in
        if n < 32 \<or> n = 127 then [CHR 0x5C, CHR ''x'', hex_lower (n div 16), hex_lower (n mod 16)]
        else [c]))"

definition go_quote :: "string \<Rightarrow> string" where
  "go_quote s = [CHR 0x22] @ concat (map quote_char s) @ [CHR 0x22]"

text \<open>\<open>strings.Contains\<close>.\<close>

fun has_prefix :: "string \<Rightarrow> string \<Rightarrow> bool" where
  "has_prefix [] s = True"
| "has_prefix (c # cs) [] = False"
| "has_prefix (c # cs) (d # ds) = (c = d \<and> has_prefix cs ds)"

fun contains :: "string \<Rightarrow> string \<Rightarrow> bool" where
  "contains [] p = has_prefix p []"
| "contains (c # cs) p = (has_prefix p (c # cs) \<or> contains cs p)"

definition parse_order_status :: "string \<Rightarrow> err + order_status" where
  "parse_order_status raw =
     (if raw = ''paid'' \<or> raw = ''success'' \<or> raw = ''completed'' then Inr OrderPaid
      else if raw = ''failed'' then Inr OrderFailed
      else if raw = ''refunded'' then Inr OrderRefunded
      else if raw = ''cancelled'' \<or> raw = ''canceled'' then Inr OrderCancelled
      else Inl (validation (''unsupported payment status '' @ go_quote raw)))"

section \<open>The three providers\<close>

definition manual_create_checkout :: "uuid \<Rightarrow> err + checkout_session" where
  "manual_create_checkout order_id = Inr \<lparr>se_url = '''', se_external_id = order_id,
     se_metadata = [(''mode'', ''manual''), (''order_id'', order_id),
       (''instruction'', ''POST /api/v1/orders/{id}/confirm after payment, or send webhook to /api/v1/webhooks/payments/manual'')]\<rparr>"

definition manual_signature_check :: "codecs \<Rightarrow> string \<Rightarrow> headers \<Rightarrow> string \<Rightarrow> err option" where
  "manual_signature_check cd webhook_secret hs body =
     (let secret = trim_space webhook_secret; sig = trim_space (header_get hs ''X-Payment-Signature'')
      in if secret = '''' then None
         else if sig = '''' then Some (forbidden ''missing X-Payment-Signature'')
         else if to_lower sig \<noteq> hmac_sha256_hex cd secret body
           then Some (forbidden ''invalid webhook signature'')
         else None)"

definition manual_parse_webhook :: "codecs \<Rightarrow> string \<Rightarrow> headers \<Rightarrow> string \<Rightarrow> err + webhook_result" where
  "manual_parse_webhook cd webhook_secret hs body =
     (case manual_signature_check cd webhook_secret hs body of
        Some e \<Rightarrow> Inl e
      | None \<Rightarrow> (case json_manual cd body of
          None \<Rightarrow> Inl (validation ''invalid manual webhook JSON'')
        | Some p \<Rightarrow>
            (let ev = trim_space (mp_event_id p); oid = trim_space (mp_order_id p);
                 st = trim_space (to_lower (mp_status p))
             in if ev = '''' \<or> oid = '''' then Inl (validation ''event_id and order_id are required'')
                else (case parse_order_status st of
                    Inl e \<Rightarrow> Inl e
                  | Inr status \<Rightarrow> Inr \<lparr>wr_event_id = ev, wr_event_type = ''manual.payment.'' @ st,
                      wr_order_id = oid, wr_status = status,
                      wr_provider_ref = trim_space (mp_provider_ref p)\<rparr>))))"

definition stripe_create_checkout :: "string \<Rightarrow> uuid \<Rightarrow> err + checkout_session" where
  "stripe_create_checkout secret_key order_id =
     (if trim_space secret_key = ''''
      then Inl (validation (''STRIPE_SECRET_KEY is required for stripe provider '' @ [CHR 0xE2, CHR 0x80, CHR 0x94] @ '' use manual in development''))
      else Inr \<lparr>se_url = ''https://checkout.stripe.com/c/pay/'' @ order_id,
         se_external_id = ''cs_stub_'' @ order_id,
         se_metadata = [(''mode'', ''stripe_stub''), (''order_id'', order_id)]\<rparr>)"

definition stripe_signature_check :: "string \<Rightarrow> headers \<Rightarrow> err option" where
  "stripe_signature_check webhook_secret hs =
     (let sig = trim_space (header_get hs ''Stripe-Signature'')
      in if trim_space webhook_secret = '''' then None
         else if sig = '''' then Some (forbidden ''missing Stripe-Signature'')
         else if \<not> contains sig ''v1='' then Some (forbidden ''invalid Stripe-Signature'')
         else None)"

definition stripe_status :: "stripe_envelope \<Rightarrow> err + order_status" where
  "stripe_status env =
     (if sv_type env = ''checkout.session.completed'' \<or> sv_type env = ''payment_intent.succeeded''
      then Inr (if sv_payment_status env = '''' \<or> sv_payment_status env = ''paid'' then OrderPaid else OrderFailed)
      else if sv_type env = ''charge.refunded'' then Inr OrderRefunded
      else Inl (validation ''unsupported stripe event type''))"

definition stripe_parse_webhook :: "codecs \<Rightarrow> string \<Rightarrow> headers \<Rightarrow> string \<Rightarrow> err + webhook_result" where
  "stripe_parse_webhook cd webhook_secret hs body =
     (case stripe_signature_check webhook_secret hs of
        Some e \<Rightarrow> Inl e
      | None \<Rightarrow> (case json_stripe cd body of
          None \<Rightarrow> Inl (validation ''invalid stripe webhook JSON'')
        | Some env \<Rightarrow>
            if sv_id env = '''' then Inl (validation ''stripe event id is required'')
            else (let oid = trim_space (sv_client_reference_id env) in
              if oid = '''' then Inl (validation ''stripe client_reference_id (order id) is required'')
              else (case stripe_status env of
                  Inl e \<Rightarrow> Inl e
                | Inr status \<Rightarrow> Inr \<lparr>wr_event_id = sv_id env, wr_event_type = sv_type env,
                    wr_order_id = oid, wr_status = status,
                    wr_provider_ref = trim_space (sv_object_id env)\<rparr>))))"

definition chapa_create_checkout :: "string \<Rightarrow> uuid \<Rightarrow> err + checkout_session" where
  "chapa_create_checkout secret_key order_id =
     (if trim_space secret_key = ''''
      then Inl (validation (''CHAPA_SECRET_KEY is required for chapa provider '' @ [CHR 0xE2, CHR 0x80, CHR 0x94] @ '' use manual in development''))
      else Inr \<lparr>se_url = ''https://checkout.chapa.co/checkout/payment/'' @ order_id,
         se_external_id = ''chapa_'' @ order_id,
         se_metadata = [(''mode'', ''chapa_stub''), (''order_id'', order_id)]\<rparr>)"

definition chapa_parse_webhook :: "codecs \<Rightarrow> string \<Rightarrow> headers \<Rightarrow> string \<Rightarrow> err + webhook_result" where
  "chapa_parse_webhook cd webhook_secret hs body =
     (let secret = trim_space webhook_secret
      in if secret \<noteq> '''' \<and> trim_space (header_get hs ''X-Chapa-Signature'') \<noteq> secret
         then Inl (forbidden ''invalid Chapa webhook signature'')
         else (case json_chapa cd body of
           None \<Rightarrow> Inl (validation ''invalid chapa webhook JSON'')
         | Some p \<Rightarrow>
             (let oid = trim_space (ch_tx_ref p); ref = trim_space (ch_reference p);
                  ev = (if ref = '''' then ''chapa-'' @ oid @ ''-'' @ trim_space (ch_status p) else ref)
              in if oid = '''' then Inl (validation ''chapa tx_ref (order id) is required'')
                 else (case parse_order_status (to_lower (trim_space (ch_status p))) of
                     Inl e \<Rightarrow> Inl e
                   | Inr status \<Rightarrow> Inr \<lparr>wr_event_id = ev,
                       wr_event_type = (if trim_space (ch_event p) = ''''
                          then ''chapa.payment.'' @ order_status_text status else trim_space (ch_event p)),
                       wr_order_id = oid, wr_status = status, wr_provider_ref = ref\<rparr>))))"

section \<open>The registry\<close>

record payment_config =
  pc_default :: string
  pc_webhook_secret :: string
  pc_stripe_key :: string
  pc_stripe_webhook :: string
  pc_chapa_key :: string
  pc_chapa_webhook :: string

text \<open>The interface \<open>Provider\<close>, as the value the registry holds.\<close>

record provider =
  pv_type :: string
  pv_create :: "uuid \<Rightarrow> err + checkout_session"
  pv_parse :: "headers \<Rightarrow> string \<Rightarrow> err + webhook_result"

definition manual_provider :: "codecs \<Rightarrow> payment_config \<Rightarrow> provider" where
  "manual_provider cd cfg = \<lparr>pv_type = ''manual'', pv_create = manual_create_checkout,
     pv_parse = manual_parse_webhook cd (pc_webhook_secret cfg)\<rparr>"

definition stripe_provider :: "codecs \<Rightarrow> payment_config \<Rightarrow> provider" where
  "stripe_provider cd cfg = \<lparr>pv_type = ''stripe'', pv_create = stripe_create_checkout (pc_stripe_key cfg),
     pv_parse = stripe_parse_webhook cd (pc_stripe_webhook cfg)\<rparr>"

definition chapa_provider :: "codecs \<Rightarrow> payment_config \<Rightarrow> provider" where
  "chapa_provider cd cfg = \<lparr>pv_type = ''chapa'', pv_create = chapa_create_checkout (pc_chapa_key cfg),
     pv_parse = chapa_parse_webhook cd (pc_chapa_webhook cfg)\<rparr>"

definition default_provider :: "payment_config \<Rightarrow> string" where
  "default_provider cfg = (if pc_default cfg = '''' then ''manual'' else pc_default cfg)"

definition provider_for :: "codecs \<Rightarrow> payment_config \<Rightarrow> string \<Rightarrow> provider" where
  "provider_for cd cfg name =
     (let p = (if name = '''' then default_provider cfg else name)
      in if p = ''stripe'' then stripe_provider cd cfg
         else if p = ''chapa'' then chapa_provider cd cfg
         else manual_provider cd cfg)"

section \<open>What the service relies on\<close>

text \<open>
  A provider has one of the three types of the \<open>CHECK\<close> constraint; its session depends on the
  identifier of the order only and refers back to it; a webhook it accepts names an event and an
  order, and never asks for the status \<open>pending\<close>.
\<close>

locale payment_provider =
  fixes type_of :: string
    and create_checkout :: "uuid \<Rightarrow> err + checkout_session"
    and parse_webhook :: "headers \<Rightarrow> string \<Rightarrow> err + webhook_result"
  assumes type_known: "type_of \<in> {''manual'', ''stripe'', ''chapa''}"
    and session_ref: "create_checkout i = Inr s \<Longrightarrow> \<exists>p. se_external_id s = p @ i"
    and create_error: "create_checkout i = Inl e \<Longrightarrow> \<exists>m. e = validation m"
    and create_uniform: "create_checkout i = Inl e \<Longrightarrow> create_checkout j = Inl e"
    and event_named: "parse_webhook hs body = Inr r \<Longrightarrow> wr_event_id r \<noteq> ''''"
    and order_named: "parse_webhook hs body = Inr r \<Longrightarrow> wr_order_id r \<noteq> ''''"
    and not_pending: "parse_webhook hs body = Inr r \<Longrightarrow> wr_status r \<noteq> OrderPending"
begin

lemma session_external: "create_checkout i = Inr s \<Longrightarrow> i \<noteq> '''' \<Longrightarrow> se_external_id s \<noteq> ''''"
  using session_ref by fastforce

end

lemma parse_order_status_not_pending: "parse_order_status raw = Inr st \<Longrightarrow> st \<noteq> OrderPending"
  by (auto simp: parse_order_status_def split: if_splits)

lemma manual_parse_result:
  "manual_parse_webhook cd k hs body = Inr r \<Longrightarrow>
   wr_event_id r \<noteq> '''' \<and> wr_order_id r \<noteq> '''' \<and> wr_status r \<noteq> OrderPending"
  by (auto simp: manual_parse_webhook_def Let_def dest: parse_order_status_not_pending
      split: option.splits if_splits sum.splits)

lemma stripe_parse_result:
  "stripe_parse_webhook cd k hs body = Inr r \<Longrightarrow>
   wr_event_id r \<noteq> '''' \<and> wr_order_id r \<noteq> '''' \<and> wr_status r \<noteq> OrderPending"
  by (auto simp: stripe_parse_webhook_def stripe_status_def Let_def
      split: option.splits if_splits sum.splits)

lemma chapa_parse_result:
  "chapa_parse_webhook cd k hs body = Inr r \<Longrightarrow>
   wr_event_id r \<noteq> '''' \<and> wr_order_id r \<noteq> '''' \<and> wr_status r \<noteq> OrderPending"
  by (auto simp: chapa_parse_webhook_def Let_def dest: parse_order_status_not_pending
      split: option.splits if_splits sum.splits)

interpretation manual: payment_provider "pv_type (manual_provider cd cfg)"
  "pv_create (manual_provider cd cfg)" "pv_parse (manual_provider cd cfg)" for cd cfg
  by unfold_locales
    (auto simp: manual_provider_def manual_create_checkout_def dest: manual_parse_result)

interpretation stripe: payment_provider "pv_type (stripe_provider cd cfg)"
  "pv_create (stripe_provider cd cfg)" "pv_parse (stripe_provider cd cfg)" for cd cfg
  by unfold_locales
    (auto simp: stripe_provider_def stripe_create_checkout_def dest: stripe_parse_result split: if_splits)

interpretation chapa: payment_provider "pv_type (chapa_provider cd cfg)"
  "pv_create (chapa_provider cd cfg)" "pv_parse (chapa_provider cd cfg)" for cd cfg
  by unfold_locales
    (auto simp: chapa_provider_def chapa_create_checkout_def dest: chapa_parse_result split: if_splits)

lemma provider_for_cases:
  "(\<And>q. q \<in> {manual_provider cd cfg, stripe_provider cd cfg, chapa_provider cd cfg} \<Longrightarrow> P q) \<Longrightarrow>
   P (provider_for cd cfg name)"
  by (simp add: provider_for_def Let_def)

interpretation registered: payment_provider "pv_type (provider_for cd cfg name)"
  "pv_create (provider_for cd cfg name)" "pv_parse (provider_for cd cfg name)" for cd cfg name
  by (rule provider_for_cases [of cd cfg "\<lambda>q. payment_provider (pv_type q) (pv_create q) (pv_parse q)"])
    (auto intro: manual.payment_provider_axioms stripe.payment_provider_axioms
      chapa.payment_provider_axioms)

end
