(* ===== verification/Payments.thy ===== *)
theory Payments
  imports PaymentRepo Providers
begin

text \<open>
  \<open>PaymentService\<close> (\<open>internal/service/payment.go\<close>): checkout, webhooks, refunds, coupons. One
  definition per method. The providers are the registry of \<open>Providers\<close>; its codecs and configuration
  are the first two arguments where it is used.
\<close>

record checkout_result =
  ck_order :: purchase_order
  ck_url :: string
  ck_provider_ref :: string
  ck_metadata :: "(string \<times> string) list"

definition validate_coupon :: "time \<Rightarrow> coupon \<Rightarrow> uuid \<Rightarrow> string \<Rightarrow> err option" where
  "validate_coupon now c course_id currency =
     (if cp_revoked_at c \<noteq> None then Some (forbidden ''coupon has been revoked'')
      else if (case cp_valid_from c of None \<Rightarrow> False | Some t \<Rightarrow> now < t)
        then Some (forbidden ''coupon is not yet valid'')
      else if (case cp_valid_until c of None \<Rightarrow> False | Some t \<Rightarrow> t < now)
        then Some (forbidden ''coupon has expired'')
      else if (case cp_max_uses c of None \<Rightarrow> False | Some n \<Rightarrow> n \<le> cp_uses c)
        then Some (forbidden ''coupon has reached its use limit'')
      else if (case cp_course_id c of None \<Rightarrow> False | Some i \<Rightarrow> i \<noteq> course_id)
        then Some (forbidden ''coupon does not apply to this course'')
      else if cp_discount_type c = ''fixed'' \<and> cp_currency c \<noteq> '''' \<and> \<not> equal_fold (cp_currency c) currency
        then Some (forbidden ''coupon currency does not match course currency'')
      else None)"

definition compute_discount :: "coupon \<Rightarrow> int \<Rightarrow> int" where
  "compute_discount c amount =
     (if cp_discount_type c = ''percent'' then
        (let d = go_quot (go_mul amount (cp_discount_value c)) 100
         in if amount < d then amount else d)
      else if cp_discount_type c = ''fixed'' then
        (if amount < cp_discount_value c then amount else cp_discount_value c)
      else 0)"

definition session_of :: "err + checkout_session \<Rightarrow> checkout_session act" where
  "session_of r = (case r of Inl e \<Rightarrow> raise e | Inr s \<Rightarrow> ret s)"

definition checkout_from_existing ::
  "codecs \<Rightarrow> payment_config \<Rightarrow> purchase_order \<Rightarrow> checkout_result act" where
  "checkout_from_existing cd cfg od =
     andThen (guard (od_status od = OrderPending)
       (conflict ''idempotency key already used for a non-pending order'')) (\<lambda>_.
     andThen (session_of (pv_create (provider_for cd cfg (od_provider od)) (od_id od))) (\<lambda>s.
     ret \<lparr>ck_order = od, ck_url = se_url s, ck_provider_ref = se_external_id s,
          ck_metadata = se_metadata s\<rparr>))"

definition find_discount ::
  "string \<Rightarrow> uuid \<Rightarrow> string \<Rightarrow> int \<Rightarrow> (int \<times> uuid option) act" where
  "find_discount code c currency amount =
     (if code = '''' then ret (0, None)
      else andThen (coupons_get_by_code code) (\<lambda>cp.
           andThen (asks clock) (\<lambda>now.
           andThen (check (validate_coupon now cp c currency)) (\<lambda>_.
           ret (compute_discount cp amount, Some (cp_id cp))))))"

definition new_order ::
  "uuid \<Rightarrow> uuid \<Rightarrow> int \<Rightarrow> int \<Rightarrow> string \<Rightarrow> uuid option \<Rightarrow> string \<Rightarrow> string \<Rightarrow> purchase_order" where
  "new_order u c amount discount currency cid prov key =
     \<lparr>od_id = '''', od_user_id = u, od_course_id = c, od_status = OrderPending,
      od_amount = amount, od_discount = discount,
      od_total = (if amount - discount < 0 then 0 else amount - discount),
      od_currency = currency, od_coupon_id = cid, od_provider = prov, od_provider_ref = '''',
      od_idem_key = key, od_enrollment_id = None, od_paid_at = None, od_failed_at = None,
      od_refunded_at = None, od_cancelled_at = None, od_created_at = 0, od_updated_at = 0,
      od_user_email = '''', od_user_name = '''', od_course_title = '''', od_course_slug = '''',
      od_coupon_code = ''''\<rparr>"

text \<open>The order, its session at the provider, the reference of the session.\<close>

definition place_order :: "provider \<Rightarrow> purchase_order \<Rightarrow> checkout_result act" where
  "place_order prov od0 =
     andThen (orders_create od0) (\<lambda>od.
     andThen (session_of (pv_create prov (od_id od))) (\<lambda>s.
     andThen (if se_external_id s \<noteq> ''''
              then orders_update_status (od\<lparr>od_provider_ref := se_external_id s\<rparr>) else ret ()) (\<lambda>_.
     andThen (orders_get_by_id (od_id od)) (\<lambda>full.
     ret \<lparr>ck_order = full, ck_url = se_url s, ck_provider_ref = se_external_id s,
          ck_metadata = se_metadata s\<rparr>))))"

definition new_checkout ::
  "codecs \<Rightarrow> payment_config \<Rightarrow> uuid \<Rightarrow> uuid \<Rightarrow> string \<Rightarrow> string \<Rightarrow> string \<Rightarrow> checkout_result act" where
  "new_checkout cd cfg actor c coupon_code key provider =
     andThen (courses_get_by_id c) (\<lambda>course.
     andThen (guard (co_status course = CoursePublished)
       (validation ''only published courses can be purchased'')) (\<lambda>_.
     andThen (guard (co_teacher_id course \<noteq> actor)
       (validation ''teachers cannot purchase their own course'')) (\<lambda>_.
     andThen (guard (\<not> co_price_cents course \<le> 0)
       (validation (''course is free '' @ [CHR 0xE2, CHR 0x80, CHR 0x94] @ '' enroll directly''))) (\<lambda>_.
     andThen (has_active_enrollment c actor) (\<lambda>active.
     andThen (guard (\<not> active) (conflict ''already enrolled in this course'')) (\<lambda>_.
     let amount = co_price_cents course;
         currency = (if co_currency course = '''' then ''ETB'' else co_currency course)
     in andThen (find_discount (trim_space coupon_code) c currency amount) (\<lambda>(discount, cid).
        let prov = provider_for cd cfg (if provider = '''' then default_provider cfg else provider)
        in place_order prov
             (new_order actor c amount discount currency cid (pv_type prov) key))))))))"

definition create_checkout ::
  "codecs \<Rightarrow> payment_config \<Rightarrow> uuid \<Rightarrow> uuid \<Rightarrow> string \<Rightarrow> string \<Rightarrow> string \<Rightarrow> checkout_result act" where
  "create_checkout cd cfg actor c coupon_code idempotency_key provider =
     (let key = trim_space idempotency_key
      in if key = '''' then new_checkout cd cfg actor c coupon_code key provider
         else andThen (optional is_not_found (orders_get_by_idempotency_key key)) (\<lambda>existing.
              case existing of
                Some od \<Rightarrow> checkout_from_existing cd cfg od
              | None \<Rightarrow> new_checkout cd cfg actor c coupon_code key provider))"

section \<open>Changes of an order\<close>

definition redeem_coupon :: "uuid option \<Rightarrow> unit act" where
  "redeem_coupon cid = (case cid of None \<Rightarrow> ret () | Some i \<Rightarrow> coupons_increment_uses i)"

definition apply_payment_success :: "purchase_order \<Rightarrow> purchase_order act" where
  "apply_payment_success od =
     (if od_status od = OrderPaid then ret od
      else andThen (guard (od_status od = OrderPending) (conflict ''order is not pending'')) (\<lambda>_.
        andThen (asks clock) (\<lambda>now.
        andThen (redeem_coupon (od_coupon_id od)) (\<lambda>_.
        andThen (enroll_from_payment (od_user_id od) (od_course_id od)) (\<lambda>en.
        andThen (orders_update_status (od\<lparr>od_status := OrderPaid, od_paid_at := Some now,
                   od_enrollment_id := Some (en_id en)\<rparr>)) (\<lambda>_.
        orders_get_by_id (od_id od)))))))"

definition apply_refund :: "purchase_order \<Rightarrow> purchase_order act" where
  "apply_refund od =
     (if od_status od = OrderRefunded then ret od
      else andThen (guard (od_status od = OrderPaid) (validation ''only paid orders can be refunded'')) (\<lambda>_.
        andThen (asks clock) (\<lambda>now.
        andThen (orders_update_status (od\<lparr>od_status := OrderRefunded, od_refunded_at := Some now\<rparr>)) (\<lambda>_.
        orders_get_by_id (od_id od)))))"

definition mark_failed :: "purchase_order \<Rightarrow> purchase_order act" where
  "mark_failed od =
     (if od_status od \<noteq> OrderPending then ret od
      else andThen (asks clock) (\<lambda>now.
        andThen (orders_update_status (od\<lparr>od_status := OrderFailed, od_failed_at := Some now\<rparr>)) (\<lambda>_.
        orders_get_by_id (od_id od))))"

definition mark_cancelled :: "purchase_order \<Rightarrow> purchase_order act" where
  "mark_cancelled od =
     (if od_status od \<noteq> OrderPending then ret od
      else andThen (asks clock) (\<lambda>now.
        andThen (orders_update_status (od\<lparr>od_status := OrderCancelled, od_cancelled_at := Some now\<rparr>)) (\<lambda>_.
        orders_get_by_id (od_id od))))"

definition confirm_manual :: "uuid \<Rightarrow> uuid \<Rightarrow> purchase_order act" where
  "confirm_manual actor i =
     andThen (orders_get_by_id i) (\<lambda>od.
     andThen (guard (od_user_id od = actor) (forbidden ''cannot confirm another user's order'')) (\<lambda>_.
     andThen (guard (od_provider od = ''manual'')
       (validation ''manual confirm only applies to manual provider orders'')) (\<lambda>_.
     andThen (guard (od_status od = OrderPending) (conflict ''order is not pending'')) (\<lambda>_.
     apply_payment_success od))))"

definition webhook_row :: "string \<Rightarrow> webhook_result \<Rightarrow> string \<Rightarrow> webhook_event" where
  "webhook_row ptype r body =
     \<lparr>wh_id = '''', wh_provider = ptype, wh_event_id = wr_event_id r, wh_event_type = wr_event_type r,
      wh_payload = body, wh_order_id = Some (wr_order_id r), wh_processed_at = 0, wh_created_at = 0\<rparr>"

text \<open>The part of \<open>HandleWebhook\<close> that acts on an event seen for the first time.\<close>

definition dispatch_event :: "webhook_result \<Rightarrow> purchase_order act" where
  "dispatch_event r =
     andThen (orders_get_by_id (wr_order_id r)) (\<lambda>od0.
     let od = (if wr_provider_ref r \<noteq> '''' then od0\<lparr>od_provider_ref := wr_provider_ref r\<rparr> else od0)
     in case wr_status r of
          OrderPaid \<Rightarrow> apply_payment_success od
        | OrderRefunded \<Rightarrow> apply_refund od
        | OrderFailed \<Rightarrow> mark_failed od
        | OrderCancelled \<Rightarrow> mark_cancelled od
        | OrderPending \<Rightarrow> ret od)"

definition handle_webhook ::
  "codecs \<Rightarrow> payment_config \<Rightarrow> string \<Rightarrow> headers \<Rightarrow> string \<Rightarrow> purchase_order act" where
  "handle_webhook cd cfg provider hs body =
     (let prov = provider_for cd cfg provider
      in case pv_parse prov hs body of
           Inl e \<Rightarrow> raise e
         | Inr r \<Rightarrow>
             andThen (webhooks_record (webhook_row (pv_type prov) r body)) (\<lambda>inserted.
             if inserted then dispatch_event r else orders_get_by_id (wr_order_id r)))"

section \<open>Requests on orders and coupons\<close>

definition get_order :: "uuid \<Rightarrow> uuid \<Rightarrow> bool \<Rightarrow> purchase_order act" where
  "get_order actor i admin =
     andThen (orders_get_by_id i) (\<lambda>od.
     if od_user_id od \<noteq> actor \<and> \<not> admin then
       andThen (courses_get_by_id (od_course_id od)) (\<lambda>course.
       andThen (guard (co_teacher_id course = actor) (forbidden ''cannot view this order'')) (\<lambda>_.
       ret od))
     else ret od)"

definition list_my_orders :: "uuid \<Rightarrow> order_filter \<Rightarrow> (purchase_order list \<times> nat) act" where
  "list_my_orders actor f = orders_list_by_user actor f"

definition list_course_orders ::
  "uuid \<Rightarrow> uuid \<Rightarrow> order_filter \<Rightarrow> bool \<Rightarrow> (purchase_order list \<times> nat) act" where
  "list_course_orders actor c f admin =
     andThen (courses_get_by_id c) (\<lambda>course.
     andThen (guard (\<not> (\<not> admin \<and> co_teacher_id course \<noteq> actor))
       (forbidden ''only the course teacher or an admin can list orders'')) (\<lambda>_.
     orders_list_by_course c f))"

definition refund :: "uuid \<Rightarrow> uuid \<Rightarrow> bool \<Rightarrow> purchase_order act" where
  "refund actor i admin =
     andThen (orders_get_by_id i) (\<lambda>od.
     andThen (courses_get_by_id (od_course_id od)) (\<lambda>course.
     andThen (guard (\<not> (\<not> admin \<and> co_teacher_id course \<noteq> actor))
       (forbidden ''only the course teacher or an admin can refund orders'')) (\<lambda>_.
     andThen (guard (od_status od = OrderPaid) (validation ''only paid orders can be refunded'')) (\<lambda>_.
     apply_refund od))))"

record coupon_input =
  ci_code :: string
  ci_discount_type :: string
  ci_discount_value :: int
  ci_currency :: string
  ci_course_id :: "uuid option"
  ci_max_uses :: "int option"
  ci_valid_from :: "time option"
  ci_valid_until :: "time option"

definition create_coupon :: "uuid \<Rightarrow> coupon_input \<Rightarrow> bool \<Rightarrow> coupon act" where
  "create_coupon actor ci admin =
     andThen (guard admin (forbidden ''only platform admins can create coupons'')) (\<lambda>_.
     let code = trim_space (ci_code ci) in
     andThen (guard (code \<noteq> '''') (validation ''code is required'')) (\<lambda>_.
     andThen (guard (ci_discount_type ci = ''percent'' \<or> ci_discount_type ci = ''fixed'')
       (validation ''discount_type must be percent or fixed'')) (\<lambda>_.
     andThen (guard (\<not> ci_discount_value ci \<le> 0) (validation ''discount_value must be > 0'')) (\<lambda>_.
     andThen (guard (\<not> (ci_discount_type ci = ''percent'' \<and> 100 < ci_discount_value ci))
       (validation ''percent discount cannot exceed 100'')) (\<lambda>_.
     andThen (case ci_course_id ci of None \<Rightarrow> ret ()
              | Some c \<Rightarrow> andThen (courses_get_by_id c) (\<lambda>_. ret ())) (\<lambda>_.
     andThen (guard (case ci_max_uses ci of None \<Rightarrow> True | Some n \<Rightarrow> \<not> n \<le> 0)
       (validation ''max_uses must be > 0 when set'')) (\<lambda>_.
     andThen (coupons_create \<lparr>cp_id = '''', cp_code = to_upper code,
         cp_discount_type = ci_discount_type ci, cp_discount_value = ci_discount_value ci,
         cp_currency = trim_space (ci_currency ci), cp_course_id = ci_course_id ci,
         cp_max_uses = ci_max_uses ci, cp_uses = 0, cp_valid_from = ci_valid_from ci,
         cp_valid_until = ci_valid_until ci, cp_created_by = actor, cp_revoked_at = None,
         cp_created_at = 0, cp_updated_at = 0\<rparr>) (\<lambda>cp.
     coupons_get_by_id (cp_id cp)))))))))"

definition list_coupons :: "uuid \<Rightarrow> uuid option \<Rightarrow> bool \<Rightarrow> coupon list act" where
  "list_coupons actor course_id admin =
     (if admin then coupons_list course_id
      else (case course_id of
          None \<Rightarrow> raise (forbidden ''only platform admins can list all coupons'')
        | Some c \<Rightarrow>
            andThen (courses_get_by_id c) (\<lambda>course.
            andThen (guard (co_teacher_id course = actor)
              (forbidden ''cannot list coupons for this course'')) (\<lambda>_.
            coupons_list course_id))))"

definition revoke_coupon :: "uuid \<Rightarrow> uuid \<Rightarrow> bool \<Rightarrow> unit act" where
  "revoke_coupon actor i admin =
     andThen (guard admin (forbidden ''only platform admins can revoke coupons'')) (\<lambda>_.
     coupons_revoke i)"

end
