(* ===== verification/Seats.thy ===== *)
theory Seats
  imports Enrollments
begin

text \<open>
  The seats of a course: no enrollment request lets the number of active enrollments pass the
  course's capacity, whatever the answers of the database are. The relation \<open>seat_step\<close> says it for
  one operation; it is reflexive and transitive, so the rules of \<open>effect_order\<close> carry it from the
  statements to the requests, and an operation that stops half-way keeps it too. The statement that
  needs more is the write of an active row: it comes right after the seat was counted.
\<close>

definition course_capacity :: "world \<Rightarrow> uuid \<Rightarrow> int option" where
  "course_capacity w c =
     (case find (\<lambda>r. co_id r = c \<and> course_live r) (courses w) of None \<Rightarrow> None | Some r \<Rightarrow> co_capacity r)"

text \<open>
  At most \<open>cap\<close> active seats after the step, or no more than before it (a course may already be
  above a capacity that was lowered later).
\<close>

definition seat_step :: "world \<Rightarrow> world \<Rightarrow> bool" where
  "seat_step w w' \<longleftrightarrow> courses w' = courses w \<and>
     (distinct (map en_id (enrollments w)) \<longrightarrow>
        distinct (map en_id (enrollments w')) \<and>
        (\<forall>c cap. course_capacity w c = Some cap \<longrightarrow>
           int (seats c EnActive (enrollments w')) \<le> max (int (seats c EnActive (enrollments w))) cap))"

lemma live_course_capacity: "live_course w c = Some course \<Longrightarrow> course_capacity w c = co_capacity course"
  by (auto simp: live_course_def course_capacity_def)

lemma course_capacity_cong: "courses w' = courses w \<Longrightarrow> course_capacity w' = course_capacity w"
  by (simp add: course_capacity_def fun_eq_iff)

lemma seat_step_same: "courses w' = courses w \<Longrightarrow> enrollments w' = enrollments w \<Longrightarrow> seat_step w w'"
  by (simp add: seat_step_def)

interpretation seat: world_order seat_step
proof unfold_locales
  fix w w' w'' :: world
  assume a: "seat_step w w'" and b: "seat_step w' w''"
  then have eq: "courses w'' = courses w" and cap: "course_capacity w' = course_capacity w"
    by (auto simp: seat_step_def intro: course_capacity_cong)
  show "seat_step w w''"
    unfolding seat_step_def
  proof (intro conjI impI allI)
    assume d: "distinct (map en_id (enrollments w))"
    with a b show "distinct (map en_id (enrollments w''))" by (auto simp: seat_step_def)
    fix c n assume n: "course_capacity w c = Some n"
    have "int (seats c EnActive (enrollments w')) \<le> max (int (seats c EnActive (enrollments w))) n"
      using a d n by (simp add: seat_step_def)
    moreover have "int (seats c EnActive (enrollments w'')) \<le> max (int (seats c EnActive (enrollments w'))) n"
      using a b d n cap by (auto simp: seat_step_def)
    ultimately show "int (seats c EnActive (enrollments w'')) \<le> max (int (seats c EnActive (enrollments w))) n"
      by linarith
  qed (fact eq)
qed (simp_all add: seat_step_same)

lemma seat_keeping_statements [moves]:
  "changes seat_step (courses_get_by_id i)"
  "changes seat_step (enrollments_get_by_id i)"
  "changes seat_step (enrollments_get_by_course_user c u)"
  "changes seat_step (enrollments_count_by_course_status c st)"
  "changes seat_step (enrollments_next_waitlisted c)"
  "changes seat_step (invites_get_by_course_code c code)"
  "changes seat_step (invites_increment_uses i)"
  "changes seat_step (enrollments_append_event e c u t)"
  by (auto simp: enrollment_repo_defs seat_step_same intro!: moves seat.changes_exec_check seat.changes_insert_row)

lemma seat_keeping_parts [moves]:
  "changes seat_step (use_invite iv)" "changes seat_step (emit en ev)"
  "changes seat_step (find_invite course c code)" "changes seat_step (decide_seat course)"
  by (auto simp: use_invite_def emit_def find_invite_def decide_seat_def intro!: moves)

text \<open>A free seat: the condition under which an active row may be written.\<close>

definition room :: "world \<Rightarrow> uuid \<Rightarrow> bool" where
  "room w c \<longleftrightarrow> (case course_capacity w c of None \<Rightarrow> True
     | Some cap \<Rightarrow> int (seats c EnActive (enrollments w)) < cap)"

lemma seat_step_enrollments:
  assumes "courses w' = courses w"
    and "distinct (map en_id (enrollments w)) \<Longrightarrow> distinct (map en_id (enrollments w'))"
    and "\<And>d. distinct (map en_id (enrollments w)) \<Longrightarrow>
           int (seats d EnActive (enrollments w'))
             \<le> int (seats d EnActive (enrollments w)) + of_bool (d = c \<and> room w c)"
  shows "seat_step w w'"
  unfolding seat_step_def
proof (intro conjI impI allI)
  fix d cap
  assume "distinct (map en_id (enrollments w))" and cap: "course_capacity w d = Some cap"
  then have "int (seats d EnActive (enrollments w'))
      \<le> int (seats d EnActive (enrollments w)) + of_bool (d = c \<and> room w c)"
    by (intro assms)
  then show "int (seats d EnActive (enrollments w')) \<le> max (int (seats d EnActive (enrollments w))) cap"
    using cap by (cases "d = c") (auto simp: room_def of_bool_def split: if_splits)
qed (use assms in auto)

lemma seat_create:
  assumes "en_status e = EnActive \<Longrightarrow> room w (en_course_id e)"
  shows "wpre (enrollments_create e) (\<lambda>en w'. seat_step w w' ) (\<lambda>_ w'. seat_step w w') w"
  unfolding enrollments_create_def
  by (auto simp: wp seat_step_same split: option.split
        intro!: seat_step_enrollments [where c = "en_course_id e"])
     (use assms in \<open>auto simp: seats_def pk_free_def\<close>)

lemma seats_update:
  assumes "distinct (map en_id es)"
  shows "int (seats d EnActive (upd_where (\<lambda>r. en_id r = en_id e) (enrollment_write e n) es))
      \<le> int (seats d EnActive es) + of_bool (en_status e = EnActive \<and>
           (\<exists>r \<in> set es. en_id r = en_id e \<and> en_course_id r = d))"
proof (cases "\<exists>r \<in> set es. en_id r = en_id e")
  case True
  then obtain r where r: "r \<in> set es" "en_id r = en_id e" by blast
  show ?thesis
    using cnt_upd_key [OF assms r(1), of "\<lambda>r. en_course_id r = d \<and> en_status r = EnActive" "enrollment_write e n"] r
    by (auto simp: seats_def)
next
  case False
  then show ?thesis by (subst upd_where_none) auto
qed

lemma seat_update:
  assumes "\<And>r. distinct (map en_id (enrollments w)) \<Longrightarrow> en_status e = EnActive \<Longrightarrow> r \<in> set (enrollments w) \<Longrightarrow> en_id r = en_id e \<Longrightarrow>
      en_course_id r = c \<and> room w c"
  shows "wpre (enrollments_update_status e) (\<lambda>_ w'. seat_step w w') (\<lambda>_ w'. seat_step w w') w"
proof -
  have "seat_step w (w\<lparr>faults := f, enrollments := upd_where (\<lambda>r. en_id r = en_id e)
          (enrollment_write e n) (enrollments w)\<rparr>)" for f n
  proof (rule seat_step_enrollments [where c = c])
    fix d assume dist: "distinct (map en_id (enrollments w))"
    note bound = seats_update [OF dist, of d e n]
    have "of_bool (en_status e = EnActive \<and>
            (\<exists>r \<in> set (enrollments w). en_id r = en_id e \<and> en_course_id r = d))
          \<le> (of_bool (d = c \<and> room w c) :: int)"
      using assms dist by fastforce
    from order_trans [OF bound add_left_mono [OF this]] show "int (seats d EnActive (enrollments (w\<lparr>faults := f, enrollments := upd_where
            (\<lambda>r. en_id r = en_id e) (enrollment_write e n) (enrollments w)\<rparr>)))
        \<le> int (seats d EnActive (enrollments w)) + of_bool (d = c \<and> room w c)"
      by simp
  qed simp_all
  then show ?thesis
    by (auto simp: enrollments_update_status_def wp seat_step_same pop_def)
qed

lemma live_course_room:
  "live_course w c = Some course \<Longrightarrow> room w c \<longleftrightarrow>
     (case co_capacity course of None \<Rightarrow> True
      | Some cap \<Rightarrow> int (seats c EnActive (enrollments w)) < cap)"
  by (simp add: room_def live_course_capacity)

lemma room_faults [simp]:
  "room (w\<lparr>faults := f\<rparr>) c = room w c" "room (pop w) c = room w c"
  by (simp_all add: room_def course_capacity_def cong: option.case_cong)

lemma seat_step_faults [simp]:
  "seat_step w (pop w') = seat_step w w'" "seat_step (pop w) = seat_step w"
  "seat_step w (w'\<lparr>faults := f\<rparr>) = seat_step w w'" "seat_step (w\<lparr>faults := f\<rparr>) = seat_step w"
  by (simp_all add: seat_step_def course_capacity_def fun_eq_iff)

lemma seat_step_refl [simp]: "seat_step w w"
  by (rule seat.R_refl)

text \<open>The seat decision: active only when the course has room.\<close>

lemma wp_decide_seat:
  assumes "live_course w (co_id course) = Some course"
    and "\<And>st ev f. st = EnActive \<longrightarrow> room w (co_id course) \<Longrightarrow> Q (st, ev) (w\<lparr>faults := f\<rparr>)"
    and "\<And>e f. E e (w\<lparr>faults := f\<rparr>)"
  shows "wpre (decide_seat course) Q E w"
proof -
  have "Q (st, ev) w" if "st = EnActive \<longrightarrow> room w (co_id course)" for st ev
    using assms(2) [of st ev "faults w"] that by simp
  moreover have "E e w" for e
    using assms(3) [of e "faults w"] by simp
  ultimately show ?thesis
    using assms
    by (auto simp: decide_seat_def enrollments_count_by_course_status_def wp live_course_room pop_def
          split: option.split)
qed

lemma seat_enroll_commit:
  assumes "st = EnActive \<longrightarrow> room w c"
  shows "wpre (enroll_commit actor c iv (st, ev)) (\<lambda>_ w'. seat_step w w') (\<lambda>_ w'. seat_step w w') w"
  unfolding enroll_commit_def prod.case wp_asks_then
  using assms by (intro seat.wp_then_changes seat_create moves) (simp add: new_enrollment_def)

lemma seat_reactivation:
  assumes "st = EnActive \<longrightarrow> room w c"
    and "r \<in> set (enrollments w)" and "en_course_id r = c" and "en_id r = en_id e"
  shows "wpre (enrollments_update_status (reactivated st src iv now e))
     (\<lambda>_ w'. seat_step w w') (\<lambda>_ w'. seat_step w w') w"
  by (rule seat_update [where c = c])
    (use assms in \<open>auto simp: reactivated_def intro: distinct_key_same [where k = en_id]\<close>)

lemma seat_reactivate:
  assumes "live_course w c = Some course" and "co_id course = c"
    and "r \<in> set (enrollments w)" and "en_course_id r = c" and "e = scan_enrollment v r"
  shows "wpre (reactivate course e iv) (\<lambda>_ w'. seat_step w w') (\<lambda>_ w'. seat_step w w') w"
    and "wpre (reactivate_from_payment course e) (\<lambda>_ w'. seat_step w w') (\<lambda>_ w'. seat_step w w') w"
proof -
  have "wpre (andThen (asks clock) (\<lambda>now. andThen (enrollments_update_status (reactivated st src i now e)) (\<lambda>_. g now)))
          (\<lambda>_ w'. seat_step w w') (\<lambda>_ w'. seat_step w w') (w\<lparr>faults := f\<rparr>)"
    if "st = EnActive \<longrightarrow> room w c" and "\<And>a. changes seat_step (g a)" for st src i g f
  proof -
    have "wpre (enrollments_update_status (reactivated st src i (clock w) e))
       (\<lambda>_. seat_step (w\<lparr>faults := f\<rparr>)) (\<lambda>_. seat_step (w\<lparr>faults := f\<rparr>)) (w\<lparr>faults := f\<rparr>)"
      using that(1) assms by (intro seat_reactivation [where c = c and r = r]) simp_all
    then show ?thesis
      unfolding wp_asks_then by (intro seat.wp_then_changes that(2)) simp
  qed
  note step = this
  show "wpre (reactivate course e iv) (\<lambda>_ w'. seat_step w w') (\<lambda>_ w'. seat_step w w') w"
    unfolding reactivate_def Let_def wp_andThen [of "decide_seat course"]
    using assms(1,2)
    by (intro wp_decide_seat, simp, unfold prod.case, intro step moves, simp_all)
  show "wpre (reactivate_from_payment course e) (\<lambda>_ w'. seat_step w w') (\<lambda>_ w'. seat_step w w') w"
    unfolding reactivate_from_payment_def Let_def wp_andThen [of "decide_seat course"]
    using assms(1,2)
    by (intro wp_decide_seat, simp, unfold prod.case, intro step moves, simp_all)
qed

lemma find_invite_reads [moves]: "changes read_only (find_invite course c code)"
  by (auto simp: find_invite_def invites_get_by_course_code_def intro!: moves)


lemma seat_place:
  assumes "live_course w c = Some course"
  shows "wpre (andThen (decide_seat course) (enroll_commit actor c iv))
     (\<lambda>_ w'. seat_step w w') (\<lambda>_ w'. seat_step w w') w"
proof -
  have "wpre (enroll_commit actor c iv (st, ev)) (\<lambda>_ w'. seat_step w w') (\<lambda>_ w'. seat_step w w')
          (w\<lparr>faults := f\<rparr>)" if "st = EnActive \<longrightarrow> room w c" for st ev f
    using seat_enroll_commit [of st "w\<lparr>faults := f\<rparr>" c] that by simp
  with assms show ?thesis
    unfolding wp_andThen using live_course_id [OF assms] by (intro wp_decide_seat) simp_all
qed

lemma wp_faults:
  assumes "wpre m (\<lambda>_ w'. seat_step s w') (\<lambda>_ w'. seat_step s w') s" and "s = w\<lparr>faults := f\<rparr>"
  shows "wpre m (\<lambda>_ w'. seat_step w w') (\<lambda>_ w'. seat_step w w') s"
  using assms by simp

lemma seat_place':
  assumes "live_course w c = Some course" "s = w\<lparr>faults := f\<rparr>"
  shows "wpre (andThen (decide_seat course) (enroll_commit actor c iv))
     (\<lambda>_ w'. seat_step w w') (\<lambda>_ w'. seat_step w w') s"
  by (rule wp_faults [OF seat_place]) (simp_all add: assms)

lemma seat_reactivate':
  assumes "live_course w c = Some course" "s = w\<lparr>faults := f\<rparr>"
    and "find (\<lambda>r. en_course_id r = c \<and> en_user_id r = u) (enrollments w) = Some r"
  shows "wpre (reactivate course (scan_enrollment v r) iv) (\<lambda>_ w'. seat_step w w') (\<lambda>_ w'. seat_step w w') s"
    and "wpre (reactivate_from_payment course (scan_enrollment v r)) (\<lambda>_ w'. seat_step w w') (\<lambda>_ w'. seat_step w w') s"
  using find_SomeD [OF assms(3)] live_course_id [OF assms(1)] assms(1,2)
  by (auto intro!: wp_faults [OF seat_reactivate(1) [where r = r and c = c and v = v]]
       wp_faults [OF seat_reactivate(2) [where r = r and c = c and v = v]])

lemma seat_enroll: "changes seat_step (enroll actor c code)"
proof (rule seat.changes_wp)
  fix w
  show "wpre (enroll actor c code) (\<lambda>_ w'. seat_step w w') (\<lambda>_ w'. seat_step w w') w"
    unfolding enroll_def courses_get_by_id_eq enrollments_get_by_course_user_def
    by (auto simp: wp_fetch_row wp_optional wp_raise wp_guard_then wp_andThen [of "fetch_row a b c" for a b c]
          wp_andThen [of "find_invite a b c" for a b c] wp_andThen [of "optional a b" for a b] pop_def
        split: option.split intro!: wp_reads [OF find_invite_reads] seat_place' seat_reactivate')
qed

lemma seat_place_paid:
  assumes "live_course w c = Some course" and "s = w\<lparr>faults := g\<rparr>"
  shows "wpre (andThen (decide_seat course) (\<lambda>(st, ev). andThen (asks clock) (\<lambda>now.
           andThen (enrollments_create (new_enrollment c user st SourcePayment None now)) (\<lambda>en.
           andThen (emit en ev) (\<lambda>_. enrollments_get_by_id (en_id en))))))
     (\<lambda>_ w'. seat_step w w') (\<lambda>_ w'. seat_step w w') s"
proof -
  have "wpre (andThen (asks clock) (\<lambda>now.
           andThen (enrollments_create (new_enrollment c user st SourcePayment None now)) (\<lambda>en.
           andThen (emit en ev) (\<lambda>_. enrollments_get_by_id (en_id en)))))
          (\<lambda>_ w'. seat_step w w') (\<lambda>_ w'. seat_step w w') (w\<lparr>faults := f\<rparr>)"
    if "st = EnActive \<longrightarrow> room w c" for st ev f
    unfolding wp_asks_then using that
    by (intro seat.wp_then_changes wp_faults [OF seat_create] moves) (simp_all add: new_enrollment_def)
  with assms show ?thesis
    unfolding wp_andThen [of "decide_seat course"] using live_course_id [OF assms(1)]
    by (intro wp_decide_seat) simp_all
qed

lemma seat_enroll_from_payment: "changes seat_step (enroll_from_payment user c)"
proof (rule seat.changes_wp)
  fix w
  show "wpre (enroll_from_payment user c) (\<lambda>_ w'. seat_step w w') (\<lambda>_ w'. seat_step w w') w"
    unfolding enroll_from_payment_def courses_get_by_id_eq enrollments_get_by_course_user_def
    by (auto simp: wp_fetch_row wp_optional wp_raise wp_ret wp_guard_then wp_andThen [of "fetch_row a b c" for a b c]
          wp_andThen [of "optional a b" for a b] pop_def
        split: option.split enrollment_status.split intro!: seat_place_paid seat_reactivate')
qed

lemma seat_cancel:
  "en_status e \<noteq> EnActive \<Longrightarrow> changes seat_step (enrollments_update_status e)"
  by (rule seat.changes_wp) (rule seat_update, simp)

lemma seat_activate_next:
  assumes "next_waitlisted_row c (enrollments w) = Some r" and "room w c" and "s = w\<lparr>faults := f\<rparr>"
  shows "wpre (enrollments_update_status ((scan_enrollment v r)\<lparr>en_status := EnActive, en_enrolled_at := at\<rparr>))
     (\<lambda>_ w'. seat_step w w') (\<lambda>_ w'. seat_step w w') s"
  by (rule wp_faults [OF seat_update [where c = c]])
    (use assms next_waitlisted_Some(1,2) [OF assms(1)] in
      \<open>auto intro: distinct_key_same [where k = en_id]\<close>)


lemma seat_promote_next:
  assumes "room w c" and "s = w\<lparr>faults := f\<rparr>"
  shows "wpre (promote_next c) (\<lambda>_ w'. seat_step w w') (\<lambda>_ w'. seat_step w w') s"
  using assms unfolding promote_next_def enrollments_next_waitlisted_def
  by (auto simp: wp_fetch_row wp_optional wp_ret wp_andThen [of "optional a b" for a b]
        wp_asks_then pop_def Let_def
      split: option.split intro!: seat.wp_then_changes seat_activate_next moves)

lemma seat_promote_waitlist: "changes seat_step (promote_waitlist c)"
proof (rule seat.changes_wp)
  fix w
  show "wpre (promote_waitlist c) (\<lambda>_ w'. seat_step w w') (\<lambda>_ w'. seat_step w w') w"
    unfolding promote_waitlist_def courses_get_by_id_eq enrollments_count_by_course_status_def
    by (auto simp: wp_fetch_row wp_fetch_val wp_ret wp_andThen [of "fetch_row a b c" for a b c]
          wp_andThen [of "fetch_val a b" for a b] pop_def live_course_room
        split: option.split intro!: seat_promote_next)
qed

lemmas seat_requests [moves] = seat_enroll seat_enroll_from_payment seat_promote_waitlist

lemma seat_unenroll: "changes seat_step (unenroll actor c admin)"
  by (auto simp: unenroll_def Let_def intro!: moves seat_cancel)

lemma seat_other_requests:
  "changes seat_step (get_access actor c admin)"
  "changes seat_step (has_active_enrollment c user)"
  "changes seat_step (list_my_enrollments actor f)"
  "changes seat_step (list_for_course actor c f admin)"
  "changes seat_step (create_invite_code rnd actor c code n ex admin)"
  "changes seat_step (list_invite_codes actor c admin)"
  "changes seat_step (revoke_invite_code actor c i admin)"
  by (auto simp: get_access_def has_active_enrollment_def list_my_enrollments_def list_for_course_def
       create_invite_code_def list_invite_codes_def revoke_invite_code_def require_course_manage_def
       enrollments_list_by_user_def enrollments_list_by_course_def enrollments_list_def Let_def
       invites_create_def invites_get_by_id_def invites_list_by_course_def invites_revoke_def seat_step_same
       intro!: moves seat.changes_insert_row seat.changes_exec_rows)
lemmas seat_all_requests [moves] = seat_unenroll seat_other_requests

section \<open>Runs of requests\<close>

text \<open>
  The requests on enrollments, in any order and by anyone, with the clock advancing and the driver
  failing arbitrarily in between. A change of the settings of a course is not one of them: it may
  lower the capacity below the seats already taken.
\<close>

inductive enrollment_request :: "world \<Rightarrow> world \<Rightarrow> bool" where
  req_enroll: "enrollment_request w (snd (enroll actor c code w))"
| req_payment: "enrollment_request w (snd (enroll_from_payment user c w))"
| req_unenroll: "enrollment_request w (snd (unenroll actor c admin w))"
| req_access: "enrollment_request w (snd (get_access actor c admin w))"
| req_create_code: "enrollment_request w (snd (create_invite_code rnd actor c code n ex admin w))"
| req_revoke_code: "enrollment_request w (snd (revoke_invite_code actor c i admin w))"
| req_clock: "clock w \<le> t \<Longrightarrow> enrollment_request w (w\<lparr>clock := t\<rparr>)"
| req_faults: "enrollment_request w (w\<lparr>faults := f\<rparr>)"

inductive_cases enrollment_requestE: "enrollment_request w w'"

definition within_capacity :: "world \<Rightarrow> bool" where
  "within_capacity w \<longleftrightarrow> (\<forall>c cap. course_capacity w c = Some cap \<longrightarrow>
     int (seats c EnActive (enrollments w)) \<le> cap)"

text \<open>
  A property of every run, from a relation that holds for each request: the interface between the
  per-request lemmas and the theorems on runs.
\<close>

locale run_relation = world_order +
  assumes R_clock: "clock w \<le> t \<Longrightarrow> R w (w\<lparr>clock := t\<rparr>)"
    and R_faults: "R w (w\<lparr>faults := f\<rparr>)"
    and R_enroll: "changes R (enroll actor c code)"
    and R_payment: "changes R (enroll_from_payment user c)"
    and R_unenroll: "changes R (unenroll actor c admin)"
    and R_access: "changes R (get_access actor c admin)"
    and R_create_code: "changes R (create_invite_code rnd actor c code n ex admin)"
    and R_revoke_code: "changes R (revoke_invite_code actor c i admin)"
begin

lemma request: "enrollment_request w w' \<Longrightarrow> R w w'"
  by (erule enrollment_requestE)
    (use R_enroll R_payment R_unenroll R_access R_create_code R_revoke_code R_clock R_faults
      in \<open>auto simp: changes_def\<close>)

lemma run: "rtranclp enrollment_request w w' \<Longrightarrow> R w w'"
  by (induction rule: rtranclp_induct) (auto intro: R_refl R_trans request)

end

interpretation seat_run: run_relation seat_step
  by unfold_locales (auto intro: moves simp: seat_step_same)

lemma seat_step_within:
  assumes "seat_step w w'" and "distinct (map en_id (enrollments w))" and "within_capacity w"
  shows "within_capacity w'"
proof -
  have "course_capacity w' = course_capacity w"
    using assms(1) by (auto simp: seat_step_def intro: course_capacity_cong)
  with assms show ?thesis
    by (fastforce simp: seat_step_def within_capacity_def)
qed

end
