(* ===== verification/Ledger.thy ===== *)
theory Ledger
  imports Payments Seats
begin

text \<open>
  The life of an order. Its terms never change, its status only moves forward (pending to paid,
  failed or cancelled, paid to refunded), its stamps agree with its status and what was stamped once
  stays; its total is the amount less a discount between nothing and the amount. Proved for each
  request on orders and coupons and for runs of them interleaved with enrollment requests, wherever
  the database fails. The locale \<open>payment_relation\<close> is the interface of such proofs.
\<close>


section \<open>The life of an order\<close>

fun order_moves :: "order_status \<Rightarrow> order_status \<Rightarrow> bool" where
  "order_moves OrderPending st = True"
| "order_moves OrderPaid st = (st = OrderPaid \<or> st = OrderRefunded)"
| "order_moves OrderFailed st = (st = OrderFailed)"
| "order_moves OrderRefunded st = (st = OrderRefunded)"
| "order_moves OrderCancelled st = (st = OrderCancelled)"

definition kept_once :: "'a option \<Rightarrow> 'a option \<Rightarrow> bool" where
  "kept_once a b \<longleftrightarrow> a = None \<or> b = a"

text \<open>What happens to one order: its terms are fixed, its status only moves forward, and what was
  stamped once stays.\<close>

definition order_evolves :: "purchase_order \<Rightarrow> purchase_order \<Rightarrow> bool" where
  "order_evolves r s \<longleftrightarrow>
     od_id s = od_id r \<and> od_user_id s = od_user_id r \<and> od_course_id s = od_course_id r
     \<and> od_amount s = od_amount r \<and> od_discount s = od_discount r \<and> od_total s = od_total r
     \<and> od_coupon_id s = od_coupon_id r \<and> od_provider s = od_provider r \<and> od_idem_key s = od_idem_key r
     \<and> order_moves (od_status r) (od_status s)
     \<and> kept_once (od_enrollment_id r) (od_enrollment_id s) \<and> kept_once (od_paid_at r) (od_paid_at s)
     \<and> kept_once (od_failed_at r) (od_failed_at s) \<and> kept_once (od_refunded_at r) (od_refunded_at s)
     \<and> kept_once (od_cancelled_at r) (od_cancelled_at s)"

text \<open>The stamps of an order agree with its status, and its total with its amount and discount.\<close>

definition order_stamps ::
  "order_status \<Rightarrow> bool \<Rightarrow> bool \<Rightarrow> bool \<Rightarrow> bool \<Rightarrow> bool \<Rightarrow> bool" where
  "order_stamps st enrolled paid failed refunded cancelled =
     (case st of
        OrderPending \<Rightarrow> \<not> enrolled \<and> \<not> paid \<and> \<not> failed \<and> \<not> refunded \<and> \<not> cancelled
      | OrderPaid \<Rightarrow> enrolled \<and> paid \<and> \<not> failed \<and> \<not> refunded \<and> \<not> cancelled
      | OrderFailed \<Rightarrow> \<not> enrolled \<and> \<not> paid \<and> failed \<and> \<not> refunded \<and> \<not> cancelled
      | OrderRefunded \<Rightarrow> enrolled \<and> paid \<and> \<not> failed \<and> refunded \<and> \<not> cancelled
      | OrderCancelled \<Rightarrow> \<not> enrolled \<and> \<not> paid \<and> \<not> failed \<and> \<not> refunded \<and> cancelled)"

definition order_stamped :: "purchase_order \<Rightarrow> bool" where
  "order_stamped r = order_stamps (od_status r) (od_enrollment_id r \<noteq> None) (od_paid_at r \<noteq> None)
     (od_failed_at r \<noteq> None) (od_refunded_at r \<noteq> None) (od_cancelled_at r \<noteq> None)"

definition order_ok :: "purchase_order \<Rightarrow> bool" where
  "order_ok r \<longleftrightarrow> order_stamped r \<and> 0 \<le> od_discount r \<and> od_discount r \<le> od_amount r
     \<and> od_total r = od_amount r - od_discount r"

definition ledger_ok :: "world \<Rightarrow> bool" where
  "ledger_ok w \<longleftrightarrow> distinct (map od_id (orders w)) \<and> (\<forall>r \<in> set (orders w). order_ok r)"

definition ledger_step :: "world \<Rightarrow> world \<Rightarrow> bool" where
  "ledger_step w w' \<longleftrightarrow> (ledger_ok w \<longrightarrow>
     ledger_ok w' \<and> (\<forall>r \<in> set (orders w). \<exists>s \<in> set (orders w'). order_evolves r s))"

lemma order_moves_refl [simp]: "order_moves st st"
  by (cases st) auto

lemma order_moves_trans: "order_moves a b \<Longrightarrow> order_moves b c \<Longrightarrow> order_moves a c"
  by (cases a; cases b) auto

lemma order_evolves_refl: "order_evolves r r"
  by (simp add: order_evolves_def kept_once_def)

lemma kept_once_trans: "kept_once a b \<Longrightarrow> kept_once b c \<Longrightarrow> kept_once a c"
  by (auto simp: kept_once_def)

lemma order_evolves_trans: "order_evolves a b \<Longrightarrow> order_evolves b c \<Longrightarrow> order_evolves a c"
  unfolding order_evolves_def
  by (elim conjE, intro conjI) (simp | erule (1) order_moves_trans | erule (1) kept_once_trans)+

lemma ledger_step_same: "orders w' = orders w \<Longrightarrow> ledger_step w w'"
  by (auto simp: ledger_step_def ledger_ok_def intro: order_evolves_refl)

interpretation ledger: enrollment_frame ledger_step
proof unfold_locales
  fix w w' w'' :: world
  assume "ledger_step w w'" "ledger_step w' w''"
  then show "ledger_step w w''"
    unfolding ledger_step_def by (meson order_evolves_trans)
qed (simp_all add: ledger_step_same)

text \<open>The orders are not touched by what is done before the status is written.\<close>

definition same_orders :: "world \<Rightarrow> world \<Rightarrow> bool" where
  "same_orders w w' \<longleftrightarrow> orders w' = orders w"

interpretation same_orders: enrollment_frame same_orders
  by unfold_locales (simp_all add: same_orders_def)

lemma same_orders_redeem [moves]: "changes same_orders (redeem_coupon cid)"
  by (auto simp: redeem_coupon_def coupons_increment_uses_def same_orders_def
      intro!: moves same_orders.changes_exec_check)

lemma order_ok_row [simp]:
  "order_ok (order_row (od\<lparr>od_id := i, od_created_at := t, od_updated_at := u\<rparr>)) \<longleftrightarrow>
     od_status od = OrderPending \<and> 0 \<le> od_discount od \<and> od_discount od \<le> od_amount od
     \<and> od_total od = od_amount od - od_discount od"
  by (cases "od_status od") (auto simp: order_ok_def order_stamped_def order_stamps_def)

lemma ledger_create:
  assumes "od_status od = OrderPending" "od_discount od \<le> od_amount od"
    and "od_total od = od_amount od - od_discount od"
  shows "changes ledger_step (orders_create od)"
  unfolding orders_create_def
  by (intro ledger.changes_insert_row)
    (use assms in \<open>auto simp: ledger_step_def ledger_ok_def pk_free_def fresh_uuid_def order_checks_def
      intro: order_evolves_refl\<close>)

text \<open>An order that was read: the fields a later write puts back are those of its row.\<close>

definition snapshot :: "purchase_order \<Rightarrow> purchase_order \<Rightarrow> bool" where
  "snapshot r od \<longleftrightarrow> od_id od = od_id r \<and> od_user_id od = od_user_id r \<and> od_course_id od = od_course_id r
     \<and> od_coupon_id od = od_coupon_id r \<and> od_provider od = od_provider r
     \<and> od_status od = od_status r \<and> od_enrollment_id od = od_enrollment_id r
     \<and> od_paid_at od = od_paid_at r \<and> od_failed_at od = od_failed_at r
     \<and> od_refunded_at od = od_refunded_at r \<and> od_cancelled_at od = od_cancelled_at r"

definition held_order :: "purchase_order \<Rightarrow> world \<Rightarrow> bool" where
  "held_order od w \<longleftrightarrow> (\<exists>r \<in> set (orders w). snapshot r od)"

lemma snapshot_scan: "snapshot r (scan_order w r)"
  by (simp add: snapshot_def)

lemma held_order_ref [simp]: "held_order (od\<lparr>od_provider_ref := x\<rparr>) w = held_order od w"
  by (simp add: held_order_def snapshot_def)

lemma held_order_faults [simp]: "held_order od (w\<lparr>faults := f\<rparr>) = held_order od w" "held_order od (pop w) = held_order od w"
  by (simp_all add: held_order_def)

lemma held_scan: "r \<in> set (orders w) \<Longrightarrow> held_order (scan_order v r) w"
  using snapshot_scan by (auto simp: held_order_def)

lemma wp_read_order:
  assumes "\<And>od f. held_order od w \<Longrightarrow> od_id od = i \<Longrightarrow> Q od (w\<lparr>faults := f\<rparr>)"
    and "\<And>e f. E e (w\<lparr>faults := f\<rparr>)"
  shows "wpre (orders_get_by_id i) Q E w"
  by (auto simp: orders_get_by_id_def wp_fetch_row pop_def assms(2) dest!: find_SomeD
      intro!: assms(1) held_scan split: option.split)

lemma ledger_write:
  assumes "held_order od w" "orders v = orders w" "od_id od' = od_id od"
    and "\<And>r t. snapshot r od \<Longrightarrow> order_ok r \<Longrightarrow>
           order_evolves r (order_write od' t r) \<and> order_ok (order_write od' t r)"
  shows "wpre (orders_update_status od') (\<lambda>_. ledger_step w) (\<lambda>_. ledger_step w) v"
proof -
  have "ledger_step w (u\<lparr>orders := upd_where (\<lambda>r. od_id r = od_id od') (order_write od' t) (orders v)\<rparr>)" for u t
    unfolding ledger_step_def
  proof (intro impI conjI ballI)
    assume ok: "ledger_ok w"
    then have d: "distinct (map od_id (orders w))" by (simp add: ledger_ok_def)
    obtain q where q: "q \<in> set (orders w)" "snapshot q od" using assms(1) by (auto simp: held_order_def)
    have id: "od_id q = od_id od'" using q(2) assms(3) by (simp add: snapshot_def)
    have row: "order_evolves r (if od_id r = od_id od' then order_write od' t r else r)
        \<and> order_ok (if od_id r = od_id od' then order_write od' t r else r)" if r: "r \<in> set (orders w)" for r
    proof (cases "od_id r = od_id od'")
      case True
      with id have "q = r" using distinct_key_unique [OF d q(1) r] by simp
      with True q ok show ?thesis by (simp add: assms(4) ledger_ok_def)
    qed (use ok r in \<open>simp add: order_evolves_refl ledger_ok_def\<close>)
    then show "ledger_ok (u\<lparr>orders := upd_where (\<lambda>r. od_id r = od_id od') (order_write od' t) (orders v)\<rparr>)"
      using d by (auto simp: ledger_ok_def assms(2) set_upd_where simp del: if_image_distrib)
    fix r assume r: "r \<in> set (orders w)"
    have "(if od_id r = od_id od' then order_write od' t r else r)
        \<in> set (upd_where (\<lambda>r. od_id r = od_id od') (order_write od' t) (orders w))"
      unfolding set_upd_where by (rule rev_image_eqI [OF r refl])
    with row [OF r] show "\<exists>s \<in> set (orders (u\<lparr>orders := upd_where (\<lambda>r. od_id r = od_id od') (order_write od' t) (orders v)\<rparr>)). order_evolves r s"
      by (auto simp: assms(2) simp del: if_image_distrib)
  qed
  then show ?thesis
    using assms(2) by (simp add: orders_update_status_def wp ledger_step_same split: option.split)
qed

lemma ledger_get [moves]: "changes ledger_step (orders_get_by_id i)"
  by (auto simp: orders_get_by_id_def intro!: moves)

lemma ledger_after:
  assumes "changes same_orders m" "orders v = orders w"
    and "\<And>a u. orders u = orders w \<Longrightarrow> wpre (f a) (\<lambda>_. ledger_step w) (\<lambda>_. ledger_step w) u"
  shows "wpre (andThen m f) (\<lambda>_. ledger_step w) (\<lambda>_. ledger_step w) v"
  unfolding wp_andThen using same_orders.wp_changes [OF assms(1) same_orders.R_refl [of v]]
  by (rule wp_mono) (auto simp: same_orders_def assms(2) intro: assms(3) ledger_step_same)

lemma ledger_finish:
  assumes "held_order od w" "orders v = orders w" "od_id od' = od_id od"
    and "order_moves (od_status od) (od_status od')"
    and "order_stamped od \<Longrightarrow> order_stamped od' \<and> kept_once (od_enrollment_id od) (od_enrollment_id od')
      \<and> kept_once (od_paid_at od) (od_paid_at od') \<and> kept_once (od_failed_at od) (od_failed_at od')
      \<and> kept_once (od_refunded_at od) (od_refunded_at od')
      \<and> kept_once (od_cancelled_at od) (od_cancelled_at od')"
  shows "wpre (andThen (orders_update_status od') (\<lambda>_. orders_get_by_id i)) (\<lambda>_. ledger_step w) (\<lambda>_. ledger_step w) v"
proof (intro ledger.wp_then_changes ledger_get ledger_write [OF assms(1-3)])
  fix r t assume "snapshot r od" and "order_ok r"
  with assms(4,5) show "order_evolves r (order_write od' t r) \<and> order_ok (order_write od' t r)"
    by (simp add: order_evolves_def snapshot_def order_ok_def order_stamped_def)
qed

lemma ledger_changes:
  assumes "held_order od w" "orders v = orders w"
  shows "wpre (apply_payment_success od) (\<lambda>_. ledger_step w) (\<lambda>_. ledger_step w) v"
    and "wpre (apply_refund od) (\<lambda>_. ledger_step w) (\<lambda>_. ledger_step w) v"
    and "wpre (mark_failed od) (\<lambda>_. ledger_step w) (\<lambda>_. ledger_step w) v"
    and "wpre (mark_cancelled od) (\<lambda>_. ledger_step w) (\<lambda>_. ledger_step w) v"
  using assms
  by (auto simp: apply_payment_success_def apply_refund_def mark_failed_def mark_cancelled_def
      wp_ret wp_guard_then wp_asks_then ledger_step_same order_stamped_def order_stamps_def kept_once_def
      intro!: ledger_after [where m = "redeem_coupon x" for x]
        ledger_after [where m = "enroll_from_payment u x" for u x] ledger_finish moves)

lemma ledger_read_then:
  assumes "\<And>w od f. held_order od w \<Longrightarrow> od_id od = i \<Longrightarrow>
     wpre (g od) (\<lambda>_. ledger_step w) (\<lambda>_. ledger_step w) (w\<lparr>faults := f\<rparr>)"
  shows "changes ledger_step (andThen (orders_get_by_id i) g)"
proof (rule ledger.changes_wp)
  fix w
  show "wpre (andThen (orders_get_by_id i) g) (\<lambda>_. ledger_step w) (\<lambda>_. ledger_step w) w"
    unfolding wp_andThen by (rule wp_read_order) (auto intro: assms ledger_step_same)
qed

lemma ledger_confirm [moves]: "changes ledger_step (confirm_manual actor i)"
  unfolding confirm_manual_def
  by (intro ledger_read_then)
    (auto simp: wp_guard_then intro: ledger_step_same ledger_changes)

lemma ledger_refund [moves]: "changes ledger_step (refund actor i admin)"
  unfolding refund_def
  by (intro ledger_read_then)
    (auto simp: wp_guard_then courses_get_by_id_eq wp_andThen [of "fetch_row a b c" for a b c] wp_fetch_row pop_def
      intro: ledger_step_same ledger_changes split: option.split)

lemma ledger_dispatch [moves]: "changes ledger_step (dispatch_event r)"
  unfolding dispatch_event_def Let_def
  by (intro ledger_read_then)
    (auto simp: wp_ret intro!: ledger_step_same ledger_changes split: order_status.split)

lemma ledger_record [moves]: "changes ledger_step (webhooks_record e)"
  by (auto simp: webhooks_record_def intro!: moves ledger.changes_insert_row
      intro: ledger.R_trans [OF _ ledger_step_same])

lemma ledger_webhook [moves]: "changes ledger_step (handle_webhook cd cfg provider hs body)"
  by (auto simp: handle_webhook_def Let_def intro!: moves split: sum.split)

lemma compute_discount_le: "0 \<le> amount \<Longrightarrow> compute_discount c amount \<le> amount"
  by (simp add: compute_discount_def Let_def)

lemma wp_orders_create:
  assumes "od_status od = OrderPending" "od_discount od \<le> od_amount od"
    and "od_total od = od_amount od - od_discount od" and "order_stamped od"
  shows "wpre (orders_create od) (\<lambda>od' w'. ledger_step w w' \<and> held_order od' w' \<and> order_stamped od')
    (\<lambda>_. ledger_step w) w"
proof -
  have "wpre (orders_create od) (\<lambda>od' w'. held_order od' w' \<and> order_stamped od') (\<lambda>_ _. True) w"
    using assms(1,4) by (simp add: orders_create_def wp held_order_def snapshot_def order_stamped_def
      order_stamps_def split: option.split)
  then show ?thesis
    by (rule wp_use [OF _ ledger.wp_changes [OF ledger_create [OF assms(1-3)] ledger.R_refl]]) auto
qed

lemma ledger_place:
  assumes "od_status od = OrderPending" "od_discount od \<le> od_amount od"
    and "od_total od = od_amount od - od_discount od" and "order_stamped od"
  shows "changes ledger_step (place_order prov od)"
proof (rule ledger.changes_wp)
  fix w
  have "wpre (andThen (session_of (pv_create prov (od_id od'))) (\<lambda>s.
     andThen (if se_external_id s \<noteq> ''''
              then orders_update_status (od'\<lparr>od_provider_ref := se_external_id s\<rparr>) else ret ()) (\<lambda>_.
     andThen (orders_get_by_id (od_id od')) (\<lambda>full.
     ret \<lparr>ck_order = full, ck_url = se_url s, ck_provider_ref = se_external_id s,
          ck_metadata = se_metadata s\<rparr>)))) (\<lambda>_. ledger_step w) (\<lambda>_. ledger_step w) u"
    if "ledger_step w u" "held_order od' u" "order_stamped od'" for od' u
  proof -
    have "order_evolves r (order_write (od'\<lparr>od_provider_ref := x\<rparr>) t r) \<and> order_ok (order_write (od'\<lparr>od_provider_ref := x\<rparr>) t r)"
      if "snapshot r od'" "order_ok r" for x t r
      using that by (simp add: order_evolves_def snapshot_def kept_once_def order_ok_def order_stamped_def)
    with that(2) have "wpre (orders_update_status (od'\<lparr>od_provider_ref := x\<rparr>)) (\<lambda>_. ledger_step u) (\<lambda>_. ledger_step u) u" for x
      by (intro ledger_write [where od = od']) simp_all
    then have "wpre (orders_update_status (od'\<lparr>od_provider_ref := x\<rparr>)) (\<lambda>_. ledger_step w) (\<lambda>_. ledger_step w) u" for x
      by (rule wp_mono) (rule ledger.R_trans [OF that(1)], assumption)+
    then show ?thesis
      using that(1) by (auto simp: session_of_def wp_andThen [of "case r of Inl e \<Rightarrow> raise e | Inr s \<Rightarrow> ret s" for r]
          wp_raise wp_ret split: sum.split intro!: ledger.wp_then_changes moves)
  qed
  with wp_orders_create [OF assms] show "wpre (place_order prov od) (\<lambda>_. ledger_step w) (\<lambda>_. ledger_step w) w"
    unfolding place_order_def wp_andThen [of "orders_create od"] by (rule wp_mono) auto
qed

lemma ledger_find_discount:
  "0 \<le> amount \<Longrightarrow> wpre (find_discount code c cur amount) (\<lambda>(d, cid) w'. d \<le> amount \<and> ledger_step w w') (\<lambda>_. ledger_step w) w"
  by (auto simp: find_discount_def coupons_get_by_code_def wp compute_discount_le ledger_step_same split: option.split)

lemma ledger_discounted:
  assumes "0 \<le> amount"
  shows "changes ledger_step (andThen (find_discount code c cur amount) (\<lambda>(discount, cid).
     let prov = f cid in place_order prov (new_order actor c amount discount cur cid (pv_type prov) key)))"
proof (rule ledger.changes_wp)
  fix w
  have "changes ledger_step (place_order p (new_order actor c amount d cur cid (pv_type p) key))"
    if "d \<le> amount" for p d cid
    using that by (intro ledger_place) (simp_all add: new_order_def order_stamped_def order_stamps_def)
  then show "wpre (andThen (find_discount code c cur amount) (\<lambda>(discount, cid).
     let prov = f cid in place_order prov (new_order actor c amount discount cur cid (pv_type prov) key)))
     (\<lambda>_. ledger_step w) (\<lambda>_. ledger_step w) w"
    unfolding wp_andThen Let_def using ledger_find_discount [OF assms, of code c cur w]
    by (elim wp_mono) (auto intro: ledger.wp_changes)
qed

lemma ledger_new_checkout [moves]: "changes ledger_step (new_checkout cd cfg actor c code key provider)"
proof (rule ledger.changes_wp)
  fix w
  show "wpre (new_checkout cd cfg actor c code key provider) (\<lambda>_. ledger_step w) (\<lambda>_. ledger_step w) w"
    unfolding new_checkout_def
    by (auto simp: courses_get_by_id_eq wp_andThen [of "fetch_row a b c" for a b c] wp_fetch_row wp_guard_then
        Let_def ledger_step_same split: option.split
        intro!: ledger.wp_changes ledger_discounted [unfolded Let_def] moves)
qed

lemma ledger_create_checkout [moves]: "changes ledger_step (create_checkout cd cfg actor c code key provider)"
  by (auto simp: create_checkout_def Let_def checkout_from_existing_def session_of_def
      orders_get_by_idempotency_key_def intro!: moves split: sum.split)

lemma ledger_coupons [moves]:
  "changes ledger_step (create_coupon actor ci admin)" "changes ledger_step (revoke_coupon actor i admin)"
  by (auto simp: create_coupon_def revoke_coupon_def coupons_create_def coupons_get_by_id_def coupons_revoke_def Let_def
      ledger_step_same intro!: moves ledger.changes_insert_row ledger.changes_exec_rows)

section \<open>Runs of requests\<close>

text \<open>The requests on orders and coupons, by anyone, and the requests on enrollments in between.\<close>

inductive payment_request :: "codecs \<Rightarrow> payment_config \<Rightarrow> world \<Rightarrow> world \<Rightarrow> bool" for cd cfg where
  req_checkout: "payment_request cd cfg w (snd (create_checkout cd cfg actor c code key provider w))"
| req_confirm: "payment_request cd cfg w (snd (confirm_manual actor i w))"
| req_webhook: "payment_request cd cfg w (snd (handle_webhook cd cfg provider hs body w))"
| req_refund: "payment_request cd cfg w (snd (refund actor i admin w))"
| req_create_coupon: "payment_request cd cfg w (snd (create_coupon actor ci admin w))"
| req_revoke_coupon: "payment_request cd cfg w (snd (revoke_coupon actor i admin w))"
| req_enrollment: "enrollment_request w w' \<Longrightarrow> payment_request cd cfg w w'"

inductive_cases payment_requestE: "payment_request cd cfg w w'"

locale payment_relation = run_relation R for R :: "world \<Rightarrow> world \<Rightarrow> bool" +
  fixes cd :: codecs and cfg :: payment_config
  assumes R_checkout: "changes R (create_checkout cd cfg actor c code key provider)"
    and R_confirm: "changes R (confirm_manual actor i)"
    and R_webhook: "changes R (handle_webhook cd cfg provider hs body)"
    and R_refund: "changes R (refund actor i admin)"
    and R_create_coupon: "changes R (create_coupon actor ci admin)"
    and R_revoke_coupon: "changes R (revoke_coupon actor i admin)"
begin

lemma payment: "payment_request cd cfg w w' \<Longrightarrow> R w w'"
  by (erule payment_requestE)
    (use R_checkout R_confirm R_webhook R_refund R_create_coupon R_revoke_coupon
      in \<open>auto simp: changes_def intro: request\<close>)

lemma payments: "rtranclp (payment_request cd cfg) w w' \<Longrightarrow> R w w'"
  by (induction rule: rtranclp_induct) (auto intro: R_refl R_trans payment)

end

interpretation ledger_run: payment_relation ledger_step cd cfg for cd cfg
  by unfold_locales (auto intro: moves ledger_step_same)
end
