(* ===== verification/Roster.thy ===== *)
theory Roster
  imports Seats
begin

text \<open>
  The rows of the table \<open>enrollments\<close>: a learner has at most one row per course, whatever requests
  run, and the timestamps of a row agree with its status (an active one has been enrolled and is not
  cancelled, a waitlisted one waits since a known time, a cancelled one has been cancelled). Proved
  for each request of the service, for every prefix at which it may fail.
\<close>


definition enrollment_ok :: "enrollment \<Rightarrow> bool" where
  "enrollment_ok e \<longleftrightarrow>
     (case en_status e of
        EnActive \<Rightarrow> en_enrolled_at e \<noteq> None \<and> en_cancelled_at e = None
      | EnWaitlisted \<Rightarrow> en_waitlisted_at e \<noteq> None \<and> en_enrolled_at e = None \<and> en_cancelled_at e = None
      | EnCancelled \<Rightarrow> en_cancelled_at e \<noteq> None)
     \<and> (en_source e = SourceInviteCode \<longrightarrow> en_invite_id e \<noteq> None)
     \<and> (en_source e = SourcePayment \<longrightarrow> en_invite_id e = None)"

definition roster_ok :: "world \<Rightarrow> bool" where
  "roster_ok w \<longleftrightarrow> distinct (map en_id (enrollments w))
     \<and> distinct (map (\<lambda>e. (en_course_id e, en_user_id e)) (enrollments w))
     \<and> (\<forall>e \<in> set (enrollments w). enrollment_ok e)"

interpretation roster: world_invariant roster_ok
  by unfold_locales (simp_all add: roster_ok_def)

lemma enrollment_ok_cong [simp]:
  "enrollment_ok (enrollment_write e n r) = enrollment_ok e"
  "enrollment_ok (blank_joins (e\<lparr>en_id := i, en_created_at := t, en_updated_at := u\<rparr>)) = enrollment_ok e"
  "enrollment_ok (scan_enrollment w e) = enrollment_ok e"
  by (cases "en_status e"; simp add: enrollment_ok_def enrollment_write_def blank_joins_def scan_enrollment_def)+

lemma roster_create: "enrollment_ok e \<Longrightarrow> changes (keeping roster_ok) (enrollments_create e)"
  unfolding enrollments_create_def
  by (intro roster.kept.changes_insert_row)
    (auto simp: keeping_def roster_ok_def pk_free_def fresh_uuid_def list_ex_iff)

lemma roster_update: "enrollment_ok e \<Longrightarrow> changes (keeping roster_ok) (enrollments_update_status e)"
  unfolding enrollments_update_status_def
  by (intro roster.kept.changes_exec_rows) (auto simp: keeping_def roster_ok_def set_upd_where)

lemma roster_statements [moves]:
  "changes (keeping roster_ok) (courses_get_by_id i)"
  "changes (keeping roster_ok) (enrollments_get_by_id i)"
  "changes (keeping roster_ok) (enrollments_get_by_course_user c u)"
  "changes (keeping roster_ok) (enrollments_count_by_course_status c st)"
  "changes (keeping roster_ok) (enrollments_next_waitlisted c)"
  "changes (keeping roster_ok) (invites_get_by_course_code c code)"
  "changes (keeping roster_ok) (invites_increment_uses i)"
  "changes (keeping roster_ok) (enrollments_append_event e c u t)"
  by (auto simp: enrollment_repo_defs keeping_def roster_ok_def
      intro!: moves roster.kept.changes_exec_check roster.kept.changes_insert_row)

lemma roster_parts [moves]:
  "changes (keeping roster_ok) (use_invite iv)" "changes (keeping roster_ok) (emit en ev)"
  "changes (keeping roster_ok) (find_invite course c code)"
  "changes (keeping roster_ok) (decide_seat course)"
  by (auto simp: use_invite_def emit_def find_invite_def decide_seat_def intro!: moves)

lemma decided: "wpre (decide_seat course) (\<lambda>(st, ev) _. st \<noteq> EnCancelled) (\<lambda>_ _. True) w"
  by (simp add: decide_seat_def enrollments_count_by_course_status_def wp split: option.split)

lemma enrollment_ok_new:
  "st \<noteq> EnCancelled \<Longrightarrow> (src = SourceInviteCode \<longrightarrow> iv \<noteq> None) \<Longrightarrow> (src = SourcePayment \<longrightarrow> iv = None)
   \<Longrightarrow> enrollment_ok (new_enrollment c u st src iv now)"
  by (cases st) (auto simp: enrollment_ok_def new_enrollment_def)

lemma enrollment_ok_reactivated:
  "st \<noteq> EnCancelled \<Longrightarrow> (src = SourceInviteCode \<longrightarrow> iv \<noteq> None) \<Longrightarrow> (src = SourcePayment \<longrightarrow> iv = None)
   \<Longrightarrow> enrollment_ok (reactivated st src iv now e)"
  by (cases st) (auto simp: enrollment_ok_def reactivated_def)

lemma enrollment_ok_cancelled:
  "enrollment_ok e \<Longrightarrow> enrollment_ok (e\<lparr>en_status := EnCancelled, en_cancelled_at := Some now\<rparr>)"
  by (auto simp: enrollment_ok_def)

lemma enrollment_ok_activated:
  "enrollment_ok e \<Longrightarrow> en_status e = EnWaitlisted \<Longrightarrow>
   enrollment_ok (e\<lparr>en_status := EnActive, en_enrolled_at := Some now\<rparr>)"
  by (auto simp: enrollment_ok_def)

text \<open>After the seat is decided, the row that is written is well formed.\<close>

lemma roster_decided:
  assumes "\<And>st ev. st \<noteq> EnCancelled \<Longrightarrow> changes (keeping roster_ok) (f (st, ev))"
  shows "changes (keeping roster_ok) (andThen (decide_seat course) f)"
  by (rule keeping_then [where P = "\<lambda>(st, ev) _. st \<noteq> EnCancelled"])
    (auto intro: moves decided assms wp_keeping)

lemma roster_enroll_commit:
  "st \<noteq> EnCancelled \<Longrightarrow> changes (keeping roster_ok) (enroll_commit actor c iv (st, ev))"
  by (auto simp: enroll_commit_def intro!: moves roster_create enrollment_ok_new)

lemma roster_reactivate [moves]:
  "changes (keeping roster_ok) (reactivate course e iv)"
  "changes (keeping roster_ok) (reactivate_from_payment course e)"
  by (auto simp: reactivate_def reactivate_from_payment_def Let_def
      intro!: roster_decided moves roster_update enrollment_ok_reactivated split: option.split)

lemma roster_enroll [moves]: "changes (keeping roster_ok) (enroll actor c code)"
  unfolding enroll_def by (intro moves roster_decided roster_enroll_commit)

lemma roster_enroll_from_payment [moves]: "changes (keeping roster_ok) (enroll_from_payment user c)"
  by (auto simp: enroll_from_payment_def intro!: moves roster_decided roster_create enrollment_ok_new
      split: enrollment_status.split)

lemma next_waitlisted_ok:
  "roster_ok w \<Longrightarrow> wpre (optional is_not_found (enrollments_next_waitlisted c))
     (\<lambda>next _. case next of None \<Rightarrow> True | Some n \<Rightarrow> enrollment_ok n \<and> en_status n = EnWaitlisted)
     (\<lambda>_ _. True) w"
  by (auto simp: enrollments_next_waitlisted_def wp roster_ok_def split: option.split
      dest: next_waitlisted_Some)

lemma roster_promote_waitlist [moves]: "changes (keeping roster_ok) (promote_waitlist c)"
proof -
  have "changes (keeping roster_ok) (promote_next c)"
    unfolding promote_next_def
  proof (rule keeping_then [OF _ next_waitlisted_ok])
    fix a s
    assume "case a of None \<Rightarrow> True | Some n \<Rightarrow> enrollment_ok n \<and> en_status n = EnWaitlisted"
      and I: "roster_ok s"
    then show "wpre (case a of None \<Rightarrow> ret () | Some n \<Rightarrow> andThen (asks clock) (\<lambda>now.
        let e = n\<lparr>en_status := EnActive, en_enrolled_at := Some now\<rparr>
        in andThen (enrollments_update_status e) (\<lambda>_. emit e EvActivated)))
        (\<lambda>_. roster_ok) (\<lambda>_. roster_ok) s"
      by (intro wp_keeping [where I = roster_ok, OF _ I])
        (auto simp: Let_def split: option.split intro!: moves roster_update enrollment_ok_activated)
  qed (intro moves)
  then show ?thesis
    by (auto simp: promote_waitlist_def intro!: moves)
qed

lemma read_enrollment_ok:
  "roster_ok w \<Longrightarrow> wpre (enrollments_get_by_course_user c u) (\<lambda>e _. enrollment_ok e) (\<lambda>_ _. True) w"
  by (auto simp: enrollments_get_by_course_user_def wp roster_ok_def split: option.split dest: find_SomeD)

lemma roster_unenroll [moves]: "changes (keeping roster_ok) (unenroll actor c admin)"
  unfolding unenroll_def
proof (rule keeping_then [OF _ read_enrollment_ok])
  fix en s assume "enrollment_ok en" and I: "roster_ok s"
  then show "wpre (andThen (guard (\<not> (en_user_id en \<noteq> actor \<and> \<not> admin))
       (forbidden ''cannot unenroll another user'')) (\<lambda>_.
     andThen (guard (en_status en \<noteq> EnCancelled)
       (conflict ''enrollment already cancelled'')) (\<lambda>_.
     andThen (asks clock) (\<lambda>now.
     let e = en\<lparr>en_status := EnCancelled, en_cancelled_at := Some now\<rparr>
     in andThen (enrollments_update_status e) (\<lambda>_.
        andThen (emit e EvCancelled) (\<lambda>_.
        andThen (if en_status en = EnActive then promote_waitlist c else ret ()) (\<lambda>_.
        enrollments_get_by_id (en_id en))))))))  (\<lambda>_. roster_ok) (\<lambda>_. roster_ok) s"
    by (intro wp_keeping [where I = roster_ok, OF _ I])
      (auto simp: Let_def intro!: moves roster_update enrollment_ok_cancelled)
qed (intro moves)

lemma roster_others [moves]:
  "changes (keeping roster_ok) (get_access actor c admin)"
  "changes (keeping roster_ok) (has_active_enrollment c user)"
  "changes (keeping roster_ok) (create_invite_code rnd actor c code n ex admin)"
  "changes (keeping roster_ok) (revoke_invite_code actor c i admin)"
  by (auto simp: get_access_def has_active_enrollment_def create_invite_code_def revoke_invite_code_def
      require_course_manage_def Let_def invites_create_def invites_get_by_id_def invites_revoke_def
      keeping_def roster_ok_def intro!: moves roster.kept.changes_insert_row roster.kept.changes_exec_rows)

interpretation roster_run: run_relation "keeping roster_ok"
  by unfold_locales (auto intro: moves simp: keeping_def roster_ok_def)
end
