(* ===== verification/Admission.thy ===== *)
theory Admission
  imports Roster
begin

text \<open>
  What an enrollment request is worth when the database answers: \<open>admission\<close> is the decision of
  \<open>Enroll\<close> as a function of the world (the checks in their order, the invite, the seat), and
  \<open>enrolled_as\<close> the abstract effect of an admitted request on the roster seen as a map from course
  and learner to a status. \<open>enroll\<close> is shown to implement them: a refused request changes nothing,
  an admitted one succeeds with exactly that effect. The second part is the waitlist: the seat that
  is given back goes to the learner who has waited longest.
\<close>


lemma wp_update_quiet:
  assumes "quiet w" "r \<in> set (enrollments w)" "en_id r = en_id e"
    and "Q () (w\<lparr>enrollments := upd_where (\<lambda>s. en_id s = en_id e) (enrollment_write e (clock w)) (enrollments w)\<rparr>)"
  shows "wpre (enrollments_update_status e) Q E w"
proof -
  have "cnt (\<lambda>s. en_id s = en_id e) (enrollments w) \<noteq> 0"
    using assms(2,3) by (auto simp: cnt_def filter_empty_conv)
  then show ?thesis
    using assms(1,4) by (simp add: enrollments_update_status_def wp_exec_rows)
qed

section \<open>The abstract roster\<close>

definition status_of :: "world \<Rightarrow> uuid \<times> uuid \<Rightarrow> enrollment_status option" where
  "status_of w = (\<lambda>(c, u). map_option en_status
     (find (\<lambda>r. en_course_id r = c \<and> en_user_id r = u) (enrollments w)))"

definition invite_choice :: "world \<Rightarrow> course \<Rightarrow> string \<Rightarrow> err + invite_code option" where
  "invite_choice w course code =
     (if code = '''' then
        (if co_enrollment_open course then Inr None
         else Inl (forbidden ''enrollment is closed; an invite code is required''))
      else (case find (\<lambda>r. inv_course_id r = co_id course
                           \<and> to_lower (inv_code r) = to_lower (trim_space code)) (invite_codes w) of
              None \<Rightarrow> Inl (not_found ''invite code not found'')
            | Some iv \<Rightarrow> (case validate_invite (clock w) iv of None \<Rightarrow> Inr (Some iv) | Some e \<Rightarrow> Inl e)))"

definition seat_choice :: "world \<Rightarrow> course \<Rightarrow> err + enrollment_status" where
  "seat_choice w course =
     (if (case co_capacity course of None \<Rightarrow> True
          | Some cap \<Rightarrow> int (seats (co_id course) EnActive (enrollments w)) < cap) then Inr EnActive
      else if co_waitlist_enabled course then Inr EnWaitlisted
      else Inl (conflict ''course is full''))"

definition admission ::
  "world \<Rightarrow> uuid \<Rightarrow> uuid \<Rightarrow> string \<Rightarrow> err + (invite_code option \<times> enrollment_status)" where
  "admission w actor c code =
     (case live_course w c of
        None \<Rightarrow> Inl (not_found ''course not found'')
      | Some course \<Rightarrow>
          if co_status course \<noteq> CoursePublished
            then Inl (validation ''only published courses accept enrollment'')
          else if co_teacher_id course = actor
            then Inl (validation ''teachers cannot enroll in their own course'')
          else if 0 < co_price_cents course
            then Inl (validation ''paid course requires checkout; use POST /courses/:id/checkout'')
          else (case invite_choice w course (trim_space code) of
              Inl e \<Rightarrow> Inl e
            | Inr iv \<Rightarrow>
                if status_of w (c, actor) \<notin> {None, Some EnCancelled}
                  then Inl (conflict ''already enrolled in this course'')
                else (case seat_choice w course of Inl e \<Rightarrow> Inl e | Inr st \<Rightarrow> Inr (iv, st))))"

definition event_of :: "enrollment_status \<Rightarrow> enrollment_event_type" where
  "event_of st = (case st of EnActive \<Rightarrow> EvEnrolled | EnWaitlisted \<Rightarrow> EvWaitlisted | EnCancelled \<Rightarrow> EvCancelled)"

definition event_log :: "world \<Rightarrow> (uuid \<times> uuid \<times> enrollment_event_type) list" where
  "event_log w = map (\<lambda>e. (ev_course_id e, ev_user_id e, ev_type e)) (enrollment_events w)"

lemma wp_find_invite:
  assumes "quiet w" "co_id course = c"
  shows "wpre (find_invite course c code) Q E w =
     (case invite_choice w course code of Inl e \<Rightarrow> E e w | Inr iv \<Rightarrow> Q iv w)"
  using assms by (simp add: find_invite_def invite_choice_def invites_get_by_course_code_def wp split: option.split)

lemma wp_decide_seat_quiet:
  assumes "quiet w"
  shows "wpre (decide_seat course) Q E w =
     (case seat_choice w course of Inl e \<Rightarrow> E e w | Inr st \<Rightarrow> Q (st, event_of st) w)"
  using assms by (simp add: decide_seat_def seat_choice_def event_of_def enrollments_count_by_course_status_def wp split: option.split)

lemma wp_get_course:
  "quiet w \<Longrightarrow> wpre (courses_get_by_id c) Q E w =
     (case live_course w c of None \<Rightarrow> E (not_found ''course not found'') w | Some a \<Rightarrow> Q a w)"
  by (simp add: courses_get_by_id_eq wp split: option.split)

lemma wp_get_enrollment:
  "quiet w \<Longrightarrow> wpre (enrollments_get_by_course_user c u) Q E w =
     (case find (\<lambda>r. en_course_id r = c \<and> en_user_id r = u) (enrollments w) of
        None \<Rightarrow> E (not_found ''enrollment not found'') w | Some r \<Rightarrow> Q (scan_enrollment w r) w)"
  by (simp add: enrollments_get_by_course_user_def wp split: option.split)

text \<open>What the request still has to do once it is admitted: a new row, or the old one again.\<close>

definition seat_again :: "invite_code option \<Rightarrow> enrollment_status \<Rightarrow> enrollment \<Rightarrow> enrollment act" where
  "seat_again iv st existing =
     andThen (asks clock) (\<lambda>now.
     let e = reactivated st (if iv = None then SourceSelf else SourceInviteCode)
               (case iv of None \<Rightarrow> en_invite_id existing | Some i \<Rightarrow> Some (inv_id i)) now existing
     in andThen (enrollments_update_status e) (\<lambda>_.
        andThen (use_invite iv) (\<lambda>_.
        andThen (emit e (event_of st)) (\<lambda>_.
        enrollments_get_by_id (en_id existing)))))"

definition seat_taken :: "uuid \<Rightarrow> uuid \<Rightarrow> invite_code option \<Rightarrow> enrollment_status \<Rightarrow> enrollment act" where
  "seat_taken actor c iv st =
     andThen (asks (\<lambda>w. find (\<lambda>r. en_course_id r = c \<and> en_user_id r = actor) (enrollments w))) (\<lambda>row.
     andThen (asks scan_enrollment) (\<lambda>scan.
     case row of
       None \<Rightarrow> enroll_commit actor c iv (st, event_of st)
     | Some r \<Rightarrow> seat_again iv st (scan r)))"

lemma wp_seat_taken:
  "wpre (seat_taken actor c iv st) Q E w =
     (case find (\<lambda>r. en_course_id r = c \<and> en_user_id r = actor) (enrollments w) of
       None \<Rightarrow> wpre (enroll_commit actor c iv (st, event_of st)) Q E w
     | Some r \<Rightarrow> wpre (seat_again iv st (scan_enrollment w r)) Q E w)"
  by (simp add: seat_taken_def wp)

lemma wp_reactivate:
  "quiet w \<Longrightarrow> wpre (reactivate course e iv) Q E w =
     (case seat_choice w course of Inl err \<Rightarrow> E err w | Inr st \<Rightarrow> wpre (seat_again iv st e) Q E w)"
  by (simp add: reactivate_def seat_again_def wp_andThen wp_decide_seat_quiet split: sum.split)

lemma wp_enroll:
  assumes w: "quiet w"
  shows "wpre (enroll actor c code) Q E w =
    (case admission w actor c code of Inl e \<Rightarrow> E e w | Inr (iv, st) \<Rightarrow> wpre (seat_taken actor c iv st) Q E w)"
proof (cases "live_course w c")
  case None
  then show ?thesis by (simp add: enroll_def admission_def wp_andThen wp_get_course w)
next
  case (Some course)
  note course = this
  show ?thesis
  proof (cases "co_status course = CoursePublished \<and> co_teacher_id course \<noteq> actor \<and> \<not> 0 < co_price_cents course")
    case False
    then show ?thesis
      using course by (auto simp: enroll_def admission_def wp_andThen wp_guard wp_get_course w)
  next
    case True
    note ok = this
    show ?thesis
    proof (cases "invite_choice w course (trim_space code)")
      case (Inl e)
      with ok course show ?thesis
        by (simp add: enroll_def admission_def wp_andThen wp_guard wp_get_course wp_find_invite live_course_id w)
    next
      case (Inr iv)
      note choice = this
      show ?thesis
      proof (cases "find (\<lambda>r. en_course_id r = c \<and> en_user_id r = actor) (enrollments w)")
        case None
        with ok course choice show ?thesis
          by (simp add: enroll_def admission_def wp_andThen wp_guard wp_optional wp_get_course wp_find_invite
              wp_get_enrollment wp_decide_seat_quiet live_course_id w status_of_def wp_seat_taken
              split: sum.split)
      next
        case (Some r)
        with ok course choice show ?thesis
          by (cases "en_status r")
            (simp_all add: enroll_def admission_def wp_andThen wp_guard wp_raise wp_optional wp_get_course
              wp_find_invite wp_get_enrollment wp_reactivate live_course_id w status_of_def wp_seat_taken
              split: sum.split)
      qed
    qed
  qed
qed

definition spare_ids :: "world \<Rightarrow> bool" where
  "spare_ids w \<longleftrightarrow> list_all (\<lambda>n. uuid_gen w (uuid_next w + n) \<notin>
     set (map en_id (enrollments w)) \<union> set (map ev_id (enrollment_events w))) [0, 1]
     \<and> uuid_gen w (uuid_next w) \<noteq> uuid_gen w (Suc (uuid_next w))"

definition countable_uses :: "world \<Rightarrow> bool" where
  "countable_uses w \<longleftrightarrow> list_all (\<lambda>i. int4 (inv_uses i + 1)) (invite_codes w)"

definition uses_after :: "invite_code option \<Rightarrow> world \<Rightarrow> int list" where
  "uses_after iv w = map (\<lambda>i. inv_uses i + (case iv of None \<Rightarrow> 0 | Some j \<Rightarrow> if inv_id i = inv_id j then 1 else 0))
     (invite_codes w)"

definition enrolled_as ::
  "uuid \<Rightarrow> uuid \<Rightarrow> invite_code option \<Rightarrow> enrollment_status \<Rightarrow> world \<Rightarrow> enrollment \<Rightarrow> world \<Rightarrow> bool" where
  "enrolled_as actor c iv st w en w' \<longleftrightarrow>
     en_course_id en = c \<and> en_user_id en = actor \<and> en_status en = st
     \<and> status_of w' = (status_of w)((c, actor) \<mapsto> st)
     \<and> event_log w' = event_log w @ [(c, actor, event_of st)]
     \<and> map inv_uses (invite_codes w') = uses_after iv w"

lemma invite_choice_SomeD:
  "invite_choice w course code = Inr (Some iv) \<Longrightarrow> iv \<in> set (invite_codes w)"
  by (auto simp: invite_choice_def dest: find_SomeD split: if_splits option.splits)

lemma wp_use_invite:
  assumes "quiet w" "countable_uses w" "\<And>i. iv = Some i \<Longrightarrow> i \<in> set (invite_codes w)"
    and "\<And>cs. map inv_uses cs = uses_after iv w \<Longrightarrow> Q () (w\<lparr>invite_codes := cs\<rparr>)"
  shows "wpre (use_invite iv) Q E w"
proof (cases iv)
  case None
  with assms(4) [of "invite_codes w"] show ?thesis
    by (simp add: use_invite_def wp uses_after_def)
next
  case (Some i)
  have "cnt (\<lambda>r. inv_id r = inv_id i) (invite_codes w) \<noteq> 0"
    using assms(3) [OF Some] by (auto simp: cnt_def filter_empty_conv)
  moreover have "\<not> list_ex (\<lambda>r. inv_id r = inv_id i \<and> \<not> int4 (inv_uses r + 1)) (invite_codes w)"
    using assms(2) by (auto simp: countable_uses_def list_ex_iff list_all_iff)
  moreover have "map inv_uses (upd_where (\<lambda>r. inv_id r = inv_id i) f (invite_codes w)) = uses_after iv w"
    if "\<And>r. inv_uses (f r) = inv_uses r + 1" for f
    using that by (simp add: upd_where_def uses_after_def Some)
  ultimately show ?thesis
    using assms(1,4) by (simp add: use_invite_def invites_increment_uses_def Some wp)
qed

lemma wp_seat_tail:
  assumes "quiet v" "countable_uses v" "\<And>i. iv = Some i \<Longrightarrow> i \<in> set (invite_codes v)"
    and "fresh_uuid v \<notin> set (map ev_id (enrollment_events v))"
    and "find (\<lambda>r. en_id r = en_id e) (enrollments v) = Some r"
    and "en_course_id e = en_course_id r" "en_user_id e = en_user_id r"
    and "has_course v (en_course_id r)" "has_user v (en_user_id r)"
    and "\<And>u x. status_of u = status_of v \<Longrightarrow> map inv_uses (invite_codes u) = uses_after iv v \<Longrightarrow>
           event_log u = event_log v @ [(en_course_id r, en_user_id r, ev)] \<Longrightarrow> Q (scan_enrollment x r) u"
  shows "wpre (andThen (use_invite iv) (\<lambda>_. andThen (emit e ev) (\<lambda>_. enrollments_get_by_id (en_id e)))) Q E v"
  unfolding wp_andThen
proof (rule wp_use_invite)
  fix cs :: "invite_code list" assume cs: "map inv_uses cs = uses_after iv v"
  have "en_id e \<in> set (map en_id (enrollments v))"
    using assms(5) by (auto dest!: find_SomeD intro: rev_image_eqI)
  then show "wpre (emit e ev) (\<lambda>_. wpre (enrollments_get_by_id (en_id e)) Q E) E (v\<lparr>invite_codes := cs\<rparr>)"
    using assms cs
    by (simp add: emit_def enrollments_append_event_def enrollments_get_by_id_def wp pk_free_def
        fresh_uuid_def status_of_def event_log_def has_course_def has_user_def violation_def)
qed (use assms in auto)

lemma wp_seat_new:
  assumes "quiet w" "spare_ids w" "has_user w actor" "has_course w c" "countable_uses w"
    and "\<And>i. iv = Some i \<Longrightarrow> i \<in> set (invite_codes w)"
    and none: "find (\<lambda>r. en_course_id r = c \<and> en_user_id r = actor) (enrollments w) = None"
  shows "wpre (enroll_commit actor c iv (st, event_of st)) (enrolled_as actor c iv st w) (\<lambda>_ _. False) w"
proof -
  have new: "\<not> list_ex (\<lambda>r. en_course_id r = c \<and> en_user_id r = actor) (enrollments w)"
    using none by (auto simp: find_None_iff list_ex_iff)
  have id: "find (\<lambda>r. en_id r = fresh_uuid w) (enrollments w) = None" "fresh_uuid w \<notin> set (map en_id (enrollments w))"
    using assms(2) by (auto simp: find_None_iff spare_ids_def fresh_uuid_def rev_image_eqI)
  let ?n = "new_enrollment c actor st (if iv = None then SourceSelf else SourceInviteCode)
      (map_option inv_id iv) (clock w)"
  let ?e = "?n\<lparr>en_id := fresh_uuid w, en_created_at := clock w, en_updated_at := clock w\<rparr>"
  let ?v = "w\<lparr>uuid_next := Suc (uuid_next w), enrollments := enrollments w @ [blank_joins ?e]\<rparr>"
  have keys: "en_course_id ?e = c" "en_user_id ?e = actor" "en_status ?e = st"
    by (simp_all add: new_enrollment_def)
  have status: "status_of ?v = (status_of w)((c, actor) \<mapsto> st)"
    using none keys by (auto simp: status_of_def fun_eq_iff find_append split: option.split)
  have "wpre (andThen (use_invite iv) (\<lambda>_. andThen (emit ?e (event_of st)) (\<lambda>_. enrollments_get_by_id (en_id ?e))))
          (enrolled_as actor c iv st w) (\<lambda>_ _. False) ?v"
    by (rule wp_seat_tail [where r = "blank_joins ?e"])
      (use assms id keys status in \<open>auto simp: find_append spare_ids_def fresh_uuid_def countable_uses_def
         has_course_def has_user_def enrolled_as_def uses_after_def event_log_def\<close>)
  then show ?thesis
    unfolding enroll_commit_def prod.case enrollments_create_def wp_andThen [of "asks f" for f]
      wp_andThen [of "insert_row a b c d" for a b c d] wp_asks
    using assms new id keys
    by (intro wp_insert_quiet)
      (auto simp: pk_free_def violation_def new_enrollment_def split: option.split)
qed

lemma roster_row_unique:
  assumes "roster_ok w" "r \<in> set (enrollments w)" "s \<in> set (enrollments w)"
    and "en_id s = en_id r \<or> en_course_id s = en_course_id r \<and> en_user_id s = en_user_id r"
  shows "s = r"
  using assms unfolding roster_ok_def
  by (auto intro: distinct_key_unique [where k = en_id and rs = "enrollments w"]
      distinct_key_unique [where k = "\<lambda>e. (en_course_id e, en_user_id e)" and rs = "enrollments w"])

lemma find_roster_row:
  "roster_ok w \<Longrightarrow> r \<in> set (enrollments w) \<Longrightarrow>
   find (\<lambda>s. en_course_id s = en_course_id r \<and> en_user_id s = en_user_id r) (enrollments w) = Some r"
  using find_distinct_key [where k = "\<lambda>e. (en_course_id e, en_user_id e)" and rs = "enrollments w" and r = r]
  by (simp add: roster_ok_def)

lemma status_of_write:
  assumes ok: "roster_ok w" and r: "r \<in> set (enrollments w)" and i: "i = en_id r"
  shows "status_of (w\<lparr>enrollments := upd_where (\<lambda>s. en_id s = i) (enrollment_write e t) (enrollments w)\<rparr>)
     = (status_of w)((en_course_id r, en_user_id r) \<mapsto> en_status e)"
proof -
  have "en_id s \<noteq> en_id r \<and> (en_course_id s \<noteq> en_course_id r \<or> en_user_id s \<noteq> en_user_id r) \<or> s = r"
    if "s \<in> set (enrollments w)" for s
    using roster_row_unique [OF ok r that] by blast
  then show ?thesis
    using find_roster_row [OF ok r]
    by (auto simp: status_of_def fun_eq_iff find_upd_where i option.map_comp comp_def
        dest!: find_SomeD intro!: option.map_cong0 cong: option.map_cong) metis+
qed

lemma wp_seat_again:
  assumes "quiet w" "spare_ids w" "has_user w actor" "has_course w c" "countable_uses w"
    and "\<And>i. iv = Some i \<Longrightarrow> i \<in> set (invite_codes w)"
    and row: "find (\<lambda>r. en_course_id r = c \<and> en_user_id r = actor) (enrollments w) = Some r"
    and "roster_ok w"
  shows "wpre (seat_again iv st (scan_enrollment w r)) (enrolled_as actor c iv st w) (\<lambda>_ _. False) w"
proof -
  let ?e = "reactivated st (if iv = None then SourceSelf else SourceInviteCode)
               (case iv of None \<Rightarrow> en_invite_id (scan_enrollment w r) | Some i \<Rightarrow> Some (inv_id i)) (clock w) (scan_enrollment w r)"
  let ?v = "w\<lparr>enrollments := upd_where (\<lambda>s. en_id s = en_id ?e) (enrollment_write ?e (clock w)) (enrollments w)\<rparr>"
  have r: "r \<in> set (enrollments w)" "en_course_id r = c" "en_user_id r = actor"
    using find_SomeD [OF row] by auto
  have keys: "en_id ?e = en_id r" "en_course_id ?e = c" "en_user_id ?e = actor" "en_status ?e = st"
    using r by (simp_all add: reactivated_def)
  have id: "find (\<lambda>s. en_id s = en_id ?e) (enrollments ?v) = Some (enrollment_write ?e (clock w) r)"
    using find_distinct_key [where k = en_id and r = r and rs = "enrollments w"] assms(8) r(1) keys(1)
    by (simp add: find_upd_where roster_ok_def)
  have status: "status_of ?v = (status_of w)((c, actor) \<mapsto> st)"
    using status_of_write [OF assms(8) r(1) keys(1)] r keys by simp
  have "wpre (andThen (use_invite iv) (\<lambda>_. andThen (emit ?e (event_of st)) (\<lambda>_. enrollments_get_by_id (en_id ?e))))
          (enrolled_as actor c iv st w) (\<lambda>_ _. False) ?v"
    by (rule wp_seat_tail [where r = "enrollment_write ?e (clock w) r"])
      (use assms id keys status r in \<open>auto simp: spare_ids_def fresh_uuid_def countable_uses_def
         has_course_def has_user_def enrolled_as_def uses_after_def event_log_def\<close>)
  then show ?thesis
    unfolding seat_again_def wp_asks_then Let_def wp_andThen [of "enrollments_update_status e" for e]
    by (intro wp_update_quiet [where r = r]) (use assms(1) r(1) keys(1) in simp_all)
qed

text \<open>An admitted request succeeds, and does exactly what the decision says.\<close>

lemma enroll_admitted:
  assumes "quiet w" "roster_ok w" "spare_ids w" "has_user w actor" "countable_uses w"
    and adm: "admission w actor c code = Inr (iv, st)"
  shows "\<exists>en w'. enroll actor c code w = (Inr en, w') \<and> enrolled_as actor c iv st w en w'"
proof -
  obtain course where course: "live_course w c = Some course"
    and iv: "invite_choice w course (trim_space code) = Inr iv"
    using adm by (auto simp: admission_def split: option.splits if_splits sum.splits)
  have "has_course w c"
    using live_course_SomeD [OF course] by (auto simp: has_course_def scan_course_def)
  moreover have "\<And>i. iv = Some i \<Longrightarrow> i \<in> set (invite_codes w)"
    using iv by (auto dest: invite_choice_SomeD)
  ultimately have "wpre (enroll actor c code) (enrolled_as actor c iv st w) (\<lambda>_ _. False) w"
    using assms by (auto simp: wp_enroll wp_seat_taken split: option.split intro!: wp_seat_new wp_seat_again)
  then show ?thesis
    by (cases "enroll actor c code w") (auto simp: wpre_def split: sum.splits)
qed

text \<open>A refused request leaves the world as it was.\<close>

lemma enroll_refused:
  assumes "quiet w" and "admission w actor c code = Inl e"
  shows "enroll actor c code w = (Inl e, w)"
  unfolding wp_fails using assms by (simp add: wp_enroll)


section \<open>The waitlist\<close>

definition logged :: "world \<Rightarrow> enrollment \<Rightarrow> enrollment_event_type \<Rightarrow> world" where
  "logged w en ev = w\<lparr>uuid_next := Suc (uuid_next w), enrollment_events := enrollment_events w @
     [\<lparr>ev_id = fresh_uuid w, ev_enrollment_id = en_id en, ev_course_id = en_course_id en,
       ev_user_id = en_user_id en, ev_type = ev, ev_created_at = clock w\<rparr>]\<rparr>"

lemma live_course_logged [simp]: "live_course (logged w en ev) c = live_course w c"
  by (rule live_course_cong) (simp_all add: logged_def)

lemma logged_simps [simp]:
  "enrollments (logged w en ev) = enrollments w" "quiet (logged w en ev) = quiet w"
  "clock (logged w en ev) = clock w"
  "has_user (logged w en ev) u = has_user w u" "has_course (logged w en ev) c = has_course w c"
  "status_of (logged w en ev) = status_of w" "roster_ok (logged w en ev) = roster_ok w"
  "event_log (logged w en ev) = event_log w @ [(en_course_id en, en_user_id en, ev)]"
  "uuid_gen (logged w en ev) = uuid_gen w" "uuid_next (logged w en ev) = Suc (uuid_next w)"
  "fresh_uuid (logged w en ev) = uuid_gen w (Suc (uuid_next w))"
  "ev_id ` set (enrollment_events (logged w en ev)) = insert (fresh_uuid w) (ev_id ` set (enrollment_events w))"
  by (simp_all add: logged_def has_user_def
      has_course_def status_of_def roster_ok_def event_log_def fresh_uuid_def)

lemma wp_emit_quiet:
  assumes "quiet w" "fresh_uuid w \<notin> set (map ev_id (enrollment_events w))"
    and "en_id en \<in> set (map en_id (enrollments w))" "has_course w (en_course_id en)"
    and "has_user w (en_user_id en)" and "Q () (logged w en ev)"
  shows "wpre (emit en ev) Q E w"
  unfolding emit_def enrollments_append_event_def wp_andThen
  using assms by (intro wp_insert_quiet) (auto simp: pk_free_def violation_def wp logged_def)

text \<open>The world after the status of a row is written.\<close>

definition put_status :: "world \<Rightarrow> enrollment \<Rightarrow> world" where
  "put_status w e = w\<lparr>enrollments :=
     upd_where (\<lambda>s. en_id s = en_id e) (enrollment_write e (clock w)) (enrollments w)\<rparr>"

lemma live_course_put_status [simp]: "live_course (put_status w e) c = live_course w c"
  by (rule live_course_cong) (simp_all add: put_status_def)

lemma put_status_simps [simp]:
  "quiet (put_status w e) = quiet w" "clock (put_status w e) = clock w"
  "has_user (put_status w e) u = has_user w u"
  "has_course (put_status w e) c = has_course w c" "fresh_uuid (put_status w e) = fresh_uuid w"
  "uuid_gen (put_status w e) = uuid_gen w" "uuid_next (put_status w e) = uuid_next w"
  "enrollment_events (put_status w e) = enrollment_events w" "event_log (put_status w e) = event_log w"
  "map en_id (enrollments (put_status w e)) = map en_id (enrollments w)"
  by (simp_all add: put_status_def has_user_def
      has_course_def event_log_def fresh_uuid_def)

lemma put_status_ids [simp]: "en_id ` set (enrollments (put_status w e)) = en_id ` set (enrollments w)"
  by (metis image_set put_status_simps(10))

lemma find_put_status:
  "find (\<lambda>s. en_id s = i) (enrollments (put_status w e)) =
     map_option (\<lambda>s. if en_id s = en_id e then enrollment_write e (clock w) s else s)
       (find (\<lambda>s. en_id s = i) (enrollments w))"
  by (simp add: put_status_def find_upd_where)

lemma put_status_of:
  "roster_ok w \<Longrightarrow> r \<in> set (enrollments w) \<Longrightarrow> en_id e = en_id r \<Longrightarrow>
   status_of (put_status w e) = (status_of w)((en_course_id r, en_user_id r) \<mapsto> en_status e)"
  by (simp add: put_status_def status_of_write)

lemma put_status_seats:
  assumes "roster_ok w" "r \<in> set (enrollments w)" "en_id e = en_id r"
  shows "int (seats c st (enrollments (put_status w e))) = int (seats c st (enrollments w))
    - of_bool (en_course_id r = c \<and> en_status r = st) + of_bool (en_course_id r = c \<and> en_status e = st)"
  using cnt_upd_key [where k = en_id and rs = "enrollments w" and r = r and q = "\<lambda>s. en_course_id s = c \<and> en_status s = st"
      and f = "enrollment_write e (clock w)"] assms
  by (simp add: put_status_def seats_def roster_ok_def)

lemma put_status_roster:
  assumes "roster_ok w" "enrollment_ok e"
  shows "roster_ok (put_status w e)"
  using assms by (auto simp: roster_ok_def put_status_def set_upd_where)

lemma wp_put_status:
  assumes "quiet w" "r \<in> set (enrollments w)" "en_id e = en_id r" and "Q () (put_status w e)"
  shows "wpre (enrollments_update_status e) Q E w"
  using assms by (intro wp_update_quiet [where r = r]) (simp_all add: put_status_def)

text \<open>A seat that is given back goes to the learner who has waited longest.\<close>

lemma wp_promote_next:
  assumes "quiet w" "roster_ok w" "next_waitlisted_row c (enrollments w) = Some n"
    and "has_course w c" "has_user w (en_user_id n)" "fresh_uuid w \<notin> set (map ev_id (enrollment_events w))"
    and "\<And>e. en_id e = en_id n \<Longrightarrow> en_course_id e = c \<Longrightarrow> en_user_id e = en_user_id n \<Longrightarrow>
          en_status e = EnActive \<Longrightarrow> Q () (logged (put_status w e) e EvActivated)"
  shows "wpre (promote_next c) Q E w"
proof -
  note n = next_waitlisted_Some(1,2) [OF assms(3)]
  then have "en_id n \<in> set (map en_id (enrollments w))" by auto
  then show ?thesis
    using assms n
    by (auto simp: promote_next_def enrollments_next_waitlisted_def wp_optional wp_asks_then Let_def
        wp_andThen wp_fetch_row wp_asks intro!: wp_put_status [where r = n] wp_emit_quiet)
qed

lemma unenroll_promotes:
  assumes "quiet w" "roster_ok w" "spare_ids w"
    and row: "status_of w (c, actor) = Some EnActive"
    and course: "live_course w c = Some course" "co_waitlist_enabled course"
    and cap: "case co_capacity course of None \<Rightarrow> True | Some n \<Rightarrow> int (seats c EnActive (enrollments w)) \<le> n"
    and next_row: "next_waitlisted_row c (enrollments w) = Some n"
    and users: "has_user w actor" "has_user w (en_user_id n)"
  shows "\<exists>en w'. unenroll actor c admin w = (Inr en, w')
     \<and> status_of w' = (status_of w)((c, actor) \<mapsto> EnCancelled, (c, en_user_id n) \<mapsto> EnActive)
     \<and> event_log w' = event_log w @ [(c, actor, EvCancelled), (c, en_user_id n, EvActivated)]
     \<and> seats c EnActive (enrollments w') = seats c EnActive (enrollments w)"
proof -
  obtain r where found: "find (\<lambda>s. en_course_id s = c \<and> en_user_id s = actor) (enrollments w) = Some r"
    and active: "en_status r = EnActive"
    using row by (auto simp: status_of_def)
  then have r: "r \<in> set (enrollments w)" "en_course_id r = c" "en_user_id r = actor"
    by (auto dest!: find_SomeD)
  define e where "e = (scan_enrollment w r)\<lparr>en_status := EnCancelled, en_cancelled_at := Some (clock w)\<rparr>"
  have e: "en_id e = en_id r" "en_course_id e = c" "en_user_id e = actor" "en_status e = EnCancelled"
    using r by (simp_all add: e_def)
  have "enrollment_ok r" using assms(2) r(1) by (simp add: roster_ok_def)
  then have "enrollment_ok e" by (simp add: e_def enrollment_ok_cancelled)
  define v where "v = put_status w e"
  have v: "roster_ok v" by (simp add: v_def put_status_roster assms(2) \<open>enrollment_ok e\<close>)
  have hc: "has_course w c"
    using live_course_SomeD [OF course(1)] by (auto simp: has_course_def scan_course_def)
  have n: "next_waitlisted_row c (enrollments v) = Some n"
  proof -
    have "filter (\<lambda>s. en_course_id s = c \<and> en_status s = EnWaitlisted) (enrollments v)
        = filter (\<lambda>s. en_course_id s = c \<and> en_status s = EnWaitlisted) (enrollments w)"
      using roster_row_unique [OF assms(2) r(1)] active e(1,4)
      unfolding v_def put_status_def by simp (rule filter_upd_where_other, fastforce)
    with next_row show ?thesis by (simp add: next_waitlisted_row_def)
  qed
  have seats_v: "int (seats c EnActive (enrollments v)) = int (seats c EnActive (enrollments w)) - 1"
    using put_status_seats [OF assms(2) r(1) e(1), of c EnActive] r active e by (simp add: v_def)
  have logged_v: "wpre (promote_waitlist c) Q E (logged v e EvCancelled)"
    if Q: "\<And>d. en_id d = en_id n \<Longrightarrow> en_course_id d = c \<Longrightarrow> en_user_id d = en_user_id n \<Longrightarrow>
      en_status d = EnActive \<Longrightarrow> Q () (logged (put_status (logged v e EvCancelled) d) d EvActivated)" for Q E
  proof -
    have "wpre (promote_next c) Q E (logged v e EvCancelled)"
      by (rule wp_promote_next [where n = n])
        (use assms(1,3) v n hc users(2) Q in \<open>auto simp: v_def spare_ids_def fresh_uuid_def\<close>)
    then show ?thesis
      using assms(1) course cap seats_v
      by (auto simp: promote_waitlist_def wp_andThen wp_get_course v_def wp_ret
        enrollments_count_by_course_status_def wp_fetch_val split: option.split)
  qed
  have "wpre (unenroll actor c admin) (\<lambda>en w'.
      status_of w' = (status_of w)((c, actor) \<mapsto> EnCancelled, (c, en_user_id n) \<mapsto> EnActive)
      \<and> event_log w' = event_log w @ [(c, actor, EvCancelled), (c, en_user_id n, EvActivated)]
      \<and> seats c EnActive (enrollments w') = seats c EnActive (enrollments w)) (\<lambda>_ _. False) w"
  proof -
    have id: "find (\<lambda>s. en_id s = en_id r) (enrollments w) = Some r"
      using find_distinct_key [where k = en_id and r = r and rs = "enrollments w"] assms(2) r(1)
      by (simp add: roster_ok_def)
    have nr: "n \<in> set (enrollments v)" "en_course_id n = c" "en_status n = EnWaitlisted"
      using next_waitlisted_Some(1,2,3) [OF n] by auto
    have status_v: "status_of v = (status_of w)((c, actor) \<mapsto> EnCancelled)"
      using put_status_of [OF assms(2) r(1) e(1)] r e by (simp add: v_def)
    have last: "wpre (enrollments_get_by_id (en_id r)) (\<lambda>en w'.
      status_of w' = (status_of w)((c, actor) \<mapsto> EnCancelled, (c, en_user_id n) \<mapsto> EnActive)
      \<and> event_log w' = event_log w @ [(c, actor, EvCancelled), (c, en_user_id n, EvActivated)]
      \<and> seats c EnActive (enrollments w') = seats c EnActive (enrollments w)) (\<lambda>_ _. False)
      (logged (put_status (logged v e EvCancelled) d) d EvActivated)"
      if d: "en_id d = en_id n" "en_course_id d = c" "en_user_id d = en_user_id n" "en_status d = EnActive" for d
      using id d nr assms(1) put_status_of [of "logged v e EvCancelled" n d] status_v e
        put_status_seats [of "logged v e EvCancelled" n d c EnActive] v seats_v
      by (simp add: enrollments_get_by_id_def wp_fetch_row find_put_status) (simp add: v_def find_put_status)
    show ?thesis
      unfolding unenroll_def wp_andThen [of "enrollments_get_by_course_user a b" for a b] wp_guard_then
        wp_asks_then Let_def
      using assms(1) found active r
      apply (simp add: wp_get_enrollment)
      apply (fold e_def)
      unfolding wp_andThen
      apply (rule wp_put_status [OF _ r(1) e(1)], simp)
      apply (fold v_def)
      apply (rule wp_emit_quiet)
           apply (use assms(3) e r hc users in \<open>simp_all add: v_def spare_ids_def fresh_uuid_def\<close>)
      apply (fold v_def)
      apply (rule logged_v)
      apply (rule last, assumption+)
      done
  qed
  then show ?thesis
    by (cases "unenroll actor c admin w") (auto simp: wpre_def split: sum.splits)
qed
end
