(* ===== verification/Invites.thy ===== *)
theory Invites
  imports Admission
begin

text \<open>
  Invite codes and access. A code is never used more often than its limit, whatever requests run and
  wherever they fail: between the check of \<open>validateInvite\<close> and the increment the request writes no
  code (\<open>invite_held\<close>). Access to a course is decided by role, ownership and the active enrollment.
\<close>


definition invite_ok :: "invite_code \<Rightarrow> bool" where
  "invite_ok i \<longleftrightarrow> 0 \<le> inv_uses i
     \<and> (case inv_max_uses i of None \<Rightarrow> True | Some n \<Rightarrow> 0 < n \<and> inv_uses i \<le> n)"

definition invites_ok :: "world \<Rightarrow> bool" where
  "invites_ok w \<longleftrightarrow> distinct (map inv_id (invite_codes w)) \<and> (\<forall>i \<in> set (invite_codes w). invite_ok i)"

text \<open>A code that was validated and not used yet.\<close>

definition invite_held :: "invite_code option \<Rightarrow> world \<Rightarrow> bool" where
  "invite_held iv w \<longleftrightarrow> invites_ok w \<and> (case iv of None \<Rightarrow> True
     | Some i \<Rightarrow> i \<in> set (invite_codes w)
               \<and> (case inv_max_uses i of None \<Rightarrow> True | Some n \<Rightarrow> inv_uses i < n))"

interpretation invites: world_invariant invites_ok
  by unfold_locales (simp_all add: invites_ok_def)

interpretation held: world_invariant "invite_held iv" for iv
  by unfold_locales (simp_all add: invite_held_def invites_ok_def cong: option.case_cong)

lemma invite_same:
  "invite_codes w' = invite_codes w \<Longrightarrow> keeping (invite_held iv) w w'"
  "invite_codes w' = invite_codes w \<Longrightarrow> keeping invites_ok w w'"
  by (simp_all add: keeping_def invite_held_def invites_ok_def cong: option.case_cong)

lemma held_statements [moves]:
  "changes (keeping (invite_held iv)) (courses_get_by_id i)"
  "changes (keeping (invite_held iv)) (enrollments_get_by_course_user c u)"
  "changes (keeping (invite_held iv)) (decide_seat course)"
  "changes (keeping (invite_held iv)) (enrollments_create e)"
  "changes (keeping (invite_held iv)) (enrollments_update_status e)"
  by (auto simp: courses_get_by_id_eq enrollments_get_by_course_user_def decide_seat_def
      enrollments_count_by_course_status_def enrollments_create_def enrollments_update_status_def
      intro!: invite_same moves held.kept.changes_insert_row held.kept.changes_exec_rows)

lemma invite_statements [moves]:
  "changes (keeping invites_ok) (courses_get_by_id i)"
  "changes (keeping invites_ok) (enrollments_get_by_id i)"
  "changes (keeping invites_ok) (enrollments_get_by_course_user c u)"
  "changes (keeping invites_ok) (enrollments_count_by_course_status c st)"
  "changes (keeping invites_ok) (enrollments_next_waitlisted c)"
  "changes (keeping invites_ok) (enrollments_create e)"
  "changes (keeping invites_ok) (enrollments_update_status e)"
  "changes (keeping invites_ok) (enrollments_append_event i c u t)"
  "changes (keeping invites_ok) (invites_get_by_course_code c code)"
  by (auto simp: enrollment_repo_defs
      intro!: invite_same moves invites.kept.changes_insert_row invites.kept.changes_exec_rows)

lemma invite_parts [moves]:
  "changes (keeping invites_ok) (emit en ev)" "changes (keeping invites_ok) (decide_seat course)"
  "changes (keeping invites_ok) (promote_waitlist c)"
  by (auto simp: emit_def decide_seat_def promote_waitlist_def promote_next_def Let_def intro!: moves)

lemma use_held:
  "invite_held iv w \<Longrightarrow> wpre (use_invite iv) (\<lambda>_. invites_ok) (\<lambda>_. invites_ok) w"
proof (cases iv)
  case None
  assume "invite_held iv w"
  with None show ?thesis by (simp add: use_invite_def wp invite_held_def)
next
  case (Some i)
  assume held: "invite_held iv w"
  have "invite_ok (r\<lparr>inv_uses := inv_uses r + 1, inv_updated_at := t\<rparr>)"
    if "r \<in> set (invite_codes w)" "inv_id r = inv_id i" for r t
    using held Some that distinct_key_unique [where k = inv_id and rs = "invite_codes w" and r = r and s = i]
    by (auto simp: invite_held_def invites_ok_def invite_ok_def split: option.splits)
  then show ?thesis
    using held Some
    by (auto simp: use_invite_def invites_increment_uses_def wp invite_held_def invites_ok_def set_upd_where)
qed

lemma find_held:
  "invites_ok w \<Longrightarrow> wpre (find_invite course c code) invite_held (\<lambda>_. invites_ok) w"
  by (auto simp: find_invite_def invites_get_by_course_code_def wp validate_invite_def invite_held_def
      invites.I_pop split: option.splits dest: find_SomeD)

text \<open>The write that gives the seat, then the use of the code.\<close>

lemma held_then:
  assumes "changes (keeping (invite_held iv)) m" "\<And>a s. invite_held iv s \<Longrightarrow> wpre (f a) (\<lambda>_. invites_ok) (\<lambda>_. invites_ok) s"
    and "invite_held iv w"
  shows "wpre (andThen m f) (\<lambda>_. invites_ok) (\<lambda>_. invites_ok) w"
  unfolding wp_andThen using wp_keeping [OF assms(1,3)]
  by (rule wp_mono) (auto intro: assms(2) simp: invite_held_def)

lemma used_then:
  assumes "\<And>a. changes (keeping invites_ok) (f a)" "invite_held iv w"
  shows "wpre (andThen (use_invite iv) f) (\<lambda>_. invites_ok) (\<lambda>_. invites_ok) w"
  by (intro wp_then_keeping use_held assms)

lemma invite_reactivate:
  "invite_held iv w \<Longrightarrow> wpre (reactivate course e iv) (\<lambda>_. invites_ok) (\<lambda>_. invites_ok) w"
  unfolding reactivate_def Let_def
  by (rule held_then, (auto intro!: moves used_then held_then split: prod.split)[1])
    (auto intro!: moves used_then held_then simp: wp_asks_then split: prod.split)

lemma invite_enroll_commit:
  "invite_held iv w \<Longrightarrow>
   wpre (andThen (decide_seat course) (enroll_commit actor c iv)) (\<lambda>_. invites_ok) (\<lambda>_. invites_ok) w"
  by (auto simp: enroll_commit_def wp_asks_then split: prod.split intro!: held_then moves used_then)

lemma invite_enroll [moves]: "changes (keeping invites_ok) (enroll actor c code)"
proof -
  have "wpre (andThen (find_invite course c (trim_space code)) (\<lambda>iv.
     andThen (optional is_not_found (enrollments_get_by_course_user c actor)) (\<lambda>existing.
     case existing of
       Some e \<Rightarrow> (if en_status e = EnCancelled then reactivate course e iv
                  else raise (conflict ''already enrolled in this course''))
     | None \<Rightarrow> andThen (decide_seat course) (enroll_commit actor c iv))))
     (\<lambda>_. invites_ok) (\<lambda>_. invites_ok) w" if "invites_ok w" for w course
    unfolding wp_andThen [of "find_invite a b d" for a b d] using find_held [OF that]
  proof (rule wp_mono)
    fix iv s assume "invite_held iv s"
    then show "wpre (andThen (optional is_not_found (enrollments_get_by_course_user c actor)) (\<lambda>existing.
     case existing of
       Some e \<Rightarrow> (if en_status e = EnCancelled then reactivate course e iv
                  else raise (conflict ''already enrolled in this course''))
     | None \<Rightarrow> andThen (decide_seat course) (enroll_commit actor c iv)))
     (\<lambda>_. invites_ok) (\<lambda>_. invites_ok) s"
      by (rule held_then [rotated 2])
        (auto simp: wp_raise invite_held_def [of iv] intro!: moves invite_reactivate invite_enroll_commit
          split: option.split)
  qed
  then show ?thesis
    unfolding enroll_def by (intro moves keeping_wp)
qed

lemma invite_others [moves]:
  "changes (keeping invites_ok) (enroll_from_payment user c)"
  "changes (keeping invites_ok) (unenroll actor c admin)"
  "changes (keeping invites_ok) (get_access actor c admin)"
  by (auto simp: enroll_from_payment_def reactivate_from_payment_def unenroll_def get_access_def Let_def
      intro!: moves split: enrollment_status.split)

lemma invite_insert: "changes (keeping invites_ok) (invites_create i)"
  unfolding invites_create_def
  by (intro invites.kept.changes_insert_row)
    (auto simp: keeping_def invites_ok_def invite_ok_def pk_free_def fresh_uuid_def split: option.splits)

lemma invite_ok_revoked [simp]:
  "invite_ok (i\<lparr>inv_revoked_at := t, inv_updated_at := u\<rparr>) = invite_ok i"
  by (simp add: invite_ok_def cong: option.case_cong)

lemma invite_revoke: "changes (keeping invites_ok) (invites_revoke i)"
  unfolding invites_revoke_def
  by (intro invites.kept.changes_exec_rows)
    (auto simp: keeping_def invites_ok_def set_upd_where)

lemma invite_management [moves]:
  "changes (keeping invites_ok) (create_invite_code rnd actor c code n ex admin)"
  "changes (keeping invites_ok) (revoke_invite_code actor c i admin)"
  by (auto simp: create_invite_code_def revoke_invite_code_def require_course_manage_def invites_get_by_id_def
      intro!: moves invite_insert invite_revoke)

interpretation invite_run: run_relation "keeping invites_ok"
  by unfold_locales (auto intro: moves invite_same)

section \<open>Access\<close>

lemma status_of_faults [simp]: "status_of (w\<lparr>faults := f\<rparr>) = status_of w" "status_of (pop w) = status_of w"
  by (simp_all add: status_of_def fun_eq_iff)

lemma get_access_result:
  "wpre (get_access actor c admin)
     (\<lambda>a w'. (\<exists>course. live_course w c = Some course
        \<and> (ca_can_access a \<longleftrightarrow> admin
            \<or> actor \<noteq> '''' \<and> (co_teacher_id course = actor \<or> status_of w (c, actor) = Some EnActive))))
     (\<lambda>_ _. True) w"
  by (auto simp: get_access_def courses_get_by_id_eq enrollments_get_by_course_user_def Let_def wp status_of_def
      split: option.split)

lemma get_access_reads: "changes read_only (get_access actor c admin)"
  by (auto simp: get_access_def courses_get_by_id_eq enrollments_get_by_course_user_def Let_def intro!: moves)
end
