(* ===== verification/PaymentFrame.thy ===== *)
theory PaymentFrame
  imports Ledger Invites
begin

text \<open>
  What the payments cannot break: a relation on the enrollment side that does not look at orders,
  coupons and webhook events is kept by every payment request, because the payments reach the
  enrollments only through \<open>enroll_from_payment\<close>. So seats, roster and invite codes keep their
  invariants over runs of both kinds of requests.
\<close>


text \<open>A relation kept by every request on enrollments and by every write of the payments' tables.\<close>

locale payment_writes = run_relation +
  assumes R_order_create: "changes R (orders_create od)"
    and R_order_update: "changes R (orders_update_status od)"
    and R_coupon_create: "changes R (coupons_create cp)"
    and R_coupon_use: "changes R (coupons_increment_uses i)"
    and R_coupon_revoke: "changes R (coupons_revoke i)"
    and R_record: "changes R (webhooks_record e)"
begin

lemmas writes [moves] = R_payment R_order_create R_order_update R_coupon_create R_coupon_use
  R_coupon_revoke R_record

lemma payment_reads [moves]:
  "changes R (courses_get_by_id c)"
  "changes R (has_active_enrollment c u)"
  "changes R (orders_get_by_id i)"
  "changes R (orders_get_by_idempotency_key key)"
  "changes R (coupons_get_by_id i)"
  "changes R (coupons_get_by_code code)"
  by (auto simp: courses_get_by_id_eq has_active_enrollment_def enrollments_get_by_course_user_def
      orders_get_by_id_def orders_get_by_idempotency_key_def coupons_get_by_id_def coupons_get_by_code_def
      intro!: moves)

lemma payment_parts [moves]:
  "changes R (session_of s)" "changes R (redeem_coupon cid)"
  "changes R (find_discount code c cur amount)"
  "changes R (place_order prov od)"
  by (auto simp: session_of_def redeem_coupon_def find_discount_def place_order_def
      intro!: moves split: sum.split)

lemma payment_changes [moves]:
  "changes R (apply_payment_success od)" "changes R (apply_refund od)"
  "changes R (mark_failed od)" "changes R (mark_cancelled od)"
  by (auto simp: apply_payment_success_def apply_refund_def mark_failed_def mark_cancelled_def intro!: moves)

lemma payment_requests [moves]:
  "changes R (create_checkout cd cfg actor c code key provider)"
  "changes R (confirm_manual actor i)"
  "changes R (handle_webhook cd cfg provider hs body)"
  "changes R (refund actor i admin)"
  "changes R (create_coupon actor ci admin)"
  "changes R (revoke_coupon actor i admin)"
  by (auto simp: create_checkout_def new_checkout_def checkout_from_existing_def confirm_manual_def
      handle_webhook_def dispatch_event_def refund_def create_coupon_def revoke_coupon_def Let_def
      intro!: moves split: sum.split order_status.split)

sublocale paid: payment_relation R cd cfg for cd cfg
  by unfold_locales (rule payment_requests)+

end

text \<open>A relation of the enrollment side that does not look at the tables of the payments.\<close>

locale payment_frame = run_relation +
  assumes R_orders: "R w (w\<lparr>orders := os\<rparr>)"
    and R_coupons: "R w (w\<lparr>coupons := cs\<rparr>)"
    and R_webhooks: "R w (w\<lparr>webhook_events := ws\<rparr>)"
begin

sublocale payment_writes R
  by unfold_locales
    (auto simp: orders_create_def orders_update_status_def coupons_create_def
      coupons_increment_uses_def coupons_revoke_def webhooks_record_def R_orders R_coupons R_webhooks
      intro!: moves changes_insert_row changes_exec_rows changes_exec_check
      intro: R_trans [OF _ R_orders] R_trans [OF _ R_coupons] R_trans [OF _ R_webhooks])

end

interpretation seat_frame: payment_frame seat_step
  by unfold_locales (simp_all add: seat_step_same)

interpretation roster_frame: payment_frame "keeping roster_ok"
  by unfold_locales (simp_all add: keeping_def roster_ok_def)

interpretation invite_frame: payment_frame "keeping invites_ok"
  by unfold_locales (simp_all add: keeping_def invites_ok_def)

end
