(* ===== verification/Purchases.thy ===== *)
theory Purchases
  imports PaymentFrame
begin

text \<open>
  A paid order has its enrollment: the identifier \<open>applyPaymentSuccess\<close> stores is the one of a row of
  \<open>enrollments\<close> for the buyer and the course of the order, after every request and wherever it fails.
  Together with the life of an order (\<open>ledger_ok\<close>) this is the invariant \<open>paid_ok\<close>.
\<close>


section \<open>A paid order has its enrollment\<close>

definition has_row :: "uuid \<Rightarrow> uuid \<Rightarrow> uuid \<Rightarrow> world \<Rightarrow> bool" where
  "has_row i c u w \<longleftrightarrow> list_ex (\<lambda>e. en_id e = i \<and> en_course_id e = c \<and> en_user_id e = u) (enrollments w)"

definition rows_persist :: "world \<Rightarrow> world \<Rightarrow> bool" where
  "rows_persist w w' \<longleftrightarrow> (\<forall>i c u. has_row i c u w \<longrightarrow> has_row i c u w')"

lemma has_row_self: "e \<in> set (enrollments w) \<Longrightarrow> has_row (en_id e) (en_course_id e) (en_user_id e) w"
  by (auto simp: has_row_def list_ex_iff)

lemma has_row_faults [simp]: "has_row i c u (w\<lparr>faults := f\<rparr>) = has_row i c u w"
  by (simp add: has_row_def)

lemma rows_persist_same: "enrollments w' = enrollments w \<Longrightarrow> rows_persist w w'"
  by (simp add: rows_persist_def has_row_def)

interpretation persist_order: world_order rows_persist
  by unfold_locales (auto simp: rows_persist_def has_row_def)

lemma persist_upd: "list_ex P (upd_where p f es) = list_ex P es" if "\<And>e. P (f e) = P e"
  using that by (induction es) auto

interpretation persist: enrollment_writes rows_persist
  by unfold_locales
    (auto simp: enrollments_create_def enrollments_update_status_def rows_persist_def has_row_def persist_upd
      intro!: persist_order.changes_insert_row persist_order.changes_exec_rows)

interpretation persist_run: payment_frame rows_persist
  by unfold_locales (auto intro: moves rows_persist_same)

lemma row_then:
  assumes "changes rows_persist m" "has_row i c u w"
    and "\<And>a s. has_row i c u s \<Longrightarrow> wpre (f a) Q (\<lambda>_ _. True) s"
  shows "wpre (andThen m f) Q (\<lambda>_ _. True) w"
  unfolding wp_andThen using persist_order.wp_changes [OF assms(1) persist_order.R_refl [of w]]
  by (rule wp_mono) (use assms(2,3) in \<open>auto simp: rows_persist_def\<close>)

lemma any_then:
  assumes "\<And>a s. wpre (f a) Q (\<lambda>_ _. True) s"
  shows "wpre (andThen m f) Q (\<lambda>_ _. True) w"
  unfolding wp_andThen by (rule wp_run) (auto simp: assms split: sum.split)

lemma created_row:
  "wpre (enrollments_create (new_enrollment c u st src iv now)) (\<lambda>en w'. has_row (en_id en) c u w') (\<lambda>_ _. True) w"
  by (simp add: enrollments_create_def wp has_row_def new_enrollment_def split: option.split)

lemma read_row:
  "has_row i c u w \<Longrightarrow> wpre (enrollments_get_by_id i) (\<lambda>en w'. has_row (en_id en) c u w') (\<lambda>_ _. True) w"
  by (auto simp: enrollments_get_by_id_def wp has_row_def dest!: find_SomeD split: option.split)

lemma persist_parts [moves]:
  "changes rows_persist (emit en ev)" "changes rows_persist (decide_seat course)"
  by (auto simp: emit_def decide_seat_def intro!: moves)

lemma reactivated_row:
  "has_row (en_id e) c u v \<Longrightarrow>
   wpre (reactivate_from_payment course e) (\<lambda>en w'. has_row (en_id en) c u w') (\<lambda>_ _. True) v"
  unfolding reactivate_from_payment_def Let_def
  by (auto simp: wp_asks_then intro!: row_then moves read_row split: prod.split)

lemma enroll_from_payment_row:
  "wpre (enroll_from_payment u c) (\<lambda>en w'. has_row (en_id en) c u w') (\<lambda>_ _. True) w"
proof -
  have fresh: "wpre (andThen (decide_seat course) (\<lambda>(st, ev). andThen (asks clock) (\<lambda>now.
         andThen (enrollments_create (new_enrollment c u st SourcePayment None now)) (\<lambda>en.
         andThen (emit en ev) (\<lambda>_. enrollments_get_by_id (en_id en))))))
     (\<lambda>en w'. has_row (en_id en) c u w') (\<lambda>_ _. True) v" for course v
  proof -
    have "wpre (andThen (enrollments_create (new_enrollment c u st SourcePayment None now)) (\<lambda>en.
         andThen (emit en ev) (\<lambda>_. enrollments_get_by_id (en_id en))))
       (\<lambda>en w'. has_row (en_id en) c u w') (\<lambda>_ _. True) s" for st ev now s
      unfolding wp_andThen [of "enrollments_create e" for e]
      by (rule wp_mono [OF created_row]) (auto intro!: row_then moves read_row)
    then show ?thesis
      by (auto simp: wp_asks_then intro!: any_then [where m = "decide_seat course"] split: prod.split)
  qed
  show ?thesis
    unfolding enroll_from_payment_def courses_get_by_id_eq enrollments_get_by_course_user_def
    by (auto simp: wp_fetch_row wp_optional wp_raise wp_ret wp_guard_then wp_andThen [of "fetch_row a b d" for a b d]
          wp_andThen [of "optional a b" for a b] pop_def has_row_self
        split: option.split enrollment_status.split intro!: reactivated_row fresh dest!: find_SomeD)
qed

definition order_linked :: "world \<Rightarrow> purchase_order \<Rightarrow> bool" where
  "order_linked w od \<longleftrightarrow> (case od_enrollment_id od of None \<Rightarrow> True
     | Some i \<Rightarrow> has_row i (od_course_id od) (od_user_id od) w)"

definition linked :: "world \<Rightarrow> bool" where
  "linked w \<longleftrightarrow> (\<forall>od \<in> set (orders w). order_linked w od)"

lemma order_linked_persist: "rows_persist w w' \<Longrightarrow> order_linked w od \<Longrightarrow> order_linked w' od"
  by (auto simp: order_linked_def rows_persist_def split: option.splits)

interpretation links: world_invariant linked
  by unfold_locales (simp_all add: linked_def order_linked_def has_row_def cong: option.case_cong)

text \<open>An operation on enrollments keeps the links, because rows persist.\<close>

definition orders_settled :: "world \<Rightarrow> world \<Rightarrow> bool" where
  "orders_settled w w' \<longleftrightarrow> orders w' = orders w \<and> rows_persist w w'"

lemma linked_settled: "changes orders_settled m \<Longrightarrow> changes (keeping linked) m"
  by (auto simp: changes_def orders_settled_def keeping_def linked_def intro: order_linked_persist)

interpretation settled_order: world_order orders_settled
  by unfold_locales (auto simp: orders_settled_def rows_persist_def has_row_def)

lemma settled_both:
  "changes same_orders m \<Longrightarrow> changes rows_persist m \<Longrightarrow> changes orders_settled m"
  by (auto simp: changes_def orders_settled_def same_orders_def)

interpretation settled: enrollment_writes orders_settled
  by unfold_locales
    (auto simp: orders_settled_def rows_persist_def has_row_def intro!: settled_both moves)

text \<open>The write of an order: its enrollment has to exist for the same learner and course.\<close>

lemma order_linked_new [simp]: "order_linked w (order_row od)"
  by (simp add: order_linked_def)

lemma linked_write:
  assumes "held_order od w" "linked w" "ledger_ok w" "od_id od' = od_id od" 
    and "case od_enrollment_id od' of None \<Rightarrow> True
      | Some i \<Rightarrow> od_enrollment_id od' = od_enrollment_id od \<or> has_row i (od_course_id od) (od_user_id od) w"
  shows "wpre (orders_update_status od') (\<lambda>_. linked) (\<lambda>_. linked) w"
proof -
  obtain q where q: "q \<in> set (orders w)" "snapshot q od" using assms(1) by (auto simp: held_order_def)
  have "order_linked u (order_write od' t r)"
    if r: "r \<in> set (orders w)" "od_id r = od_id od'" and u: "enrollments u = enrollments w" for r t u
  proof -
    have "r = q"
      using assms(3,4) r q by (auto simp: ledger_ok_def snapshot_def intro: distinct_key_unique [where k = od_id])
    moreover have "order_linked w q" using assms(2) q(1) by (simp add: linked_def)
    ultimately have "order_linked w (order_write od' t r)"
      using assms(5) q(2) by (auto simp: order_linked_def snapshot_def split: option.splits)
    then show ?thesis by (rule order_linked_persist [OF rows_persist_same [OF u]])
  qed
  moreover have "order_linked u r" if "r \<in> set (orders w)" "enrollments u = enrollments w" for r u
    using assms(2) that by (auto simp: linked_def intro: order_linked_persist [OF rows_persist_same])
  ultimately show ?thesis
    using assms(2) by (auto simp: orders_update_status_def wp linked_def set_upd_where links.I_pop split: option.split)
qed

lemma linked_create: "od_enrollment_id od = None \<Longrightarrow> changes (keeping linked) (orders_create od)"
  unfolding orders_create_def
  by (intro links.kept.changes_insert_row)
    (auto simp: keeping_def linked_def intro: order_linked_persist [OF rows_persist_same])

definition paid_ok :: "world \<Rightarrow> bool" where
  "paid_ok w \<longleftrightarrow> ledger_ok w \<and> linked w"

lemma paid_ok_faults [simp]: "paid_ok (w\<lparr>faults := f\<rparr>) = paid_ok w"
  by (simp add: paid_ok_def links.I_faults ledger_ok_def)

lemma paid_okD: "paid_ok w \<Longrightarrow> ledger_ok w" "paid_ok w \<Longrightarrow> linked w"
  by (simp_all add: paid_ok_def)

lemma settled_held:
  "orders_settled w u \<Longrightarrow> held_order od w \<Longrightarrow> held_order od u"
  "orders_settled w u \<Longrightarrow> paid_ok w \<Longrightarrow> paid_ok u"
  by (auto simp: orders_settled_def held_order_def paid_ok_def ledger_ok_def linked_def intro: order_linked_persist)

lemma settled_linked: "orders_settled w u \<Longrightarrow> linked w \<Longrightarrow> linked u"
  by (auto simp: orders_settled_def linked_def intro: order_linked_persist)

lemma settled_redeem [moves]: "changes orders_settled (redeem_coupon cid)"
  by (intro settled_both same_orders_redeem)
    (auto simp: redeem_coupon_def coupons_increment_uses_def
      intro!: moves persist_order.changes_exec_check rows_persist_same)

lemma linked_get [moves]: "changes (keeping linked) (orders_get_by_id i)"
  by (auto simp: orders_get_by_id_def intro!: moves)

lemma linked_finish:
  assumes "held_order od w" "paid_ok w" "od_id od' = od_id od"
    and "od_enrollment_id od' = od_enrollment_id od
      \<or> (\<exists>i. od_enrollment_id od' = Some i \<and> has_row i (od_course_id od) (od_user_id od) w)"
  shows "wpre (andThen (orders_update_status od') (\<lambda>_. orders_get_by_id i)) (\<lambda>_. linked) (\<lambda>_. linked) w"
  by (intro wp_then_keeping linked_get linked_write [of od])
    (use assms in \<open>auto simp: paid_ok_def split: option.split\<close>)

lemma linked_payment:
  assumes "held_order od w" "paid_ok w"
  shows "wpre (apply_payment_success od) (\<lambda>_. linked) (\<lambda>_. linked) w"
proof -
  have "wpre (andThen (enroll_from_payment (od_user_id od) (od_course_id od)) (\<lambda>en.
        andThen (orders_update_status (od\<lparr>od_status := OrderPaid, od_paid_at := Some now,
                   od_enrollment_id := Some (en_id en)\<rparr>)) (\<lambda>_. orders_get_by_id (od_id od))))
        (\<lambda>_. linked) (\<lambda>_. linked) u" if u: "orders_settled w u" for now u
  proof -
    have "wpre (enroll_from_payment (od_user_id od) (od_course_id od))
        (\<lambda>en v. orders_settled u v \<and> has_row (en_id en) (od_course_id od) (od_user_id od) v)
        (\<lambda>_ v. orders_settled u v) u"
      using wp_conj [OF settled_order.wp_changes [OF settled.written_requests(2) settled_order.R_refl]
          enroll_from_payment_row] by (rule wp_mono) auto
    then show ?thesis
      unfolding wp_andThen [of "enroll_from_payment a b" for a b]
    proof (rule wp_mono)
      fix en v assume "orders_settled u v \<and> has_row (en_id en) (od_course_id od) (od_user_id od) v"
      with assms u show "wpre (andThen (orders_update_status (od\<lparr>od_status := OrderPaid, od_paid_at := Some now,
                   od_enrollment_id := Some (en_id en)\<rparr>)) (\<lambda>_. orders_get_by_id (od_id od)))
        (\<lambda>_. linked) (\<lambda>_. linked) v"
        by (intro linked_finish [of od]) (auto intro: settled_held)
    next
      fix v assume "orders_settled u v"
      with assms(2) u have "paid_ok v" by (blast intro: settled_held(2))
      then show "linked v" by (simp add: paid_ok_def)
    qed
  qed
  note tail = this
  have "wpre (redeem_coupon (od_coupon_id od)) (\<lambda>_. orders_settled w) (\<lambda>_. orders_settled w) w"
    by (intro settled_order.wp_changes moves settled_order.R_refl)
  then show ?thesis
    unfolding apply_payment_success_def
    using assms
    by (auto simp: wp_ret wp_guard_then wp_asks_then wp_andThen [of "redeem_coupon x" for x] paid_ok_def [of w]
        elim!: wp_mono intro!: tail intro: settled_linked)
qed

lemma linked_changes:
  assumes "held_order od w" "paid_ok w"
  shows "wpre (apply_refund od) (\<lambda>_. linked) (\<lambda>_. linked) w"
    and "wpre (mark_failed od) (\<lambda>_. linked) (\<lambda>_. linked) w"
    and "wpre (mark_cancelled od) (\<lambda>_. linked) (\<lambda>_. linked) w"
  using assms
  by (auto simp: apply_refund_def mark_failed_def mark_cancelled_def wp_ret wp_guard_then wp_asks_then
      paid_ok_def [of w] intro!: linked_finish [of od])

lemma paid_keeping:
  assumes "changes ledger_step m" and "\<And>w. paid_ok w \<Longrightarrow> wpre m (\<lambda>_. linked) (\<lambda>_. linked) w"
  shows "changes (keeping paid_ok) m"
proof (rule keeping_wp)
  fix w assume ok: "paid_ok w"
  then have "ledger_step w t \<Longrightarrow> ledger_ok t" for t by (simp add: ledger_step_def paid_ok_def)
  with wp_conj [OF assms(2) [OF ok] ledger.wp_changes [OF assms(1) ledger.R_refl]]
  show "wpre m (\<lambda>_. paid_ok) (\<lambda>_. paid_ok) w"
    by (auto simp: paid_ok_def elim!: wp_mono)
qed

lemma linked_read_then:
  assumes "paid_ok w" and "\<And>od f. held_order od (w\<lparr>faults := f\<rparr>) \<Longrightarrow>
     wpre (g od) (\<lambda>_. linked) (\<lambda>_. linked) (w\<lparr>faults := f\<rparr>)"
  shows "wpre (andThen (orders_get_by_id i) g) (\<lambda>_. linked) (\<lambda>_. linked) w"
  unfolding wp_andThen
  by (rule wp_read_order) (use assms in \<open>auto simp: links.I_faults paid_ok_def\<close>)

lemma linked_simple [moves]:
  "changes (keeping linked) (webhooks_record e)"
  "changes (keeping linked) (coupons_create cp)" "changes (keeping linked) (coupons_revoke i)"
  "changes (keeping linked) (coupons_get_by_id i)"
  by (auto simp: webhooks_record_def coupons_create_def coupons_revoke_def coupons_get_by_id_def
      keeping_def linked_def order_linked_def has_row_def cong: option.case_cong
      intro!: moves links.kept.changes_insert_row links.kept.changes_exec_rows)

lemma paid_confirm: "changes (keeping paid_ok) (confirm_manual actor i)"
  by (intro paid_keeping moves, unfold confirm_manual_def, intro linked_read_then)
    (auto simp: wp_guard_then paid_ok_def links.I_faults ledger_ok_def intro!: linked_payment)

lemma paid_refund: "changes (keeping paid_ok) (refund actor i admin)"
  by (intro paid_keeping moves, unfold refund_def, intro linked_read_then)
    (auto simp: wp_guard_then paid_ok_def links.I_faults ledger_ok_def
      courses_get_by_id_eq wp_andThen [of "fetch_row a b c" for a b c] wp_fetch_row pop_def
      intro!: linked_changes split: option.split)

interpretation paid: world_invariant paid_ok
  by unfold_locales (simp_all add: paid_ok_def links.I_uuid links.I_faults ledger_ok_def)

lemma paid_dispatch [moves]: "changes (keeping paid_ok) (dispatch_event r)"
  by (intro paid_keeping moves, unfold dispatch_event_def Let_def, intro linked_read_then)
    (auto simp: wp_ret links.I_faults paid_okD intro!: linked_changes linked_payment
      split: order_status.split)

lemma paid_webhook: "changes (keeping paid_ok) (handle_webhook cd cfg provider hs body)"
proof -
  have "changes (keeping paid_ok) (webhooks_record e)" for e
    by (intro paid_keeping moves wp_keeping) (simp add: paid_ok_def)
  then show ?thesis
    by (auto simp: handle_webhook_def Let_def orders_get_by_id_def intro!: moves split: sum.split)
qed

lemma new_order_simps [simp]:
  "od_status (new_order u c a d cur cid p key) = OrderPending"
  "od_discount (new_order u c a d cur cid p key) = d" "od_amount (new_order u c a d cur cid p key) = a"
  "od_enrollment_id (new_order u c a d cur cid p key) = None"
  "order_stamped (new_order u c a d cur cid p key)"
  by (simp_all add: new_order_def order_stamped_def order_stamps_def)

lemma paid_place:
  assumes "d \<le> a"
  shows "changes (keeping paid_ok) (place_order prov (new_order u c a d cur cid p key))"
proof (intro paid_keeping)
  let ?o = "new_order u c a d cur cid p key"
  have total: "od_total ?o = od_amount ?o - od_discount ?o"
    using assms by (simp add: new_order_def)
  show "changes ledger_step (place_order prov ?o)"
    using assms total by (intro ledger_place) simp_all
  fix w assume ok: "paid_ok w"
  have tail: "wpre (andThen (session_of (pv_create prov (od_id od))) (\<lambda>s.
     andThen (if se_external_id s \<noteq> ''''
              then orders_update_status (od\<lparr>od_provider_ref := se_external_id s\<rparr>) else ret ()) (\<lambda>_.
     andThen (orders_get_by_id (od_id od)) (\<lambda>full.
     ret \<lparr>ck_order = full, ck_url = se_url s, ck_provider_ref = se_external_id s,
          ck_metadata = se_metadata s\<rparr>)))) (\<lambda>_. linked) (\<lambda>_. linked) v"
    if "held_order od v" "paid_ok v" for od v
  proof -
    have "wpre (orders_update_status (od\<lparr>od_provider_ref := x\<rparr>)) (\<lambda>_. linked) (\<lambda>_. linked) v" for x
      by (rule linked_write [of od]) (use that in \<open>simp_all add: paid_ok_def split: option.split\<close>)
    then show ?thesis
      using that by (auto simp: session_of_def wp_andThen [of "case r of Inl e \<Rightarrow> raise e | Inr s \<Rightarrow> ret s" for r]
          wp_raise wp_ret paid_okD split: sum.split intro!: wp_then_keeping moves)
  qed
  have "wpre (orders_create ?o) (\<lambda>od v. (ledger_step w v \<and> held_order od v \<and> order_stamped od) \<and> linked v)
      (\<lambda>_ v. ledger_step w v \<and> linked v) w"
    using assms total paid_okD(2) [OF ok]
    by (intro wp_conj wp_orders_create wp_keeping [where I = linked] linked_create) simp_all
  then show "wpre (place_order prov ?o) (\<lambda>_. linked) (\<lambda>_. linked) w"
    unfolding place_order_def wp_andThen [of "orders_create od" for od]
    by (rule wp_mono) (use ok in \<open>auto intro!: tail simp: paid_ok_def ledger_step_def\<close>)
qed

lemma paid_discounted:
  assumes "0 \<le> amount"
  shows "changes (keeping paid_ok) (andThen (find_discount code c cur amount) (\<lambda>(discount, cid).
     place_order (f cid) (new_order actor c amount discount cur cid (g cid) key)))"
proof (rule keeping_wp)
  fix w assume ok: "paid_ok w"
  have "wpre (find_discount code c cur amount) (\<lambda>(d, cid) w'. d \<le> amount \<and> paid_ok w') (\<lambda>_. paid_ok) w"
    using ok assms by (auto simp: find_discount_def coupons_get_by_code_def wp compute_discount_le paid.I_pop split: option.split)
  then show "wpre (andThen (find_discount code c cur amount) (\<lambda>(discount, cid).
     place_order (f cid) (new_order actor c amount discount cur cid (g cid) key))) (\<lambda>_. paid_ok) (\<lambda>_. paid_ok) w"
    unfolding wp_andThen by (rule wp_mono) (auto intro: wp_keeping [OF paid_place])
qed

lemma paid_new_checkout [moves]: "changes (keeping paid_ok) (new_checkout cd cfg actor c code key provider)"
proof (rule keeping_wp)
  fix w assume "paid_ok w"
  then show "wpre (new_checkout cd cfg actor c code key provider) (\<lambda>_. paid_ok) (\<lambda>_. paid_ok) w"
    unfolding new_checkout_def has_active_enrollment_def enrollments_get_by_course_user_def
    by (auto simp: courses_get_by_id_eq wp_andThen [of "fetch_row a b c" for a b c] wp_fetch_row wp_guard_then
        Let_def paid.I_pop split: option.split
        intro!: wp_keeping [where I = paid_ok] paid_discounted moves)
qed

lemma paid_create_checkout: "changes (keeping paid_ok) (create_checkout cd cfg actor c code key provider)"
  by (auto simp: create_checkout_def Let_def checkout_from_existing_def session_of_def
      orders_get_by_idempotency_key_def intro!: moves split: sum.split)

lemma paid_coupons:
  "changes (keeping paid_ok) (create_coupon actor ci admin)" "changes (keeping paid_ok) (revoke_coupon actor i admin)"
proof -
  have "changes (keeping linked) (create_coupon actor ci admin)" "changes (keeping linked) (revoke_coupon actor i admin)"
    by (auto simp: create_coupon_def revoke_coupon_def courses_get_by_id_eq Let_def intro!: moves)
  then show "changes (keeping paid_ok) (create_coupon actor ci admin)" "changes (keeping paid_ok) (revoke_coupon actor i admin)"
    by (auto intro!: paid_keeping moves wp_keeping paid_okD)
qed

lemma paid_enrollment:
  "changes (keeping paid_ok) (enroll actor c code)" "changes (keeping paid_ok) (enroll_from_payment user c)"
  "changes (keeping paid_ok) (unenroll actor c admin)" "changes (keeping paid_ok) (get_access actor c admin)"
  "changes (keeping paid_ok) (create_invite_code rnd actor c code n ex admin)"
  "changes (keeping paid_ok) (revoke_invite_code actor c i admin)"
  by (auto intro!: paid_keeping moves wp_keeping linked_settled paid_okD)

interpretation paid_run: payment_relation "keeping paid_ok" cd cfg for cd cfg
  by unfold_locales
    (auto intro: paid_enrollment paid_create_checkout paid_confirm paid_webhook paid_refund paid_coupons
      simp: keeping_def paid_ok_def linked_def order_linked_def has_row_def ledger_ok_def cong: option.case_cong)
end
