(* ===== verification/PaymentRules.thy ===== *)
theory PaymentRules
  imports Purchases
begin

text \<open>
  The rules of the payments. A discount lies between nothing and the amount and is computed without
  overflow. A webhook event acts at most once. Confirming and refunding are reserved to the buyer and
  to the teacher or an admin: a refused request writes nothing. A checkout with an idempotency key is
  answered with the order of that key while it is pending, whatever has run since.
\<close>


section \<open>Discounts\<close>

lemma compute_discount_value:
  assumes "0 \<le> amount" "int4 amount" "coupon_checks c" "int4 (cp_discount_value c)"
  shows "compute_discount c amount =
      (if cp_discount_type c = ''percent'' then amount * cp_discount_value c div 100
       else min amount (cp_discount_value c))"
    and "0 \<le> compute_discount c amount" "compute_discount c amount \<le> amount"
proof -
  let ?v = "cp_discount_value c"
  have v: "0 < ?v" "?v < 2 ^ 31" "cp_discount_type c = ''percent'' \<Longrightarrow> ?v \<le> 100"
    using assms(3,4) by (auto simp: coupon_checks_def int4_def)
  have p: "go_quot (go_mul amount ?v) 100 = amount * ?v div 100"
    using v assms(1,2) by (simp add: go_mul_small go_quot_nonneg int4_def)
  have "amount * ?v div 100 \<le> amount" if "?v \<le> 100"
  proof -
    have "amount * ?v \<le> amount * 100" using that assms(1) by (rule mult_left_mono)
    then show ?thesis by linarith
  qed
  with p v assms(1,3) show eq: "compute_discount c amount =
      (if cp_discount_type c = ''percent'' then amount * ?v div 100 else min amount ?v)"
    by (auto simp: compute_discount_def coupon_checks_def Let_def min_def)
  show "compute_discount c amount \<le> amount" using assms(1) by (rule compute_discount_le)
  show "0 \<le> compute_discount c amount"
    unfolding eq using v assms(1) by (simp add: pos_imp_zdiv_nonneg_iff)
qed

section \<open>Webhooks\<close>

definition recorded :: "world \<Rightarrow> string \<Rightarrow> string \<Rightarrow> bool" where
  "recorded w p e \<longleftrightarrow> list_ex (\<lambda>r. wh_provider r = p \<and> wh_event_id r = e) (webhook_events w)"

definition events_kept :: "world \<Rightarrow> world \<Rightarrow> bool" where
  "events_kept w w' \<longleftrightarrow> (\<forall>p e. recorded w p e \<longrightarrow> recorded w' p e)"

lemma events_kept_same: "webhook_events w' = webhook_events w \<Longrightarrow> events_kept w w'"
  by (simp add: events_kept_def recorded_def)

interpretation event_frame: enrollment_frame events_kept
  by unfold_locales (auto simp: events_kept_def recorded_def)

interpretation event_run: payment_writes events_kept
  by unfold_locales
    (auto simp: orders_create_def orders_update_status_def coupons_create_def
      coupons_increment_uses_def coupons_revoke_def webhooks_record_def events_kept_same
      intro!: moves event_frame.changes_insert_row event_frame.changes_exec_rows event_frame.changes_exec_check
      simp: events_kept_def recorded_def)

lemma recorded_pop [simp]: "recorded (pop w) p e = recorded w p e"
  by (simp add: recorded_def)

lemma record_duplicate:
  "recorded w (wh_provider e) (wh_event_id e) \<Longrightarrow>
   wpre (webhooks_record e) (\<lambda>b w'. \<not> b \<and> read_only w w') (\<lambda>_ w'. read_only w w') w"
  by (auto simp: webhooks_record_def wp violation_def recorded_def read_only_def pop_def split: option.split)

text \<open>A duplicate of a recorded event is answered with the order, and nothing is written.\<close>

lemma handle_webhook_duplicate:
  assumes "pv_parse (provider_for cd cfg p) hs body = Inr r"
    and "recorded w (pv_type (provider_for cd cfg p)) (wr_event_id r)"
  shows "read_only w (snd (handle_webhook cd cfg p hs body w))"
proof -
  let ?e = "webhook_row (pv_type (provider_for cd cfg p)) r body"
  have get: "changes read_only (orders_get_by_id i)" for i
    by (auto simp: orders_get_by_id_def intro!: moves)
  have "wpre (handle_webhook cd cfg p hs body) (\<lambda>_. read_only w) (\<lambda>_. read_only w) w"
    using record_duplicate [of w ?e] assms
    by (auto simp: handle_webhook_def Let_def wp_andThen webhook_row_def elim!: wp_mono
        intro!: reads.wp_changes get)
  then show ?thesis
    by (cases "handle_webhook cd cfg p hs body w") (auto simp: wpre_def split: sum.splits)
qed

lemma webhooks_record_recorded:
  assumes "pk_free (map wh_id (webhook_events w)) w" "wh_provider e \<in> {''manual'', ''stripe'', ''chapa''}"
  shows "wpre (webhooks_record e) (\<lambda>_ w'. recorded w' (wh_provider e) (wh_event_id e)) (\<lambda>_ _. True) w"
  using assms by (auto simp: webhooks_record_def wp violation_def recorded_def split: option.split if_splits)

lemma handle_webhook_records:
  assumes "pv_parse (provider_for cd cfg p) hs body = Inr r"
    and "pk_free (map wh_id (webhook_events w)) w" and "handle_webhook cd cfg p hs body w = (Inr od, w')"
  shows "recorded w' (pv_type (provider_for cd cfg p)) (wr_event_id r)"
proof -
  let ?e = "webhook_row (pv_type (provider_for cd cfg p)) r body"
  let ?Q = "\<lambda>u. recorded u (pv_type (provider_for cd cfg p)) (wr_event_id r)"
  have "wpre (webhooks_record ?e) (\<lambda>_. ?Q) (\<lambda>_ _. True) w"
    using webhooks_record_recorded [of w ?e] assms(2) registered.type_known by (simp add: webhook_row_def)
  moreover have keep: "wpre m (\<lambda>_. ?Q) (\<lambda>_ _. True) u"
    if "changes events_kept m" "?Q u" for m :: "purchase_order act" and u
    using event_frame.wp_changes [OF that(1) event_frame.R_refl [of u]]
    by (rule wp_mono) (use that(2) in \<open>auto simp: events_kept_def\<close>)
  ultimately have "wpre (handle_webhook cd cfg p hs body) (\<lambda>_. ?Q) (\<lambda>_ _. True) w"
    using assms(1)
    by (auto simp: handle_webhook_def Let_def wp_andThen dispatch_event_def elim!: wp_mono intro!: moves keep
        split: order_status.split)
  with assms(3) show ?thesis by (auto simp: wpre_def)
qed

lemma manual_signature:
  assumes "trim_space (pc_webhook_secret cfg) \<noteq> ''''"
    and "to_lower (trim_space (header_get hs ''X-Payment-Signature''))
          \<noteq> hmac_sha256_hex cd (trim_space (pc_webhook_secret cfg)) body"
  shows "\<exists>m. handle_webhook cd cfg ''manual'' hs body w = (Inl (forbidden m), w)"
  using assms by (auto simp: handle_webhook_def provider_for_def manual_provider_def manual_parse_webhook_def
      manual_signature_check_def raise_def Let_def)

text \<open>A webhook that fails after it was recorded is lost: its redelivery is taken for a duplicate.\<close>

lemma handle_webhook_lost:
  assumes "pv_parse (provider_for cd cfg p) hs body = Inr r"
    and "recorded w (pv_type (provider_for cd cfg p)) (wr_event_id r)" and "quiet w"
    and "find (\<lambda>o'. od_id o' = wr_order_id r) (orders w) = Some od"
  shows "handle_webhook cd cfg p hs body w = (Inr (scan_order w od), w)"
proof -
  let ?e = "webhook_row (pv_type (provider_for cd cfg p)) r body"
  have "wpre (webhooks_record ?e) (\<lambda>b w'. \<not> b \<and> w' = w) (\<lambda>_ _. False) w"
    using assms(2,3) registered.type_known [of cd cfg p]
    by (auto simp: webhooks_record_def wp webhook_row_def violation_def recorded_def split: option.split)
  then have "wpre (handle_webhook cd cfg p hs body) (\<lambda>b t. b = scan_order w od \<and> t = w) (\<lambda>_ _. False) w"
    using assms(1,3,4)
    by (auto simp: handle_webhook_def Let_def wp_andThen orders_get_by_id_def wp_fetch_row elim!: wp_mono)
  then show ?thesis by (simp add: wp_returns)
qed

section \<open>Authorization\<close>

definition may_refund :: "world \<Rightarrow> uuid \<Rightarrow> uuid \<Rightarrow> bool \<Rightarrow> bool" where
  "may_refund w actor i admin = (case find (\<lambda>r. od_id r = i) (orders w) of
       None \<Rightarrow> False
     | Some r \<Rightarrow> od_status r = OrderPaid \<and> (case live_course w (od_course_id r) of
           None \<Rightarrow> False | Some c \<Rightarrow> admin \<or> co_teacher_id c = actor))"

lemma refund_denied:
  assumes "\<not> may_refund w actor i admin"
  shows "\<exists>e. fst (refund actor i admin w) = Inl e \<and> read_only w (snd (refund actor i admin w))"
proof -
  have "wpre (refund actor i admin) (\<lambda>_ _. False) (\<lambda>_. read_only w) w"
    using assms by (auto simp: refund_def orders_get_by_id_def courses_get_by_id_eq wp may_refund_def
        read_only_def pop_def split: option.splits)
  then show ?thesis
    by (cases "refund actor i admin w") (auto simp: wpre_def split: sum.splits)
qed

definition may_confirm :: "world \<Rightarrow> uuid \<Rightarrow> uuid \<Rightarrow> bool" where
  "may_confirm w actor i = (case find (\<lambda>r. od_id r = i) (orders w) of
       None \<Rightarrow> False
     | Some r \<Rightarrow> od_user_id r = actor \<and> od_provider r = ''manual'' \<and> od_status r = OrderPending)"

lemma confirm_denied:
  assumes "\<not> may_confirm w actor i"
  shows "\<exists>e. fst (confirm_manual actor i w) = Inl e \<and> read_only w (snd (confirm_manual actor i w))"
proof -
  have "wpre (confirm_manual actor i) (\<lambda>_ _. False) (\<lambda>_. read_only w) w"
    using assms by (auto simp: confirm_manual_def orders_get_by_id_def wp may_confirm_def
        read_only_def pop_def split: option.splits)
  then show ?thesis
    by (cases "confirm_manual actor i w") (auto simp: wpre_def split: sum.splits)
qed

section \<open>Idempotency keys\<close>

definition keyed_order :: "world \<Rightarrow> string \<Rightarrow> purchase_order option" where
  "keyed_order w key = find (\<lambda>r. od_idem_key r \<noteq> '''' \<and> od_idem_key r = key) (orders w)"

definition keys_kept :: "world \<Rightarrow> world \<Rightarrow> bool" where
  "keys_kept w w' \<longleftrightarrow> (\<forall>key r. keyed_order w key = Some r \<longrightarrow>
     (\<exists>s. keyed_order w' key = Some s \<and> od_id s = od_id r \<and> od_provider s = od_provider r))"

lemma keys_kept_same: "orders w' = orders w \<Longrightarrow> keys_kept w w'"
  by (simp add: keys_kept_def keyed_order_def)

interpretation key_frame: enrollment_frame keys_kept
proof unfold_locales
  fix s t u assume "keys_kept s t" "keys_kept t u"
  then show "keys_kept s u" unfolding keys_kept_def by metis
qed (simp_all add: keys_kept_same)

lemma keys_kept_write: "keys_kept w (w\<lparr>orders := upd_where p (order_write od t) (orders w)\<rparr>)"
  by (auto simp: keys_kept_def keyed_order_def find_upd_where)

lemma keys_kept_insert: "keys_kept w (w\<lparr>uuid_next := n, orders := orders w @ rs\<rparr>)"
  by (auto simp: keys_kept_def keyed_order_def find_append)

interpretation key_run: payment_writes keys_kept
  by unfold_locales
    (auto simp: orders_create_def orders_update_status_def coupons_create_def
      coupons_increment_uses_def coupons_revoke_def webhooks_record_def keys_kept_same
      keys_kept_write keys_kept_insert
      intro!: moves key_frame.changes_insert_row key_frame.changes_exec_rows key_frame.changes_exec_check)

lemma provider_for_type: "provider_for cd cfg (pv_type (provider_for cd cfg n)) = provider_for cd cfg n"
  by (simp add: provider_for_def Let_def manual_provider_def stripe_provider_def chapa_provider_def)

text \<open>The result of a checkout with a key: the order of the key, and the session of its provider.\<close>

definition checkout_of :: "codecs \<Rightarrow> payment_config \<Rightarrow> string \<Rightarrow> checkout_result \<Rightarrow> world \<Rightarrow> bool" where
  "checkout_of cd cfg key r w = (case keyed_order w key of
       None \<Rightarrow> False
     | Some od \<Rightarrow> od_id od = od_id (ck_order r)
         \<and> (case pv_create (provider_for cd cfg (od_provider od)) (od_id od) of
              Inl e \<Rightarrow> False
            | Inr s \<Rightarrow> ck_url r = se_url s \<and> ck_provider_ref r = se_external_id s \<and> ck_metadata r = se_metadata s))"

lemma checkout_of_kept: "keys_kept w w' \<Longrightarrow> checkout_of cd cfg key r w \<Longrightarrow> checkout_of cd cfg key r w'"
proof -
  assume kept: "keys_kept w w'" and c: "checkout_of cd cfg key r w"
  obtain od where od: "keyed_order w key = Some od"
    using c by (auto simp: checkout_of_def split: option.splits)
  with kept obtain s where "keyed_order w' key = Some s" "od_id s = od_id od" "od_provider s = od_provider od"
    by (auto simp: keys_kept_def)
  with c od show "checkout_of cd cfg key r w'" by (auto simp: checkout_of_def)
qed

lemma keyed_faults [simp]:
  "keyed_order (w\<lparr>faults := f\<rparr>) key = keyed_order w key" "keyed_order (pop w) key = keyed_order w key"
  by (simp_all add: keyed_order_def)

lemma created_keyed:
  assumes "od_idem_key od = trim_space key" "trim_space key \<noteq> ''''" 
  shows "wpre (orders_create od) (\<lambda>od' w'. \<exists>r. keyed_order w' (trim_space key) = Some r \<and> od_id r = od_id od'
     \<and> od_provider r = od_provider od) (\<lambda>_ _. True) w"
proof -
  have k: "null_blank (trim_space key) = trim_space key" using assms by (simp add: null_blank_def)
  have none: "find (\<lambda>r. od_idem_key r \<noteq> '''' \<and> od_idem_key r = trim_space key) (orders w) = None"
    if "\<not> list_ex (\<lambda>r. od_idem_key r = trim_space key) (orders w)"
    using that by (auto simp: find_None_iff list_ex_iff)
  show ?thesis
    unfolding orders_create_def wp_insert_row
    by (auto simp: assms k violation_def keyed_order_def find_append none split: option.split if_splits)
qed

lemma place_order_keyed:
  assumes "od_idem_key od = trim_space key" "trim_space key \<noteq> ''''"
    and "prov = provider_for cd cfg n" "od_provider od = pv_type prov"
  shows "wpre (place_order prov od) (\<lambda>r w'. checkout_of cd cfg (trim_space key) r w') (\<lambda>_ _. True) w"
proof -
  have "wpre (andThen (session_of (pv_create prov (od_id o'))) (\<lambda>s.
     andThen (if se_external_id s \<noteq> ''''
              then orders_update_status (o'\<lparr>od_provider_ref := se_external_id s\<rparr>) else ret ()) (\<lambda>_.
     andThen (orders_get_by_id (od_id o')) (\<lambda>full.
     ret \<lparr>ck_order = full, ck_url = se_url s, ck_provider_ref = se_external_id s,
          ck_metadata = se_metadata s\<rparr>)))) (\<lambda>r w'. checkout_of cd cfg (trim_space key) r w') (\<lambda>_ _. True) v"
    if v: "keyed_order v (trim_space key) = Some q" "od_id q = od_id o'" "od_provider q = od_provider od" for o' v q
  proof (cases "pv_create prov (od_id o')")
    case (Inl e)
    then show ?thesis by (simp add: session_of_def wp)
  next
    case (Inr s)
    have keyed: "checkout_of cd cfg (trim_space key) \<lparr>ck_order = full, ck_url = se_url s,
        ck_provider_ref = se_external_id s, ck_metadata = se_metadata s\<rparr> u"
      if "keys_kept v u" "od_id full = od_id o'" for full u
      by (rule checkout_of_kept [OF that(1)])
        (use v that(2) Inr assms(3,4) provider_for_type in \<open>simp add: checkout_of_def\<close>)
    have "wpre (if se_external_id s \<noteq> ''''
              then orders_update_status (o'\<lparr>od_provider_ref := se_external_id s\<rparr>) else ret ())
       (\<lambda>_. keys_kept v) (\<lambda>_. keys_kept v) v"
      by (intro key_frame.wp_changes moves key_frame.R_refl)
    then show ?thesis
      unfolding session_of_def Inr sum.case wp_andThen wp_ret
      by (rule wp_mono)
        (auto simp: orders_get_by_id_def wp_fetch_row intro!: keyed intro: key_frame.R_trans [OF _ key_frame.R_pop]
          dest!: find_SomeD split: option.split)
  qed
  then show ?thesis
    unfolding place_order_def wp_andThen [of "orders_create od"]
    by (intro wp_mono [OF created_keyed [OF assms(1,2)]]) auto
qed

lemma wp_read_keyed:
  "wpre (optional is_not_found (orders_get_by_idempotency_key key)) Q E w =
     (if down w then E (WrapError ''get order by idempotency key'' (DriverError st_connection)) (pop w)
      else Q (map_option (scan_order w) (keyed_order w key)) (pop w))"
  by (simp add: orders_get_by_idempotency_key_def keyed_order_def wp split: option.split)

lemma existing_keyed:
  "keyed_order w key = Some q \<Longrightarrow> wpre (checkout_from_existing cd cfg (scan_order x q))
     (\<lambda>r w'. checkout_of cd cfg key r w') (\<lambda>_ _. True) w"
  by (auto simp: checkout_from_existing_def session_of_def wp checkout_of_def split: sum.split)

lemma create_checkout_keyed:
  assumes "trim_space key \<noteq> ''''"
  shows "wpre (create_checkout cd cfg actor c code key p)
     (\<lambda>r w'. checkout_of cd cfg (trim_space key) r w') (\<lambda>_ _. True) w"
proof -
  have new: "wpre (new_checkout cd cfg actor c code (trim_space key) p)
     (\<lambda>r w'. checkout_of cd cfg (trim_space key) r w') (\<lambda>_ _. True) v" for v
    unfolding new_checkout_def Let_def
    by (intro any_then) (auto simp: assms new_order_def split: prod.split intro!: any_then place_order_keyed)
  show ?thesis
    using assms by (auto simp: create_checkout_def Let_def wp_andThen wp_read_keyed intro!: new existing_keyed
      split: option.split)
qed

lemma create_checkout_replay:
  assumes "trim_space key \<noteq> ''''" "quiet w" "checkout_of cd cfg (trim_space key) r w"
    and "keyed_order w (trim_space key) = Some od" "od_status od = OrderPending"
  shows "create_checkout cd cfg actor c code key p w = (Inr (r\<lparr>ck_order := scan_order w od\<rparr>), w)"
  using assms unfolding wp_returns
  by (auto simp: create_checkout_def Let_def wp orders_get_by_idempotency_key_def checkout_from_existing_def
      session_of_def checkout_of_def keyed_order_def split: sum.splits)
section \<open>Coupon limits\<close>

definition coupons_within :: "world \<Rightarrow> bool" where
  "coupons_within w \<longleftrightarrow> list_all (\<lambda>c. case cp_max_uses c of None \<Rightarrow> True | Some n \<Rightarrow> cp_uses c \<le> n) (coupons w)"

end
