(* ===== verification/Samples.thy ===== *)
theory Samples
  imports PaymentRules
begin

text \<open>A small school on which the theorems are tried: a free course with one seat and a waitlist, a
  paid course, a teacher and three learners, an invite code, a coupon and a pending order.\<close>

definition sample_user :: "uuid \<Rightarrow> string \<Rightarrow> user" where
  "sample_user i role = \<lparr>us_id = i, us_email = i @ ''@school.et'', us_password_hash = ''bcrypt:'' @ i,
     us_full_name = i, us_bio = '''', us_avatar_url = '''', us_phone = '''', us_locale = ''en'',
     us_timezone = ''UTC'', us_role_id = role, us_role_code = '''', us_email_verified_at = None,
     us_is_active = True, us_created_at = 1, us_updated_at = 1, us_deleted_at = None\<rparr>"

definition sample_role :: "string \<Rightarrow> role" where
  "sample_role c = \<lparr>ro_id = c, ro_code = c, ro_name = c, ro_description = '''', ro_created_at = 0,
     ro_updated_at = 0\<rparr>"

definition sample_course :: "uuid \<Rightarrow> int \<Rightarrow> int option \<Rightarrow> course" where
  "sample_course i price cap = \<lparr>co_id = i, co_organization_id = None, co_teacher_id = ''teacher'',
     co_category_id = None, co_title = i, co_slug = i, co_summary = '''', co_description = '''',
     co_status = CoursePublished, co_cover_url = '''', co_price_cents = price, co_currency = ''ETB'',
     co_level = ''beginner'', co_language = ''am'', co_published_at = Some 1, co_created_at = 1,
     co_updated_at = 1, co_capacity = cap, co_enrollment_open = True, co_waitlist_enabled = True,
     co_deleted_at = None, co_category_name = '''', co_teacher_name = '''', co_tag_slugs = []\<rparr>"

definition sample_enrollment :: "uuid \<Rightarrow> uuid \<Rightarrow> enrollment_status \<Rightarrow> time \<Rightarrow> enrollment" where
  "sample_enrollment i u st t =
     (new_enrollment ''free'' u st SourceSelf None t)\<lparr>en_id := i, en_created_at := t, en_updated_at := t\<rparr>"

definition sample_order :: purchase_order where
  "sample_order = (new_order ''abebe'' ''paid'' 1000 250 ''ETB'' None ''manual'' ''key'')
     \<lparr>od_id := ''o1'', od_provider_ref := ''o1'', od_created_at := 1, od_updated_at := 1\<rparr>"

definition school :: world where
  "school = \<lparr>clock = 10, uuid_gen = (\<lambda>n. ''id'' @ replicate n CHR ''0''), uuid_next = 0, faults = [],
     roles = [sample_role ''student'', sample_role ''teacher'', sample_role ''admin''],
     users = [sample_user ''teacher'' ''teacher'', sample_user ''abebe'' ''student'',
       sample_user ''sara'' ''student'', sample_user ''hana'' ''student''],
     refresh_tokens = [], reset_tokens = [], verify_tokens = [],
     organizations = [], org_members = [], org_invites = [], categories = [], tags = [], course_tags = [],
     courses = [sample_course ''free'' 0 (Some 1), sample_course ''paid'' 1000 (Some 1)],
     course_modules = [], lessons = [], content_blocks = [],
     enrollments = [sample_enrollment ''e1'' ''abebe'' EnActive 2,
       sample_enrollment ''e2'' ''sara'' EnWaitlisted 3],
     invite_codes = [\<lparr>inv_id = ''i1'', inv_course_id = ''free'', inv_code = ''JOIN'', inv_max_uses = Some 2,
       inv_uses = 0, inv_expires_at = None, inv_created_by = ''teacher'', inv_revoked_at = None,
       inv_created_at = 1, inv_updated_at = 1\<rparr>],
     enrollment_events = [],
     coupons = [\<lparr>cp_id = ''k1'', cp_code = ''HALF'', cp_discount_type = ''percent'', cp_discount_value = 50,
       cp_currency = '''', cp_course_id = None, cp_max_uses = Some 1, cp_uses = 0, cp_valid_from = None,
       cp_valid_until = None, cp_created_by = ''teacher'', cp_revoked_at = None, cp_created_at = 1,
       cp_updated_at = 1\<rparr>],
     orders = [sample_order], webhook_events = [], lesson_progresses = [], course_progresses = [],
     quizzes = [], quiz_questions = [], quiz_attempts = [], attempt_answers = [], assignments = [], submissions = [],
     certificates = [], live_sessions = [], attendances = [], course_announcements = [], discussion_threads = [],
     discussion_posts = [], dm_conversations = [], dm_messages = [], notification_outbox = [], media_assets = [],
     store_deletes = [], parent_links = []\<rparr>"

lemmas sample_defs = school_def sample_user_def sample_role_def sample_course_def sample_enrollment_def sample_order_def
  new_enrollment_def new_order_def

lemma school_quiet: "quiet school"
  by (simp add: school_def)

lemma school_capacity: "within_capacity school"
  by (auto simp: within_capacity_def course_capacity_def course_live_def seats_def sample_defs)

lemma school_roster: "roster_ok school"
  by (simp add: roster_ok_def enrollment_ok_def sample_defs)

lemma school_invites: "invites_ok school"
  by (simp add: invites_ok_def invite_ok_def sample_defs)

lemma school_paid: "paid_ok school"
  by (simp add: paid_ok_def ledger_ok_def linked_def order_ok_def order_stamped_def order_stamps_def
      order_linked_def sample_defs)

lemma school_spare: "spare_ids school"
  by (simp add: spare_ids_def sample_defs)

lemma school_admission: "admission school ''hana'' ''free'' ''JOIN'' = Inr (Some (hd (invite_codes school)), EnWaitlisted)"
  by (simp add: admission_def live_course_def course_live_def invite_choice_def seat_choice_def status_of_def
     sample_defs trim_space_def trim_left.simps trim_right_rev.simps space_len_def ascii_space_def
     to_lower_def lower_char_def seats_def validate_invite_def)


text \<open>A configuration with secrets, and codecs that read a fixed payload and sign with the secret.\<close>

definition sample_config :: payment_config where
  "sample_config = \<lparr>pc_default = '''', pc_webhook_secret = ''s'', pc_stripe_key = ''sk'',
     pc_stripe_webhook = ''s'', pc_chapa_key = ''ck'', pc_chapa_webhook = ''s''\<rparr>"

definition sample_codecs :: codecs where
  "sample_codecs = \<lparr>json_manual = (\<lambda>b. Some \<lparr>mp_event_id = ''ev'', mp_order_id = b, mp_status = ''failed'',
       mp_provider_ref = ''''\<rparr>),
     json_stripe = (\<lambda>_. None), json_chapa = (\<lambda>_. None), hmac_sha256_hex = (\<lambda>k b. k @ b)\<rparr>"

lemmas sample_payment_defs = sample_config_def sample_codecs_def

lemmas trim_eval = trim_space_def trim_left.simps trim_right_rev.simps space_len_def ascii_space_def

text \<open>One request is a run.\<close>

lemma one_payment:
  "payment_request sample_codecs sample_config w w' \<Longrightarrow> rtranclp (payment_request sample_codecs sample_config) w w'"
  by (rule r_into_rtranclp)

lemma one_enrollment:
  "enrollment_request w w' \<Longrightarrow> rtranclp (payment_request sample_codecs sample_config) w w'"
  by (intro one_payment req_enrollment)

definition empty_school :: world where
  "empty_school = school\<lparr>enrollments := []\<rparr>"

lemma school_free: "live_course school ''free'' = Some (scan_course school (sample_course ''free'' 0 (Some 1)))"
  by (simp add: live_course_def course_live_def sample_defs)

lemma school_next: "next_waitlisted_row ''free'' (enrollments school) = Some (sample_enrollment ''e2'' ''sara'' EnWaitlisted 3)"
  by (simp add: next_waitlisted_row_def sample_defs)

lemma school_seats: "seats ''free'' EnActive (enrollments school) = 1"
  by (simp add: seats_def sample_defs)

lemma school_status: "status_of school (''free'', ''abebe'') = Some EnActive" "status_of school (''free'', ''sara'') = Some EnWaitlisted"
  by (simp_all add: status_of_def sample_defs)

lemma school_users: "has_user school ''teacher''" "has_user school ''abebe''" "has_user school ''sara''" "has_user school ''hana''"
  by (simp_all add: has_user_def sample_defs)

lemma empty_school_capacity: "within_capacity empty_school"
  by (auto simp: within_capacity_def course_capacity_def course_live_def seats_def empty_school_def sample_defs)

lemma empty_school_free:
  "live_course empty_school ''free'' = Some (scan_course empty_school (sample_course ''free'' 0 (Some 1)))"
  by (simp add: live_course_def course_live_def empty_school_def sample_defs)

lemma empty_school_seat:
  "fst (decide_seat (scan_course empty_school (sample_course ''free'' 0 (Some 1))) empty_school) = Inr (EnActive, EvEnrolled)"
  by (simp add: decide_seat_def enrollments_count_by_course_status_def fetch_val_def andThen_def ret_def
        seats_def sample_defs empty_school_def)

lemma overfilled_seats:
  "seats ''free'' EnActive (enrollments (snd (enroll_commit ''hana'' ''free'' None (EnActive, EvEnrolled)
            (snd (enroll ''sara'' ''free'' '''' empty_school))))) = 2"
  by code_simp

lemma overfilled_courses:
  "courses (snd (enroll_commit ''hana'' ''free'' None (EnActive, EvEnrolled)
            (snd (enroll ''sara'' ''free'' '''' empty_school)))) = courses empty_school"
  by code_simp
text \<open>A signed webhook for the sample order, and a checkout that succeeds.\<close>

definition sample_headers :: headers where
  "sample_headers = (\<lambda>_. None)(''X-Payment-Signature'' \<mapsto> ''so1'')"

definition sample_result :: webhook_result where
  "sample_result = \<lparr>wr_event_id = ''ev'', wr_event_type = ''manual.payment.failed'', wr_order_id = ''o1'',
     wr_status = OrderFailed, wr_provider_ref = ''''\<rparr>"

lemma sample_parse:
  "pv_parse (provider_for sample_codecs sample_config ''manual'') sample_headers ''o1'' = Inr sample_result"
  by code_simp

lemma school_webhook:
  "\<exists>od w1. handle_webhook sample_codecs sample_config ''manual'' sample_headers ''o1'' school = (Inr od, w1)"
proof -
  have "isl (fst (handle_webhook sample_codecs sample_config ''manual'' sample_headers ''o1'' school)) = False"
    by code_simp
  then show ?thesis by (metis isl_def prod.collapse sum.exhaust_sel)
qed

definition told_school :: world where
  "told_school = school\<lparr>webhook_events := [(webhook_row ''manual'' sample_result ''o1'')\<lparr>wh_id := ''w1''\<rparr>]\<rparr>"

lemma school_checkout:
  "\<exists>r w1. create_checkout sample_codecs sample_config ''sara'' ''paid'' ''half'' ''k7'' ''manual'' school = (Inr r, w1)"
  "quiet (snd (create_checkout sample_codecs sample_config ''sara'' ''paid'' ''half'' ''k7'' ''manual'' school))"
  "map_option od_status (keyed_order (snd (create_checkout sample_codecs sample_config ''sara'' ''paid'' ''half'' ''k7'' ''manual'' school)) ''k7'') = Some OrderPending"
proof -
  have "isl (fst (create_checkout sample_codecs sample_config ''sara'' ''paid'' ''half'' ''k7'' ''manual'' school)) = False"
    by code_simp
  then show "\<exists>r w1. create_checkout sample_codecs sample_config ''sara'' ''paid'' ''half'' ''k7'' ''manual'' school = (Inr r, w1)"
    by (metis isl_def prod.collapse sum.exhaust_sel)
qed code_simp+
definition two_checkouts :: world where
  "two_checkouts = snd (create_checkout sample_codecs sample_config ''hana'' ''paid'' ''half'' '''' ''manual''
     (snd (create_checkout sample_codecs sample_config ''sara'' ''paid'' ''half'' '''' ''manual'' school)))"

lemma overused_coupon:
  "coupons_within (snd (confirm_manual ''hana'' ''id0'' (snd (confirm_manual ''sara'' ''id'' two_checkouts)))) = False"
  by code_simp

end
