(* ===== verification/CurriculumRepo.thy ===== *)
theory CurriculumRepo
  imports CourseRepo
begin

text \<open>
  \<open>ModuleRepository\<close>, \<open>LessonRepository\<close> and \<open>ContentBlockRepository\<close>
  (\<open>internal/repository/postgres/curriculum.go\<close>). The three tables are ordered by a position that is
  unique below a parent row, so what the code shares between them (\<open>NextPosition\<close>, the listing and
  \<open>reorderPositions\<close>, which gets the names of the table and of its parent column) is defined once
  over an \<open>ordered_table\<close>: how its rows are read and written and where their columns are.
\<close>

section \<open>Ordered tables\<close>

record 'r ordered_table =
  ord_rows :: "world \<Rightarrow> 'r list"
  ord_put :: "'r list \<Rightarrow> world \<Rightarrow> world"
  ord_id :: "'r \<Rightarrow> uuid"
  ord_parent :: "'r \<Rightarrow> uuid"
  ord_position :: "'r \<Rightarrow> int"
  ord_move :: "int \<Rightarrow> time \<Rightarrow> 'r \<Rightarrow> 'r"

definition modules_table :: "course_module ordered_table" where
  "modules_table = \<lparr>ord_rows = course_modules, ord_put = (\<lambda>rs w. w\<lparr>course_modules := rs\<rparr>),
     ord_id = mo_id, ord_parent = mo_course_id, ord_position = mo_position,
     ord_move = (\<lambda>p t r. r\<lparr>mo_position := p, mo_updated_at := t\<rparr>)\<rparr>"

definition lessons_table :: "lesson ordered_table" where
  "lessons_table = \<lparr>ord_rows = lessons, ord_put = (\<lambda>rs w. w\<lparr>lessons := rs\<rparr>),
     ord_id = le_id, ord_parent = le_module_id, ord_position = le_position,
     ord_move = (\<lambda>p t r. r\<lparr>le_position := p, le_updated_at := t\<rparr>)\<rparr>"

definition blocks_table :: "content_block ordered_table" where
  "blocks_table = \<lparr>ord_rows = content_blocks, ord_put = (\<lambda>rs w. w\<lparr>content_blocks := rs\<rparr>),
     ord_id = cb_id, ord_parent = cb_lesson_id, ord_position = cb_position,
     ord_move = (\<lambda>p t r. r\<lparr>cb_position := p, cb_updated_at := t\<rparr>)\<rparr>"

text \<open>The unique index on the parent and the position.\<close>

definition position_free :: "'r ordered_table \<Rightarrow> uuid \<Rightarrow> int \<Rightarrow> world \<Rightarrow> bool" where
  "position_free T parent p w \<longleftrightarrow>
     \<not> list_ex (\<lambda>r. ord_parent T r = parent \<and> ord_position T r = p) (ord_rows T w)"

text \<open>\<open>ORDER BY position ASC\<close>.\<close>

definition children :: "'r ordered_table \<Rightarrow> uuid \<Rightarrow> world \<Rightarrow> 'r list" where
  "children T parent w =
     sort_key (ord_position T) (filter (\<lambda>r. ord_parent T r = parent) (ord_rows T w))"

text \<open>\<open>COALESCE(MAX(position), -1) + 1\<close>.\<close>

definition next_position :: "'r ordered_table \<Rightarrow> uuid \<Rightarrow> world \<Rightarrow> int" where
  "next_position T parent w =
     foldr (\<lambda>r m. max (ord_position T r) m) (filter (\<lambda>r. ord_parent T r = parent) (ord_rows T w)) (- 1) + 1"

text \<open>\<open>UPDATE table SET position = p WHERE id = i AND parent = parent\<close>.\<close>

definition row_at :: "'r ordered_table \<Rightarrow> uuid \<Rightarrow> uuid \<Rightarrow> 'r \<Rightarrow> bool" where
  "row_at T parent i r \<longleftrightarrow> ord_id T r = i \<and> ord_parent T r = parent"

definition moved :: "'r ordered_table \<Rightarrow> uuid \<Rightarrow> uuid \<Rightarrow> int \<Rightarrow> world \<Rightarrow> world" where
  "moved T parent i p w = ord_put T (upd_where (row_at T parent i) (ord_move T p (clock w)) (ord_rows T w)) w"

definition move_clash :: "'r ordered_table \<Rightarrow> uuid \<Rightarrow> uuid \<Rightarrow> int \<Rightarrow> world \<Rightarrow> bool" where
  "move_clash T parent i p w \<longleftrightarrow> list_ex (row_at T parent i) (ord_rows T w)
     \<and> list_ex (\<lambda>r. ord_id T r \<noteq> i \<and> ord_parent T r = parent \<and> ord_position T r = p) (ord_rows T w)"

definition update_position ::
  "'r ordered_table \<Rightarrow> uuid \<Rightarrow> uuid \<Rightarrow> int \<Rightarrow> string \<Rightarrow> nat act" where
  "update_position T parent i p ctx = exec_count
     (\<lambda>w. cnt (row_at T parent i) (ord_rows T w))
     (\<lambda>w. if move_clash T parent i p w then Some st_unique else None)
     (moved T parent i p) ctx"

definition reorder_positions :: "'r ordered_table \<Rightarrow> uuid \<Rightarrow> uuid list \<Rightarrow> unit act" where
  "reorder_positions T parent ids =
     andThen (guard (ids \<noteq> []) (validation ''ids are required'')) (\<lambda>_.
     in_tx ''begin reorder'' (
       andThen (for_each (enumerate 0 ids) (\<lambda>(k, i).
         andThen (update_position T parent i (- (int k + 1)) ''temp reorder'') (\<lambda>n.
         guard (n \<noteq> 0) (validation ''invalid id in reorder list'')))) (\<lambda>_.
       for_each (enumerate 0 ids) (\<lambda>(k, i).
         andThen (update_position T parent i (int k) ''final reorder'') (\<lambda>_. ret ())))))"

section \<open>Modules\<close>

definition modules_create :: "course_module \<Rightarrow> course_module act" where
  "modules_create m = insert_row
     (\<lambda>w. violation (int4 (mo_position m)) (sql_nonblank (mo_title m))
            (position_free modules_table (mo_course_id m) (mo_position m) w
             \<and> pk_free (map mo_id (course_modules w)) w)
            (has_course w (mo_course_id m)))
     (\<lambda>w. m\<lparr>mo_id := fresh_uuid w, mo_created_at := clock w, mo_updated_at := clock w\<rparr>)
     (\<lambda>r w. w\<lparr>course_modules := course_modules w @ [r]\<rparr>)
     (insert_err ''module position conflict'' ''create module'')"

definition modules_get_by_id :: "uuid \<Rightarrow> course_module act" where
  "modules_get_by_id i = fetch_row (\<lambda>w. find (\<lambda>r. mo_id r = i) (course_modules w))
     ''module not found'' ''get module''"

definition modules_list_by_course :: "uuid \<Rightarrow> course_module list act" where
  "modules_list_by_course c = fetch_val (children modules_table c) ''list modules''"

definition modules_update :: "uuid \<Rightarrow> string \<Rightarrow> course_module act" where
  "modules_update i title =
     andThen (exec_check (\<lambda>w. cnt (\<lambda>r. mo_id r = i) (course_modules w))
       (\<lambda>w. violation True (sql_nonblank title) True True)
       (\<lambda>w. w\<lparr>course_modules := upd_where (\<lambda>r. mo_id r = i)
          (\<lambda>r. r\<lparr>mo_title := title, mo_updated_at := clock w\<rparr>) (course_modules w)\<rparr>)
       ''module not found'' ''update module'') (\<lambda>_.
     modules_get_by_id i)"

text \<open>
  \<open>ON DELETE\<close>: the rows below a deleted lesson go with it, references to it become \<open>NULL\<close>
  (\<open>unlink\<close>: the deletion of the lessons that satisfy a predicate).
\<close>

definition unlink :: "(uuid \<Rightarrow> bool) \<Rightarrow> uuid option \<Rightarrow> uuid option" where
  "unlink gone r = (case r of None \<Rightarrow> None | Some i \<Rightarrow> if gone i then None else Some i)"

definition delete_lessons :: "(uuid \<Rightarrow> bool) \<Rightarrow> world \<Rightarrow> world" where
  "delete_lessons gone w = w\<lparr>
     lessons := upd_where (\<lambda>r. unlink gone (le_prerequisite r) \<noteq> le_prerequisite r)
       (\<lambda>r. r\<lparr>le_prerequisite := None, le_updated_at := clock w\<rparr>)
       (filter (\<lambda>r. \<not> gone (le_id r)) (lessons w)),
     content_blocks := filter (\<lambda>r. \<not> gone (cb_lesson_id r)) (content_blocks w),
     lesson_progresses := filter (\<lambda>r. \<not> gone (lp_lesson_id r)) (lesson_progresses w),
     course_progresses := upd_where (\<lambda>r. unlink gone (pr_last_lesson_id r) \<noteq> pr_last_lesson_id r)
       (\<lambda>r. r\<lparr>pr_last_lesson_id := None, pr_updated_at := clock w\<rparr>) (course_progresses w),
     live_sessions := upd_where (\<lambda>r. unlink gone (ls_lesson_id r) \<noteq> ls_lesson_id r)
       (\<lambda>r. r\<lparr>ls_lesson_id := None, ls_updated_at := clock w\<rparr>) (live_sessions w)\<rparr>"

definition modules_delete :: "uuid \<Rightarrow> unit act" where
  "modules_delete i = exec_rows
     (\<lambda>w. cnt (\<lambda>r. mo_id r = i) (course_modules w))
     (\<lambda>w. (delete_lessons (\<lambda>l. list_ex (\<lambda>r. le_id r = l \<and> le_module_id r = i) (lessons w)) w)
        \<lparr>course_modules := filter (\<lambda>r. mo_id r \<noteq> i) (course_modules w)\<rparr>)
     ''module not found'' ''delete module''"

definition modules_next_position :: "uuid \<Rightarrow> int act" where
  "modules_next_position c = fetch_val (next_position modules_table c) ''next module position''"

definition modules_reorder :: "uuid \<Rightarrow> uuid list \<Rightarrow> unit act" where
  "modules_reorder c ids = reorder_positions modules_table c ids"

section \<open>Lessons\<close>

definition has_lesson :: "world \<Rightarrow> uuid option \<Rightarrow> bool" where
  "has_lesson w l \<longleftrightarrow> (case l of None \<Rightarrow> True | Some i \<Rightarrow> i \<in> set (map le_id (lessons w)))"

definition lessons_create :: "lesson \<Rightarrow> lesson act" where
  "lessons_create l = insert_row
     (\<lambda>w. violation (int4 (le_position l) \<and> int4 (le_minutes l))
            (sql_nonblank (le_title l) \<and> sql_nonblank (le_slug l) \<and> 0 \<le> le_minutes l)
            (position_free lessons_table (le_module_id l) (le_position l) w
             \<and> \<not> list_ex (\<lambda>r. le_module_id r = le_module_id l \<and> to_lower (le_slug r) = to_lower (le_slug l))
                  (lessons w)
             \<and> pk_free (map le_id (lessons w)) w)
            (le_module_id l \<in> set (map mo_id (course_modules w)) \<and> has_lesson w (le_prerequisite l)))
     (\<lambda>w. l\<lparr>le_id := fresh_uuid w, le_created_at := clock w, le_updated_at := clock w\<rparr>)
     (\<lambda>r w. w\<lparr>lessons := lessons w @ [r]\<rparr>)
     (insert_err ''lesson slug or position conflict'' ''create lesson'')"

definition lessons_get_by_id :: "uuid \<Rightarrow> lesson act" where
  "lessons_get_by_id i = fetch_row (\<lambda>w. find (\<lambda>r. le_id r = i) (lessons w))
     ''lesson not found'' ''get lesson''"

definition lessons_list_by_module :: "uuid \<Rightarrow> lesson list act" where
  "lessons_list_by_module m = fetch_val (children lessons_table m) ''list lessons''"

definition lesson_rows :: "uuid \<Rightarrow> world \<Rightarrow> nat" where
  "lesson_rows i w = cnt (\<lambda>r. le_id r = i) (lessons w)"

definition lesson_set :: "uuid \<Rightarrow> (lesson \<Rightarrow> lesson) \<Rightarrow> world \<Rightarrow> world" where
  "lesson_set i f w = w\<lparr>lessons := upd_where (\<lambda>r. le_id r = i)
     (\<lambda>r. (f r)\<lparr>le_updated_at := clock w\<rparr>) (lessons w)\<rparr>"

definition lessons_update :: "uuid \<Rightarrow> string \<Rightarrow> string \<Rightarrow> int \<Rightarrow> uuid option \<Rightarrow> lesson act" where
  "lessons_update i title summary minutes prereq =
     andThen (exec_check (lesson_rows i)
       (\<lambda>w. violation (int4 minutes) (sql_nonblank title \<and> 0 \<le> minutes) True (has_lesson w prereq))
       (lesson_set i (\<lambda>r. r\<lparr>le_title := title, le_summary := summary, le_minutes := minutes,
          le_prerequisite := prereq\<rparr>))
       ''lesson not found'' ''update lesson'') (\<lambda>_.
     lessons_get_by_id i)"

definition lessons_set_status :: "uuid \<Rightarrow> lesson_status \<Rightarrow> lesson act" where
  "lessons_set_status i st =
     andThen (exec_rows (lesson_rows i) (lesson_set i (\<lambda>r. r\<lparr>le_status := st\<rparr>))
       ''lesson not found'' ''set lesson status'') (\<lambda>_.
     lessons_get_by_id i)"

definition lessons_delete :: "uuid \<Rightarrow> unit act" where
  "lessons_delete i = exec_rows (lesson_rows i) (delete_lessons (\<lambda>l. l = i))
     ''lesson not found'' ''delete lesson''"

definition lessons_next_position :: "uuid \<Rightarrow> int act" where
  "lessons_next_position m = fetch_val (next_position lessons_table m) ''next lesson position''"

definition lessons_reorder :: "uuid \<Rightarrow> uuid list \<Rightarrow> unit act" where
  "lessons_reorder m ids = reorder_positions lessons_table m ids"

text \<open>A lesson joined with its module, if that belongs to the course.\<close>

definition lesson_in_course :: "world \<Rightarrow> uuid \<Rightarrow> lesson \<Rightarrow> bool" where
  "lesson_in_course w c l \<longleftrightarrow>
     list_ex (\<lambda>m. mo_id m = le_module_id l \<and> mo_course_id m = c) (course_modules w)"

definition published_in :: "world \<Rightarrow> uuid \<Rightarrow> lesson \<Rightarrow> bool" where
  "published_in w c l \<longleftrightarrow> lesson_in_course w c l \<and> le_status l = LessonPublished"

definition lessons_count_published_by_course :: "uuid \<Rightarrow> int act" where
  "lessons_count_published_by_course c =
     fetch_val (\<lambda>w. int (cnt (published_in w c) (lessons w))) ''count published lessons''"

section \<open>Content blocks\<close>

definition block_types :: "string list" where
  "block_types = [''text'', ''video'', ''file'', ''quiz_ref'']"

definition has_quiz :: "world \<Rightarrow> uuid option \<Rightarrow> bool" where
  "has_quiz w q \<longleftrightarrow> (case q of None \<Rightarrow> True | Some i \<Rightarrow> i \<in> set (map qz_id (quizzes w)))"

definition blocks_create :: "content_block \<Rightarrow> content_block act" where
  "blocks_create b = insert_row
     (\<lambda>w. violation (int4 (cb_position b)) (cb_type b \<in> set block_types)
            (position_free blocks_table (cb_lesson_id b) (cb_position b) w
             \<and> pk_free (map cb_id (content_blocks w)) w)
            (has_lesson w (Some (cb_lesson_id b)) \<and> has_quiz w (cb_quiz_ref b)))
     (\<lambda>w. b\<lparr>cb_id := fresh_uuid w, cb_created_at := clock w, cb_updated_at := clock w\<rparr>)
     (\<lambda>r w. w\<lparr>content_blocks := content_blocks w @ [r]\<rparr>)
     (insert_err ''content block position conflict'' ''create content block'')"

definition blocks_get_by_id :: "uuid \<Rightarrow> content_block act" where
  "blocks_get_by_id i = fetch_row (\<lambda>w. find (\<lambda>r. cb_id r = i) (content_blocks w))
     ''content block not found'' ''get content block''"

definition blocks_list_by_lesson :: "uuid \<Rightarrow> content_block list act" where
  "blocks_list_by_lesson l = fetch_val (children blocks_table l) ''list content blocks''"

definition blocks_update :: "content_block \<Rightarrow> content_block act" where
  "blocks_update b =
     andThen (exec_check (\<lambda>w. cnt (\<lambda>r. cb_id r = cb_id b) (content_blocks w))
       (\<lambda>w. violation True (cb_type b \<in> set block_types) True (has_quiz w (cb_quiz_ref b)))
       (\<lambda>w. w\<lparr>content_blocks := upd_where (\<lambda>r. cb_id r = cb_id b)
          (\<lambda>r. r\<lparr>cb_type := cb_type b, cb_title := cb_title b, cb_body := cb_body b,
             cb_media_url := cb_media_url b, cb_quiz_ref := cb_quiz_ref b,
             cb_updated_at := clock w\<rparr>) (content_blocks w)\<rparr>)
       ''content block not found'' ''update content block'') (\<lambda>_.
     blocks_get_by_id (cb_id b))"

definition blocks_delete :: "uuid \<Rightarrow> unit act" where
  "blocks_delete i = exec_rows (\<lambda>w. cnt (\<lambda>r. cb_id r = i) (content_blocks w))
     (\<lambda>w. w\<lparr>content_blocks := filter (\<lambda>r. cb_id r \<noteq> i) (content_blocks w)\<rparr>)
     ''content block not found'' ''delete content block''"

definition blocks_next_position :: "uuid \<Rightarrow> int act" where
  "blocks_next_position l = fetch_val (next_position blocks_table l) ''next block position''"

definition blocks_reorder :: "uuid \<Rightarrow> uuid list \<Rightarrow> unit act" where
  "blocks_reorder l ids = reorder_positions blocks_table l ids"

section \<open>Facts\<close>

text \<open>What the proofs use of an ordered table: reading after writing, and what a move changes.\<close>

locale ordered =
  fixes T :: "'r ordered_table"
  assumes rows_put [simp]: "ord_rows T (ord_put T rs w) = rs"
    and put_put [simp]: "ord_put T rs (ord_put T ss w) = ord_put T rs w"
    and rows_faults [simp]: "ord_rows T (w\<lparr>faults := f\<rparr>) = ord_rows T w"
    and put_faults [simp]: "(ord_put T rs w)\<lparr>faults := f\<rparr> = ord_put T rs (w\<lparr>faults := f\<rparr>)"
    and clock_put [simp]: "clock (ord_put T rs w) = clock w"
    and faults_put [simp]: "faults (ord_put T rs w) = faults w"
    and put_rows [simp]: "ord_put T (ord_rows T w) w = w"
    and move_id [simp]: "ord_id T (ord_move T p t r) = ord_id T r"
    and move_parent [simp]: "ord_parent T (ord_move T p t r) = ord_parent T r"
    and move_position [simp]: "ord_position T (ord_move T p t r) = p"
    and move_move [simp]: "ord_move T p t (ord_move T q t r) = ord_move T p t r"

interpretation modules_ordered: ordered modules_table
  by unfold_locales (simp_all add: modules_table_def)

interpretation lessons_ordered: ordered lessons_table
  by unfold_locales (simp_all add: lessons_table_def)

interpretation blocks_ordered: ordered blocks_table
  by unfold_locales (simp_all add: blocks_table_def)

end
