(* ===== verification/Slugs.thy ===== *)
theory Slugs
  imports Prelude
begin

text \<open>
  \<open>Slugify\<close> (\<open>internal/service/organization.go\<close>): the identifier in a URL that organizations, courses,
  categories and lessons get from their name. Go walks over the runes of the UTF-8 text, so the model
  decodes it; the tables of \<open>package unicode\<close> for runes outside ASCII are the parameter \<open>unicode\<close>.
\<close>

section \<open>Runes\<close>

record unicode =
  uc_lower :: "nat \<Rightarrow> nat"
  uc_letter :: "nat \<Rightarrow> bool"
  uc_digit :: "nat \<Rightarrow> bool"

abbreviation byte :: "char \<Rightarrow> nat" where
  "byte c \<equiv> of_char c"

definition cont :: "char \<Rightarrow> bool" where
  "cont c \<longleftrightarrow> 128 \<le> byte c \<and> byte c < 192"

text \<open>The range of the second byte: no overlong forms, no surrogates, nothing above \<open>U+10FFFF\<close>.\<close>

definition second :: "nat \<Rightarrow> char \<Rightarrow> bool" where
  "second a b \<longleftrightarrow> (if a = 224 then 160 else if a = 240 then 144 else 128) \<le> byte b
     \<and> byte b < (if a = 237 then 160 else if a = 244 then 144 else 192)"

definition rune2 :: "nat \<Rightarrow> char \<Rightarrow> nat option" where
  "rune2 a b = (if 194 \<le> a \<and> a < 224 \<and> cont b then Some ((a - 192) * 64 + (byte b - 128)) else None)"

definition rune3 :: "nat \<Rightarrow> char \<Rightarrow> char \<Rightarrow> nat option" where
  "rune3 a b c = (if 224 \<le> a \<and> a < 240 \<and> second a b \<and> cont c
     then Some ((a - 224) * 4096 + (byte b - 128) * 64 + (byte c - 128)) else None)"

definition rune4 :: "nat \<Rightarrow> char \<Rightarrow> char \<Rightarrow> char \<Rightarrow> nat option" where
  "rune4 a b c d = (if 240 \<le> a \<and> a < 245 \<and> second a b \<and> cont c \<and> cont d
     then Some ((a - 240) * 262144 + (byte b - 128) * 4096 + (byte c - 128) * 64 + (byte d - 128)) else None)"

text \<open>\<open>for _, r := range s\<close>: a byte that begins no valid encoding is \<open>U+FFFD\<close>, one byte long.\<close>

definition decode_rune :: "char \<Rightarrow> string \<Rightarrow> nat \<times> nat" where
  "decode_rune a rest =
     (if byte a < 128 then (byte a, 1)
      else case (case rest of b # _ \<Rightarrow> rune2 (byte a) b | [] \<Rightarrow> None) of Some r \<Rightarrow> (r, 2)
      | None \<Rightarrow> (case (case rest of b # c # _ \<Rightarrow> rune3 (byte a) b c | _ \<Rightarrow> None) of Some r \<Rightarrow> (r, 3)
      | None \<Rightarrow> (case (case rest of b # c # d # _ \<Rightarrow> rune4 (byte a) b c d | _ \<Rightarrow> None) of Some r \<Rightarrow> (r, 4)
      | None \<Rightarrow> (65533, 1))))"

lemma decode_rune_width: "0 < snd (decode_rune a rest)"
  by (auto simp: decode_rune_def split: option.split)

function runes :: "string \<Rightarrow> nat list" where
  "runes [] = []"
| "runes (a # rest) = (let (r, k) = decode_rune a rest in r # runes (drop (k - 1) rest))"
  by pat_completeness auto
termination
  by (relation "measure length") auto

section \<open>Slugify\<close>

definition rune_lower :: "unicode \<Rightarrow> nat \<Rightarrow> nat" where
  "rune_lower uc r = (if r < 128 then if 65 \<le> r \<and> r \<le> 90 then r + 32 else r else uc_lower uc r)"

text \<open>\<open>unicode.IsLetter(r) || unicode.IsDigit(r) || r == '-' || r == ' '\<close>.\<close>

definition rune_kept :: "unicode \<Rightarrow> nat \<Rightarrow> bool" where
  "rune_kept uc r \<longleftrightarrow> (if r < 128
     then 97 \<le> r \<and> r \<le> 122 \<or> 65 \<le> r \<and> r \<le> 90 \<or> 48 \<le> r \<and> r \<le> 57 \<or> r = 45 \<or> r = 32
     else uc_letter uc r \<or> uc_digit uc r)"

definition slug_rune :: "nat \<Rightarrow> bool" where
  "slug_rune r \<longleftrightarrow> 97 \<le> r \<and> r \<le> 122 \<or> 48 \<le> r \<and> r \<le> 57"

text \<open>\<open>regexp.MustCompile(`[^a-z0-9]+`).ReplaceAllString(s, "-")\<close>: one dash per run.\<close>

fun dashed :: "bool \<Rightarrow> nat list \<Rightarrow> string" where
  "dashed in_run [] = []"
| "dashed in_run (r # rs) =
     (if slug_rune r then char_of r # dashed False rs
      else if in_run then dashed True rs else CHR ''-'' # dashed True rs)"

abbreviation dash :: "char \<Rightarrow> bool" where
  "dash c \<equiv> c = CHR ''-''"

definition trim_dashes :: "string \<Rightarrow> string" where
  "trim_dashes s = rev (dropWhile dash (rev (dropWhile dash s)))"

definition slugify :: "unicode \<Rightarrow> string \<Rightarrow> string" where
  "slugify uc s =
     (let t = trim_dashes (dashed False (filter (rune_kept uc) (map (rune_lower uc) (runes (trim_space s)))))
      in if 64 < length t then trim_dashes (take 64 t) else t)"

text \<open>The slug a request asks for, or one made from the name.\<close>

definition slug_for :: "unicode \<Rightarrow> string \<Rightarrow> string \<Rightarrow> string" where
  "slug_for uc slug name = (if trim_space slug = '''' then slugify uc name else slugify uc slug)"

section \<open>The form of a slug\<close>

text \<open>Words of lower-case letters and digits, separated by single dashes, at most 64 characters.\<close>

definition slug_char :: "char \<Rightarrow> bool" where
  "slug_char c \<longleftrightarrow> slug_rune (byte c)"

fun dash_separated :: "string \<Rightarrow> bool" where
  "dash_separated [] \<longleftrightarrow> True"
| "dash_separated [c] \<longleftrightarrow> slug_char c \<or> dash c"
| "dash_separated (c # d # s) \<longleftrightarrow> (slug_char c \<or> dash c \<and> slug_char d) \<and> dash_separated (d # s)"

definition bare_ends :: "string \<Rightarrow> bool" where
  "bare_ends s \<longleftrightarrow> (s \<noteq> [] \<longrightarrow> slug_char (hd s) \<and> slug_char (last s))"

definition is_slug :: "string \<Rightarrow> bool" where
  "is_slug s \<longleftrightarrow> dash_separated s \<and> bare_ends s \<and> length s \<le> 64"

lemma slug_char_of [simp]: "slug_rune r \<Longrightarrow> byte (char_of r) = r" "slug_rune r \<Longrightarrow> slug_char (char_of r)"
  by (auto simp: slug_rune_def slug_char_def)

lemma not_dash [simp]: "slug_char c \<Longrightarrow> \<not> dash c"
  by (auto simp: slug_char_def slug_rune_def)

lemma dash_separated_Cons:
  "dash_separated (c # s) \<longleftrightarrow> (slug_char c \<or> dash c \<and> (s = [] \<or> slug_char (hd s))) \<and> dash_separated s"
  by (cases s) auto

lemma dash_separated_dashed:
  "dash_separated (dashed b rs) \<and> (b \<longrightarrow> dashed b rs = [] \<or> slug_char (hd (dashed b rs)))"
  by (induction b rs rule: dashed.induct) (auto simp: dash_separated_Cons)

lemma dash_separated_append: "dash_separated (s @ t) \<Longrightarrow> dash_separated s \<and> dash_separated t"
  by (induction s) (auto simp: dash_separated_Cons hd_append split: if_splits)

lemma dash_separated_drop: "dash_separated s \<Longrightarrow> dash_separated (drop n s)"
  using dash_separated_append [of "take n s" "drop n s"] by simp

lemma dash_separated_take: "dash_separated s \<Longrightarrow> dash_separated (take n s)"
  using dash_separated_append [of "take n s" "drop n s"] by simp

lemma slug_chars: "dash_separated s \<Longrightarrow> c \<in> set s \<Longrightarrow> slug_char c \<or> dash c"
  by (induction s) (auto simp: dash_separated_Cons)

lemma dropWhile_is_drop: "dropWhile P s = drop (length (takeWhile P s)) s"
  by (simp add: dropWhile_eq_drop)

lemma trim_dashes_take: "\<exists>n. trim_dashes s = take n (dropWhile dash s)"
proof -
  have "rev (dropWhile dash (rev t)) = take (length t - length (takeWhile dash (rev t))) t" for t
    by (simp add: dropWhile_is_drop rev_drop)
  then show ?thesis unfolding trim_dashes_def by blast
qed

lemma trim_dashes_separated: "dash_separated s \<Longrightarrow> dash_separated (trim_dashes s)"
  using trim_dashes_take [of s] dash_separated_drop [of s] dash_separated_take dropWhile_is_drop
  by metis

lemma length_trim_dashes: "length (trim_dashes s) \<le> length s"
  using length_dropWhile_le [of dash "rev (dropWhile dash s)"] length_dropWhile_le [of dash s]
  unfolding trim_dashes_def length_rev by (rule order.trans)

lemma trim_dashes_hd: "trim_dashes s \<noteq> [] \<Longrightarrow> \<not> dash (hd (trim_dashes s))"
proof -
  assume ne: "trim_dashes s \<noteq> []"
  obtain n where n: "trim_dashes s = take n (dropWhile dash s)" using trim_dashes_take by blast
  with ne have "dropWhile dash s \<noteq> []" "0 < n" by (cases n; auto)+
  then show "\<not> dash (hd (trim_dashes s))" using hd_dropWhile [of dash s] n by (simp add: hd_take)
qed

lemma trim_dashes_last: "trim_dashes s \<noteq> [] \<Longrightarrow> \<not> dash (last (trim_dashes s))"
  unfolding trim_dashes_def using hd_dropWhile [of dash "rev (dropWhile dash s)"] by (simp add: last_rev)

lemma trim_dashes_ends:
  assumes "dash_separated s"
  shows "bare_ends (trim_dashes s)"
  unfolding bare_ends_def
proof (intro impI)
  assume ne: "trim_dashes s \<noteq> []"
  have "slug_char c \<or> dash c" if "c \<in> set (trim_dashes s)" for c
    using slug_chars [OF trim_dashes_separated [OF assms] that] .
  then show "slug_char (hd (trim_dashes s)) \<and> slug_char (last (trim_dashes s))"
    using trim_dashes_hd [OF ne] trim_dashes_last [OF ne] hd_in_set [OF ne] last_in_set [OF ne] by blast
qed

lemma slugify_is_slug: "is_slug (slugify uc s)"
proof -
  let ?d = "dashed False (filter (rune_kept uc) (map (rune_lower uc) (runes (trim_space s))))"
  have d: "dash_separated ?d" using dash_separated_dashed by blast
  have t: "dash_separated (trim_dashes ?d)" by (rule trim_dashes_separated [OF d])
  show ?thesis
    using trim_dashes_ends [OF d] t trim_dashes_ends [OF dash_separated_take [OF t]]
      trim_dashes_separated [OF dash_separated_take [OF t]] length_trim_dashes [of "take 64 (trim_dashes ?d)"]
    by (auto simp: slugify_def is_slug_def Let_def)
qed

text \<open>A slug is left as it is.\<close>

lemma slug_char_ascii: "slug_char c \<or> dash c \<Longrightarrow> byte c < 128 \<and> \<not> ascii_space c \<and> c \<notin> {CHR 0xC2, CHR 0xE1, CHR 0xE2, CHR 0xE3}"
  by (auto simp: slug_char_def slug_rune_def ascii_space_def)

lemma space_len_slug: "slug_char c \<or> dash c \<Longrightarrow> space_len c x y = 0"
  using slug_char_ascii [of c] by (auto simp: space_len_def)

lemma no_space_in_slug:
  assumes "\<forall>c \<in> set s. slug_char c \<or> dash c"
  shows "trim_space s = s"
proof -
  have "lead_space s = 0"
    using assms by (cases s rule: lead_space.cases) (auto simp: space_len_slug)
  then have l: "trim_left s = s" by (simp add: trim_left.simps)
  have "trail_space t = 0" if "\<forall>c \<in> set t. slug_char c \<or> dash c" for t
    using that by (cases t rule: trail_space.cases) (auto simp: space_len_slug)
  then have "trail_space (rev s) = 0" using assms by simp
  then have "trim_right_rev (rev s) = rev s" by (simp add: trim_right_rev.simps)
  with l show ?thesis by (simp add: trim_space_def)
qed

lemma runes_ascii: "\<forall>c \<in> set s. byte c < 128 \<Longrightarrow> runes s = map byte s"
  by (induction s) (auto simp: decode_rune_def)

lemma dashed_slug: "dash_separated s \<Longrightarrow> (b \<longrightarrow> s = [] \<or> slug_char (hd s)) \<Longrightarrow> dashed b (map byte s) = s"
proof (induction s arbitrary: b)
  case (Cons c s)
  have sep: "dash_separated s" "dash c \<longrightarrow> s = [] \<or> slug_char (hd s)"
    using Cons.prems(1) not_dash unfolding dash_separated_Cons by blast+
  have ih: "dashed (dash c) (map byte s) = s" by (rule Cons.IH [OF sep])
  show ?case
  proof (cases "slug_char c")
    case True
    then show ?thesis using ih by (simp add: slug_char_def)
  next
    case False
    then have c: "c = CHR ''-''" and b: "\<not> b"
      using Cons.prems unfolding dash_separated_Cons by simp_all
    show ?thesis using ih False b unfolding slug_char_def by (simp add: c)
  qed
qed simp

lemma trim_dashes_id: "bare_ends s \<Longrightarrow> trim_dashes s = s"
proof (cases "s = []")
  case False
  moreover assume "bare_ends s"
  ultimately have "\<not> dash (hd s)" "\<not> dash (hd (rev s))"
    by (auto simp: bare_ends_def hd_rev)
  with False have "dropWhile dash s = s" "dropWhile dash (rev s) = rev s"
    by (simp_all add: dropWhile_eq_self_iff)
  then show ?thesis by (simp add: trim_dashes_def)
qed (simp add: trim_dashes_def)

lemma slug_char_rune:
  assumes "slug_char c \<or> dash c"
  shows "rune_lower uc (byte c) = byte c" "rune_kept uc (byte c)"
  using assms by (auto simp: rune_lower_def rune_kept_def slug_char_def slug_rune_def)

lemma slugify_slug:
  assumes "is_slug s"
  shows "slugify uc s = s"
proof -
  have chars: "\<forall>c \<in> set s. slug_char c \<or> dash c"
    using assms slug_chars unfolding is_slug_def by blast
  have lower: "map (rune_lower uc) (map byte s) = map byte s"
    using chars slug_char_rune(1) by simp
  have kept: "filter (rune_kept uc) (map byte s) = map byte s"
    by (rule filter_True) (use chars slug_char_rune(2) in simp)
  have "\<forall>c \<in> set s. byte c < 128" using chars slug_char_ascii by blast
  then have "runes (trim_space s) = map byte s"
    unfolding no_space_in_slug [OF chars] by (rule runes_ascii)
  then have d: "dashed False (filter (rune_kept uc) (map (rune_lower uc) (runes (trim_space s)))) = s"
    using lower kept dashed_slug [of s False] assms by (simp only: is_slug_def) blast
  have "bare_ends s" "\<not> 64 < length s" using assms by (simp_all add: is_slug_def)
  then show ?thesis
    unfolding slugify_def d Let_def by (simp add: trim_dashes_id)
qed

text \<open>A name without Latin letters and digits has the empty slug.\<close>

definition no_latin :: "unicode \<Rightarrow> string \<Rightarrow> bool" where
  "no_latin uc s \<longleftrightarrow> list_all (\<lambda>r. \<not> slug_rune (rune_lower uc r)) (runes (trim_space s))"

lemma dashed_no_slug: "\<forall>r \<in> set rs. \<not> slug_rune r \<Longrightarrow> dashed b rs = [] \<or> dashed b rs = ''-'' \<and> \<not> b"
  by (induction b rs rule: dashed.induct) auto

lemma slugify_no_latin: "no_latin uc s \<Longrightarrow> slugify uc s = []"
proof -
  let ?rs = "filter (rune_kept uc) (map (rune_lower uc) (runes (trim_space s)))"
  assume "no_latin uc s"
  then have "\<forall>r \<in> set ?rs. \<not> slug_rune r" by (auto simp: no_latin_def list_all_iff)
  then have "dashed False ?rs = [] \<or> dashed False ?rs = ''-''" using dashed_no_slug by blast
  then show ?thesis by (auto simp: slugify_def trim_dashes_def Let_def)
qed

end
