(* ===== verification/Curriculum.thy ===== *)
theory Curriculum
  imports CurriculumRepo Enrollments Slugs
begin

text \<open>
  \<open>CurriculumService\<close> (\<open>internal/service/curriculum.go\<close>): the modules, lessons and content blocks of a
  course, as its teacher edits them and as a learner sees them. One definition per method.
\<close>

definition curriculum_write :: "uuid \<Rightarrow> uuid \<Rightarrow> bool \<Rightarrow> unit act" where
  "curriculum_write actor c admin =
     andThen (courses_get_by_id c) (\<lambda>course.
     if admin then ret ()
     else guard (co_teacher_id course = actor)
       (forbidden ''only the course teacher or an admin can edit curriculum''))"

definition lesson_course :: "uuid \<Rightarrow> (lesson \<times> uuid) act" where
  "lesson_course l =
     andThen (lessons_get_by_id l) (\<lambda>lesson.
     andThen (modules_get_by_id (le_module_id lesson)) (\<lambda>md.
     ret (lesson, mo_course_id md)))"

section \<open>The tree\<close>

type_synonym lesson_node = "lesson \<times> content_block list"
type_synonym module_node = "course_module \<times> lesson_node list"

definition lesson_nodes :: "bool \<Rightarrow> bool \<Rightarrow> lesson list \<Rightarrow> lesson_node list act" where
  "lesson_nodes author blocks ls =
     map_each (filter (\<lambda>l. author \<or> le_status l = LessonPublished) ls) (\<lambda>l.
       if blocks then andThen (blocks_list_by_lesson (le_id l)) (\<lambda>bs. ret (l, bs)) else ret (l, []))"

definition module_node :: "bool \<Rightarrow> bool \<Rightarrow> course_module \<Rightarrow> module_node act" where
  "module_node author blocks m =
     andThen (lessons_list_by_module (mo_id m)) (\<lambda>ls.
     andThen (lesson_nodes author blocks ls) (\<lambda>ns.
     ret (m, ns)))"

definition get_tree :: "uuid \<Rightarrow> uuid \<Rightarrow> bool \<Rightarrow> module_node list act" where
  "get_tree c actor admin =
     andThen (courses_get_by_id c) (\<lambda>course.
     let author = admin \<or> (actor \<noteq> '''' \<and> co_teacher_id course = actor)
     in andThen (guard (\<not> (co_status course \<noteq> CoursePublished \<and> \<not> author))
          (not_found ''course not found'')) (\<lambda>_.
        andThen (if author then ret True else has_active_enrollment c actor) (\<lambda>blocks.
        andThen (modules_list_by_course c) (\<lambda>ms.
        map_each ms (module_node author blocks)))))"

section \<open>Modules\<close>

definition create_module :: "uuid \<Rightarrow> uuid \<Rightarrow> string \<Rightarrow> bool \<Rightarrow> course_module act" where
  "create_module actor c title admin =
     andThen (curriculum_write actor c admin) (\<lambda>_.
     let t = trim_space title
     in andThen (guard (t \<noteq> '''') (validation ''title is required'')) (\<lambda>_.
        andThen (modules_next_position c) (\<lambda>pos.
        modules_create \<lparr>mo_id = '''', mo_course_id = c, mo_title = t, mo_position = pos,
          mo_created_at = 0, mo_updated_at = 0\<rparr>)))"

definition update_module :: "uuid \<Rightarrow> uuid \<Rightarrow> string \<Rightarrow> bool \<Rightarrow> course_module act" where
  "update_module actor m title admin =
     andThen (modules_get_by_id m) (\<lambda>md.
     andThen (curriculum_write actor (mo_course_id md) admin) (\<lambda>_.
     let t = trim_space title
     in andThen (guard (t \<noteq> '''') (validation ''title is required'')) (\<lambda>_.
        modules_update m t)))"

definition delete_module :: "uuid \<Rightarrow> uuid \<Rightarrow> bool \<Rightarrow> unit act" where
  "delete_module actor m admin =
     andThen (modules_get_by_id m) (\<lambda>md.
     andThen (curriculum_write actor (mo_course_id md) admin) (\<lambda>_.
     modules_delete m))"

definition reorder_modules :: "uuid \<Rightarrow> uuid \<Rightarrow> uuid list \<Rightarrow> bool \<Rightarrow> unit act" where
  "reorder_modules actor c ids admin =
     andThen (curriculum_write actor c admin) (\<lambda>_. modules_reorder c ids)"

section \<open>Lessons\<close>

definition create_lesson ::
  "unicode \<Rightarrow> uuid \<Rightarrow> uuid \<Rightarrow> string \<Rightarrow> string \<Rightarrow> string \<Rightarrow> int \<Rightarrow> uuid option \<Rightarrow> bool \<Rightarrow> lesson act" where
  "create_lesson uc actor m title slug summary minutes prereq admin =
     andThen (modules_get_by_id m) (\<lambda>md.
     andThen (curriculum_write actor (mo_course_id md) admin) (\<lambda>_.
     let t = trim_space title
     in andThen (guard (t \<noteq> '''') (validation ''title is required'')) (\<lambda>_.
        andThen (guard (\<not> minutes < 0) (validation ''estimated_minutes must be >= 0'')) (\<lambda>_.
        andThen (case prereq of
            None \<Rightarrow> ret None
          | Some p \<Rightarrow> if p \<noteq> '''' then andThen (lessons_get_by_id p) (\<lambda>_. ret (Some p)) else ret None) (\<lambda>pre.
        andThen (lessons_next_position m) (\<lambda>pos.
        lessons_create \<lparr>le_id = '''', le_module_id = m, le_title = t, le_slug = slug_for uc slug t,
          le_summary = trim_space summary, le_status = LessonDraft, le_position = pos,
          le_prerequisite = pre, le_minutes = minutes, le_created_at = 0, le_updated_at = 0\<rparr>))))))"

definition update_lesson ::
  "uuid \<Rightarrow> uuid \<Rightarrow> string \<Rightarrow> string \<Rightarrow> int \<Rightarrow> uuid option \<Rightarrow> bool \<Rightarrow> lesson act" where
  "update_lesson actor l title summary minutes prereq admin =
     andThen (lesson_course l) (\<lambda>(_, c).
     andThen (curriculum_write actor c admin) (\<lambda>_.
     let t = trim_space title
     in andThen (guard (t \<noteq> '''') (validation ''title is required'')) (\<lambda>_.
        andThen (guard (\<not> minutes < 0) (validation ''estimated_minutes must be >= 0'')) (\<lambda>_.
        andThen (case prereq of
            None \<Rightarrow> ret None
          | Some p \<Rightarrow>
              if p = '''' then ret None
              else if p = l then raise (validation ''lesson cannot prerequisite itself'')
              else andThen (lessons_get_by_id p) (\<lambda>_. ret (Some p))) (\<lambda>pre.
        lessons_update l t (trim_space summary) minutes pre)))))"

definition set_lesson_status :: "lesson_status \<Rightarrow> uuid \<Rightarrow> uuid \<Rightarrow> bool \<Rightarrow> lesson act" where
  "set_lesson_status st actor l admin =
     andThen (lesson_course l) (\<lambda>(_, c).
     andThen (curriculum_write actor c admin) (\<lambda>_.
     lessons_set_status l st))"

definition publish_lesson :: "uuid \<Rightarrow> uuid \<Rightarrow> bool \<Rightarrow> lesson act" where
  "publish_lesson = set_lesson_status LessonPublished"

definition unpublish_lesson :: "uuid \<Rightarrow> uuid \<Rightarrow> bool \<Rightarrow> lesson act" where
  "unpublish_lesson = set_lesson_status LessonDraft"

definition delete_lesson :: "uuid \<Rightarrow> uuid \<Rightarrow> bool \<Rightarrow> unit act" where
  "delete_lesson actor l admin =
     andThen (lesson_course l) (\<lambda>(_, c).
     andThen (curriculum_write actor c admin) (\<lambda>_.
     lessons_delete l))"

definition reorder_lessons :: "uuid \<Rightarrow> uuid \<Rightarrow> uuid list \<Rightarrow> bool \<Rightarrow> unit act" where
  "reorder_lessons actor m ids admin =
     andThen (modules_get_by_id m) (\<lambda>md.
     andThen (curriculum_write actor (mo_course_id md) admin) (\<lambda>_.
     lessons_reorder m ids))"

section \<open>Content blocks\<close>

definition valid_block_type :: "string \<Rightarrow> bool" where
  "valid_block_type t \<longleftrightarrow> t \<in> {''text'', ''video'', ''file'', ''quiz_ref''}"

definition blank_ref :: "uuid option \<Rightarrow> uuid option" where
  "blank_ref q = (if q = Some '''' then None else q)"

definition create_block ::
  "uuid \<Rightarrow> uuid \<Rightarrow> string \<Rightarrow> string \<Rightarrow> string \<Rightarrow> string \<Rightarrow> uuid option \<Rightarrow> bool \<Rightarrow> content_block act" where
  "create_block actor l type title body url quiz admin =
     andThen (lesson_course l) (\<lambda>(_, c).
     andThen (curriculum_write actor c admin) (\<lambda>_.
     andThen (guard (valid_block_type type) (validation ''invalid block_type'')) (\<lambda>_.
     andThen (blocks_next_position l) (\<lambda>pos.
     blocks_create \<lparr>cb_id = '''', cb_lesson_id = l, cb_type = type, cb_title = trim_space title,
       cb_body = body, cb_media_url = trim_space url, cb_quiz_ref = blank_ref quiz, cb_position = pos,
       cb_created_at = 0, cb_updated_at = 0\<rparr>))))"

definition update_block ::
  "uuid \<Rightarrow> uuid \<Rightarrow> string \<Rightarrow> string \<Rightarrow> string \<Rightarrow> string \<Rightarrow> uuid option \<Rightarrow> bool \<Rightarrow> content_block act" where
  "update_block actor b type title body url quiz admin =
     andThen (blocks_get_by_id b) (\<lambda>block.
     andThen (lesson_course (cb_lesson_id block)) (\<lambda>(_, c).
     andThen (curriculum_write actor c admin) (\<lambda>_.
     andThen (guard (valid_block_type type) (validation ''invalid block_type'')) (\<lambda>_.
     blocks_update (block\<lparr>cb_type := type, cb_title := trim_space title, cb_body := body,
       cb_media_url := trim_space url, cb_quiz_ref := blank_ref quiz\<rparr>)))))"

definition delete_block :: "uuid \<Rightarrow> uuid \<Rightarrow> bool \<Rightarrow> unit act" where
  "delete_block actor b admin =
     andThen (blocks_get_by_id b) (\<lambda>block.
     andThen (lesson_course (cb_lesson_id block)) (\<lambda>(_, c).
     andThen (curriculum_write actor c admin) (\<lambda>_.
     blocks_delete b)))"

definition reorder_blocks :: "uuid \<Rightarrow> uuid \<Rightarrow> uuid list \<Rightarrow> bool \<Rightarrow> unit act" where
  "reorder_blocks actor l ids admin =
     andThen (lesson_course l) (\<lambda>(_, c).
     andThen (curriculum_write actor c admin) (\<lambda>_.
     blocks_reorder l ids))"

end
