(* ===== verification/Progress.thy ===== *)
theory Progress
  imports Curriculum
begin

text \<open>
  Learning progress: \<open>LessonProgressRepository\<close> and \<open>CourseProgressRepository\<close>
  (\<open>internal/repository/postgres/progress.go\<close>) and \<open>ProgressService\<close> (\<open>internal/service/progress.go\<close>).
\<close>

section \<open>Repositories\<close>

definition blank_lesson_joins :: "lesson_progress \<Rightarrow> lesson_progress" where
  "blank_lesson_joins p = p\<lparr>lp_lesson_title := '''', lp_lesson_slug := ''''\<rparr>"

definition scan_lesson_progress :: "world \<Rightarrow> lesson_progress \<Rightarrow> lesson_progress" where
  "scan_lesson_progress w p = (case find (\<lambda>l. le_id l = lp_lesson_id p) (lessons w) of
       None \<Rightarrow> blank_lesson_joins p
     | Some l \<Rightarrow> p\<lparr>lp_lesson_title := le_title l, lp_lesson_slug := le_slug l\<rparr>)"

definition of_user_lesson :: "uuid \<Rightarrow> uuid \<Rightarrow> lesson_progress \<Rightarrow> bool" where
  "of_user_lesson u l r \<longleftrightarrow> lp_user_id r = u \<and> lp_lesson_id r = l"

definition percent_ok :: "int \<Rightarrow> bool" where
  "percent_ok n \<longleftrightarrow> 0 \<le> n \<and> n \<le> 100"

definition lesson_progress_write :: "lesson_progress \<Rightarrow> time \<Rightarrow> lesson_progress \<Rightarrow> lesson_progress" where
  "lesson_progress_write p now r = r\<lparr>lp_status := lp_status p, lp_percent := lp_percent p,
     lp_last_position := lp_last_position p, lp_completed_at := lp_completed_at p, lp_updated_at := now\<rparr>"

definition lesson_progress_upsert :: "lesson_progress \<Rightarrow> unit act" where
  "lesson_progress_upsert p = upsert_row
     (\<lambda>w. list_ex (of_user_lesson (lp_user_id p) (lp_lesson_id p)) (lesson_progresses w))
     (\<lambda>w. violation (int4 (lp_percent p)) (percent_ok (lp_percent p)) True True)
     (\<lambda>w. w\<lparr>lesson_progresses := upd_where (of_user_lesson (lp_user_id p) (lp_lesson_id p))
        (lesson_progress_write p (clock w)) (lesson_progresses w)\<rparr>)
     (\<lambda>w. violation (int4 (lp_percent p)) (percent_ok (lp_percent p))
            (pk_free (map lp_id (lesson_progresses w)) w)
            (has_user w (lp_user_id p) \<and> has_course w (lp_course_id p)
             \<and> has_lesson w (Some (lp_lesson_id p))))
     (\<lambda>w. w\<lparr>lesson_progresses := lesson_progresses w @ [blank_lesson_joins
        (p\<lparr>lp_id := fresh_uuid w, lp_created_at := clock w, lp_updated_at := clock w\<rparr>)]\<rparr>)
     DriverError"

definition lesson_progress_get :: "uuid \<Rightarrow> uuid \<Rightarrow> lesson_progress act" where
  "lesson_progress_get u l = fetch_row
     (\<lambda>w. map_option (scan_lesson_progress w) (find (of_user_lesson u l) (lesson_progresses w)))
     ''lesson progress not found'' ''get lesson progress''"

definition lesson_progress_list :: "uuid \<Rightarrow> uuid \<Rightarrow> lesson_progress list act" where
  "lesson_progress_list u c = fetch_val
     (\<lambda>w. map (scan_lesson_progress w) (order_desc lp_updated_at
        (filter (\<lambda>r. lp_user_id r = u \<and> lp_course_id r = c) (lesson_progresses w))))
     ''list lesson progress''"

definition completed_published :: "world \<Rightarrow> uuid \<Rightarrow> uuid \<Rightarrow> lesson_progress \<Rightarrow> bool" where
  "completed_published w u c r \<longleftrightarrow> lp_user_id r = u \<and> lp_status r = ProgressCompleted
     \<and> list_ex (\<lambda>l. le_id l = lp_lesson_id r \<and> published_in w c l) (lessons w)"

definition lesson_progress_count_completed :: "uuid \<Rightarrow> uuid \<Rightarrow> int act" where
  "lesson_progress_count_completed u c = fetch_val
     (\<lambda>w. int (cnt (completed_published w u c) (lesson_progresses w))) ''count completed lessons''"

definition blank_course_joins :: "course_progress \<Rightarrow> course_progress" where
  "blank_course_joins p = p\<lparr>pr_course_title := '''', pr_course_slug := ''''\<rparr>"

definition scan_course_progress :: "world \<Rightarrow> course_progress \<Rightarrow> course_progress" where
  "scan_course_progress w p = p\<lparr>pr_course_title := course_title_of w (pr_course_id p),
     pr_course_slug := course_slug_of w (pr_course_id p)\<rparr>"

definition of_user_course :: "uuid \<Rightarrow> uuid \<Rightarrow> course_progress \<Rightarrow> bool" where
  "of_user_course u c r \<longleftrightarrow> pr_user_id r = u \<and> pr_course_id r = c"

definition course_progress_write :: "course_progress \<Rightarrow> time \<Rightarrow> course_progress \<Rightarrow> course_progress" where
  "course_progress_write p now r = r\<lparr>pr_enrollment_id := pr_enrollment_id p, pr_percent := pr_percent p,
     pr_completed := pr_completed p, pr_total := pr_total p, pr_last_lesson_id := pr_last_lesson_id p,
     pr_completed_at := pr_completed_at p, pr_updated_at := now\<rparr>"

definition course_progress_checks :: "course_progress \<Rightarrow> bool" where
  "course_progress_checks p \<longleftrightarrow> percent_ok (pr_percent p) \<and> 0 \<le> pr_completed p \<and> 0 \<le> pr_total p"

definition course_progress_refs :: "world \<Rightarrow> course_progress \<Rightarrow> bool" where
  "course_progress_refs w p \<longleftrightarrow>
     (case pr_enrollment_id p of None \<Rightarrow> True | Some e \<Rightarrow> e \<in> set (map en_id (enrollments w)))
     \<and> has_lesson w (pr_last_lesson_id p)"

definition course_progress_upsert :: "course_progress \<Rightarrow> unit act" where
  "course_progress_upsert p = upsert_row
     (\<lambda>w. list_ex (of_user_course (pr_user_id p) (pr_course_id p)) (course_progresses w))
     (\<lambda>w. violation (int4 (pr_percent p) \<and> int4 (pr_completed p) \<and> int4 (pr_total p))
            (course_progress_checks p) True (course_progress_refs w p))
     (\<lambda>w. w\<lparr>course_progresses := upd_where (of_user_course (pr_user_id p) (pr_course_id p))
        (course_progress_write p (clock w)) (course_progresses w)\<rparr>)
     (\<lambda>w. violation (int4 (pr_percent p) \<and> int4 (pr_completed p) \<and> int4 (pr_total p))
            (course_progress_checks p) (pk_free (map pr_id (course_progresses w)) w)
            (has_user w (pr_user_id p) \<and> has_course w (pr_course_id p) \<and> course_progress_refs w p))
     (\<lambda>w. w\<lparr>course_progresses := course_progresses w @ [blank_course_joins
        (p\<lparr>pr_id := fresh_uuid w, pr_created_at := clock w, pr_updated_at := clock w\<rparr>)]\<rparr>)
     DriverError"

definition course_progress_get :: "uuid \<Rightarrow> uuid \<Rightarrow> course_progress act" where
  "course_progress_get u c = fetch_row
     (\<lambda>w. map_option (scan_course_progress w) (find (of_user_course u c) (course_progresses w)))
     ''course progress not found'' ''get course progress''"

definition course_progress_list :: "uuid \<Rightarrow> course_progress list act" where
  "course_progress_list u = fetch_val
     (\<lambda>w. map (scan_course_progress w) (order_desc pr_updated_at
        (filter (\<lambda>r. pr_user_id r = u) (course_progresses w))))
     ''list course progress''"

section \<open>The service\<close>

definition require_active_enrollment :: "uuid \<Rightarrow> uuid \<Rightarrow> enrollment act" where
  "require_active_enrollment u c =
     andThen (optional is_not_found (enrollments_get_by_course_user c u)) (\<lambda>en. case en of
       None \<Rightarrow> raise (forbidden ''active enrollment required'')
     | Some e \<Rightarrow> andThen (guard (en_status e = EnActive) (forbidden ''active enrollment required''))
                  (\<lambda>_. ret e))"

definition require_prerequisite :: "uuid \<Rightarrow> lesson \<Rightarrow> unit act" where
  "require_prerequisite u lesson = (case le_prerequisite lesson of
       None \<Rightarrow> ret ()
     | Some p \<Rightarrow>
         if p = '''' then ret ()
         else andThen (optional is_not_found (lesson_progress_get u p)) (\<lambda>r. case r of
           None \<Rightarrow> raise (forbidden ''complete the prerequisite lesson first'')
         | Some q \<Rightarrow> guard (lp_status q = ProgressCompleted)
             (forbidden ''complete the prerequisite lesson first'')))"

record progress_input =
  pi_percent :: "int option"
  pi_last_position :: "string option"
  pi_completed :: "bool option"

definition new_lesson_progress :: "uuid \<Rightarrow> uuid \<Rightarrow> uuid \<Rightarrow> lesson_progress" where
  "new_lesson_progress u c l = \<lparr>lp_id = '''', lp_user_id = u, lp_course_id = c, lp_lesson_id = l,
     lp_status = ProgressInProgress, lp_percent = 0, lp_last_position = '''', lp_completed_at = None,
     lp_created_at = 0, lp_updated_at = 0, lp_lesson_title = '''', lp_lesson_slug = ''''\<rparr>"

text \<open>What \<open>UpsertLessonProgress\<close> does to the row between reading and writing it.\<close>

definition raise_percent :: "int option \<Rightarrow> lesson_progress \<Rightarrow> err + lesson_progress" where
  "raise_percent n p = (case n of
       None \<Rightarrow> Inr p
     | Some k \<Rightarrow>
         if k < 0 \<or> 100 < k then Inl (validation ''percent must be between 0 and 100'')
         else if lp_percent p < k then Inr (p\<lparr>lp_percent := k\<rparr>) else Inr p)"

definition settle :: "bool \<Rightarrow> time \<Rightarrow> lesson_progress \<Rightarrow> lesson_progress" where
  "settle complete now p =
     (if complete \<or> 100 \<le> lp_percent p
      then p\<lparr>lp_status := ProgressCompleted, lp_percent := 100,
             lp_completed_at := (case lp_completed_at p of None \<Rightarrow> Some now | Some t \<Rightarrow> Some t)\<rparr>
      else if lp_status p \<noteq> ProgressCompleted
      then p\<lparr>lp_status := ProgressInProgress, lp_completed_at := None\<rparr>
      else p)"

definition record_progress :: "progress_input \<Rightarrow> time \<Rightarrow> lesson_progress \<Rightarrow> err + lesson_progress" where
  "record_progress i now p =
     (let q = (case pi_last_position i of None \<Rightarrow> p | Some s \<Rightarrow> p\<lparr>lp_last_position := trim_space s\<rparr>)
      in case raise_percent (pi_percent i) q of
           Inl e \<Rightarrow> Inl e
         | Inr r \<Rightarrow> Inr (settle (pi_completed i = Some True) now r))"

definition course_percent :: "int \<Rightarrow> int \<Rightarrow> int" where
  "course_percent completed published =
     (if 0 < published then
        (let p = go_quot (go_mul completed 100) published in if 100 < p then 100 else p)
      else 0)"

text \<open>The row \<open>recomputeCourseProgress\<close> writes, from the counts and the row that is there.\<close>

definition course_score ::
  "uuid \<Rightarrow> uuid \<Rightarrow> uuid \<Rightarrow> uuid option \<Rightarrow> int \<Rightarrow> int \<Rightarrow> time \<Rightarrow> course_progress option \<Rightarrow> course_progress" where
  "course_score u c en latest published completed now existing =
     (let done = 0 < published \<and> published \<le> completed;
          finished = (case existing of None \<Rightarrow> None | Some e \<Rightarrow> pr_completed_at e)
      in \<lparr>pr_id = '''', pr_user_id = u, pr_course_id = c, pr_enrollment_id = Some en,
          pr_percent = (if done then 100 else course_percent completed published),
          pr_completed = completed, pr_total = published,
          pr_last_lesson_id = (case (latest, existing) of (None, Some e) \<Rightarrow> pr_last_lesson_id e | _ \<Rightarrow> latest),
          pr_completed_at = (if done then (case finished of None \<Rightarrow> Some now | Some t \<Rightarrow> Some t) else None),
          pr_created_at = 0, pr_updated_at = 0, pr_course_title = '''', pr_course_slug = ''''\<rparr>)"

definition recompute_course_progress :: "uuid \<Rightarrow> uuid \<Rightarrow> uuid \<Rightarrow> uuid option \<Rightarrow> course_progress act" where
  "recompute_course_progress u c en latest =
     andThen (lessons_count_published_by_course c) (\<lambda>published.
     andThen (lesson_progress_count_completed u c) (\<lambda>completed.
     andThen (asks clock) (\<lambda>now.
     andThen (optional is_not_found (course_progress_get u c)) (\<lambda>existing.
     andThen (course_progress_upsert (course_score u c en latest published completed now existing)) (\<lambda>_.
     course_progress_get u c)))))"

text \<open>The part of \<open>UpsertLessonProgress\<close> after its checks: from the row that was read to the answer.\<close>

definition save_progress ::
  "uuid \<Rightarrow> uuid \<Rightarrow> uuid \<Rightarrow> uuid \<Rightarrow> progress_input \<Rightarrow> lesson_progress option \<Rightarrow> (lesson_progress \<times> course_progress) act" where
  "save_progress actor c l en i existing =
     andThen (asks clock) (\<lambda>now.
     case record_progress i now (case existing of None \<Rightarrow> new_lesson_progress actor c l | Some p \<Rightarrow> p) of
       Inl e \<Rightarrow> raise e
     | Inr p \<Rightarrow>
         andThen (lesson_progress_upsert p) (\<lambda>_.
         andThen (lesson_progress_get actor l) (\<lambda>saved.
         andThen (recompute_course_progress actor c en (Some l)) (\<lambda>cp.
         ret (saved, cp)))))"

definition upsert_lesson_progress ::
  "uuid \<Rightarrow> uuid \<Rightarrow> progress_input \<Rightarrow> (lesson_progress \<times> course_progress) act" where
  "upsert_lesson_progress actor l i =
     andThen (lesson_course l) (\<lambda>(lesson, c).
     andThen (require_active_enrollment actor c) (\<lambda>en.
     andThen (guard (le_status lesson = LessonPublished)
       (validation ''progress can only be recorded on published lessons'')) (\<lambda>_.
     andThen (require_prerequisite actor lesson) (\<lambda>_.
     andThen (optional is_not_found (lesson_progress_get actor l)) (\<lambda>existing.
     save_progress actor c l (en_id en) i existing)))))"

definition get_lesson_progress :: "uuid \<Rightarrow> uuid \<Rightarrow> lesson_progress act" where
  "get_lesson_progress actor l =
     andThen (lesson_course l) (\<lambda>(_, c).
     andThen (require_active_enrollment actor c) (\<lambda>_.
     andThen (optional is_not_found (lesson_progress_get actor l)) (\<lambda>r. case r of
       None \<Rightarrow> ret (new_lesson_progress actor c l)
     | Some p \<Rightarrow> ret p)))"

definition get_course_progress :: "uuid \<Rightarrow> uuid \<Rightarrow> (course_progress \<times> lesson_progress list) act" where
  "get_course_progress actor c =
     andThen (require_active_enrollment actor c) (\<lambda>_.
     andThen (optional is_not_found (course_progress_get actor c)) (\<lambda>r.
     andThen (case r of
         Some cp \<Rightarrow> ret cp
       | None \<Rightarrow> andThen (enrollments_get_by_course_user c actor) (\<lambda>en.
                  recompute_course_progress actor c (en_id en) None)) (\<lambda>cp.
     andThen (lesson_progress_list actor c) (\<lambda>ls.
     ret (cp, ls)))))"

definition list_my_progress :: "uuid \<Rightarrow> (course_progress \<times> enrollment_status option) list act" where
  "list_my_progress actor =
     andThen (course_progress_list actor) (\<lambda>items.
     map_each items (\<lambda>cp.
       andThen (optional (\<lambda>_. True) (enrollments_get_by_course_user (pr_course_id cp) actor)) (\<lambda>en.
       ret (cp, map_option en_status en))))"

end
