(* ===== verification/Learning.thy ===== *)
theory Learning
  imports Progress
begin

text \<open>
  What holds of learning progress over any number of requests: a learner's work on a lesson is never
  lost, the rows stay consistent, and only an enrolled learner who finished the prerequisite gets a
  row. The relation \<open>progress_evolves\<close> is proved for the requests as they run, with the database
  failing at any statement.
\<close>

section \<open>Consistent rows\<close>

definition lesson_row_ok :: "lesson_progress \<Rightarrow> bool" where
  "lesson_row_ok r \<longleftrightarrow> percent_ok (lp_percent r)
     \<and> (lp_status r = ProgressCompleted \<longleftrightarrow> lp_percent r = 100)
     \<and> (lp_status r = ProgressCompleted \<longleftrightarrow> lp_completed_at r \<noteq> None)"

definition course_row_ok :: "course_progress \<Rightarrow> bool" where
  "course_row_ok r \<longleftrightarrow> percent_ok (pr_percent r)
     \<and> (pr_completed_at r \<noteq> None \<longleftrightarrow> 0 < pr_total r \<and> pr_total r \<le> pr_completed r)
     \<and> (pr_completed_at r \<noteq> None \<longrightarrow> pr_percent r = 100)"

definition lesson_rows_ok :: "lesson_progress list \<Rightarrow> bool" where
  "lesson_rows_ok rs \<longleftrightarrow> distinct (map (\<lambda>r. (lp_user_id r, lp_lesson_id r)) rs) \<and> list_all lesson_row_ok rs"

definition course_rows_ok :: "course_progress list \<Rightarrow> bool" where
  "course_rows_ok rs \<longleftrightarrow> distinct (map (\<lambda>r. (pr_user_id r, pr_course_id r)) rs) \<and> list_all course_row_ok rs"

definition progress_ok :: "world \<Rightarrow> bool" where
  "progress_ok w \<longleftrightarrow> lesson_rows_ok (lesson_progresses w) \<and> course_rows_ok (course_progresses w)"

text \<open>The row keeps its identity, the percentage does not fall, a completed lesson stays completed.\<close>

definition row_grows :: "lesson_progress \<Rightarrow> lesson_progress \<Rightarrow> bool" where
  "row_grows r s \<longleftrightarrow> lp_id s = lp_id r \<and> lp_user_id s = lp_user_id r \<and> lp_course_id s = lp_course_id r
     \<and> lp_lesson_id s = lp_lesson_id r \<and> lp_percent r \<le> lp_percent s
     \<and> (lp_status r = ProgressCompleted \<longrightarrow> lp_status s = ProgressCompleted
          \<and> lp_completed_at s = lp_completed_at r)"

definition rows_grow :: "lesson_progress list \<Rightarrow> lesson_progress list \<Rightarrow> bool" where
  "rows_grow rs ss \<longleftrightarrow> (\<forall>r \<in> set rs. \<exists>s \<in> set ss. row_grows r s)"

definition progress_evolves :: "world \<Rightarrow> world \<Rightarrow> bool" where
  "progress_evolves w v \<longleftrightarrow> lessons v = lessons w \<and> course_modules v = course_modules w
     \<and> (progress_ok w \<longrightarrow> progress_ok v \<and> rows_grow (lesson_progresses w) (lesson_progresses v))"

lemma row_grows_refl [simp]: "row_grows r r"
  by (simp add: row_grows_def)

lemma row_grows_trans: "row_grows r s \<Longrightarrow> row_grows s t \<Longrightarrow> row_grows r t"
  by (auto simp: row_grows_def)

lemma rows_grow_refl [simp]: "rows_grow rs rs"
  unfolding rows_grow_def using row_grows_refl by blast

lemma rows_grow_trans: "rows_grow rs ss \<Longrightarrow> rows_grow ss ts \<Longrightarrow> rows_grow rs ts"
  unfolding rows_grow_def using row_grows_trans by blast

lemma progress_evolves_same:
  "lessons v = lessons w \<Longrightarrow> course_modules v = course_modules w \<Longrightarrow>
   lesson_progresses v = lesson_progresses w \<Longrightarrow> course_progresses v = course_progresses w \<Longrightarrow> progress_evolves w v"
  by (simp add: progress_evolves_def progress_ok_def)

interpretation growth: world_order progress_evolves
proof unfold_locales
  fix w v u :: world
  assume "progress_evolves w v" "progress_evolves v u"
  then show "progress_evolves w u"
    unfolding progress_evolves_def using rows_grow_trans by metis
qed (simp_all add: progress_evolves_same)

section \<open>Reads\<close>

lemma progress_reads [moves]:
  "changes read_only (lesson_progress_get u l)" "changes read_only (course_progress_get u c)"
  "changes read_only (lesson_progress_list u c)" "changes read_only (course_progress_list u)"
  "changes read_only (lesson_progress_count_completed u c)" "changes read_only (lessons_count_published_by_course c)"
  "changes read_only (lessons_get_by_id l)" "changes read_only (modules_get_by_id m)"
  "changes read_only (enrollments_get_by_course_user c u)"
  by (simp_all add: lesson_progress_get_def course_progress_get_def lesson_progress_list_def
      course_progress_list_def lesson_progress_count_completed_def lessons_count_published_by_course_def
      lessons_get_by_id_def modules_get_by_id_def enrollments_get_by_course_user_def read_only_fetch)

lemma progress_checks_read [moves]:
  "changes read_only (lesson_course l)" "changes read_only (require_active_enrollment u c)"
  "changes read_only (require_prerequisite u lesson)"
  by (auto simp: lesson_course_def require_active_enrollment_def require_prerequisite_def
      intro!: moves split: option.split)

lemma evolves_faults [simp]: "progress_evolves w (v\<lparr>faults := f\<rparr>) = progress_evolves w v"
  "progress_evolves (w\<lparr>faults := f\<rparr>) v = progress_evolves w v"
  by (simp_all add: progress_evolves_def progress_ok_def)

section \<open>Writes\<close>

lemma course_rows_updated:
  assumes "course_rows_ok rs" and "course_row_ok p"
  shows "course_rows_ok (upd_where (of_user_course u c) (course_progress_write p t) rs)"
proof -
  have "course_row_ok (course_progress_write p t r)" for r
    using assms(2) by (simp add: course_row_ok_def course_progress_write_def)
  moreover have "map (\<lambda>r. (pr_user_id r, pr_course_id r)) (upd_where (of_user_course u c) (course_progress_write p t) rs)
      = map (\<lambda>r. (pr_user_id r, pr_course_id r)) rs"
    by (rule map_upd_where) (simp add: course_progress_write_def)
  ultimately show ?thesis
    using assms(1) by (auto simp: course_rows_ok_def list_all_iff set_upd_where)
qed

lemma course_rows_added:
  assumes "course_rows_ok rs" and "course_row_ok p"
    and "\<not> list_ex (of_user_course (pr_user_id p) (pr_course_id p)) rs"
  shows "course_rows_ok (rs @ [blank_course_joins (p\<lparr>pr_id := i, pr_created_at := t, pr_updated_at := t\<rparr>)])"
  using assms by (auto simp: course_rows_ok_def course_row_ok_def blank_course_joins_def list_ex_iff of_user_course_def)

lemma course_written:
  assumes "pr_completed_at p \<noteq> None \<longleftrightarrow> 0 < pr_total p \<and> pr_total p \<le> pr_completed p"
    and "pr_completed_at p \<noteq> None \<longrightarrow> pr_percent p = 100"
  shows "changes progress_evolves (course_progress_upsert p)"
proof -
  have "course_row_ok p" if "course_progress_checks p"
    using assms that by (simp add: course_row_ok_def course_progress_checks_def)
  then show ?thesis
    unfolding course_progress_upsert_def
    by (intro growth.changes_upsert_row)
      (simp_all add: progress_evolves_def progress_ok_def course_rows_updated course_rows_added)
qed

lemma reads_evolve: "changes read_only m \<Longrightarrow> changes progress_evolves m"
  by (auto simp: changes_def read_only_def) (metis evolves_faults(1) growth.R_refl)

lemmas progress_reads_evolve [moves] = progress_reads [THEN reads_evolve] progress_checks_read [THEN reads_evolve]

lemma recompute_evolves [moves]: "changes progress_evolves (recompute_course_progress u c en l)"
  unfolding recompute_course_progress_def
  by (intro moves course_written) (auto simp: course_score_def Let_def split: option.splits)

text \<open>The write of a lesson row, after it was read.\<close>

lemma record_progress_grows:
  assumes "record_progress i now p = Inr q" and "lesson_row_ok p"
  shows "lesson_row_ok q" "row_grows p q"
  using assms
  by (auto simp: record_progress_def raise_percent_def settle_def lesson_row_ok_def row_grows_def percent_ok_def Let_def
      split: option.splits if_splits)

lemma new_row_ok: "lesson_row_ok (new_lesson_progress u c l)"
  by (simp add: new_lesson_progress_def lesson_row_ok_def percent_ok_def)

lemma record_progress_key:
  "record_progress i now p = Inr q \<Longrightarrow> lp_user_id q = lp_user_id p \<and> lp_lesson_id q = lp_lesson_id p"
  by (auto simp: record_progress_def raise_percent_def settle_def Let_def split: option.splits if_splits)

lemma lesson_rows_updated:
  assumes ok: "lesson_rows_ok rs" and r: "find (of_user_lesson u l) rs = Some r"
    and q: "lesson_row_ok q" "row_grows (scan_lesson_progress w r) q"
  shows "lesson_rows_ok (upd_where (of_user_lesson u l) (lesson_progress_write q t) rs)"
    and "rows_grow rs (upd_where (of_user_lesson u l) (lesson_progress_write q t) rs)"
proof -
  have only: "s = r" if "s \<in> set rs" "of_user_lesson u l s" for s
    using ok r that distinct_key_unique [of "\<lambda>r. (lp_user_id r, lp_lesson_id r)" rs s r] find_SomeD [OF r]
    by (auto simp: lesson_rows_ok_def of_user_lesson_def)
  have "lesson_row_ok (lesson_progress_write q t s)" for s
    using q(1) by (auto simp: lesson_row_ok_def lesson_progress_write_def)
  moreover have "map (\<lambda>r. (lp_user_id r, lp_lesson_id r)) (upd_where (of_user_lesson u l) (lesson_progress_write q t) rs)
      = map (\<lambda>r. (lp_user_id r, lp_lesson_id r)) rs"
    by (rule map_upd_where) (simp add: lesson_progress_write_def)
  ultimately show "lesson_rows_ok (upd_where (of_user_lesson u l) (lesson_progress_write q t) rs)"
    using ok by (auto simp: lesson_rows_ok_def list_all_iff set_upd_where)
  have "row_grows r (lesson_progress_write q t r)"
    using q(2) by (auto simp: row_grows_def lesson_progress_write_def scan_lesson_progress_def blank_lesson_joins_def
        split: option.splits)
  then show "rows_grow rs (upd_where (of_user_lesson u l) (lesson_progress_write q t) rs)"
    unfolding rows_grow_def set_upd_where
  proof -
    have "\<exists>s' \<in> (\<lambda>r. if of_user_lesson u l r then lesson_progress_write q t r else r) ` set rs. row_grows s s'"
      if "s \<in> set rs" for s
    proof -
      have "row_grows s (if of_user_lesson u l s then lesson_progress_write q t s else s)"
        using only [OF that] \<open>row_grows r (lesson_progress_write q t r)\<close> by auto
      with that show ?thesis by blast
    qed
    then show "\<forall>s \<in> set rs. \<exists>s' \<in> (\<lambda>r. if of_user_lesson u l r then lesson_progress_write q t r else r) ` set rs.
        row_grows s s'" by blast
  qed
qed

lemma scan_lesson_simps [simp]:
  "lp_user_id (scan_lesson_progress w r) = lp_user_id r" "lp_lesson_id (scan_lesson_progress w r) = lp_lesson_id r"
  "lp_status (scan_lesson_progress w r) = lp_status r" "lp_percent (scan_lesson_progress w r) = lp_percent r"
  "lp_completed_at (scan_lesson_progress w r) = lp_completed_at r"
  "lesson_row_ok (scan_lesson_progress w r) = lesson_row_ok r"
  "scan_lesson_progress (v\<lparr>faults := f\<rparr>) r = scan_lesson_progress v r"
  by (simp_all add: scan_lesson_progress_def blank_lesson_joins_def lesson_row_ok_def split: option.split)

definition stored_progress :: "world \<Rightarrow> uuid \<Rightarrow> uuid \<Rightarrow> lesson_progress option" where
  "stored_progress w u l = map_option (scan_lesson_progress w) (find (of_user_lesson u l) (lesson_progresses w))"

definition before_progress :: "world \<Rightarrow> uuid \<Rightarrow> uuid \<Rightarrow> uuid \<Rightarrow> lesson_progress" where
  "before_progress w u c l = (case stored_progress w u l of None \<Rightarrow> new_lesson_progress u c l | Some p \<Rightarrow> p)"

lemma before_progress_key: "lp_user_id (before_progress w u c l) = u" "lp_lesson_id (before_progress w u c l) = l"
  by (auto simp: before_progress_def stored_progress_def new_lesson_progress_def of_user_lesson_def
      split: option.split dest: find_SomeD)

lemma before_progress_ok: "lesson_rows_ok (lesson_progresses w) \<Longrightarrow> lesson_row_ok (before_progress w u c l)"
  by (auto simp: before_progress_def stored_progress_def new_row_ok lesson_rows_ok_def list_all_iff
      split: option.split dest: find_SomeD)

lemma lesson_rows_added:
  assumes "lesson_rows_ok rs" and "lesson_row_ok q" and "find (of_user_lesson (lp_user_id q) (lp_lesson_id q)) rs = None"
  shows "lesson_rows_ok (rs @ [blank_lesson_joins (q\<lparr>lp_id := i, lp_created_at := t, lp_updated_at := t\<rparr>)])"
  using assms by (auto simp: lesson_rows_ok_def lesson_row_ok_def blank_lesson_joins_def find_None_iff of_user_lesson_def)

lemma rows_grow_append [simp]: "rows_grow rs (rs @ ss)"
  unfolding rows_grow_def using row_grows_refl by (metis Un_iff set_append)

lemma find_there: "list_ex P rs \<longleftrightarrow> find P rs \<noteq> None"
  by (auto simp: find_None_iff list_ex_iff)

lemma lesson_written:
  assumes q: "record_progress i now (before_progress w u c l) = Inr q"
  shows "wpre (lesson_progress_upsert q) (\<lambda>_ v. progress_evolves w v) (\<lambda>_ v. progress_evolves w v) (w\<lparr>faults := f\<rparr>)"
proof -
  have key: "lp_user_id q = u" "lp_lesson_id q = l"
    using record_progress_key [OF q] before_progress_key by simp_all
  have grown: "lesson_row_ok q" "row_grows (before_progress w u c l) q" if "lesson_rows_ok (lesson_progresses w)"
    using record_progress_grows [OF q before_progress_ok [OF that]] .
  show ?thesis
  proof (cases "find (of_user_lesson u l) (lesson_progresses w)")
    case None
    then show ?thesis
      using grown(1) lesson_rows_added [of "lesson_progresses w" q]
      by (simp add: lesson_progress_upsert_def wp key find_there progress_evolves_def progress_ok_def pop_def
          split: option.split)
  next
    case (Some r)
    then have "before_progress w u c l = scan_lesson_progress w r" by (simp add: before_progress_def stored_progress_def)
    with Some show ?thesis
      using grown lesson_rows_updated [of "lesson_progresses w" u l r q w]
      by (simp add: lesson_progress_upsert_def wp key find_there progress_evolves_def progress_ok_def pop_def
          split: option.split)
  qed
qed

lemma save_evolves:
  "wpre (save_progress actor c l en i (stored_progress w actor l)) (\<lambda>_ v. progress_evolves w v)
     (\<lambda>_ v. progress_evolves w v) (w\<lparr>faults := f\<rparr>)"
proof (cases "record_progress i (clock w) (before_progress w actor c l)")
  case (Inl e)
  then show ?thesis by (simp add: save_progress_def wp_asks_then before_progress_def wp_raise growth.R_refl)
next
  case (Inr q)
  have "wpre (andThen (lesson_progress_upsert q) (\<lambda>_. andThen (lesson_progress_get actor l) (\<lambda>saved.
      andThen (recompute_course_progress actor c en (Some l)) (\<lambda>cp. ret (saved, cp)))))
      (\<lambda>_ v. progress_evolves w v) (\<lambda>_ v. progress_evolves w v) (w\<lparr>faults := f\<rparr>)"
    by (rule growth.wp_then_changes [OF lesson_written [OF Inr]]) (intro moves)
  with Inr show ?thesis by (simp add: save_progress_def wp_asks_then before_progress_def)
qed

lemma wp_stored_progress:
  "wpre (andThen (optional is_not_found (lesson_progress_get u l)) g) Q E (w\<lparr>faults := h\<rparr>)"
  if "\<And>f. wpre (g (stored_progress w u l)) Q E (w\<lparr>faults := f\<rparr>)" and "\<And>e f. E e (w\<lparr>faults := f\<rparr>)"
  using that by (auto simp: lesson_progress_get_def wp stored_progress_def pop_def split: option.split)

lemma upsert_progress_evolves [moves]: "changes progress_evolves (upsert_lesson_progress actor l i)"
  unfolding upsert_lesson_progress_def
  by (rule growth.changes_wp, rule wp_read_start [OF progress_checks_read(1)])
    (auto simp: wp_guard_then growth.R_refl
      intro!: wp_read_then [OF progress_checks_read(2)] wp_read_then [OF progress_checks_read(3)] wp_stored_progress save_evolves)

lemma other_progress_evolves [moves]:
  "changes progress_evolves (get_lesson_progress actor l)" "changes progress_evolves (get_course_progress actor c)"
  "changes progress_evolves (list_my_progress actor)"
  by (auto simp: get_lesson_progress_def get_course_progress_def list_my_progress_def intro!: moves split: option.split)

end
