(* ===== verification/Completion.thy ===== *)
theory Completion
  imports Learning
begin

text \<open>
  Who may record progress and what it counts for: the checks of a request as a predicate of the
  tables, the score of the course as a count over its published lessons, and runs of requests. A
  request touches no other learner's and no other lesson's row, which shows what two lessons that
  require each other do to everybody who has finished neither.
\<close>

section \<open>Who may record progress\<close>

definition course_of_lesson :: "world \<Rightarrow> uuid \<Rightarrow> (lesson \<times> uuid) option" where
  "course_of_lesson w l = (case find (\<lambda>r. le_id r = l) (lessons w) of None \<Rightarrow> None
     | Some le \<Rightarrow> map_option (\<lambda>m. (le, mo_course_id m)) (find (\<lambda>m. mo_id m = le_module_id le) (course_modules w)))"

definition completed_by :: "world \<Rightarrow> uuid \<Rightarrow> uuid \<Rightarrow> bool" where
  "completed_by w u l \<longleftrightarrow> (case find (of_user_lesson u l) (lesson_progresses w) of
     None \<Rightarrow> False | Some r \<Rightarrow> lp_status r = ProgressCompleted)"

definition enrolled_active :: "world \<Rightarrow> uuid \<Rightarrow> uuid \<Rightarrow> bool" where
  "enrolled_active w u c \<longleftrightarrow> (case find (\<lambda>r. en_course_id r = c \<and> en_user_id r = u) (enrollments w) of
     None \<Rightarrow> False | Some e \<Rightarrow> en_status e = EnActive)"

definition may_learn :: "world \<Rightarrow> uuid \<Rightarrow> uuid \<Rightarrow> bool" where
  "may_learn w u l \<longleftrightarrow> (case course_of_lesson w l of None \<Rightarrow> False
     | Some (le, c) \<Rightarrow> enrolled_active w u c \<and> le_status le = LessonPublished
         \<and> (case le_prerequisite le of None \<Rightarrow> True | Some p \<Rightarrow> p = '''' \<or> completed_by w u p))"

lemma wp_lesson_course:
  assumes "\<And>e f. E e (w\<lparr>faults := f\<rparr>)"
    and "\<And>le c f. course_of_lesson w l = Some (le, c) \<Longrightarrow> wpre (g (le, c)) Q E (w\<lparr>faults := f\<rparr>)"
  shows "wpre (andThen (lesson_course l) g) Q E w"
  using assms by (auto simp: lesson_course_def lessons_get_by_id_def modules_get_by_id_def course_of_lesson_def wp pop_def
      split: option.split)

lemma wp_active_enrollment:
  assumes "\<And>e f. E e (w\<lparr>faults := f\<rparr>)"
    and "\<And>en f. enrolled_active w u c \<Longrightarrow> wpre (g en) Q E (w\<lparr>faults := f\<rparr>)"
  shows "wpre (andThen (require_active_enrollment u c) g) Q E (w\<lparr>faults := h\<rparr>)"
  using assms by (auto simp: require_active_enrollment_def enrollments_get_by_course_user_def enrolled_active_def wp pop_def
      split: option.split)

lemma wp_prerequisite:
  assumes "\<And>e f. E e (w\<lparr>faults := f\<rparr>)"
    and "\<And>f. (case le_prerequisite le of None \<Rightarrow> True | Some p \<Rightarrow> p = '''' \<or> completed_by w u p) \<Longrightarrow>
          wpre (g ()) Q E (w\<lparr>faults := f\<rparr>)"
  shows "wpre (andThen (require_prerequisite u le) g) Q E (w\<lparr>faults := h\<rparr>)"
  using assms by (auto simp: require_prerequisite_def lesson_progress_get_def completed_by_def wp pop_def
      split: option.split)

lemma progress_refused:
  assumes "\<not> may_learn w actor l"
  shows "\<exists>e. fst (upsert_lesson_progress actor l i w) = Inl e \<and> read_only w (snd (upsert_lesson_progress actor l i w))"
proof -
  have "wpre (upsert_lesson_progress actor l i) (\<lambda>_ _. False) (\<lambda>_ v. read_only w v) w"
    unfolding upsert_lesson_progress_def
    using assms by (intro wp_lesson_course)
      (auto simp: may_learn_def wp_guard_then intro!: wp_active_enrollment wp_prerequisite)
  then show ?thesis by (auto simp: wpre_def split: prod.splits sum.splits)
qed

section \<open>The progress of the course\<close>

definition published_lessons :: "world \<Rightarrow> uuid \<Rightarrow> lesson list" where
  "published_lessons w c = filter (published_in w c) (lessons w)"

definition course_finished :: "world \<Rightarrow> uuid \<Rightarrow> uuid \<Rightarrow> bool" where
  "course_finished w u c \<longleftrightarrow> published_lessons w c \<noteq> []
     \<and> list_all (\<lambda>l. completed_by w u (le_id l)) (published_lessons w c)"

lemma find_of_user_course:
  "find (of_user_course u c) (upd_where (of_user_course u c) (course_progress_write p t) rs)
     = map_option (course_progress_write p t) (find (of_user_course u c) rs)"
proof -
  have "of_user_course u c (course_progress_write p t r) = of_user_course u c r" for r
    by (simp add: of_user_course_def course_progress_write_def)
  then have "find (of_user_course u c) (upd_where (of_user_course u c) (course_progress_write p t) rs)
     = map_option (\<lambda>r. if of_user_course u c r then course_progress_write p t r else r) (find (of_user_course u c) rs)"
    by (rule find_upd_where)
  then show ?thesis by (auto dest: find_SomeD split: option.split intro: option.map_cong)
      (auto simp: map_option_case dest: find_SomeD split: option.split)
qed

definition same_score :: "course_progress \<Rightarrow> course_progress \<Rightarrow> bool" where
  "same_score p q \<longleftrightarrow> pr_total p = pr_total q \<and> pr_completed p = pr_completed q \<and> pr_percent p = pr_percent q
     \<and> pr_completed_at p = pr_completed_at q"

definition same_lessons :: "world \<Rightarrow> world \<Rightarrow> bool" where
  "same_lessons w v \<longleftrightarrow> lesson_progresses v = lesson_progresses w \<and> lessons v = lessons w
     \<and> course_modules v = course_modules w"

lemma wp_course_saved:
  "wpre (andThen (course_progress_upsert p) (\<lambda>_. course_progress_get (pr_user_id p) (pr_course_id p)))
     (\<lambda>cp v. same_lessons w v \<and> same_score cp p) (\<lambda>_ _. True) w"
proof (cases "find (of_user_course (pr_user_id p) (pr_course_id p)) (course_progresses w)")
  case None
  then show ?thesis
    by (simp add: course_progress_upsert_def course_progress_get_def wp find_there find_append same_lessons_def same_score_def
      scan_course_progress_def blank_course_joins_def of_user_course_def split: option.split)
next
  case (Some r)
  then show ?thesis
    by (simp add: course_progress_upsert_def course_progress_get_def wp find_there find_of_user_course same_lessons_def
      same_score_def scan_course_progress_def course_progress_write_def split: option.split)
qed

definition scored :: "world \<Rightarrow> uuid \<Rightarrow> uuid \<Rightarrow> course_progress \<Rightarrow> bool" where
  "scored w u c cp \<longleftrightarrow> pr_total cp = int (cnt (published_in w c) (lessons w))
      \<and> pr_completed cp = int (cnt (completed_published w u c) (lesson_progresses w))
      \<and> (pr_completed_at cp \<noteq> None \<longleftrightarrow> 0 < pr_total cp \<and> pr_total cp \<le> pr_completed cp)
      \<and> pr_percent cp = (if pr_completed_at cp \<noteq> None then 100 else course_percent (pr_completed cp) (pr_total cp))"

lemma same_lessons_counts:
  "same_lessons w v \<Longrightarrow> published_in v = published_in w"
  "same_lessons w v \<Longrightarrow> completed_published v = completed_published w"
proof -
  assume same: "same_lessons w v"
  then show *: "published_in v = published_in w"
    by (simp add: same_lessons_def published_in_def lesson_in_course_def fun_eq_iff)
  from same show "completed_published v = completed_published w"
    by (simp add: completed_published_def fun_eq_iff *) (simp add: same_lessons_def)
qed

lemma counts_faults [simp]:
  "published_in (w\<lparr>faults := f\<rparr>) = published_in w" "completed_published (w\<lparr>faults := f\<rparr>) = completed_published w"
  using same_lessons_counts [of w "w\<lparr>faults := f\<rparr>"] by (simp_all add: same_lessons_def)

lemma scored_cong: "same_lessons w v \<Longrightarrow> scored v u c cp = scored w u c cp"
  unfolding scored_def using same_lessons_counts [of w v] by (simp add: same_lessons_def)

lemma wp_recompute:
  "wpre (recompute_course_progress u c en l) (\<lambda>cp v. same_lessons w v \<and> scored v u c cp) (\<lambda>_ _. True) w"
proof -
  let ?p = "course_score u c en l (int (cnt (published_in w c) (lessons w)))
    (int (cnt (completed_published w u c) (lesson_progresses w))) (clock w)"
  have "wpre (andThen (optional is_not_found (course_progress_get u c)) (\<lambda>existing.
      andThen (course_progress_upsert (?p existing)) (\<lambda>_. course_progress_get u c)))
      (\<lambda>cp v. same_lessons w v \<and> scored v u c cp) (\<lambda>_ _. True) (w\<lparr>faults := f\<rparr>)" for f
  proof (rule wp_read_then)
    fix existing g
    have score: "scored w u c cp" if "same_score cp (?p existing)" for cp
      using that by (auto simp: scored_def same_score_def course_score_def Let_def split: option.splits)
    show "wpre (andThen (course_progress_upsert (?p existing)) (\<lambda>_. course_progress_get u c))
        (\<lambda>cp v. same_lessons w v \<and> scored v u c cp) (\<lambda>_ _. True) (w\<lparr>faults := g\<rparr>)"
    proof -
      have key: "pr_user_id (?p existing) = u" "pr_course_id (?p existing) = c" by (simp_all add: course_score_def Let_def)
      have same: "same_lessons (w\<lparr>faults := g\<rparr>) v = same_lessons w v" for v by (simp add: same_lessons_def)
      show ?thesis
        using wp_course_saved [of "?p existing" "w\<lparr>faults := g\<rparr>"] unfolding key same
        by (rule wp_mono) (use score scored_cong in blast)+
    qed
  qed (auto intro: moves)
  then show ?thesis
    by (simp add: recompute_course_progress_def lessons_count_published_by_course_def lesson_progress_count_completed_def
      wp_andThen wp_fetch_val wp_asks pop_def)
qed

text \<open>The counts compare exactly when every published lesson was completed.\<close>

lemma completed_count:
  assumes "lesson_rows_ok (lesson_progresses w)" and "distinct (map le_id (lessons w))"
  shows "cnt (completed_published w u c) (lesson_progresses w)
     = cnt (\<lambda>l. published_in w c l \<and> completed_by w u (le_id l)) (lessons w)"
proof -
  let ?rows = "filter (completed_published w u c) (lesson_progresses w)"
  let ?ls = "filter (\<lambda>l. published_in w c l \<and> completed_by w u (le_id l)) (lessons w)"
  have keys: "distinct (map (\<lambda>r. (lp_user_id r, lp_lesson_id r)) (lesson_progresses w))"
    using assms(1) by (simp add: lesson_rows_ok_def)
  have by_row: "completed_by w u l \<longleftrightarrow>
      (\<exists>r \<in> set (lesson_progresses w). of_user_lesson u l r \<and> lp_status r = ProgressCompleted)" for l
  proof -
    have found: "find (of_user_lesson u l) (lesson_progresses w) = Some r"
      if "r \<in> set (lesson_progresses w)" "of_user_lesson u l r" for r
    proof -
      have "of_user_lesson u l = (\<lambda>s. (lp_user_id s, lp_lesson_id s) = (lp_user_id r, lp_lesson_id r))"
        using that(2) by (simp add: of_user_lesson_def fun_eq_iff)
      then show ?thesis using find_distinct_key [OF keys that(1)] by simp
    qed
    show ?thesis
    proof (cases "find (of_user_lesson u l) (lesson_progresses w)")
      case None
      then have "\<forall>r \<in> set (lesson_progresses w). \<not> of_user_lesson u l r" by (auto simp: find_None_iff)
      with None show ?thesis by (auto simp: completed_by_def)
    next
      case (Some r)
      have "s = r" if "s \<in> set (lesson_progresses w)" "of_user_lesson u l s" for s
        using found [OF that] Some by simp
      with Some show ?thesis using find_SomeD [OF Some] by (auto simp: completed_by_def)
    qed
  qed
  have "distinct (map lp_lesson_id ?rows)"
    using keys by (auto simp: distinct_map completed_published_def inj_on_def)
  moreover have "distinct (map le_id ?ls)" using assms(2) by (simp add: distinct_map_filter)
  moreover have "set (map lp_lesson_id ?rows) = set (map le_id ?ls)"
  proof (intro set_eqI iffI)
    fix i assume "i \<in> set (map lp_lesson_id ?rows)"
    then obtain r where r: "r \<in> set (lesson_progresses w)" "completed_published w u c r" "i = lp_lesson_id r" by auto
    then obtain l where l: "l \<in> set (lessons w)" "le_id l = lp_lesson_id r" "published_in w c l"
      by (auto simp: completed_published_def list_ex_iff)
    have "of_user_lesson u (le_id l) r \<and> lp_status r = ProgressCompleted"
      using r(2) l(2) by (simp add: completed_published_def of_user_lesson_def)
    then have "completed_by w u (le_id l)" using r(1) unfolding by_row by blast
    with l have "l \<in> set ?ls" by simp
    then have "le_id l \<in> set (map le_id ?ls)" unfolding set_map by (rule imageI)
    with l r(3) show "i \<in> set (map le_id ?ls)" by (simp only:)
  next
    fix i assume "i \<in> set (map le_id ?ls)"
    then obtain l where l: "l \<in> set (lessons w)" "published_in w c l" "completed_by w u (le_id l)" "i = le_id l" by auto
    then obtain r where r: "r \<in> set (lesson_progresses w)" "of_user_lesson u (le_id l) r" "lp_status r = ProgressCompleted"
      unfolding by_row by blast
    with l have "completed_published w u c r" by (auto simp: completed_published_def of_user_lesson_def list_ex_iff)
    with r(1) have "r \<in> set ?rows" by simp
    then have "lp_lesson_id r \<in> set (map lp_lesson_id ?rows)" unfolding set_map by (rule imageI)
    with r(2) l(4) show "i \<in> set (map lp_lesson_id ?rows)" by (simp add: of_user_lesson_def)
  qed
  ultimately show ?thesis
    using distinct_card [of "map lp_lesson_id ?rows"] distinct_card [of "map le_id ?ls"]
    unfolding cnt_def length_map by (simp only:)
qed

lemma finished_iff:
  assumes "lesson_rows_ok (lesson_progresses w)" and "distinct (map le_id (lessons w))" and "scored w u c cp"
  shows "pr_completed_at cp \<noteq> None \<longleftrightarrow> course_finished w u c"
    and "pr_completed cp \<le> pr_total cp"
proof -
  let ?P = "\<lambda>l. completed_by w u (le_id l)"
  have c: "cnt (completed_published w u c) (lesson_progresses w) = length (filter ?P (published_lessons w c))"
    using completed_count [OF assms(1,2)] by (simp add: published_lessons_def cnt_def conj_commute)
  have t: "cnt (published_in w c) (lessons w) = length (published_lessons w c)"
    by (simp add: published_lessons_def cnt_def)
  show "pr_completed cp \<le> pr_total cp" using assms(3) c t by (simp add: scored_def)
  have "length (published_lessons w c) \<le> length (filter ?P (published_lessons w c)) \<longleftrightarrow> list_all ?P (published_lessons w c)"
    by (rule length_filter_all)
  with assms(3) c t show "pr_completed_at cp \<noteq> None \<longleftrightarrow> course_finished w u c"
    by (auto simp: scored_def course_finished_def)
qed

lemma upsert_scores:
  assumes "upsert_lesson_progress actor l i w = (Inr (saved, cp), w')"
  obtains le c where "course_of_lesson w l = Some (le, c)" and "scored w' actor c cp"
proof -
  have saved: "wpre (save_progress actor c l en i r) (\<lambda>(saved, cp) v. scored v actor c cp) (\<lambda>_ _. True) t" for c en r t
  proof (cases "record_progress i (clock t) (case r of None \<Rightarrow> new_lesson_progress actor c l | Some p \<Rightarrow> p)")
    case (Inr q)
    have "wpre (andThen (recompute_course_progress actor c en (Some l)) (\<lambda>cp. ret (x, cp)))
        (\<lambda>(saved, cp) v. scored v actor c cp) (\<lambda>_ _. True) s" for x :: lesson_progress and s
      unfolding wp_andThen wp_ret by (rule wp_mono [OF wp_recompute]) simp_all
    note this [intro!]
    show ?thesis unfolding save_progress_def wp_asks_then Inr sum.case by (rule wp_any, rule wp_any) rule
  qed (simp add: save_progress_def wp_asks_then wp_raise)
  have "wpre (upsert_lesson_progress actor l i)
      (\<lambda>(saved, cp) v. \<exists>le c. course_of_lesson w l = Some (le, c) \<and> scored v actor c cp) (\<lambda>_ _. True) w"
    unfolding upsert_lesson_progress_def
    by (rule wp_lesson_course) (auto intro!: wp_any saved)
  with assms that show thesis by (auto simp: wpre_def)
qed

section \<open>Nobody else's progress\<close>

text \<open>A request to record progress touches the row of its learner and lesson only.\<close>

definition others_kept :: "uuid \<Rightarrow> uuid \<Rightarrow> world \<Rightarrow> world \<Rightarrow> bool" where
  "others_kept u l w v \<longleftrightarrow> lessons v = lessons w \<and> course_modules v = course_modules w
     \<and> (\<forall>u' l'. (u', l') \<noteq> (u, l) \<longrightarrow>
          find (of_user_lesson u' l') (lesson_progresses v) = find (of_user_lesson u' l') (lesson_progresses w))"

interpretation others: world_order "others_kept u l"
  by unfold_locales (auto simp: others_kept_def)

lemma others_same:
  "lessons v = lessons w \<Longrightarrow> course_modules v = course_modules w \<Longrightarrow> lesson_progresses v = lesson_progresses w \<Longrightarrow>
   others_kept u l w v"
  by (simp add: others_kept_def)

lemma others_faults [simp]: "others_kept u l w (w\<lparr>faults := f\<rparr>)"
  by (simp add: others_same)

lemma reads_keep_others: "changes read_only m \<Longrightarrow> changes (others_kept u l) m"
  unfolding changes_def read_only_def by (metis others_faults)

lemmas progress_reads_others [moves] = progress_reads [THEN reads_keep_others] progress_checks_read [THEN reads_keep_others]

lemma recompute_keeps_others [moves]: "changes (others_kept u l) (recompute_course_progress u' c en x)"
  by (auto simp: recompute_course_progress_def course_progress_upsert_def others_same
      intro!: moves others.changes_upsert_row)

lemma lesson_write_keeps_others:
  assumes "lp_user_id p = u" and "lp_lesson_id p = l"
  shows "changes (others_kept u l) (lesson_progress_upsert p)"
  unfolding lesson_progress_upsert_def
proof (rule others.changes_upsert_row)
  fix w :: world
  show "others_kept u l w (w\<lparr>lesson_progresses := upd_where (of_user_lesson (lp_user_id p) (lp_lesson_id p))
        (lesson_progress_write p (clock w)) (lesson_progresses w)\<rparr>)"
    using assms by (auto simp: others_kept_def of_user_lesson_def lesson_progress_write_def intro!: find_upd_other)
  show "others_kept u l w (w\<lparr>lesson_progresses := lesson_progresses w @ [blank_lesson_joins
        (p\<lparr>lp_id := fresh_uuid w, lp_created_at := clock w, lp_updated_at := clock w\<rparr>)]\<rparr>)"
    using assms by (auto simp: others_kept_def find_append of_user_lesson_def blank_lesson_joins_def split: option.split)
qed

lemma save_keeps_others:
  assumes "case r of None \<Rightarrow> True | Some p \<Rightarrow> lp_user_id p = u \<and> lp_lesson_id p = l"
  shows "changes (others_kept u l) (save_progress u c l en i r)"
proof (rule others.changes_wp)
  fix w
  let ?p = "case r of None \<Rightarrow> new_lesson_progress u c l | Some p \<Rightarrow> p"
  have key: "lp_user_id ?p = u" "lp_lesson_id ?p = l"
    using assms by (auto simp: new_lesson_progress_def split: option.splits)
  show "wpre (save_progress u c l en i r) (\<lambda>_. others_kept u l w) (\<lambda>_. others_kept u l w) w"
  proof (cases "record_progress i (clock w) ?p")
    case (Inl e)
    then show ?thesis by (simp add: save_progress_def wp_asks_then wp_raise others.R_refl)
  next
    case (Inr q)
    then have "lp_user_id q = u" "lp_lesson_id q = l" using record_progress_key [OF Inr] key by simp_all
    then have "changes (others_kept u l) (andThen (lesson_progress_upsert q) (\<lambda>_.
        andThen (lesson_progress_get u l) (\<lambda>saved.
        andThen (recompute_course_progress u c en (Some l)) (\<lambda>cp. ret (saved, cp)))))"
      by (intro moves lesson_write_keeps_others progress_reads)
    from others.wp_changes [OF this others.R_refl] Inr show ?thesis
      by (simp add: save_progress_def wp_asks_then)
  qed
qed

lemma stored_progress_key:
  "case stored_progress w u l of None \<Rightarrow> True | Some p \<Rightarrow> lp_user_id p = u \<and> lp_lesson_id p = l"
  using find_SomeD [of "of_user_lesson u l" "lesson_progresses w"]
  by (auto simp: stored_progress_def of_user_lesson_def split: option.split)

lemma upsert_keeps_others: "changes (others_kept u l) (upsert_lesson_progress u l i)"
  unfolding upsert_lesson_progress_def
  by (rule others.changes_wp, rule wp_read_start [OF progress_checks_read(1)])
    (auto simp: wp_guard_then others.R_refl
      intro!: wp_read_then [OF progress_checks_read(2)] wp_read_then [OF progress_checks_read(3)] wp_stored_progress
        others.wp_changes [OF save_keeps_others [OF stored_progress_key]])

section \<open>Runs\<close>

inductive progress_request :: "world \<Rightarrow> world \<Rightarrow> bool" where
  req_record: "progress_request w (snd (upsert_lesson_progress actor l i w))"
| req_lesson_progress: "progress_request w (snd (get_lesson_progress actor l w))"
| req_course_progress: "progress_request w (snd (get_course_progress actor c w))"
| req_my_progress: "progress_request w (snd (list_my_progress actor w))"

lemma run_evolves: "rtranclp progress_request w v \<Longrightarrow> progress_evolves w v"
proof (induction rule: rtranclp_induct)
  case (step u v)
  from step.hyps(2) have "progress_evolves u v"
    by cases (use upsert_progress_evolves other_progress_evolves in \<open>auto simp: changes_def\<close>)
  with step.IH show ?case by (rule growth.R_trans)
qed (rule growth.R_refl)

text \<open>Two lessons that require each other.\<close>

definition prerequisite_of :: "world \<Rightarrow> uuid \<Rightarrow> uuid option" where
  "prerequisite_of w l = (case find (\<lambda>r. le_id r = l) (lessons w) of None \<Rightarrow> None | Some r \<Rightarrow> le_prerequisite r)"

definition prerequisite_cycle :: "world \<Rightarrow> uuid \<Rightarrow> uuid \<Rightarrow> bool" where
  "prerequisite_cycle w a b \<longleftrightarrow> a \<noteq> '''' \<and> b \<noteq> '''' \<and> prerequisite_of w a = Some b \<and> prerequisite_of w b = Some a"

lemma blocked_lesson:
  "prerequisite_of w l = Some p \<Longrightarrow> p \<noteq> '''' \<Longrightarrow> \<not> completed_by w u p \<Longrightarrow> \<not> may_learn w u l"
  by (auto simp: may_learn_def course_of_lesson_def prerequisite_of_def split: option.splits)

lemma completed_by_cong:
  "find (of_user_lesson u l) (lesson_progresses v) = find (of_user_lesson u l) (lesson_progresses w) \<Longrightarrow>
   completed_by v u l = completed_by w u l"
  by (simp add: completed_by_def)

definition locked :: "uuid \<Rightarrow> uuid \<Rightarrow> uuid \<Rightarrow> world \<Rightarrow> bool" where
  "locked u a b w \<longleftrightarrow> prerequisite_cycle w a b \<and> \<not> completed_by w u a \<and> \<not> completed_by w u b"

lemma others_keep_locked:
  assumes "others_kept x l w v" and "(x, l) \<noteq> (u, a)" and "(x, l) \<noteq> (u, b)" and "locked u a b w"
  shows "locked u a b v"
proof -
  have "completed_by v u a = completed_by w u a" "completed_by v u b = completed_by w u b"
    using assms(1-3) by (auto simp: others_kept_def intro!: completed_by_cong)
  with assms(1,4) show ?thesis
    by (simp add: locked_def prerequisite_cycle_def prerequisite_of_def others_kept_def)
qed

lemma others_requests:
  "changes (others_kept u l) (get_lesson_progress actor l')" "changes (others_kept u l) (get_course_progress actor c)"
  "changes (others_kept u l) (list_my_progress actor)"
  by (auto simp: get_lesson_progress_def get_course_progress_def list_my_progress_def intro!: moves split: option.split)

lemma others_requests_step:
  "others_kept u l w (snd (get_lesson_progress actor l' w))" "others_kept u l w (snd (get_course_progress actor c w))"
  "others_kept u l w (snd (list_my_progress actor w))"
  using others_requests by (auto simp: changes_def)

lemma request_keeps_locked:
  assumes "progress_request w v" and lock: "locked u a b w"
  shows "locked u a b v"
proof -
  have reading: "locked u a b v" if "others_kept u '''' w v"
    by (rule others_keep_locked [OF that _ _ lock]) (use lock in \<open>auto simp: locked_def prerequisite_cycle_def\<close>)
  from assms(1) show ?thesis
  proof cases
    case (req_record actor l i)
    show ?thesis
    proof (cases "actor = u \<and> l \<in> {a, b}")
      case True
      then have "\<not> may_learn w actor l"
        using lock blocked_lesson by (auto simp: locked_def prerequisite_cycle_def)
      from progress_refused [OF this] have "read_only w v" using req_record by metis
      then obtain f where "v = w\<lparr>faults := f\<rparr>" by (auto simp: read_only_def)
      with lock show ?thesis
        by (simp add: locked_def prerequisite_cycle_def prerequisite_of_def completed_by_def)
    next
      case False
      have "others_kept actor l w v"
        using upsert_keeps_others req_record by (simp add: changes_def)
      then show ?thesis by (rule others_keep_locked [OF _ _ _ lock]) (use False in auto)
    qed
  qed (rule reading, simp add: others_requests_step)+
qed

lemma run_keeps_locked: "rtranclp progress_request w v \<Longrightarrow> locked u a b w \<Longrightarrow> locked u a b v"
  by (induction rule: rtranclp_induct) (simp, rule request_keeps_locked)

end
