(* ===== verification/Ordering.thy ===== *)
theory Ordering
  imports Curriculum
begin

text \<open>
  Reordering the rows below a parent. \<open>placed f\<close> describes the table while \<open>reorderPositions\<close> runs: the
  rows that were moved so far are at the positions of the map \<open>f\<close>, the others where they were. The two
  loops of the code are then two invariants on \<open>f\<close>, and its last value gives the new order.
\<close>

section \<open>The state of a reordering\<close>

definition placed :: "'r ordered_table \<Rightarrow> uuid \<Rightarrow> (uuid \<rightharpoonup> int) \<Rightarrow> time \<Rightarrow> 'r list \<Rightarrow> 'r list" where
  "placed T parent f t rs = map (\<lambda>r. if ord_parent T r = parent then
     (case f (ord_id T r) of None \<Rightarrow> r | Some p \<Rightarrow> ord_move T p t r) else r) rs"

text \<open>
  In the first loop the first \<open>m\<close> rows are parked at \<open>-1, -2, ...\<close>; in the second one the first \<open>k\<close> of
  them are at their final position.
\<close>

definition slots :: "uuid list \<Rightarrow> nat \<Rightarrow> nat \<Rightarrow> (uuid \<rightharpoonup> int) \<Rightarrow> bool" where
  "slots ids m k f \<longleftrightarrow> (\<forall>j < length ids. f (ids ! j) =
       (if j < k then Some (int j) else if j < m then Some (- (int j + 1)) else None))
     \<and> (\<forall>i. i \<notin> set ids \<longrightarrow> f i = None)"

lemma slots_start: "slots ids 0 0 Map.empty"
  by (simp add: slots_def)

lemma slots_park:
  "slots ids m 0 f \<Longrightarrow> m < length ids \<Longrightarrow> distinct ids \<Longrightarrow> slots ids (Suc m) 0 (f(ids ! m \<mapsto> - (int m + 1)))"
  by (auto simp: slots_def nth_eq_iff_index_eq)

lemma slots_place:
  "slots ids m k f \<Longrightarrow> k < length ids \<Longrightarrow> distinct ids \<Longrightarrow> slots ids m (Suc k) (f(ids ! k \<mapsto> int k))"
  by (auto simp: slots_def nth_eq_iff_index_eq)

lemma slots_someD:
  assumes "slots ids m k f" and "f i = Some p"
  shows "\<exists>j < length ids. i = ids ! j \<and> p = (if j < k then int j else - (int j + 1))"
proof -
  have "i \<in> set ids" using assms by (auto simp: slots_def)
  then obtain j where j: "j < length ids" "i = ids ! j" by (auto simp: in_set_conv_nth)
  with assms show ?thesis by (auto simp: slots_def split: if_splits)
qed

text \<open>The list of identifiers is a new order of exactly the rows below the parent.\<close>

definition orderable :: "'r ordered_table \<Rightarrow> uuid \<Rightarrow> uuid list \<Rightarrow> world \<Rightarrow> bool" where
  "orderable T parent ids w \<longleftrightarrow> distinct ids \<and> ids \<noteq> [] \<and> distinct (map (ord_id T) (ord_rows T w))
     \<and> (\<forall>r \<in> set (ord_rows T w). ord_parent T r = parent \<longrightarrow> 0 \<le> ord_position T r)
     \<and> set ids = set (map (ord_id T) (children T parent w))"

context ordered begin

lemma placed_empty: "placed T parent Map.empty t rs = rs"
  unfolding placed_def by (rule map_idI) simp

lemma placed_row:
  assumes "s \<in> set (placed T parent f t rs)"
  obtains r where "r \<in> set rs" "ord_id T s = ord_id T r" "ord_parent T s = ord_parent T r"
    "ord_position T s = (if ord_parent T r = parent then case f (ord_id T r) of None \<Rightarrow> ord_position T r | Some p \<Rightarrow> p
       else ord_position T r)"
  using assms by (auto simp: placed_def split: option.splits if_splits)

lemma placed_step:
  "upd_where (row_at T parent i) (ord_move T p t) (placed T parent f t rs) = placed T parent (f(i \<mapsto> p)) t rs"
  by (auto simp: placed_def upd_where_def row_at_def split: option.split)

lemma cnt_row_at: "cnt (row_at T parent i) (placed T parent f t rs) = cnt (row_at T parent i) rs"
  by (auto simp: placed_def cnt_def row_at_def filter_map comp_def intro!: arg_cong [where f = length] filter_cong
      split: option.split if_split)

abbreviation placing :: "uuid \<Rightarrow> (uuid \<rightharpoonup> int) \<Rightarrow> world \<Rightarrow> world" where
  "placing parent f w \<equiv> ord_put T (placed T parent f (clock w) (ord_rows T w)) w"

lemma wp_move:
  assumes "quiet w"
    and "\<And>r. r \<in> set (placed T parent f (clock w) (ord_rows T w)) \<Longrightarrow> ord_id T r \<noteq> i \<Longrightarrow> ord_parent T r = parent \<Longrightarrow>
           ord_position T r \<noteq> p"
    and "Q (cnt (row_at T parent i) (ord_rows T w)) (placing parent (f(i \<mapsto> p)) w)"
  shows "wpre (update_position T parent i p ctx) Q E (placing parent f w)"
proof -
  have "\<not> move_clash T parent i p (placing parent f w)"
    using assms(2) by (auto simp: move_clash_def list_ex_iff)
  moreover have "moved T parent i p (placing parent f w) = placing parent (f(i \<mapsto> p)) w"
    by (simp add: moved_def placed_step)
  ultimately show ?thesis
    using assms(1,3) by (simp add: update_position_def wp cnt_row_at)
qed

lemma parking_free:
  assumes f: "slots ids m 0 f" and s: "s \<in> set (placed T parent f t rs)" "ord_id T s \<noteq> ids ! m" "ord_parent T s = parent"
    and known: "\<And>r. r \<in> set rs \<Longrightarrow> ord_parent T r = parent \<Longrightarrow> 0 \<le> ord_position T r"
  shows "ord_position T s \<noteq> - (int m + 1)"
proof -
  obtain r where r: "r \<in> set rs" "ord_id T s = ord_id T r" "ord_parent T r = parent"
    "ord_position T s = (case f (ord_id T r) of None \<Rightarrow> ord_position T r | Some p \<Rightarrow> p)"
    using placed_row [OF s(1)] s(3) by metis
  show ?thesis
  proof (cases "f (ord_id T r)")
    case None
    with r known [of r] show ?thesis by simp
  next
    case (Some p)
    with slots_someD [OF f Some] r s(2) show ?thesis by auto
  qed
qed

lemma placing_free:
  assumes f: "slots ids (length ids) k f" and s: "s \<in> set (placed T parent f t rs)" "ord_id T s \<noteq> ids ! k"
      "ord_parent T s = parent"
    and known: "\<And>r. r \<in> set rs \<Longrightarrow> ord_parent T r = parent \<Longrightarrow> ord_id T r \<in> set ids"
  shows "ord_position T s \<noteq> int k"
proof -
  obtain r where r: "r \<in> set rs" "ord_id T s = ord_id T r" "ord_parent T r = parent"
    "ord_position T s = (case f (ord_id T r) of None \<Rightarrow> ord_position T r | Some p \<Rightarrow> p)"
    using placed_row [OF s(1)] s(3) by metis
  then obtain j where j: "j < length ids" "ord_id T r = ids ! j"
    using known [of r] by (auto simp: in_set_conv_nth)
  with f have "f (ord_id T r) = Some (if j < k then int j else - (int j + 1))" by (simp add: slots_def)
  with r j s(2) show ?thesis by (auto split: if_splits)
qed

lemma reorder_places:
  assumes w: "quiet w" and ids: "distinct ids" "ids \<noteq> []"
    and known: "\<And>r. r \<in> set (ord_rows T w) \<Longrightarrow> ord_parent T r = parent \<Longrightarrow>
           0 \<le> ord_position T r \<and> ord_id T r \<in> set ids"
    and there: "\<And>i. i \<in> set ids \<Longrightarrow> list_ex (row_at T parent i) (ord_rows T w)"
  shows "\<exists>f. slots ids (length ids) (length ids) f \<and> reorder_positions T parent ids w = (Inr (), placing parent f w)"
proof -
  let ?n = "length ids"
  let ?I = "\<lambda>m k v. \<exists>f. slots ids m k f \<and> v = placing parent f w"
  let ?park = "\<lambda>(k, i). andThen (update_position T parent i (- (int k + 1)) ''temp reorder'') (\<lambda>n.
      guard (n \<noteq> 0) (validation ''invalid id in reorder list''))"
  let ?place = "\<lambda>(k, i). andThen (update_position T parent i (int k) ''final reorder'') (\<lambda>_. ret ())"
  have park: "wpre (?park (k, ids ! k)) (\<lambda>_. ?I (Suc k) 0) (\<lambda>_ _. False) v"
    if k: "k < ?n" and v: "?I k 0 v" for k v
  proof -
    obtain f where f: "slots ids k 0 f" "v = placing parent f w" using v by blast
    have "cnt (row_at T parent (ids ! k)) (ord_rows T w) \<noteq> 0"
      using there [of "ids ! k"] k by (auto simp: cnt_def list_ex_iff filter_empty_conv)
    then show ?thesis
      using parking_free [OF f(1)] known slots_park [OF f(1) k ids(1)]
      by (auto simp: f(2) wp_andThen wp_guard intro!: wp_move [OF w])
  qed
  have place: "wpre (?place (k, ids ! k)) (\<lambda>_. ?I ?n (Suc k)) (\<lambda>_ _. False) v"
    if k: "k < ?n" and v: "?I ?n k v" for k v
  proof -
    obtain f where f: "slots ids ?n k f" "v = placing parent f w" using v by blast
    show ?thesis
      using placing_free [OF f(1)] known slots_place [OF f(1) k ids(1)]
      by (auto simp: f(2) wp_andThen wp_ret intro!: wp_move [OF w])
  qed
  have start: "?I 0 0 w" using slots_start placed_empty by fastforce
  have parked: "wpre (for_each (enumerate 0 ids) ?park) (\<lambda>_. ?I ?n 0) (\<lambda>_ _. False) w"
    by (rule wp_for_each_enumerate [where I = "\<lambda>k. ?I k 0"]) (rule park start; assumption)+
  have placed: "wpre (for_each (enumerate 0 ids) ?place) (\<lambda>_. ?I ?n ?n) (\<lambda>_ _. False) v" if "?I ?n 0 v" for v
    by (rule wp_for_each_enumerate [where I = "?I ?n"]) (rule place that; assumption)+
  have "wpre (reorder_positions T parent ids) (\<lambda>_. ?I ?n ?n) (\<lambda>_ _. False) w"
    unfolding reorder_positions_def wp_guard_then if_P [OF ids(2)]
  proof (rule wp_in_tx_quiet [OF w], unfold wp_andThen, rule wp_mono [OF parked])
    fix u v assume "?I ?n 0 v"
    then show "wpre (for_each (enumerate 0 ids) ?place) (\<lambda>_ v. quiet v \<and> ?I ?n ?n v) (\<lambda>_ _. False) v"
      using w by (auto intro: wp_mono [OF placed])
  qed auto
  then show ?thesis
    by (auto simp: wpre_def split: prod.splits sum.splits)
qed

lemma map_id_placed: "map (ord_id T) (placed T parent f t rs) = map (ord_id T) rs"
  by (auto simp: placed_def split: option.split)

lemma map_id_children_placed:
  "map (ord_id T) (filter (\<lambda>r. ord_parent T r = parent) (placed T parent f t rs))
     = map (ord_id T) (filter (\<lambda>r. ord_parent T r = parent) rs)"
  by (induction rs) (auto simp: placed_def split: option.split)

lemma children_placed:
  assumes f: "slots ids (length ids) (length ids) f" and ids: "distinct ids"
    and known: "\<And>r. r \<in> set (ord_rows T w) \<Longrightarrow> ord_parent T r = parent \<Longrightarrow> ord_id T r \<in> set ids"
    and there: "\<And>i. i \<in> set ids \<Longrightarrow> list_ex (row_at T parent i) (ord_rows T w)"
    and rows: "distinct (map (ord_id T) (ord_rows T w))"
  shows "map (ord_id T) (children T parent (placing parent f w)) = ids"
proof -
  let ?cs = "filter (\<lambda>r. ord_parent T r = parent) (placed T parent f (clock w) (ord_rows T w))"
  let ?ss = "sort_key (ord_position T) ?cs"
  have at: "\<exists>j < length ids. ord_position T s = int j \<and> ord_id T s = ids ! j" if s: "s \<in> set ?cs" for s
  proof -
    from s obtain r where r: "r \<in> set (ord_rows T w)" "ord_id T s = ord_id T r" "ord_parent T r = parent"
      "ord_position T s = (case f (ord_id T r) of None \<Rightarrow> ord_position T r | Some p \<Rightarrow> p)"
      by (auto elim!: placed_row)
    with known obtain j where "j < length ids" "ord_id T r = ids ! j" by (metis in_set_conv_nth)
    with f r show ?thesis by (auto simp: slots_def)
  qed
  have ids_cs: "set (map (ord_id T) ?cs) = set ids" and dist: "distinct (map (ord_id T) ?cs)"
    unfolding map_id_children_placed using known there rows
    by (auto simp: list_ex_iff row_at_def image_iff distinct_map intro: inj_on_subset)
  have "inj_on (ord_position T) (set ?cs)"
  proof (rule inj_onI)
    fix r s assume r: "r \<in> set ?cs" and s: "s \<in> set ?cs" and eq: "ord_position T r = ord_position T s"
    then have "ord_id T r = ord_id T s" using at [OF r] at [OF s] by auto
    with dist r s show "r = s" by (auto simp: distinct_map dest: inj_onD)
  qed
  then have "distinct (map (ord_position T) ?ss)" using dist by (simp add: distinct_map)
  moreover have "ord_position T ` set ?cs = int ` {0..<length ids}"
  proof
    show "ord_position T ` set ?cs \<subseteq> int ` {0..<length ids}" using at by fastforce
    show "int ` {0..<length ids} \<subseteq> ord_position T ` set ?cs"
    proof
      fix p assume "p \<in> int ` {0..<length ids}"
      then obtain j where j: "j < length ids" "p = int j" by auto
      with ids_cs obtain s where s: "s \<in> set ?cs" "ord_id T s = ids ! j"
        by (metis (no_types, lifting) image_iff list.set_map nth_mem)
      with at [OF s(1)] j ids have "ord_position T s = p" by (auto simp: nth_eq_iff_index_eq)
      with s(1) show "p \<in> ord_position T ` set ?cs" by (metis image_eqI)
    qed
  qed
  ultimately have pos: "map (ord_position T) ?ss = map int [0..<length ids]"
    by (intro sorted_distinct_set_unique [OF sorted_sort_key]) (auto simp: distinct_map sorted_map)
  have "map (ord_id T) ?ss = map (\<lambda>s. ids ! nat (ord_position T s)) ?ss"
  proof (rule map_cong [OF refl])
    fix s assume "s \<in> set ?ss"
    then have "s \<in> set ?cs" by simp
    from at [OF this] show "ord_id T s = ids ! nat (ord_position T s)" by auto
  qed
  also have "\<dots> = map (\<lambda>p. ids ! nat p) (map (ord_position T) ?ss)" by simp
  also have "\<dots> = ids" unfolding pos by (simp add: comp_def map_nth)
  finally show ?thesis by (simp add: children_def)
qed

text \<open>A reordering does what was asked, or it leaves the tables as they were.\<close>

lemma reorder_orders:
  assumes "quiet w" and "orderable T parent ids w"
  obtains w' where "reorder_positions T parent ids w = (Inr (), w')"
    and "map (ord_id T) (children T parent w') = ids"
proof -
  have "ids = map (ord_id T) (children T parent (placing parent f w))
      \<and> reorder_positions T parent ids w = (Inr (), placing parent f w)"
    if f: "slots ids (length ids) (length ids) f" "reorder_positions T parent ids w = (Inr (), placing parent f w)" for f
    using assms(2) f(2) children_placed [OF f(1), where w = w and parent = parent]
    by (auto simp: orderable_def children_def list_ex_iff row_at_def)
  moreover have "\<exists>f. slots ids (length ids) (length ids) f
      \<and> reorder_positions T parent ids w = (Inr (), placing parent f w)"
    using assms by (intro reorder_places) (auto simp: orderable_def children_def list_ex_iff row_at_def)
  ultimately show thesis using that by metis
qed

end

text \<open>In Go's order of work: the guard, then the transaction.\<close>

lemma reorder_fails:
  assumes "reorder_positions T parent ids w = (Inl e, w')"
  shows "w' = rollback_to w w'"
proof (cases "ids = []")
  case True
  with assms show ?thesis by (auto simp: reorder_positions_def guard_def andThen_def raise_def rollback_to_def)
next
  case False
  with assms show ?thesis
    unfolding reorder_positions_def by (intro in_tx_fails) (simp add: guard_def andThen_def ret_def)
qed

end
