(* ===== verification/CurriculumRules.thy ===== *)
theory CurriculumRules
  imports Completion Ordering
begin

text \<open>
  What holds of the requests on a curriculum: what a learner sees of it, who changes it, and what a
  reordering of modules, lessons or blocks leaves behind.
\<close>

section \<open>What a learner sees\<close>

lemma has_active_enrollment_reads [moves]: "changes read_only (has_active_enrollment c u)"
  by (auto simp: has_active_enrollment_def intro!: moves split: option.split)

lemma wp_has_active:
  "wpre (has_active_enrollment c u) (\<lambda>b _. b \<longrightarrow> enrolled_active w u c) (\<lambda>_ _. True) (w\<lparr>faults := f\<rparr>)"
  by (auto simp: has_active_enrollment_def enrollments_get_by_course_user_def enrolled_active_def wp pop_def
      split: option.split)

definition open_lesson :: "bool \<Rightarrow> lesson_node \<Rightarrow> bool" where
  "open_lesson blocks n \<longleftrightarrow> le_status (fst n) = LessonPublished \<and> (snd n \<noteq> [] \<longrightarrow> blocks)"

lemma wp_module_node:
  "wpre (module_node False b m) (\<lambda>n _. list_all (open_lesson b) (snd n)) (\<lambda>_ _. True) s"
proof -
  have nodes: "wpre (lesson_nodes False b ls) (\<lambda>ns _. list_all (open_lesson b) ns) (\<lambda>_ _. True) t" for ls t
    unfolding lesson_nodes_def
    by (rule wp_map_each_all) (auto simp: blocks_list_by_lesson_def wp open_lesson_def)
  show ?thesis
    unfolding module_node_def
  proof (rule wp_any)
    fix ls t
    show "wpre (andThen (lesson_nodes False b ls) (\<lambda>ns. ret (m, ns)))
        (\<lambda>n _. list_all (open_lesson b) (snd n)) (\<lambda>_ _. True) t"
      unfolding wp_andThen wp_ret by (simp add: nodes)
  qed
qed

lemma tree_for_learners:
  assumes "get_tree c actor False w = (Inr nodes, w')" and "live_course w c = Some course"
    and "actor \<noteq> '''' \<longrightarrow> co_teacher_id course \<noteq> actor"
  shows "co_status course = CoursePublished"
    and "list_all (\<lambda>n. list_all (open_lesson (enrolled_active w actor c)) (snd n)) nodes"
proof -
  have weaken: "open_lesson b n \<Longrightarrow> (b \<longrightarrow> b') \<Longrightarrow> open_lesson b' n" for b b' n
    by (auto simp: open_lesson_def)
  have nodes: "wpre (andThen (modules_list_by_course c) (\<lambda>ms. map_each ms (module_node False b)))
      (\<lambda>ns _. list_all (\<lambda>n. list_all (open_lesson (enrolled_active w actor c)) (snd n)) ns) (\<lambda>_ _. True) s"
    if "b \<longrightarrow> enrolled_active w actor c" for b s
    by (intro wp_any wp_map_each_all wp_mono [OF wp_module_node]) (auto simp: list_all_iff intro: weaken that)
  have "wpre (get_tree c actor False) (\<lambda>ns _. co_status course = CoursePublished
      \<and> list_all (\<lambda>n. list_all (open_lesson (enrolled_active w actor c)) (snd n)) ns) (\<lambda>_ _. True) w"
    unfolding get_tree_def
  proof (rule wp_course_start)
    fix course' f assume "live_course w c = Some course'"
    with assms(2,3) have c: "course' = course" "(False \<or> actor \<noteq> '''' \<and> co_teacher_id course' = actor) = False" by auto
    show "wpre (let author = False \<or> (actor \<noteq> '''' \<and> co_teacher_id course' = actor)
       in andThen (guard (\<not> (co_status course' \<noteq> CoursePublished \<and> \<not> author)) (not_found ''course not found'')) (\<lambda>_.
          andThen (if author then ret True else has_active_enrollment c actor) (\<lambda>blocks.
          andThen (modules_list_by_course c) (\<lambda>ms. map_each ms (module_node author blocks)))))
       (\<lambda>ns _. co_status course = CoursePublished
          \<and> list_all (\<lambda>n. list_all (open_lesson (enrolled_active w actor c)) (snd n)) ns) (\<lambda>_ _. True) (w\<lparr>faults := f\<rparr>)"
    proof (cases "co_status course = CoursePublished")
      case True
      then show ?thesis
        unfolding c(2) Let_def if_False wp_guard_then wp_andThen [of "has_active_enrollment c actor"]
        by (simp add: c(1)) (rule wp_mono [OF wp_has_active], simp_all add: nodes)
    qed (unfold c(2) Let_def wp_guard_then, simp add: c(1))
  qed simp
  with assms(1) show "co_status course = CoursePublished"
    "list_all (\<lambda>n. list_all (open_lesson (enrolled_active w actor c)) (snd n)) nodes"
    by (auto simp: wpre_def)
qed

section \<open>Who may edit\<close>

definition teaches_some :: "world \<Rightarrow> uuid \<Rightarrow> bool" where
  "teaches_some w u \<longleftrightarrow> list_ex (\<lambda>r. course_live r \<and> co_teacher_id r = u) (courses w)"

text \<open>Any request to edit a curriculum by \<open>actor\<close>, who is no administrator.\<close>

inductive curriculum_edit :: "unicode \<Rightarrow> uuid \<Rightarrow> world \<Rightarrow> world \<Rightarrow> bool" for uc actor where
  edit_create_module: "curriculum_edit uc actor w (snd (create_module actor c title False w))"
| edit_update_module: "curriculum_edit uc actor w (snd (update_module actor m title False w))"
| edit_delete_module: "curriculum_edit uc actor w (snd (delete_module actor m False w))"
| edit_reorder_modules: "curriculum_edit uc actor w (snd (reorder_modules actor c ids False w))"
| edit_create_lesson:
    "curriculum_edit uc actor w (snd (create_lesson uc actor m title slug summary minutes prereq False w))"
| edit_update_lesson: "curriculum_edit uc actor w (snd (update_lesson actor l title summary minutes prereq False w))"
| edit_publish_lesson: "curriculum_edit uc actor w (snd (publish_lesson actor l False w))"
| edit_unpublish_lesson: "curriculum_edit uc actor w (snd (unpublish_lesson actor l False w))"
| edit_delete_lesson: "curriculum_edit uc actor w (snd (delete_lesson actor l False w))"
| edit_reorder_lessons: "curriculum_edit uc actor w (snd (reorder_lessons actor m ids False w))"
| edit_create_block: "curriculum_edit uc actor w (snd (create_block actor l type title body url quiz False w))"
| edit_update_block: "curriculum_edit uc actor w (snd (update_block actor b type title body url quiz False w))"
| edit_delete_block: "curriculum_edit uc actor w (snd (delete_block actor b False w))"
| edit_reorder_blocks: "curriculum_edit uc actor w (snd (reorder_blocks actor l ids False w))"

lemma live_teacher: "live_course w c = Some course \<Longrightarrow> co_teacher_id course = u \<Longrightarrow> teaches_some w u"
  by (auto simp: live_course_def teaches_some_def list_ex_iff dest!: find_SomeD)

lemma wp_edit_denied:
  assumes "\<not> teaches_some w actor" and "\<And>e f. E e (w\<lparr>faults := f\<rparr>)"
  shows "wpre (andThen (curriculum_write actor c False) g) Q E (w\<lparr>faults := h\<rparr>)"
  unfolding curriculum_write_def wp_andThen [of _ g]
  by (rule wp_course) (use assms live_teacher [of w] in \<open>auto simp: wp_guard\<close>)

lemma wp_edit_denied_start:
  assumes "\<not> teaches_some w actor" and "\<And>e f. E e (w\<lparr>faults := f\<rparr>)"
  shows "wpre (andThen (curriculum_write actor c False) g) Q E w"
  using wp_edit_denied [of w actor E c g Q "faults w"] assms by simp

lemma curriculum_reads [moves]:
  "changes read_only (modules_get_by_id m)" "changes read_only (blocks_get_by_id b)"
  by (simp_all add: modules_get_by_id_def blocks_get_by_id_def read_only_fetch)

lemma edits_denied:
  assumes "\<not> teaches_some w actor"
  shows "wpre (create_module actor c title False) (\<lambda>_ _. False) (\<lambda>_. read_only w) w"
    "wpre (update_module actor m title False) (\<lambda>_ _. False) (\<lambda>_. read_only w) w"
    "wpre (delete_module actor m False) (\<lambda>_ _. False) (\<lambda>_. read_only w) w"
    "wpre (reorder_modules actor c ids False) (\<lambda>_ _. False) (\<lambda>_. read_only w) w"
    "wpre (create_lesson uc actor m title slug summary minutes prereq False) (\<lambda>_ _. False) (\<lambda>_. read_only w) w"
    "wpre (update_lesson actor l title summary minutes prereq False) (\<lambda>_ _. False) (\<lambda>_. read_only w) w"
    "wpre (set_lesson_status st actor l False) (\<lambda>_ _. False) (\<lambda>_. read_only w) w"
    "wpre (delete_lesson actor l False) (\<lambda>_ _. False) (\<lambda>_. read_only w) w"
    "wpre (reorder_lessons actor m ids False) (\<lambda>_ _. False) (\<lambda>_. read_only w) w"
    "wpre (create_block actor l type title body url quiz False) (\<lambda>_ _. False) (\<lambda>_. read_only w) w"
    "wpre (update_block actor b type title body url quiz False) (\<lambda>_ _. False) (\<lambda>_. read_only w) w"
    "wpre (delete_block actor b False) (\<lambda>_ _. False) (\<lambda>_. read_only w) w"
    "wpre (reorder_blocks actor l ids False) (\<lambda>_ _. False) (\<lambda>_. read_only w) w"
  unfolding create_module_def update_module_def delete_module_def reorder_modules_def create_lesson_def
    update_lesson_def set_lesson_status_def delete_lesson_def reorder_lessons_def create_block_def
    update_block_def delete_block_def reorder_blocks_def
  by (auto intro!: wp_edit_denied_start wp_edit_denied wp_read_start wp_read_then curriculum_reads progress_checks_read assms)

lemma outsider_edits:
  assumes "curriculum_edit uc actor w v" and "\<not> teaches_some w actor"
  shows "read_only w v"
  using assms(1)
  by cases (simp_all add: publish_lesson_def unpublish_lesson_def edits_denied [OF assms(2), THEN wp_refused(2)])

section \<open>Reordering lessons\<close>

lemma wp_edit_allowed:
  assumes "quiet w" and "live_course w c = Some course" and "admin \<or> co_teacher_id course = actor"
  shows "andThen (curriculum_write actor c admin) g w = g () w"
  using assms by (auto simp: curriculum_write_def andThen_def courses_get_by_id_eq fetch_row_def ret_def guard_def)

lemma lessons_reordered_run:
  assumes "quiet w" and "find (\<lambda>r. mo_id r = m) (course_modules w) = Some md"
    and "live_course w (mo_course_id md) = Some course" and "admin \<or> co_teacher_id course = actor"
  shows "reorder_lessons actor m ids admin w = reorder_positions lessons_table m ids w"
proof -
  have "modules_get_by_id m w = (Inr md, w)" using assms(1,2) by (simp add: modules_get_by_id_def fetch_row_def)
  then show ?thesis
    unfolding reorder_lessons_def andThen_def [of "modules_get_by_id m"]
    by (simp add: wp_edit_allowed [OF assms(1,3,4)] lessons_reorder_def)
qed


lemma curriculum_write_reads [moves]: "changes read_only (curriculum_write actor c admin)"
  by (auto simp: curriculum_write_def intro!: moves)

lemma rollback_faults [simp]:
  "rollback_to (w\<lparr>faults := f\<rparr>) v = rollback_to w v" "rollback_to w (w\<lparr>faults := f\<rparr>) = w\<lparr>faults := f\<rparr>"
  by (simp_all add: rollback_to_def)

lemma lessons_reorder_fails:
  assumes "reorder_lessons actor m ids admin w = (Inl e, w')"
  shows "w' = rollback_to w w'"
proof -
  have "wpre (lessons_reorder m ids) (\<lambda>_ _. True) (\<lambda>_ v. v = rollback_to w v) (w\<lparr>faults := f\<rparr>)" for f
    using reorder_fails [of lessons_table m ids "w\<lparr>faults := f\<rparr>"]
    by (auto simp: wpre_def lessons_reorder_def split: prod.split sum.split)
  then have "wpre (reorder_lessons actor m ids admin) (\<lambda>_ _. True) (\<lambda>_ v. v = rollback_to w v) w"
    unfolding reorder_lessons_def
    by (intro wp_read_start [OF curriculum_reads(1)] wp_read_then [OF curriculum_write_reads]) simp_all
  with assms show ?thesis by (auto dest: wp_Inl)
qed

end
