(* ===== verification/Classroom.thy ===== *)
theory Classroom
  imports Samples CurriculumRules
begin

text \<open>The sample school with a curriculum: a module of three lessons, the second one with a
  prerequisite, the third one a draft, and a learner halfway through the first.\<close>

definition sample_lesson :: "uuid \<Rightarrow> lesson_status \<Rightarrow> int \<Rightarrow> uuid option \<Rightarrow> lesson" where
  "sample_lesson i st pos pre = \<lparr>le_id = i, le_module_id = ''m1'', le_title = i, le_slug = i, le_summary = '''',
     le_status = st, le_position = pos, le_prerequisite = pre, le_minutes = 5, le_created_at = 1,
     le_updated_at = 1\<rparr>"

definition sample_progress :: lesson_progress where
  "sample_progress = (new_lesson_progress ''abebe'' ''free'' ''l1'')
     \<lparr>lp_id := ''p1'', lp_percent := 50, lp_created_at := 2, lp_updated_at := 2\<rparr>"

definition classroom :: world where
  "classroom = school\<lparr>
     course_modules := [\<lparr>mo_id = ''m1'', mo_course_id = ''free'', mo_title = ''one'', mo_position = 0,
       mo_created_at = 1, mo_updated_at = 1\<rparr>],
     world.lessons := [sample_lesson ''l1'' LessonPublished 0 None,
       sample_lesson ''l2'' LessonPublished 1 (Some ''l1''), sample_lesson ''l3'' LessonDraft 2 None],
     content_blocks := [\<lparr>cb_id = ''b1'', cb_lesson_id = ''l1'', cb_type = ''text'', cb_title = '''',
       cb_body = ''selam'', cb_media_url = '''', cb_quiz_ref = None, cb_position = 0, cb_created_at = 1,
       cb_updated_at = 1\<rparr>],
     lesson_progresses := [sample_progress]\<rparr>"

lemmas classroom_defs = classroom_def sample_lesson_def sample_progress_def new_lesson_progress_def sample_defs

definition half_done :: progress_input where
  "half_done = \<lparr>pi_percent = Some 40, pi_last_position = Some ''page 3'', pi_completed = None\<rparr>"

definition all_done :: progress_input where
  "all_done = \<lparr>pi_percent = None, pi_last_position = None, pi_completed = Some True\<rparr>"

lemma classroom_quiet: "quiet classroom"
  by (simp add: classroom_def school_def)

lemma classroom_progress: "progress_ok classroom"
  by (simp add: progress_ok_def lesson_rows_ok_def course_rows_ok_def lesson_row_ok_def percent_ok_def classroom_defs)

lemma classroom_lessons: "distinct (map le_id (lessons classroom))"
  by (simp add: classroom_defs)

lemma one_progress: "progress_request w w' \<Longrightarrow> rtranclp progress_request w w'"
  by (rule r_into_rtranclp)

text \<open>Both lessons finished, and the teacher's edit that closes a cycle.\<close>

definition finished_classroom :: world where
  "finished_classroom = snd (upsert_lesson_progress ''abebe'' ''l1'' all_done classroom)"

lemma finished_last:
  "\<exists>saved cp w'. upsert_lesson_progress ''abebe'' ''l2'' all_done finished_classroom = (Inr (saved, cp), w')"
proof -
  have "isl (fst (upsert_lesson_progress ''abebe'' ''l2'' all_done finished_classroom)) = False"
    unfolding finished_classroom_def by code_simp
  then show ?thesis by (metis isl_def prod.collapse sum.exhaust_sel)
qed

definition cyclic_classroom :: world where
  "cyclic_classroom = snd (update_lesson ''teacher'' ''l1'' ''l1'' '''' 5 (Some ''l2'') False classroom)"

lemma cyclic_locked:
  "locked ''abebe'' ''l1'' ''l2'' cyclic_classroom = True"
  unfolding cyclic_classroom_def by code_simp

lemma classroom_tree:
  "\<exists>nodes w'. get_tree ''free'' ''sara'' False classroom = (Inr nodes, w')"
proof -
  have "isl (fst (get_tree ''free'' ''sara'' False classroom)) = False" by code_simp
  then show ?thesis by (metis isl_def prod.collapse sum.exhaust_sel)
qed

lemma classroom_free: "live_course classroom ''free'' = Some (scan_course classroom (sample_course ''free'' 0 (Some 1)))"
  by (simp add: live_course_def course_live_def classroom_defs)

lemma classroom_orderable: "orderable lessons_table ''m1'' [''l3'', ''l1'', ''l2''] classroom"
  by (auto simp: orderable_def children_def lessons_table_def classroom_defs)

lemma classroom_bad_reorder:
  "\<exists>e w'. reorder_lessons ''teacher'' ''m1'' [''l3'', ''l9''] False classroom = (Inl e, w')"
proof -
  have "isl (fst (reorder_lessons ''teacher'' ''m1'' [''l3'', ''l9''] False classroom)) = True" by code_simp
  then show ?thesis by (metis isl_def prod.collapse sum.exhaust_sel)
qed

end
