(* ===== verification/Rbac.thy ===== *)
theory Rbac
  imports Apperr
begin

text \<open>
  Platform roles and their permissions (\<open>internal/rbac/rbac.go\<close>) with the middleware that checks
  them (\<open>internal/middleware/rbac.go\<close>). A role code is a Go string, so any text may arrive in a
  token; the table knows four of them.
\<close>

datatype permission =
    PermProfileRead | PermProfileWrite | PermUsersRead | PermUsersManage | PermRolesRead
  | PermCoursesRead | PermCoursesWrite | PermCoursesManage | PermOrgsCreate | PermOrgsRead

text \<open>The order in which \<open>PermissionsFor\<close> lists them.\<close>

definition perm_order :: "permission list" where
  "perm_order = [PermProfileRead, PermProfileWrite, PermUsersRead, PermUsersManage, PermRolesRead,
     PermCoursesRead, PermCoursesWrite, PermCoursesManage, PermOrgsCreate, PermOrgsRead]"

primrec perm_rank :: "permission \<Rightarrow> nat" where
  "perm_rank PermProfileRead = 0"
| "perm_rank PermProfileWrite = 1"
| "perm_rank PermUsersRead = 2"
| "perm_rank PermUsersManage = 3"
| "perm_rank PermRolesRead = 4"
| "perm_rank PermCoursesRead = 5"
| "perm_rank PermCoursesWrite = 6"
| "perm_rank PermCoursesManage = 7"
| "perm_rank PermOrgsCreate = 8"
| "perm_rank PermOrgsRead = 9"

lemma perm_rank_inject [simp]: "perm_rank p = perm_rank q \<longleftrightarrow> p = q"
  by (cases p; cases q) simp_all

instantiation permission :: linorder
begin

definition less_eq_permission :: "permission \<Rightarrow> permission \<Rightarrow> bool" where
  "p \<le> q \<longleftrightarrow> perm_rank p \<le> perm_rank q"

definition less_permission :: "permission \<Rightarrow> permission \<Rightarrow> bool" where
  "p < q \<longleftrightarrow> perm_rank p < perm_rank q"

instance
  by standard (auto simp: less_eq_permission_def less_permission_def)

end

abbreviation role_student :: string where "role_student \<equiv> ''student''"
abbreviation role_teacher :: string where "role_teacher \<equiv> ''teacher''"
abbreviation role_admin :: string where "role_admin \<equiv> ''admin''"
abbreviation role_parent :: string where "role_parent \<equiv> ''parent''"

text \<open>\<open>rolePermissions\<close>: the permissions of a role, or nothing for a text that is no role.\<close>

definition role_permissions :: "string \<Rightarrow> permission list option" where
  "role_permissions role =
     (if role = role_student then
        Some [PermProfileRead, PermProfileWrite, PermRolesRead, PermCoursesRead, PermOrgsCreate,
              PermOrgsRead]
      else if role = role_teacher then
        Some [PermProfileRead, PermProfileWrite, PermRolesRead, PermCoursesRead, PermCoursesWrite,
              PermOrgsCreate, PermOrgsRead]
      else if role = role_parent then
        Some [PermProfileRead, PermProfileWrite, PermRolesRead, PermCoursesRead, PermOrgsCreate,
              PermOrgsRead]
      else if role = role_admin then
        Some [PermProfileRead, PermProfileWrite, PermUsersRead, PermUsersManage, PermRolesRead,
              PermCoursesRead, PermCoursesWrite, PermCoursesManage, PermOrgsCreate, PermOrgsRead]
      else None)"

definition has_permission :: "string \<Rightarrow> permission \<Rightarrow> bool" where
  "has_permission role p = (case role_permissions role of None \<Rightarrow> False | Some ps \<Rightarrow> p \<in> set ps)"

fun has_any_role :: "string \<Rightarrow> string list \<Rightarrow> bool" where
  "has_any_role role [] = False"
| "has_any_role role (a # as) = (if role = a then True else has_any_role role as)"

text \<open>
  \<open>PermissionsFor\<close>: the permissions of the role in the fixed order, then those the order does not
  list. \<open>out\<close> is the role's set in the (arbitrary) iteration order of a Go map: an argument here.
\<close>

definition permissions_for :: "permission list \<Rightarrow> string \<Rightarrow> permission list" where
  "permissions_for out role =
     (let perms = (case role_permissions role of None \<Rightarrow> [] | Some ps \<Rightarrow> ps);
          sorted_ps = filter (\<lambda>p. p \<in> set perms) perm_order
      in sorted_ps @ filter (\<lambda>p. p \<notin> set sorted_ps) out)"

lemma perm_order_complete: "p \<in> set perm_order"
  by (cases p) (simp_all add: perm_order_def)

lemma perm_order_sorted: "sorted perm_order \<and> distinct perm_order"
  by (simp add: perm_order_def less_eq_permission_def)

lemma has_any_role_iff [simp]: "has_any_role role allowed \<longleftrightarrow> role \<in> set allowed"
  by (induction allowed) auto

text \<open>The permissions of a role do not depend on the iteration order of the map.\<close>

lemma permissions_for_spec:
  assumes "role_permissions role = Some ps" "set out = set ps"
  shows "sorted (permissions_for out role) \<and> distinct (permissions_for out role)
    \<and> set (permissions_for out role) = {p. has_permission role p}"
proof -
  have "filter (\<lambda>p. p \<notin> set (filter (\<lambda>p. p \<in> set ps) perm_order)) out = []"
    using assms(2) perm_order_complete by (auto simp: filter_empty_conv)
  then have "permissions_for out role = filter (\<lambda>p. p \<in> set ps) perm_order"
    using assms(1) by (simp add: permissions_for_def Let_def)
  then show ?thesis
    using assms(1) perm_order_sorted perm_order_complete by (auto simp: has_permission_def intro: sorted_wrt_filter)
qed

end
