(* ===== verification/UserRepo.thy ===== *)
theory UserRepo
  imports CourseRepo
begin

text \<open>
  Accounts: \<open>RoleRepository\<close> (\<open>internal/repository/postgres/role.go\<close>), \<open>UserRepository\<close>
  (\<open>user.go\<close>) and the repositories of refresh, password-reset and email-verification tokens
  (\<open>auth_tokens.go\<close>). One definition per method; the methods the two kinds of one-time token share are
  defined once over the place of their table.
\<close>

section \<open>Roles\<close>

definition roles_list :: "role list act" where
  "roles_list = fetch_val (\<lambda>w. sort_key ro_code (roles w)) ''list roles''"

definition roles_get_by_code :: "string \<Rightarrow> role act" where
  "roles_get_by_code c = fetch_row (\<lambda>w. find (\<lambda>r. ro_code r = c) (roles w))
     ''role not found'' ''get role by code''"

section \<open>Users\<close>

definition user_live :: "user \<Rightarrow> bool" where
  "user_live r \<longleftrightarrow> us_deleted_at r = None"

definition live_user :: "world \<Rightarrow> uuid \<Rightarrow> user option" where
  "live_user w u = find (\<lambda>r. us_id r = u \<and> user_live r) (users w)"

definition ref_user :: "world \<Rightarrow> uuid option \<Rightarrow> bool" where
  "ref_user w u \<longleftrightarrow> (case u of None \<Rightarrow> True | Some i \<Rightarrow> has_user w i)"

text \<open>\<open>JOIN roles r ON r.id = u.role_id\<close> and \<open>scanUser\<close>.\<close>

definition scan_user :: "world \<Rightarrow> user \<Rightarrow> user option" where
  "scan_user w u = map_option (\<lambda>r. u\<lparr>us_role_code := ro_code r\<rparr>) (find (\<lambda>r. ro_id r = us_role_id u) (roles w))"

definition has_role :: "world \<Rightarrow> uuid \<Rightarrow> bool" where
  "has_role w i \<longleftrightarrow> i \<in> set (map ro_id (roles w))"

definition email_is :: "string \<Rightarrow> user \<Rightarrow> bool" where
  "email_is e r \<longleftrightarrow> user_live r \<and> to_lower (us_email r) = to_lower e"

definition users_create :: "string \<Rightarrow> string \<Rightarrow> string \<Rightarrow> role \<Rightarrow> user act" where
  "users_create email pw name r = insert_row
     (\<lambda>w. violation True (sql_nonblank (to_lower (trim_space email)))
            (\<not> list_ex (email_is (to_lower (trim_space email))) (users w) \<and> pk_free (map us_id (users w)) w)
            (has_role w (ro_id r)))
     (\<lambda>w. \<lparr>us_id = fresh_uuid w, us_email = email, us_password_hash = pw, us_full_name = name,
            us_bio = '''', us_avatar_url = '''', us_phone = '''', us_locale = ''en'', us_timezone = ''UTC'',
            us_role_id = ro_id r, us_role_code = ro_code r, us_email_verified_at = None, us_is_active = True,
            us_created_at = clock w, us_updated_at = clock w, us_deleted_at = None\<rparr>)
     (\<lambda>u w. w\<lparr>users := users w @ [u\<lparr>us_email := to_lower (trim_space (us_email u)), us_role_code := ''''\<rparr>]\<rparr>)
     (insert_err ''email already registered'' ''create user'')"

definition users_get_by_email :: "string \<Rightarrow> user act" where
  "users_get_by_email e = fetch_row
     (\<lambda>w. case find (email_is (trim_space e)) (users w) of None \<Rightarrow> None | Some u \<Rightarrow> scan_user w u)
     ''user not found'' ''get user by email''"

definition users_get_by_id :: "uuid \<Rightarrow> user act" where
  "users_get_by_id i = fetch_row
     (\<lambda>w. case live_user w i of None \<Rightarrow> None | Some u \<Rightarrow> scan_user w u)
     ''user not found'' ''get user by id''"

definition user_rows :: "uuid \<Rightarrow> world \<Rightarrow> nat" where
  "user_rows i w = cnt (\<lambda>r. us_id r = i \<and> user_live r) (users w)"

definition user_set :: "uuid \<Rightarrow> (user \<Rightarrow> user) \<Rightarrow> world \<Rightarrow> world" where
  "user_set i f w = w\<lparr>users := upd_where (\<lambda>r. us_id r = i \<and> user_live r)
     (\<lambda>r. (f r)\<lparr>us_updated_at := clock w\<rparr>) (users w)\<rparr>"

definition users_mark_email_verified :: "uuid \<Rightarrow> time \<Rightarrow> unit act" where
  "users_mark_email_verified i at = exec_rows (user_rows i)
     (user_set i (\<lambda>r. r\<lparr>us_email_verified_at := Some at\<rparr>)) ''user not found'' ''mark email verified''"

definition users_update_password_hash :: "uuid \<Rightarrow> string \<Rightarrow> unit act" where
  "users_update_password_hash i h = exec_rows (user_rows i)
     (user_set i (\<lambda>r. r\<lparr>us_password_hash := h\<rparr>)) ''user not found'' ''update password''"

record profile_patch =
  pp_full_name :: "string option"
  pp_bio :: "string option"
  pp_phone :: "string option"
  pp_locale :: "string option"
  pp_timezone :: "string option"

text \<open>A patched text: trimmed, and a default for the empty one where the column has a default.\<close>

definition patched :: "string option \<Rightarrow> string \<Rightarrow> string" where
  "patched p cur = (case p of None \<Rightarrow> cur | Some t \<Rightarrow> trim_space t)"

definition patched_or :: "string \<Rightarrow> string option \<Rightarrow> string \<Rightarrow> string" where
  "patched_or dflt p cur = (case p of None \<Rightarrow> cur
     | Some t \<Rightarrow> if trim_space t = '''' then dflt else trim_space t)"

definition users_update_profile :: "uuid \<Rightarrow> profile_patch \<Rightarrow> user act" where
  "users_update_profile i p =
     andThen (users_get_by_id i) (\<lambda>cur.
     andThen (exec_rows (user_rows i)
       (user_set i (\<lambda>r. r\<lparr>us_full_name := patched (pp_full_name p) (us_full_name cur),
          us_bio := patched (pp_bio p) (us_bio cur), us_phone := patched (pp_phone p) (us_phone cur),
          us_locale := patched_or ''en'' (pp_locale p) (us_locale cur),
          us_timezone := patched_or ''UTC'' (pp_timezone p) (us_timezone cur)\<rparr>))
       ''user not found'' ''update profile'') (\<lambda>_.
     users_get_by_id i))"

definition users_update_avatar_url :: "uuid \<Rightarrow> string \<Rightarrow> user act" where
  "users_update_avatar_url i url =
     andThen (exec_rows (user_rows i) (user_set i (\<lambda>r. r\<lparr>us_avatar_url := trim_space url\<rparr>))
       ''user not found'' ''update avatar'') (\<lambda>_.
     users_get_by_id i)"

text \<open>\<open>ILIKE\<close>: \<open>%\<close> is any text, \<open>_\<close> any one character, a backslash takes the next one literally.\<close>

fun tails :: "'a list \<Rightarrow> 'a list list" where
  "tails [] = [[]]"
| "tails (x # xs) = (x # xs) # tails xs"

fun ilike :: "string \<Rightarrow> string \<Rightarrow> bool" where
  "ilike [] s \<longleftrightarrow> s = []"
| "ilike (p # ps) s \<longleftrightarrow>
     (if p = CHR ''%'' then list_ex (ilike ps) (tails s)
      else (case s of [] \<Rightarrow> False
        | c # cs \<Rightarrow>
            if p = CHR ''_'' then ilike ps cs
            else if p = CHR 0x5C then (case ps of [] \<Rightarrow> False
              | q # qs \<Rightarrow> lower_char q = lower_char c \<and> ilike qs cs)
            else lower_char p = lower_char c \<and> ilike ps cs))"

record user_filter =
  uf_role :: string
  uf_query :: string
  uf_page :: int
  uf_per_page :: int

definition user_matches :: "world \<Rightarrow> user_filter \<Rightarrow> user \<Rightarrow> bool" where
  "user_matches w f u \<longleftrightarrow> user_live u \<and> scan_user w u \<noteq> None
     \<and> (uf_role f = '''' \<or> map_option us_role_code (scan_user w u) = Some (uf_role f))
     \<and> (let q = trim_space (uf_query f)
        in q = '''' \<or> ilike (''%'' @ q @ ''%'') (us_email u) \<or> ilike (''%'' @ q @ ''%'') (us_full_name u))"

definition users_list :: "user_filter \<Rightarrow> (user list \<times> nat) act" where
  "users_list f =
     andThen (fetch_val (\<lambda>w. cnt (user_matches w f) (users w)) ''count users'') (\<lambda>n.
     andThen (fetch_val (\<lambda>w. List.map_filter (scan_user w)
         (page_of (norm_page (uf_page f)) (norm_per_page (uf_per_page f))
           (order_desc us_created_at (filter (user_matches w f) (users w)))))
         ''list users'') (\<lambda>rows.
     ret (rows, n)))"

record admin_patch =
  ap_full_name :: "string option"
  ap_role_code :: "string option"
  ap_is_active :: "bool option"

definition users_admin_update :: "uuid \<Rightarrow> admin_patch \<Rightarrow> uuid option \<Rightarrow> user act" where
  "users_admin_update i p rid =
     andThen (users_get_by_id i) (\<lambda>cur.
     let r = (case rid of None \<Rightarrow> us_role_id cur | Some k \<Rightarrow> k)
     in andThen (exec_check (user_rows i) (\<lambda>w. violation True True True (has_role w r))
          (user_set i (\<lambda>u. u\<lparr>us_full_name := patched (ap_full_name p) (us_full_name cur),
             us_is_active := (case ap_is_active p of None \<Rightarrow> us_is_active cur | Some b \<Rightarrow> b),
             us_role_id := r\<rparr>))
          ''user not found'' ''admin update user'') (\<lambda>_.
        users_get_by_id i))"

definition users_soft_delete :: "uuid \<Rightarrow> time \<Rightarrow> unit act" where
  "users_soft_delete i at = exec_rows (user_rows i)
     (user_set i (\<lambda>r. r\<lparr>us_deleted_at := Some at, us_is_active := False\<rparr>))
     ''user not found'' ''soft delete user''"

section \<open>Refresh tokens\<close>

definition refresh_create :: "uuid \<Rightarrow> string \<Rightarrow> time \<Rightarrow> refresh_token act" where
  "refresh_create u h expires = insert_row
     (\<lambda>w. violation True True
            (h \<notin> set (map rt_hash (refresh_tokens w)) \<and> pk_free (map rt_id (refresh_tokens w)) w)
            (has_user w u))
     (\<lambda>w. \<lparr>rt_id = fresh_uuid w, rt_user_id = u, rt_hash = h, rt_expires_at = expires,
            rt_revoked_at = None, rt_created_at = clock w\<rparr>)
     (\<lambda>r w. w\<lparr>refresh_tokens := refresh_tokens w @ [r]\<rparr>)
     (\<lambda>st. WrapError ''create refresh token'' (DriverError st))"

definition refresh_get_by_hash :: "string \<Rightarrow> refresh_token act" where
  "refresh_get_by_hash h = fetch_or (\<lambda>w. find (\<lambda>r. rt_hash r = h) (refresh_tokens w))
     (unauthorized ''invalid refresh token'') ''get refresh token''"

definition standing :: "(refresh_token \<Rightarrow> bool) \<Rightarrow> refresh_token \<Rightarrow> bool" where
  "standing p r \<longleftrightarrow> p r \<and> rt_revoked_at r = None"

definition revoke_where :: "(refresh_token \<Rightarrow> bool) \<Rightarrow> time \<Rightarrow> world \<Rightarrow> world" where
  "revoke_where p at w = w\<lparr>refresh_tokens := upd_where (standing p)
     (\<lambda>r. r\<lparr>rt_revoked_at := Some at\<rparr>) (refresh_tokens w)\<rparr>"

definition refresh_revoke :: "string \<Rightarrow> time \<Rightarrow> unit act" where
  "refresh_revoke h at =
     andThen (exec_count (\<lambda>w. cnt (standing (\<lambda>r. rt_hash r = h)) (refresh_tokens w)) (\<lambda>w. None)
       (revoke_where (\<lambda>r. rt_hash r = h) at) ''revoke refresh token'') (\<lambda>_. ret ())"

definition refresh_revoke_all_for_user :: "uuid \<Rightarrow> time \<Rightarrow> unit act" where
  "refresh_revoke_all_for_user u at =
     andThen (exec_count (\<lambda>w. cnt (standing (\<lambda>r. rt_user_id r = u)) (refresh_tokens w)) (\<lambda>w. None)
       (revoke_where (\<lambda>r. rt_user_id r = u) at) ''revoke user refresh tokens'') (\<lambda>_. ret ())"

section \<open>One-time tokens\<close>

definition new_one_time :: "uuid \<Rightarrow> string \<Rightarrow> time \<Rightarrow> world \<Rightarrow> one_time_token" where
  "new_one_time u h expires w = \<lparr>ot_id = fresh_uuid w, ot_user_id = u, ot_hash = h,
     ot_expires_at = expires, ot_used_at = None, ot_created_at = clock w\<rparr>"

definition one_time_free :: "uuid \<Rightarrow> string \<Rightarrow> one_time_token list \<Rightarrow> world \<Rightarrow> string option" where
  "one_time_free u h ts w = violation True True (h \<notin> set (map ot_hash ts) \<and> pk_free (map ot_id ts) w) (has_user w u)"

definition unused :: "string \<Rightarrow> one_time_token \<Rightarrow> bool" where
  "unused h r \<longleftrightarrow> ot_hash r = h \<and> ot_used_at r = None"

definition use_up :: "string \<Rightarrow> time \<Rightarrow> one_time_token list \<Rightarrow> one_time_token list" where
  "use_up h at = upd_where (unused h) (\<lambda>r. r\<lparr>ot_used_at := Some at\<rparr>)"

definition resets_create :: "uuid \<Rightarrow> string \<Rightarrow> time \<Rightarrow> one_time_token act" where
  "resets_create u h expires = insert_row
     (\<lambda>w. one_time_free u h (reset_tokens w) w) (new_one_time u h expires)
     (\<lambda>r w. w\<lparr>reset_tokens := reset_tokens w @ [r]\<rparr>)
     (\<lambda>st. WrapError ''create password reset token'' (DriverError st))"

definition resets_get_by_hash :: "string \<Rightarrow> one_time_token act" where
  "resets_get_by_hash h = fetch_or (\<lambda>w. find (\<lambda>r. ot_hash r = h) (reset_tokens w))
     (unauthorized ''invalid or expired reset token'') ''get password reset token''"

definition resets_mark_used :: "string \<Rightarrow> time \<Rightarrow> unit act" where
  "resets_mark_used h at = exec_or
     (\<lambda>w. cnt (unused h) (reset_tokens w)) (\<lambda>w. w\<lparr>reset_tokens := use_up h at (reset_tokens w)\<rparr>)
     (unauthorized ''invalid or expired reset token'') ''mark reset token used''"

definition verifies_create :: "uuid \<Rightarrow> string \<Rightarrow> time \<Rightarrow> one_time_token act" where
  "verifies_create u h expires = insert_row
     (\<lambda>w. one_time_free u h (verify_tokens w) w) (new_one_time u h expires)
     (\<lambda>r w. w\<lparr>verify_tokens := verify_tokens w @ [r]\<rparr>)
     (\<lambda>st. WrapError ''create email verification token'' (DriverError st))"

definition verifies_get_by_hash :: "string \<Rightarrow> one_time_token act" where
  "verifies_get_by_hash h = fetch_or (\<lambda>w. find (\<lambda>r. ot_hash r = h) (verify_tokens w))
     (unauthorized ''invalid or expired verification token'') ''get email verification token''"

definition verifies_mark_used :: "string \<Rightarrow> time \<Rightarrow> unit act" where
  "verifies_mark_used h at = exec_or
     (\<lambda>w. cnt (unused h) (verify_tokens w)) (\<lambda>w. w\<lparr>verify_tokens := use_up h at (verify_tokens w)\<rparr>)
     (unauthorized ''invalid or expired verification token'') ''mark verification token used''"

end
