(* ===== verification/OrgRepo.thy ===== *)
theory OrgRepo
  imports UserRepo
begin

text \<open>
  \<open>OrganizationRepository\<close>, \<open>OrganizationMemberRepository\<close> and \<open>OrganizationInviteRepository\<close>
  (\<open>internal/repository/postgres/organization.go\<close>): one definition per method.
\<close>

section \<open>Organizations\<close>

definition org_live :: "organization \<Rightarrow> bool" where
  "org_live r \<longleftrightarrow> org_deleted_at r = None"

definition orgs_create :: "organization \<Rightarrow> organization act" where
  "orgs_create g = insert_row
     (\<lambda>w. violation True (sql_nonblank (org_name g) \<and> sql_nonblank (org_slug g))
            (\<not> list_ex (\<lambda>r. org_live r \<and> to_lower (org_slug r) = to_lower (org_slug g)) (organizations w)
             \<and> pk_free (map org_id (organizations w)) w)
            (ref_user w (org_created_by g)))
     (\<lambda>w. g\<lparr>org_id := fresh_uuid w, org_created_at := clock w, org_updated_at := clock w,
            org_deleted_at := None\<rparr>)
     (\<lambda>r w. w\<lparr>organizations := organizations w @ [r]\<rparr>)
     (insert_err ''organization slug already exists'' ''create organization'')"

definition orgs_get_by_id :: "uuid \<Rightarrow> organization act" where
  "orgs_get_by_id i = fetch_row (\<lambda>w. find (\<lambda>r. org_id r = i \<and> org_live r) (organizations w))
     ''organization not found'' ''get organization''"

definition orgs_get_by_slug :: "string \<Rightarrow> organization act" where
  "orgs_get_by_slug s = fetch_row
     (\<lambda>w. find (\<lambda>r. to_lower (org_slug r) = to_lower s \<and> org_live r) (organizations w))
     ''organization not found'' ''get organization by slug''"

record org_patch =
  op_name :: "string option"
  op_description :: "string option"
  op_logo_url :: "string option"

definition org_rows :: "uuid \<Rightarrow> world \<Rightarrow> nat" where
  "org_rows i w = cnt (\<lambda>r. org_id r = i \<and> org_live r) (organizations w)"

definition org_set :: "uuid \<Rightarrow> (organization \<Rightarrow> organization) \<Rightarrow> world \<Rightarrow> world" where
  "org_set i f w = w\<lparr>organizations := upd_where (\<lambda>r. org_id r = i \<and> org_live r)
     (\<lambda>r. (f r)\<lparr>org_updated_at := clock w\<rparr>) (organizations w)\<rparr>"

definition orgs_update :: "uuid \<Rightarrow> org_patch \<Rightarrow> organization act" where
  "orgs_update i p =
     andThen (orgs_get_by_id i) (\<lambda>cur.
     let name = (case op_name p of None \<Rightarrow> org_name cur | Some t \<Rightarrow> trim_space t);
         descr = (case op_description p of None \<Rightarrow> org_description cur | Some t \<Rightarrow> trim_space t);
         logo = (case op_logo_url p of None \<Rightarrow> org_logo_url cur | Some t \<Rightarrow> trim_space t)
     in andThen (exec_check (org_rows i) (\<lambda>w. violation True (sql_nonblank name) True True)
          (org_set i (\<lambda>r. r\<lparr>org_name := name, org_description := descr, org_logo_url := logo\<rparr>))
          ''organization not found'' ''update organization'') (\<lambda>_.
        orgs_get_by_id i))"

definition orgs_soft_delete :: "uuid \<Rightarrow> time \<Rightarrow> unit act" where
  "orgs_soft_delete i at = exec_rows (org_rows i) (org_set i (\<lambda>r. r\<lparr>org_deleted_at := Some at\<rparr>))
     ''organization not found'' ''delete organization''"

definition orgs_list_for_user :: "uuid \<Rightarrow> organization list act" where
  "orgs_list_for_user u = fetch_val
     (\<lambda>w. sort_key org_name (filter (\<lambda>g. org_live g
        \<and> list_ex (\<lambda>m. om_org_id m = org_id g \<and> om_user_id m = u) (org_members w)) (organizations w)))
     ''list organizations''"

section \<open>Members\<close>

abbreviation owner :: string where "owner \<equiv> ''owner''"

definition org_roles :: "string list" where
  "org_roles = [''owner'', ''admin'', ''member'']"

definition is_member :: "uuid \<Rightarrow> uuid \<Rightarrow> org_member \<Rightarrow> bool" where
  "is_member g u m \<longleftrightarrow> om_org_id m = g \<and> om_user_id m = u"

definition scan_member :: "world \<Rightarrow> org_member \<Rightarrow> org_member" where
  "scan_member w m = m\<lparr>om_user_email := user_email_of w (om_user_id m),
     om_user_name := user_name_of w (om_user_id m)\<rparr>"

definition members_add :: "uuid \<Rightarrow> uuid \<Rightarrow> string \<Rightarrow> org_member act" where
  "members_add g u r = insert_row
     (\<lambda>w. violation True (r \<in> set org_roles)
            (\<not> list_ex (is_member g u) (org_members w) \<and> pk_free (map om_id (org_members w)) w)
            (g \<in> set (map org_id (organizations w)) \<and> has_user w u))
     (\<lambda>w. \<lparr>om_id = fresh_uuid w, om_org_id = g, om_user_id = u, om_role = r, om_joined_at = clock w,
            om_created_at = clock w, om_user_email = '''', om_user_name = ''''\<rparr>)
     (\<lambda>m w. w\<lparr>org_members := org_members w @ [m]\<rparr>)
     (insert_err ''user is already a member'' ''add member'')"

text \<open>The \<open>JOIN\<close> with \<open>users\<close> leaves out a member whose account was deleted.\<close>

definition member_row :: "world \<Rightarrow> uuid \<Rightarrow> uuid \<Rightarrow> org_member option" where
  "member_row w g u = (case live_user w u of None \<Rightarrow> None
     | Some _ \<Rightarrow> map_option (scan_member w) (find (is_member g u) (org_members w)))"

definition members_get :: "uuid \<Rightarrow> uuid \<Rightarrow> org_member act" where
  "members_get g u = fetch_or (\<lambda>w. member_row w g u)
     (forbidden ''not a member of this organization'') ''get member''"

definition members_list_by_org :: "uuid \<Rightarrow> org_member list act" where
  "members_list_by_org g = fetch_val
     (\<lambda>w. map (scan_member w) (sort_key om_joined_at
        (filter (\<lambda>m. om_org_id m = g \<and> live_user w (om_user_id m) \<noteq> None) (org_members w))))
     ''list members''"

definition members_update_role :: "uuid \<Rightarrow> uuid \<Rightarrow> string \<Rightarrow> unit act" where
  "members_update_role g u r = exec_check
     (\<lambda>w. cnt (is_member g u) (org_members w))
     (\<lambda>w. violation True (r \<in> set org_roles) True True)
     (\<lambda>w. w\<lparr>org_members := upd_where (is_member g u) (\<lambda>m. m\<lparr>om_role := r\<rparr>) (org_members w)\<rparr>)
     ''member not found'' ''update member role''"

definition members_remove :: "uuid \<Rightarrow> uuid \<Rightarrow> unit act" where
  "members_remove g u = exec_rows
     (\<lambda>w. cnt (is_member g u) (org_members w))
     (\<lambda>w. w\<lparr>org_members := filter (\<lambda>m. \<not> is_member g u m) (org_members w)\<rparr>)
     ''member not found'' ''remove member''"

definition owners :: "uuid \<Rightarrow> world \<Rightarrow> nat" where
  "owners g w = cnt (\<lambda>m. om_org_id m = g \<and> om_role m = owner) (org_members w)"

definition members_count_owners :: "uuid \<Rightarrow> nat act" where
  "members_count_owners g = fetch_val (owners g) ''count owners''"

section \<open>Invites\<close>

definition org_invites_create :: "org_invite \<Rightarrow> org_invite act" where
  "org_invites_create i = insert_row
     (\<lambda>w. violation True (oi_role i \<in> {''admin'', ''member''} \<and> sql_nonblank (oi_email i))
            (oi_token_hash i \<notin> set (map oi_token_hash (org_invites w)) \<and> pk_free (map oi_id (org_invites w)) w)
            (oi_org_id i \<in> set (map org_id (organizations w)) \<and> ref_user w (oi_invited_by i)))
     (\<lambda>w. i\<lparr>oi_id := fresh_uuid w, oi_accepted_at := None, oi_revoked_at := None, oi_created_at := clock w\<rparr>)
     (\<lambda>r w. w\<lparr>org_invites := org_invites w @ [r\<lparr>oi_email := to_lower (trim_space (oi_email r))\<rparr>]\<rparr>)
     (\<lambda>st. WrapError ''create invite'' (DriverError st))"

definition org_invites_get_by_hash :: "string \<Rightarrow> org_invite act" where
  "org_invites_get_by_hash h = fetch_or (\<lambda>w. find (\<lambda>r. oi_token_hash r = h) (org_invites w))
     (unauthorized ''invalid invite token'') ''get invite''"

definition org_invites_get_by_id :: "uuid \<Rightarrow> org_invite act" where
  "org_invites_get_by_id i = fetch_row (\<lambda>w. find (\<lambda>r. oi_id r = i) (org_invites w))
     ''invite not found'' ''get invite by id''"

definition org_invites_list_pending :: "uuid \<Rightarrow> org_invite list act" where
  "org_invites_list_pending g = fetch_val
     (\<lambda>w. order_desc oi_created_at (filter (\<lambda>r. oi_org_id r = g \<and> oi_accepted_at r = None
        \<and> oi_revoked_at r = None \<and> clock w < oi_expires_at r) (org_invites w)))
     ''list invites''"

definition open_invite :: "uuid \<Rightarrow> org_invite \<Rightarrow> bool" where
  "open_invite i r \<longleftrightarrow> oi_id r = i \<and> oi_accepted_at r = None \<and> oi_revoked_at r = None"

definition org_invites_mark_accepted :: "uuid \<Rightarrow> time \<Rightarrow> unit act" where
  "org_invites_mark_accepted i at = exec_or
     (\<lambda>w. cnt (open_invite i) (org_invites w))
     (\<lambda>w. w\<lparr>org_invites := upd_where (open_invite i) (\<lambda>r. r\<lparr>oi_accepted_at := Some at\<rparr>) (org_invites w)\<rparr>)
     (conflict ''invite already used or revoked'') ''accept invite''"

definition org_invites_revoke :: "uuid \<Rightarrow> time \<Rightarrow> unit act" where
  "org_invites_revoke i at = exec_rows
     (\<lambda>w. cnt (open_invite i) (org_invites w))
     (\<lambda>w. w\<lparr>org_invites := upd_where (open_invite i) (\<lambda>r. r\<lparr>oi_revoked_at := Some at\<rparr>) (org_invites w)\<rparr>)
     ''invite not found or already closed'' ''revoke invite''"

end
