(* ===== verification/Courses.thy ===== *)
theory Courses
  imports OrgRepo Slugs
begin

text \<open>
  \<open>CourseService\<close> (\<open>internal/service/course.go\<close>): the catalogue of courses, their life from draft to
  published and archived, categories and tags. One definition per method.
\<close>

definition list_categories :: "category list act" where
  "list_categories = categories_list"

definition create_category :: "unicode \<Rightarrow> string \<Rightarrow> string \<Rightarrow> string \<Rightarrow> category act" where
  "create_category uc name0 slug descr =
     (let name = trim_space name0
      in andThen (guard (name \<noteq> '''') (validation ''name is required'')) (\<lambda>_.
         categories_create name (slug_for uc slug name) (trim_space descr)))"

definition valid_level :: "string \<Rightarrow> bool" where
  "valid_level l \<longleftrightarrow> l \<in> {''beginner'', ''intermediate'', ''advanced''}"

definition valid_status :: "string \<Rightarrow> bool" where
  "valid_status s \<longleftrightarrow> s \<in> {''draft'', ''published'', ''archived''}"

definition can_view :: "course \<Rightarrow> uuid \<Rightarrow> bool \<Rightarrow> bool" where
  "can_view c actor admin \<longleftrightarrow>
     co_status c = CoursePublished \<or> admin \<or> actor \<noteq> '''' \<and> co_teacher_id c = actor"

definition require_write :: "course \<Rightarrow> uuid \<Rightarrow> bool \<Rightarrow> unit act" where
  "require_write c actor admin =
     guard (admin \<or> co_teacher_id c = actor)
       (forbidden ''only the course teacher or an admin can modify this course'')"

definition hydrate :: "course \<Rightarrow> course act" where
  "hydrate c =
     andThen (tags_list_by_course (co_id c)) (\<lambda>ts. ret (c\<lparr>co_tag_slugs := map tag_slug ts\<rparr>))"

definition apply_tags :: "uuid \<Rightarrow> string list option \<Rightarrow> unit act" where
  "apply_tags c names = (case names of
       None \<Rightarrow> ret ()
     | Some ns \<Rightarrow> andThen (tags_get_or_create_by_names ns) (\<lambda>ts. tags_replace_course_tags c (map tag_id ts)))"

record course_input =
  cn_organization_id :: "uuid option"
  cn_category_id :: "uuid option"
  cn_title :: string
  cn_slug :: string
  cn_summary :: string
  cn_description :: string
  cn_cover_url :: string
  cn_price_cents :: int
  cn_currency :: string
  cn_level :: string
  cn_language :: string
  cn_tags :: "string list option"

text \<open>An optional reference: the empty text counts as none, another one has to be checked.\<close>

definition optional_ref :: "uuid option \<Rightarrow> (uuid \<Rightarrow> unit act) \<Rightarrow> uuid option act" where
  "optional_ref r look = (case r of
       None \<Rightarrow> ret None
     | Some i \<Rightarrow> if i = '''' then ret None else andThen (look i) (\<lambda>_. ret (Some i)))"

definition may_create_for_org :: "uuid \<Rightarrow> bool \<Rightarrow> uuid \<Rightarrow> unit act" where
  "may_create_for_org teacher admin g =
     andThen (orgs_get_by_id g) (\<lambda>_.
     if admin then ret ()
     else andThen (members_get g teacher) (\<lambda>m.
       guard (om_role m = ''owner'' \<or> om_role m = ''admin'' \<or> om_role m = ''member'')
         (forbidden ''not allowed to create courses for this organization'')))"

definition or_default :: "string \<Rightarrow> string \<Rightarrow> string" where
  "or_default d s = (if s = '''' then d else s)"

definition create_course :: "unicode \<Rightarrow> uuid \<Rightarrow> course_input \<Rightarrow> bool \<Rightarrow> course act" where
  "create_course uc teacher inp admin =
     (let title = trim_space (cn_title inp);
          slug = slug_for uc (trim_space (cn_slug inp)) title;
          level = or_default ''beginner'' (cn_level inp);
          currency = or_default ''ETB'' (to_upper (trim_space (cn_currency inp)));
          lang = or_default ''en'' (trim_space (cn_language inp))
      in andThen (guard (title \<noteq> '''') (validation ''title is required'')) (\<lambda>_.
         andThen (guard (slug \<noteq> '''') (validation ''slug is required'')) (\<lambda>_.
         andThen (guard (valid_level level) (validation ''invalid level'')) (\<lambda>_.
         andThen (guard (length currency = 3) (validation ''currency must be a 3-letter code'')) (\<lambda>_.
         andThen (guard (\<not> cn_price_cents inp < 0) (validation ''price_cents must be >= 0'')) (\<lambda>_.
         andThen (optional_ref (cn_category_id inp) (\<lambda>i. andThen (categories_get_by_id i) (\<lambda>_. ret ()))) (\<lambda>category.
         andThen (optional_ref (cn_organization_id inp) (may_create_for_org teacher admin)) (\<lambda>org.
         andThen (courses_create \<lparr>co_id = '''', co_organization_id = org, co_teacher_id = teacher,
             co_category_id = category, co_title = title, co_slug = slug, co_summary = trim_space (cn_summary inp),
             co_description = trim_space (cn_description inp), co_status = CourseDraft,
             co_cover_url = trim_space (cn_cover_url inp), co_price_cents = cn_price_cents inp,
             co_currency = currency, co_level = level, co_language = lang, co_published_at = None,
             co_created_at = 0, co_updated_at = 0, co_capacity = None, co_enrollment_open = True,
             co_waitlist_enabled = False, co_deleted_at = None, co_category_name = '''', co_teacher_name = '''',
             co_tag_slugs = []\<rparr>) (\<lambda>course.
         andThen (apply_tags (co_id course) (cn_tags inp)) (\<lambda>_.
         hydrate course))))))))))"

definition get_course :: "uuid \<Rightarrow> uuid \<Rightarrow> bool \<Rightarrow> course act" where
  "get_course i actor admin =
     andThen (courses_get_by_id i) (\<lambda>course.
     andThen (guard (can_view course actor admin) (not_found ''course not found'')) (\<lambda>_.
     hydrate course))"

definition list_courses ::
  "(string \<Rightarrow> course \<Rightarrow> bool) \<Rightarrow> course_filter \<Rightarrow> (course list \<times> nat \<times> course_filter) act" where
  "list_courses search f0 =
     (let f = f0\<lparr>cf_page := norm_page (cf_page f0), cf_per_page := norm_per_page (cf_per_page f0)\<rparr>
      in andThen (guard (\<not> (cf_level f \<noteq> '''' \<and> \<not> valid_level (cf_level f))) (validation ''invalid level filter'')) (\<lambda>_.
         andThen (guard (\<not> (cf_status f \<noteq> '''' \<and> \<not> valid_status (cf_status f))) (validation ''invalid status filter'')) (\<lambda>_.
         andThen (courses_list search f) (\<lambda>(cs, n).
         andThen (map_each cs hydrate) (\<lambda>hs.
         ret (hs, n, f))))))"

definition update_course :: "uuid \<Rightarrow> uuid \<Rightarrow> course_patch \<Rightarrow> bool \<Rightarrow> course act" where
  "update_course actor c p admin =
     andThen (courses_get_by_id c) (\<lambda>course.
     andThen (require_write course actor admin) (\<lambda>_.
     andThen (guard (\<not> (case cu_title p of None \<Rightarrow> False | Some t \<Rightarrow> trim_space t = ''''))
       (validation ''title cannot be empty'')) (\<lambda>_.
     andThen (guard (\<not> (case cu_level p of None \<Rightarrow> False | Some l \<Rightarrow> \<not> valid_level l)) (validation ''invalid level'')) (\<lambda>_.
     andThen (guard (\<not> (case cu_price_cents p of None \<Rightarrow> False | Some n \<Rightarrow> n < 0))
       (validation ''price_cents must be >= 0'')) (\<lambda>_.
     andThen (case cu_category_id p of
         None \<Rightarrow> ret ()
       | Some i \<Rightarrow> if i = '''' then ret () else andThen (categories_get_by_id i) (\<lambda>_. ret ())) (\<lambda>_.
     andThen (courses_update c p) hydrate))))))"

definition set_course_tags :: "uuid \<Rightarrow> uuid \<Rightarrow> string list option \<Rightarrow> bool \<Rightarrow> course act" where
  "set_course_tags actor c names admin =
     andThen (courses_get_by_id c) (\<lambda>course.
     andThen (require_write course actor admin) (\<lambda>_.
     andThen (apply_tags c names) (\<lambda>_.
     hydrate course)))"

definition publish_course :: "uuid \<Rightarrow> uuid \<Rightarrow> bool \<Rightarrow> course act" where
  "publish_course actor c admin =
     andThen (courses_get_by_id c) (\<lambda>course.
     andThen (require_write course actor admin) (\<lambda>_.
     if co_status course = CoursePublished then hydrate course
     else andThen (asks clock) (\<lambda>now.
          andThen (courses_set_status c CoursePublished (Some now)) hydrate)))"

definition archive_course :: "uuid \<Rightarrow> uuid \<Rightarrow> bool \<Rightarrow> course act" where
  "archive_course actor c admin =
     andThen (courses_get_by_id c) (\<lambda>course.
     andThen (require_write course actor admin) (\<lambda>_.
     andThen (courses_set_status c CourseArchived (co_published_at course)) hydrate))"

definition delete_course :: "uuid \<Rightarrow> uuid \<Rightarrow> bool \<Rightarrow> unit act" where
  "delete_course actor c admin =
     andThen (courses_get_by_id c) (\<lambda>course.
     andThen (require_write course actor admin) (\<lambda>_.
     andThen (asks clock) (\<lambda>now. courses_soft_delete c now)))"

end
