(* ===== verification/Catalogue.thy ===== *)
theory Catalogue
  imports Courses Enrollments
begin

text \<open>
  What holds of the catalogue: the rows of the courses over any run of requests to \<open>CourseService\<close>, their
  life from draft to published and archived, and what a visitor sees of them.
\<close>

section \<open>The rows of the courses\<close>

definition course_row_ok :: "course \<Rightarrow> bool" where
  "course_row_ok r \<longleftrightarrow> course_checks (co_title r) (co_slug r) (co_price_cents r) (co_currency r) (co_level r)
     \<and> is_slug (co_slug r) \<and> (co_status r = CoursePublished \<longrightarrow> co_published_at r \<noteq> None)
     \<and> (\<not> course_live r \<longrightarrow> co_status r = CourseArchived)"

definition live_slugs :: "course list \<Rightarrow> string list" where
  "live_slugs rs = map (\<lambda>r. to_lower (co_slug r)) (filter course_live rs)"

definition catalogue_ok :: "world \<Rightarrow> bool" where
  "catalogue_ok w \<longleftrightarrow> distinct (map co_id (courses w)) \<and> distinct (live_slugs (courses w))
     \<and> list_all course_row_ok (courses w)"

text \<open>A course keeps its identity and is never a draft again; a deleted one does not change any more.\<close>

definition course_evolves :: "course \<Rightarrow> course \<Rightarrow> bool" where
  "course_evolves r s \<longleftrightarrow> co_id s = co_id r \<and> co_slug s = co_slug r \<and> co_teacher_id s = co_teacher_id r
     \<and> co_organization_id s = co_organization_id r \<and> co_created_at s = co_created_at r
     \<and> (co_status s = CourseDraft \<longrightarrow> co_status r = CourseDraft) \<and> (\<not> course_live r \<longrightarrow> s = r)"

definition catalogue_step :: "world \<Rightarrow> world \<Rightarrow> bool" where
  "catalogue_step w v \<longleftrightarrow> (catalogue_ok w \<longrightarrow> catalogue_ok v)
     \<and> (\<forall>r \<in> set (courses w). \<exists>s \<in> set (courses v). course_evolves r s)"

lemma course_evolves_refl [simp]: "course_evolves r r"
  by (simp add: course_evolves_def)

lemma course_evolves_trans: "course_evolves r s \<Longrightarrow> course_evolves s t \<Longrightarrow> course_evolves r t"
  by (auto simp: course_evolves_def course_live_def)

lemma catalogue_same: "courses v = courses w \<Longrightarrow> catalogue_step w v"
  by (auto simp: catalogue_step_def catalogue_ok_def intro: course_evolves_refl)

interpretation catalogue: world_order catalogue_step
proof unfold_locales
  show "catalogue_step w v \<Longrightarrow> catalogue_step v u \<Longrightarrow> catalogue_step w u" for w v u
    unfolding catalogue_step_def using course_evolves_trans by blast
qed (auto intro: catalogue_same)

section \<open>Operations that leave the courses alone\<close>

definition same_courses :: "world \<Rightarrow> world \<Rightarrow> bool" where
  "same_courses w v \<longleftrightarrow> courses v = courses w"

interpretation unchanged: world_order same_courses
  by unfold_locales (auto simp: same_courses_def)

lemma unchanged_step: "changes same_courses m \<Longrightarrow> changes catalogue_step m"
  by (auto simp: changes_def same_courses_def intro: catalogue_same)

lemma statement_unchanged [moves]: "changes same_courses (statement f)"
  by (simp add: changes_def statement_def same_courses_def)

lemma tag_unchanged [moves]:
  "changes same_courses (tag_upsert name slug)" "changes same_courses (tag_select slug)"
  "changes same_courses (tag_insert name slug)"
  by (auto simp: changes_def tag_upsert_def tag_select_def tag_insert_def insert_row_def same_courses_def Let_def
      split: option.split)

lemma tags_unchanged [moves]: "changes same_courses (tags_get_or_create_from seen names)"
  by (induction seen names rule: tags_get_or_create_from.induct)
    (auto simp: Let_def tag_get_or_create_def intro!: moves)

lemma replace_tags_unchanged [moves]: "changes same_courses (tags_replace_course_tags c ids)"
proof -
  have "changes same_courses (\<lambda>w. (Inr (), w\<lparr>course_tags := f w\<rparr>))" for f
    by (simp add: changes_def same_courses_def)
  moreover have "changes same_courses (\<lambda>w. case violation a b (p w) (q w) of
       Some st \<Rightarrow> (Inl (WrapError x (DriverError st)), w)
     | None \<Rightarrow> (Inr (), w\<lparr>course_tags := f w\<rparr>))" for a b p q f x
    by (auto simp: changes_def same_courses_def split: option.split)
  ultimately show ?thesis
    unfolding tags_replace_course_tags_def
    by (intro changes_in_tx moves) (simp_all add: same_courses_def)
qed

lemma apply_tags_unchanged [moves]: "changes same_courses (apply_tags c names)"
  by (auto simp: apply_tags_def tags_get_or_create_by_names_def intro!: moves split: option.split)

lemma catalogue_reads: "changes read_only m \<Longrightarrow> changes catalogue_step m"
proof (rule unchanged_step)
  assume m: "changes read_only m"
  have "courses (snd (m s)) = courses (s\<lparr>faults := faults (snd (m s))\<rparr>)" for s
    using m by (intro arg_cong [where f = courses]) (simp add: changes_def read_only_def)
  then show "changes same_courses m" by (simp add: changes_def same_courses_def)
qed

section \<open>Operations on the courses\<close>

text \<open>An \<open>UPDATE\<close> of a live course that keeps what identifies it.\<close>

definition row_change :: "(course \<Rightarrow> course) \<Rightarrow> bool" where
  "row_change f \<longleftrightarrow> (\<forall>r. course_live r \<and> course_row_ok r \<longrightarrow> course_row_ok (f r) )
     \<and> (\<forall>r. course_live r \<longrightarrow> course_evolves r (f r))"

lemma live_slugs_map:
  assumes "\<And>r. co_slug (g r) = co_slug r" and "\<And>r. course_live (g r) \<Longrightarrow> course_live r"
  shows "distinct (live_slugs rs) \<Longrightarrow> distinct (live_slugs (map g rs))"
proof -
  have "set (live_slugs (map g rs)) \<subseteq> set (live_slugs rs)" for rs
    using assms by (auto simp: live_slugs_def)
  then show "distinct (live_slugs rs) \<Longrightarrow> distinct (live_slugs (map g rs))"
    by (induction rs) (auto simp: live_slugs_def assms split: if_splits)
qed

lemma course_set_step:
  assumes "row_change f"
  shows "catalogue_step w (course_set i f w)"
proof -
  let ?g = "\<lambda>r. if co_id r = i \<and> course_live r then (f r)\<lparr>co_updated_at := clock w\<rparr> else r"
  have rows: "courses (course_set i f w) = map ?g (courses w)"
    by (simp add: course_set_def upd_where_def)
  have stamp: "course_evolves r (s\<lparr>co_updated_at := t\<rparr>)" if "course_evolves r s" "course_live r" for r s t
    using that by (simp add: course_evolves_def)
  have grow: "course_evolves r (?g r)" for r
    using assms stamp by (simp add: row_change_def)
  then have keys: "co_slug (?g r) = co_slug r" "co_id (?g r) = co_id r" "course_live (?g r) \<Longrightarrow> course_live r" for r
    by (auto simp: course_evolves_def split: if_splits)
  have "course_row_ok (?g r)" if "course_row_ok r" for r
    using assms that by (auto simp: row_change_def course_row_ok_def course_live_def)
  moreover have "map co_id (map ?g (courses w)) = map co_id (courses w)"
    using keys(2) by simp
  moreover have "distinct (live_slugs (courses w)) \<Longrightarrow> distinct (live_slugs (map ?g (courses w)))"
    using live_slugs_map [of ?g "courses w"] keys(1,3) by blast
  ultimately have "catalogue_ok w \<Longrightarrow> catalogue_ok (course_set i f w)"
    unfolding catalogue_ok_def rows list_all_iff set_map by (simp only: map_map [symmetric]) blast
  moreover have "\<exists>s \<in> set (map ?g (courses w)). course_evolves r s" if "r \<in> set (courses w)" for r
    using that grow [of r] by (auto simp only: set_map intro!: imageI)
  ultimately show ?thesis by (simp only: catalogue_step_def rows) blast
qed

lemma courses_reads [moves]:
  "changes catalogue_step (courses_get_by_id i)" "changes catalogue_step (categories_get_by_id k)"
  "changes catalogue_step (tags_list_by_course i)"
  by (auto simp: courses_get_by_id_def categories_get_by_id_def tags_list_by_course_def intro!: moves)

lemma courses_set_status_step [moves]:
  assumes "st = CoursePublished \<longrightarrow> at \<noteq> None" and "st \<noteq> CourseDraft"
  shows "changes catalogue_step (courses_set_status i st at)"
  unfolding courses_set_status_def
  by (intro moves catalogue.changes_exec_rows course_set_step)
    (use assms in \<open>auto simp: row_change_def course_row_ok_def course_evolves_def course_live_def\<close>)

lemma courses_soft_delete_step [moves]: "changes catalogue_step (courses_soft_delete i at)"
  unfolding courses_soft_delete_def
  by (intro moves catalogue.changes_exec_rows course_set_step)
    (auto simp: row_change_def course_row_ok_def course_evolves_def course_live_def)

lemma courses_update_step [moves]: "changes catalogue_step (courses_update i p)"
  unfolding courses_update_def Let_def
  by (intro moves catalogue.changes_exec_check course_set_step)
    (auto simp: row_change_def course_row_ok_def course_evolves_def course_live_def course_checks_def)

lemma settings_step [moves]: "changes catalogue_step (courses_update_enrollment_settings i s)"
  unfolding courses_update_enrollment_settings_def
  by (intro moves catalogue.changes_exec_check course_set_step)
    (auto simp: row_change_def course_row_ok_def course_evolves_def course_live_def)

lemma courses_create_step [moves]:
  assumes "is_slug (co_slug c)" and "co_status c = CourseDraft"
  shows "changes catalogue_step (courses_create c)"
  unfolding courses_create_def
proof (rule catalogue.changes_insert_row)
  fix w v :: world
  let ?r = "c\<lparr>co_id := fresh_uuid w, co_created_at := clock w, co_updated_at := clock w,
            co_published_at := None, co_capacity := None, co_enrollment_open := True,
            co_waitlist_enabled := False, co_deleted_at := None\<rparr>"
  assume ok: "violation (int4 (co_price_cents c))
            (course_checks (co_title c) (co_slug c) (co_price_cents c) (co_currency c) (co_level c))
            (\<not> slug_taken w (co_slug c) \<and> pk_free (map co_id (courses w)) w)
            (has_user w (co_teacher_id c) \<and> has_category w (co_category_id c)
             \<and> has_org w (co_organization_id c)) = None"
    and v: "v = w\<lparr>uuid_next := Suc (uuid_next w)\<rparr>"
  have "course_row_ok ?r"
    using ok assms by (simp add: course_row_ok_def course_live_def)
  moreover have "to_lower (co_slug c) \<notin> set (live_slugs (courses w))"
    using ok by (auto simp: live_slugs_def slug_taken_def list_ex_iff)
  moreover have "course_live ?r" by (simp add: course_live_def)
  ultimately show "catalogue_step w (v\<lparr>world.courses := courses v @ [?r]\<rparr>)"
    using ok v by (auto simp: catalogue_step_def catalogue_ok_def live_slugs_def pk_free_def intro: course_evolves_refl)
qed

section \<open>Runs\<close>

inductive catalogue_request :: "unicode \<Rightarrow> world \<Rightarrow> world \<Rightarrow> bool" for uc where
  req_create_course: "catalogue_request uc w (snd (create_course uc teacher inp admin w))"
| req_update_course: "catalogue_request uc w (snd (update_course actor c p admin w))"
| req_set_tags: "catalogue_request uc w (snd (set_course_tags actor c names admin w))"
| req_publish: "catalogue_request uc w (snd (publish_course actor c admin w))"
| req_archive: "catalogue_request uc w (snd (archive_course actor c admin w))"
| req_delete: "catalogue_request uc w (snd (delete_course actor c admin w))"
| req_settings: "catalogue_request uc w (snd (update_settings actor c capacity opn waitlist admin w))"
| req_category: "catalogue_request uc w (snd (create_category uc name slug descr w))"
| req_get_course: "catalogue_request uc w (snd (get_course c actor admin w))"
| req_list_courses: "catalogue_request uc w (snd (list_courses search f w))"
| req_categories: "catalogue_request uc w (snd (list_categories w))"

lemma hydrate_step [moves]: "changes catalogue_step (hydrate c)"
  by (auto simp: hydrate_def intro!: moves)

lemmas apply_tags_step [moves] = apply_tags_unchanged [THEN unchanged_step]

lemma require_write_step [moves]: "changes catalogue_step (require_write course actor admin)"
  by (simp add: require_write_def catalogue.changes_guard)

lemma slug_for_is_slug [simp]: "is_slug (slug_for uc s t)"
  by (simp add: slug_for_def slugify_is_slug)

lemma may_create_step [moves]: "changes catalogue_step (may_create_for_org teacher admin g)"
  by (auto simp: may_create_for_org_def orgs_get_by_id_def members_get_def intro!: moves)

lemma optional_ref_step [moves]:
  "(\<And>i. changes catalogue_step (look i)) \<Longrightarrow> changes catalogue_step (optional_ref r look)"
  by (auto simp: optional_ref_def intro!: moves split: option.split)

lemma catalogue_operations:
  "changes catalogue_step (create_course uc teacher inp admin)" "changes catalogue_step (update_course actor c p admin)"
  "changes catalogue_step (set_course_tags actor c names admin)" "changes catalogue_step (publish_course actor c admin)"
  "changes catalogue_step (archive_course actor c admin)" "changes catalogue_step (delete_course actor c admin)"
  "changes catalogue_step (update_settings actor c capacity opn waitlist admin)" "changes catalogue_step (create_category uc name slug descr)"
  "changes catalogue_step (get_course c actor admin)" "changes catalogue_step (list_courses search f)"
  "changes catalogue_step list_categories"
proof -
  show "changes catalogue_step (create_course uc teacher inp admin)"
    by (auto simp: create_course_def Let_def intro!: moves)
  show "changes catalogue_step (update_course actor c p admin)"
    by (auto simp: update_course_def intro!: moves split: option.split)
  show "changes catalogue_step (set_course_tags actor c names admin)"
    by (auto simp: set_course_tags_def intro!: moves)
  show "changes catalogue_step (publish_course actor c admin)"
    by (auto simp: publish_course_def intro!: moves)
  show "changes catalogue_step (archive_course actor c admin)"
    by (auto simp: archive_course_def intro!: moves)
  show "changes catalogue_step (delete_course actor c admin)"
    by (auto simp: delete_course_def intro!: moves)
  show "changes catalogue_step (update_settings actor c capacity opn waitlist admin)"
    by (auto simp: update_settings_def require_course_manage_def intro!: moves)
  show "changes catalogue_step (create_category uc name slug descr)"
    by (auto simp: create_category_def categories_create_def Let_def intro!: moves catalogue.changes_insert_row catalogue_same)
  show "changes catalogue_step (get_course c actor admin)"
    by (auto simp: get_course_def intro!: moves)
  show "changes catalogue_step (list_courses search f)"
    by (auto simp: list_courses_def courses_list_def Let_def intro!: moves)
  show "changes catalogue_step list_categories"
    by (auto simp: list_categories_def categories_list_def intro!: moves)
qed

lemma catalogue_run: "rtranclp (catalogue_request uc) w v \<Longrightarrow> catalogue_step w v"
proof (induction rule: rtranclp_induct)
  case (step u v)
  from step.hyps(2) have "catalogue_step u v"
    by cases (use catalogue_operations in \<open>auto simp: changes_def\<close>)
  with step.IH show ?case by (rule catalogue.R_trans)
qed (rule catalogue.R_refl)

section \<open>What a visitor sees\<close>

definition seen_by :: "uuid \<Rightarrow> course \<Rightarrow> bool" where
  "seen_by u c \<longleftrightarrow> course_live c \<and> (co_status c = CoursePublished \<or> u \<noteq> '''' \<and> co_teacher_id c = u)"

lemma hydrate_reads [moves]: "changes read_only (hydrate c)"
  by (auto simp: hydrate_def tags_list_by_course_def intro!: moves)

lemma wp_hydrate: "P c \<Longrightarrow> (\<And>ts. P c \<Longrightarrow> P (c\<lparr>co_tag_slugs := ts\<rparr>)) \<Longrightarrow> wpre (hydrate c) (\<lambda>d _. P d) (\<lambda>_ _. True) s"
  by (simp add: hydrate_def wp tags_list_by_course_def)

lemma wp_map_each_hydrate:
  assumes "list_all P cs" and "\<And>c ts. P c \<Longrightarrow> P (c\<lparr>co_tag_slugs := ts\<rparr>)"
  shows "wpre (map_each cs hydrate) (\<lambda>hs _. length hs = length cs \<and> list_all P hs) (\<lambda>_ _. True) s"
  using assms(1)
proof (induction cs arbitrary: s)
  case (Cons c cs s)
  have "wpre (andThen (map_each cs hydrate) (\<lambda>ys. ret (d # ys)))
      (\<lambda>hs _. length hs = length (c # cs) \<and> list_all P hs) (\<lambda>_ _. True) t" if "P d" for d t
    unfolding wp_andThen wp_ret by (rule wp_mono [OF Cons.IH]) (use that Cons.prems in auto)
  moreover have "wpre (hydrate c) (\<lambda>d _. P d) (\<lambda>_ _. True) s"
    by (rule wp_hydrate) (use Cons.prems assms(2) in auto)
  ultimately show ?case
    unfolding map_each.simps wp_andThen [of "hydrate c"] by - (rule wp_mono)
qed (simp add: wp_ret)

lemma seen_simps [simp]: "seen_by u (scan_course w c) = seen_by u c" "seen_by u (c\<lparr>co_tag_slugs := ts\<rparr>) = seen_by u c"
  by (simp_all add: seen_by_def) (simp add: course_live_def)

lemma search_pop [simp]: "course_matches search (pop w) f = course_matches search w f" "scan_course (pop w) = scan_course w"
  by (simp_all add: fun_eq_iff course_matches_def category_slug_of_def course_has_tag_def cong: option.case_cong)

lemma listed_courses:
  assumes "list_courses search f w = (Inr (cs, n, g), w')" and "\<not> cf_admin f"
  shows "list_all (seen_by (cf_owner_id f)) cs" and "length cs \<le> n" and "length cs \<le> 100" and "read_only w w'"
proof -
  let ?g = "f\<lparr>cf_page := norm_page (cf_page f), cf_per_page := norm_per_page (cf_per_page f)\<rparr>"
  let ?rows = "\<lambda>w. map (scan_course w) (page_of (norm_page (cf_page ?g)) (norm_per_page (cf_per_page ?g))
           (order_desc co_created_at (filter (course_matches search w ?g) (courses w))))"
  let ?P = "\<lambda>n cs. list_all (seen_by (cf_owner_id f)) cs \<and> length cs \<le> n \<and> length cs \<le> 100"
  have per: "0 \<le> norm_per_page k" "nat (norm_per_page k) \<le> 100" for k
    by (simp_all add: norm_per_page_def nat_le_iff)
  have rows: "?P (cnt (course_matches search v ?g) (courses v)) (?rows v)" for v
  proof (intro conjI)
    show "length (?rows v) \<le> 100"
      unfolding length_map by (rule le_trans [OF length_page_of [OF per(1)] per(2)])
    show "length (?rows v) \<le> cnt (course_matches search v ?g) (courses v)"
      by (simp add: page_of_def cnt_def order_desc_def)
    have "seen_by (cf_owner_id f) r" if "course_matches search v ?g r" for r
      using that assms(2) by (auto simp: course_matches_def course_visible_def seen_by_def split: if_splits)
    then show "list_all (seen_by (cf_owner_id f)) (?rows v)"
      using set_page_of [of "norm_page (cf_page ?g)" "norm_per_page (cf_per_page ?g)"
        "order_desc co_created_at (filter (course_matches search v ?g) (courses v))"]
      by (auto simp: list_all_iff)
  qed
  have page: "wpre (andThen (map_each cs hydrate) (\<lambda>hs. ret (hs, k, ?g))) (\<lambda>(cs, n, g) _. ?P n cs) (\<lambda>_ _. True) s"
    if "?P k cs" for cs k s
    unfolding wp_andThen wp_ret
    by (rule wp_mono [OF wp_map_each_hydrate [where P = "seen_by (cf_owner_id f)"]]) (use that in auto)
  have "wpre (list_courses search f) (\<lambda>(cs, n, g) _. ?P n cs) (\<lambda>_ _. True) w"
    unfolding list_courses_def courses_list_def Let_def
    using page [OF rows [of w]] by (auto simp: wp_andThen wp_guard wp_fetch_val wp_ret)
  with assms(1) show "list_all (seen_by (cf_owner_id f)) cs" "length cs \<le> n" "length cs \<le> 100"
    by (auto simp: wpre_def)
  have "changes read_only (list_courses search f)"
    by (auto simp: list_courses_def courses_list_def Let_def intro!: moves)
  then show "read_only w w'" using assms(1) by (rule changesD)
qed

section \<open>Categories\<close>

text \<open>The slug of a category is not checked before the row is written.\<close>

lemma category_without_latin:
  assumes "trim_space name \<noteq> ''''" and "trim_space slug = ''''" and "no_latin uc (trim_space name)" and "quiet w"
  shows "create_category uc name slug descr w
    = (Inl (WrapError ''create category'' (DriverError st_check)), w)"
proof -
  have "slug_for uc slug (trim_space name) = ''''"
    using assms(2,3) by (simp add: slug_for_def slugify_no_latin)
  then show ?thesis
    using assms(1,4) by (simp add: create_category_def categories_create_def andThen_def guard_def ret_def insert_row_def
        violation_def sql_nonblank_def insert_err_def Let_def)
qed

end
