(* ===== verification/Tokens.thy ===== *)
theory Tokens
  imports Apperr
begin

text \<open>
  Opaque tokens and passwords (\<open>internal/auth/token.go\<close>, \<open>internal/auth/password.go\<close>). The random
  bytes of a token are an argument of the request that draws them (\<open>None\<close> when \<open>rand.Read\<close> fails); the
  hash functions and the JWT library are parameters, collected in \<open>crypto\<close>.
\<close>

section \<open>Base64\<close>

text \<open>\<open>base64.RawURLEncoding\<close>: the URL-safe alphabet, no padding.\<close>

definition b64_alphabet :: string where
  "b64_alphabet = ''ABCDEFGHIJKLMNOPQRSTUVWXYZabcdefghijklmnopqrstuvwxyz0123456789-_''"

definition b64_digit :: "nat \<Rightarrow> char" where
  "b64_digit n = b64_alphabet ! (n mod 64)"

fun base64_url :: "string \<Rightarrow> string" where
  "base64_url [] = []"
| "base64_url [a] = (let n = of_char a * 16 :: nat in [b64_digit (n div 64), b64_digit n])"
| "base64_url [a, b] = (let n = (of_char a * 256 + of_char b) * 4 :: nat
     in [b64_digit (n div 4096), b64_digit (n div 64), b64_digit n])"
| "base64_url (a # b # c # s) = (let n = (of_char a * 256 + of_char b) * 256 + of_char c :: nat
     in [b64_digit (n div 262144), b64_digit (n div 4096), b64_digit (n div 64), b64_digit n] @ base64_url s)"

section \<open>Hashes and signatures\<close>

record access_claims =
  ac_user_id :: string
  ac_email :: string
  ac_role :: string
  ac_expires_at :: int
  ac_issued_at :: int
  ac_issuer :: string
  ac_subject :: string

text \<open>
  \<open>sha256_hex\<close>: SHA-256 in hexadecimal; \<open>bcrypt_hash salt password\<close> (\<open>None\<close> for a password bcrypt
  rejects) and \<open>bcrypt_check hash password\<close>; \<open>jwt_sign secret claims\<close> and \<open>jwt_parse now secret token\<close>,
  the HS256 signature and its verification at a time.
\<close>

record crypto =
  sha256_hex :: "string \<Rightarrow> string"
  bcrypt_hash :: "string \<Rightarrow> string \<Rightarrow> string option"
  bcrypt_check :: "string \<Rightarrow> string \<Rightarrow> bool"
  jwt_sign :: "string \<Rightarrow> access_claims \<Rightarrow> string option"
  jwt_parse :: "int \<Rightarrow> string \<Rightarrow> string \<Rightarrow> access_claims option"

definition hash_token :: "crypto \<Rightarrow> string \<Rightarrow> string" where
  "hash_token cr raw = sha256_hex cr raw"

text \<open>The raw token and its hash.\<close>

definition new_opaque_token :: "crypto \<Rightarrow> string option \<Rightarrow> (string \<times> string) option" where
  "new_opaque_token cr random = (case random of
       None \<Rightarrow> None
     | Some buf \<Rightarrow> (let raw = base64_url buf in Some (raw, hash_token cr raw)))"

section \<open>Access tokens\<close>

record token_manager =
  tm_secret :: string
  tm_access_ttl :: int
  tm_refresh_ttl :: int

definition issuer :: string where
  "issuer = ''asnakech-api''"

definition access_claims_for :: "token_manager \<Rightarrow> int \<Rightarrow> string \<Rightarrow> string \<Rightarrow> string \<Rightarrow> access_claims" where
  "access_claims_for tm now u email role =
     \<lparr>ac_user_id = u, ac_email = email, ac_role = role, ac_expires_at = now + tm_access_ttl tm,
      ac_issued_at = now, ac_issuer = issuer, ac_subject = u\<rparr>"

definition issue_access_token ::
  "crypto \<Rightarrow> token_manager \<Rightarrow> int \<Rightarrow> string \<Rightarrow> string \<Rightarrow> string \<Rightarrow> (string \<times> int) option" where
  "issue_access_token cr tm now u email role =
     map_option (\<lambda>signed. (signed, now + tm_access_ttl tm))
       (jwt_sign cr (tm_secret tm) (access_claims_for tm now u email role))"

definition parse_access_token :: "crypto \<Rightarrow> token_manager \<Rightarrow> int \<Rightarrow> string \<Rightarrow> access_claims option" where
  "parse_access_token cr tm now token = jwt_parse cr now (tm_secret tm) token"

section \<open>Decoding\<close>

text \<open>The inverse of \<open>base64_url\<close>, which the server never needs: different bytes are different tokens.\<close>

definition b64_value :: "char \<Rightarrow> nat" where
  "b64_value c = length (takeWhile (\<lambda>d. d \<noteq> c) b64_alphabet)"

fun base64_decode :: "string \<Rightarrow> string" where
  "base64_decode (c # d # e # f # s) =
     (let n = ((b64_value c * 64 + b64_value d) * 64 + b64_value e) * 64 + b64_value f
      in [char_of (n div 65536), char_of (n div 256), char_of n] @ base64_decode s)"
| "base64_decode [c, d, e] =
     (let n = ((b64_value c * 64 + b64_value d) * 64 + b64_value e) div 4
      in [char_of (n div 256), char_of n])"
| "base64_decode [c, d] = [char_of ((b64_value c * 64 + b64_value d) div 16)]"
| "base64_decode _ = []"

lemma b64_value_digit [simp]: "b64_value (b64_digit n) = n mod 64"
proof -
  have "map b64_value b64_alphabet = [0..<64]" by code_simp
  then have "map b64_value b64_alphabet ! (n mod 64) = n mod 64" by (simp add: nth_upt)
  moreover have "n mod 64 < length b64_alphabet" by (simp add: b64_alphabet_def)
  ultimately show ?thesis by (simp add: b64_digit_def)
qed

lemma char_of_low: "char_of (n * 256 + of_char c :: nat) = c"
proof -
  have "(n * 256 + of_char c :: nat) mod 256 = of_char c" by simp
  then show ?thesis by (metis char_of_mod_256 char_of_char)
qed

lemma high_byte: "(n * 256 + of_char c) div 256 = (n::nat)"
  by simp

text \<open>A number from its digits to base 64.\<close>

lemma two_digits: "(n div 64 mod 64) * 64 + n mod 64 = (n::nat) mod 4096"
  using mod_mult2_eq [of n 64 64] by simp

lemma three_digits: "((n div 4096 mod 64) * 64 + n div 64 mod 64) * 64 + n mod 64 = (n::nat) mod 262144"
  using two_digits [of "n div 64"] mod_mult2_eq [of n 64 4096] by (simp add: div_mult2_eq [symmetric])

lemma four_digits:
  "(((n div 262144 mod 64) * 64 + n div 4096 mod 64) * 64 + n div 64 mod 64) * 64 + n mod 64 = (n::nat) mod 16777216"
  using three_digits [of "n div 64"] mod_mult2_eq [of n 64 262144] by (simp add: div_mult2_eq [symmetric])

lemma byte_bound: "(of_char c :: nat) \<le> 255"
  by (rule less_Suc_eq_le [THEN iffD1]) simp

lemma bytes_below:
  "a \<le> 255 \<Longrightarrow> a * 16 < (4096::nat)"
  "a \<le> 255 \<Longrightarrow> b \<le> 255 \<Longrightarrow> (a * 256 + b) * 4 < (262144::nat)"
  "a \<le> 255 \<Longrightarrow> b \<le> 255 \<Longrightarrow> c \<le> 255 \<Longrightarrow> (a * 256 + b) * 256 + c < (16777216::nat)"
  by (simp_all add: add_mult_distrib)

lemma base64_decode_url: "base64_decode (base64_url s) = s"
proof (induction s rule: base64_url.induct)
  case (2 a)
  let ?n = "of_char a * 16 :: nat"
  have "?n mod 4096 = ?n" by (intro mod_less bytes_below byte_bound)
  then have "(?n div 64 mod 64) * 64 + ?n mod 64 = ?n" using two_digits [of ?n] by (simp only:)
  then have "base64_decode (base64_url [a]) = [char_of (?n div 16)]"
    by (simp only: base64_url.simps base64_decode.simps Let_def b64_value_digit)
  then show ?case by simp
next
  case (3 a b)
  let ?n = "(of_char a * 256 + of_char b) * 4 :: nat"
  have "?n mod 262144 = ?n" by (intro mod_less bytes_below byte_bound)
  then have "((?n div 4096 mod 64) * 64 + ?n div 64 mod 64) * 64 + ?n mod 64 = ?n" using three_digits [of ?n] by (simp only:)
  then have "base64_decode (base64_url [a, b]) = [char_of (?n div 4 div 256), char_of (?n div 4)]"
    by (simp only: base64_url.simps base64_decode.simps Let_def b64_value_digit)
  moreover have "?n div 4 = of_char a * 256 + of_char b" by (rule nonzero_mult_div_cancel_right) simp
  ultimately show ?case by (simp only: high_byte char_of_low char_of_char)
next
  case (4 a b c s)
  let ?n = "(of_char a * 256 + of_char b) * 256 + of_char c :: nat"
  have "?n mod 16777216 = ?n" by (intro mod_less bytes_below byte_bound)
  then have "(((?n div 262144 mod 64) * 64 + ?n div 4096 mod 64) * 64 + ?n div 64 mod 64) * 64 + ?n mod 64 = ?n"
    using four_digits [of ?n] by (simp only:)
  then have "base64_decode (base64_url (a # b # c # s))
      = [char_of (?n div 65536), char_of (?n div 256), char_of ?n] @ base64_decode (base64_url s)"
    by (simp only: base64_url.simps base64_decode.simps append.simps Let_def b64_value_digit)
  moreover have "?n div 65536 = (?n div 256) div 256" by (simp only: div_mult2_eq [symmetric]) simp
  ultimately show ?case using 4 by (simp only: high_byte char_of_low char_of_char append.simps)
qed simp

end
