(* ===== verification/Accounts.thy ===== *)
theory Accounts
  imports UserRepo Tokens
begin

text \<open>
  \<open>AuthService\<close> (\<open>internal/service/auth.go\<close>) and \<open>UserService\<close> (\<open>internal/service/user.go\<close>): one
  definition per method. Random values a request draws (the salt of a password hash, the bytes of the
  tokens) are its arguments; the clock is read once per request.
\<close>

section \<open>Sessions\<close>

record auth_config =
  au_tokens :: token_manager
  au_expose_dev :: bool

text \<open>\<open>minPasswordLen\<close> and the lifetimes in seconds.\<close>

definition min_password_len :: nat where
  "min_password_len = 8"

definition email_verification_ttl :: int where
  "email_verification_ttl = 48 * 3600"

definition password_reset_ttl :: int where
  "password_reset_ttl = 3600"

record auth_result =
  ar_user :: user
  ar_access_token :: string
  ar_refresh_token :: string
  ar_token_type :: string
  ar_expires_at :: time
  ar_verification_dev :: string

definition issue_session :: "crypto \<Rightarrow> auth_config \<Rightarrow> string option \<Rightarrow> user \<Rightarrow> auth_result act" where
  "issue_session cr cfg random user =
     andThen (asks clock) (\<lambda>now.
     case issue_access_token cr (au_tokens cfg) now (us_id user) (us_email user) (us_role_code user) of
       None \<Rightarrow> raise (internal ''could not issue access token'')
     | Some (access, expires) \<Rightarrow>
         (case new_opaque_token cr random of
            None \<Rightarrow> raise (internal ''could not issue refresh token'')
          | Some (raw, h) \<Rightarrow>
              andThen (refresh_create (us_id user) h (now + tm_refresh_ttl (au_tokens cfg))) (\<lambda>_.
              ret \<lparr>ar_user = user, ar_access_token = access, ar_refresh_token = raw,
                ar_token_type = ''Bearer'', ar_expires_at = expires, ar_verification_dev = ''''\<rparr>)))"

definition create_email_verification_token :: "crypto \<Rightarrow> string option \<Rightarrow> uuid \<Rightarrow> string act" where
  "create_email_verification_token cr random u =
     (case new_opaque_token cr random of
        None \<Rightarrow> raise (internal ''could not create verification token'')
      | Some (raw, h) \<Rightarrow>
          andThen (asks clock) (\<lambda>now.
          andThen (verifies_create u h (now + email_verification_ttl)) (\<lambda>_.
          ret raw)))"

definition email_plausible :: "string \<Rightarrow> bool" where
  "email_plausible e \<longleftrightarrow> \<not> (e = '''' \<or> CHR ''@'' \<notin> set e)"

definition register_user ::
  "crypto \<Rightarrow> auth_config \<Rightarrow> string \<Rightarrow> string option \<Rightarrow> string option \<Rightarrow> string \<Rightarrow> string \<Rightarrow> string \<Rightarrow> auth_result act" where
  "register_user cr cfg salt random1 random2 email0 password full_name =
     (let email = to_lower (trim_space email0)
      in andThen (guard (email_plausible email) (validation ''a valid email is required'')) (\<lambda>_.
         andThen (guard (\<not> length password < min_password_len)
           (validation ''password must be at least 8 characters'')) (\<lambda>_.
         andThen (roles_get_by_code ''student'') (\<lambda>role.
         case bcrypt_hash cr salt password of
           None \<Rightarrow> raise (internal ''could not hash password'')
         | Some h \<Rightarrow>
             andThen (users_create email h (trim_space full_name) role) (\<lambda>user.
             andThen (create_email_verification_token cr random1 (us_id user)) (\<lambda>raw.
             andThen (issue_session cr cfg random2 user) (\<lambda>r.
             ret (if au_expose_dev cfg then r\<lparr>ar_verification_dev := raw\<rparr> else r))))))))"

definition login :: "crypto \<Rightarrow> auth_config \<Rightarrow> string option \<Rightarrow> string \<Rightarrow> string \<Rightarrow> auth_result act" where
  "login cr cfg random email0 password =
     andThen (orElse (users_get_by_email (to_lower (trim_space email0))) (\<lambda>e.
       if is_not_found e then raise (unauthorized ''invalid email or password'') else raise e)) (\<lambda>user.
     andThen (guard (us_is_active user) (forbidden ''account is disabled'')) (\<lambda>_.
     andThen (guard (bcrypt_check cr (us_password_hash user) password)
       (unauthorized ''invalid email or password'')) (\<lambda>_.
     issue_session cr cfg random user)))"

definition refresh_spent :: "time \<Rightarrow> refresh_token \<Rightarrow> bool" where
  "refresh_spent now t \<longleftrightarrow> rt_revoked_at t \<noteq> None \<or> rt_expires_at t < now"

text \<open>\<open>_ = s.refresh.Revoke(...)\<close>: a failure to revoke the old token is dropped.\<close>

definition refresh_session :: "crypto \<Rightarrow> auth_config \<Rightarrow> string option \<Rightarrow> string \<Rightarrow> auth_result act" where
  "refresh_session cr cfg random raw =
     andThen (guard (trim_space raw \<noteq> '''') (validation ''refresh_token is required'')) (\<lambda>_.
     andThen (refresh_get_by_hash (hash_token cr raw)) (\<lambda>stored.
     andThen (asks clock) (\<lambda>now.
     andThen (guard (\<not> refresh_spent now stored) (unauthorized ''invalid refresh token'')) (\<lambda>_.
     andThen (users_get_by_id (rt_user_id stored)) (\<lambda>user.
     andThen (guard (us_is_active user) (forbidden ''account is disabled'')) (\<lambda>_.
     andThen (optional (\<lambda>_. True) (refresh_revoke (rt_hash stored) now)) (\<lambda>_.
     issue_session cr cfg random user)))))))"

definition logout :: "crypto \<Rightarrow> string \<Rightarrow> unit act" where
  "logout cr raw =
     andThen (guard (trim_space raw \<noteq> '''') (validation ''refresh_token is required'')) (\<lambda>_.
     andThen (asks clock) (\<lambda>now. refresh_revoke (hash_token cr raw) now))"

definition me :: "uuid \<Rightarrow> user act" where
  "me u =
     andThen (users_get_by_id u) (\<lambda>user.
     andThen (guard (us_is_active user) (forbidden ''account is disabled'')) (\<lambda>_.
     ret user))"

section \<open>Passwords and verification\<close>

text \<open>The message of \<open>ForgotPassword\<close> is one constant; the value is the token shown in development.\<close>

definition forgot_message :: string where
  "forgot_message = ''if that email is registered, a reset link will be sent''"

definition forgot_password ::
  "crypto \<Rightarrow> auth_config \<Rightarrow> string option \<Rightarrow> string \<Rightarrow> (string \<times> string) act" where
  "forgot_password cr cfg random email0 =
     (let email = to_lower (trim_space email0)
      in if email = '''' then ret (forgot_message, '''')
         else andThen (optional is_not_found (users_get_by_email email)) (\<lambda>r. case r of
             None \<Rightarrow> ret (forgot_message, '''')
           | Some user \<Rightarrow>
               (case new_opaque_token cr random of
                  None \<Rightarrow> raise (internal ''could not create reset token'')
                | Some (raw, h) \<Rightarrow>
                    andThen (asks clock) (\<lambda>now.
                    andThen (resets_create (us_id user) h (now + password_reset_ttl)) (\<lambda>_.
                    ret (forgot_message, if au_expose_dev cfg then raw else '''')))))) "

definition one_time_spent :: "time \<Rightarrow> one_time_token \<Rightarrow> bool" where
  "one_time_spent now t \<longleftrightarrow> ot_used_at t \<noteq> None \<or> ot_expires_at t < now"

definition reset_password :: "crypto \<Rightarrow> string \<Rightarrow> string \<Rightarrow> string \<Rightarrow> unit act" where
  "reset_password cr salt raw password =
     andThen (guard (trim_space raw \<noteq> '''') (validation ''token is required'')) (\<lambda>_.
     andThen (guard (\<not> length password < min_password_len)
       (validation ''password must be at least 8 characters'')) (\<lambda>_.
     andThen (resets_get_by_hash (hash_token cr raw)) (\<lambda>stored.
     andThen (asks clock) (\<lambda>now.
     andThen (guard (\<not> one_time_spent now stored) (unauthorized ''invalid or expired reset token'')) (\<lambda>_.
     case bcrypt_hash cr salt password of
       None \<Rightarrow> raise (internal ''could not hash password'')
     | Some h \<Rightarrow>
         andThen (users_update_password_hash (ot_user_id stored) h) (\<lambda>_.
         andThen (resets_mark_used (ot_hash stored) now) (\<lambda>_.
         refresh_revoke_all_for_user (ot_user_id stored) now)))))))"

definition verify_email :: "crypto \<Rightarrow> string \<Rightarrow> unit act" where
  "verify_email cr raw =
     andThen (guard (trim_space raw \<noteq> '''') (validation ''token is required'')) (\<lambda>_.
     andThen (verifies_get_by_hash (hash_token cr raw)) (\<lambda>stored.
     andThen (asks clock) (\<lambda>now.
     andThen (guard (\<not> one_time_spent now stored)
       (unauthorized ''invalid or expired verification token'')) (\<lambda>_.
     andThen (users_mark_email_verified (ot_user_id stored) now) (\<lambda>_.
     verifies_mark_used (ot_hash stored) now)))))"

section \<open>Profiles and administration\<close>

definition update_profile :: "uuid \<Rightarrow> profile_patch \<Rightarrow> user act" where
  "update_profile u p =
     andThen (guard (\<not> (case pp_bio p of None \<Rightarrow> False | Some b \<Rightarrow> 2000 < length b))
       (validation ''bio must be at most 2000 characters'')) (\<lambda>_.
     users_update_profile u p)"

text \<open>\<open>url.ParseRequestURI\<close> is the parameter \<open>request_uri\<close>.\<close>

definition set_avatar_url :: "(string \<Rightarrow> bool) \<Rightarrow> uuid \<Rightarrow> string \<Rightarrow> user act" where
  "set_avatar_url request_uri u url0 =
     (let url = trim_space url0
      in andThen (guard (url \<noteq> '''') (validation ''avatar_url is required'')) (\<lambda>_.
         andThen (guard (request_uri url) (validation ''avatar_url must be a valid URL'')) (\<lambda>_.
         users_update_avatar_url u url)))"

definition list_users :: "user_filter \<Rightarrow> (user list \<times> nat \<times> user_filter) act" where
  "list_users f0 =
     (let f = f0\<lparr>uf_page := norm_page (uf_page f0), uf_per_page := norm_per_page (uf_per_page f0)\<rparr>
      in andThen (guard (uf_role f \<in> {'''', ''student'', ''teacher'', ''admin'', ''parent''})
           (validation ''invalid role filter'')) (\<lambda>_.
         andThen (users_list f) (\<lambda>(us, n).
         ret (us, n, f))))"

definition admin_update_user :: "uuid \<Rightarrow> uuid \<Rightarrow> admin_patch \<Rightarrow> user act" where
  "admin_update_user actor u p =
     andThen (case ap_role_code p of
         None \<Rightarrow> ret None
       | Some c \<Rightarrow> andThen (roles_get_by_code c) (\<lambda>r. ret (Some (ro_id r)))) (\<lambda>rid.
     users_admin_update u p rid)"

definition soft_delete_user :: "uuid \<Rightarrow> uuid \<Rightarrow> unit act" where
  "soft_delete_user actor u =
     andThen (guard (actor \<noteq> u) (validation ''cannot delete your own account via admin API'')) (\<lambda>_.
     andThen (asks clock) (\<lambda>now. users_soft_delete u now))"

end
