(* ===== verification/AccountRules.thy ===== *)
theory AccountRules
  imports Accounts
begin

text \<open>
  What holds of accounts over any run of requests to \<open>AuthService\<close> and \<open>UserService\<close>: emails of accounts that
  are not deleted are unique, and a token that was used or revoked stays so.
\<close>

section \<open>Runs\<close>

inductive account_request :: "crypto \<Rightarrow> auth_config \<Rightarrow> world \<Rightarrow> world \<Rightarrow> bool" for cr cfg where
  req_register: "account_request cr cfg w (snd (register_user cr cfg salt random1 random2 email password name w))"
| req_login: "account_request cr cfg w (snd (login cr cfg random email password w))"
| req_refresh: "account_request cr cfg w (snd (refresh_session cr cfg random raw w))"
| req_logout: "account_request cr cfg w (snd (logout cr raw w))"
| req_me: "account_request cr cfg w (snd (me u w))"
| req_forgot: "account_request cr cfg w (snd (forgot_password cr cfg random email w))"
| req_reset: "account_request cr cfg w (snd (reset_password cr salt raw password w))"
| req_verify: "account_request cr cfg w (snd (verify_email cr raw w))"
| req_profile: "account_request cr cfg w (snd (update_profile u p w))"
| req_avatar: "account_request cr cfg w (snd (set_avatar_url uri u url w))"
| req_list_users: "account_request cr cfg w (snd (list_users f w))"
| req_admin_update: "account_request cr cfg w (snd (admin_update_user actor u a w))"
| req_delete_user: "account_request cr cfg w (snd (soft_delete_user actor u w))"

text \<open>
  A relation between worlds that the writes of the account repositories respect: those of users change
  no identifier, no email and no deletion mark, except for the two definitions that do.
\<close>

definition keeps_login :: "(user \<Rightarrow> user) \<Rightarrow> bool" where
  "keeps_login f \<longleftrightarrow> (\<forall>r. us_id (f r) = us_id r \<and> us_email (f r) = us_email r \<and> us_deleted_at (f r) = us_deleted_at r)"

locale account_relation = world_order R for R :: "world \<Rightarrow> world \<Rightarrow> bool" +
  assumes R_user_set: "keeps_login f \<Longrightarrow> R w (user_set i f w)"
    and R_users_create: "changes R (users_create email pw name r)"
    and R_users_delete: "changes R (users_soft_delete i t)"
    and R_refresh_create: "changes R (refresh_create u h t)"
    and R_refresh_revoke: "R w (revoke_where p t w)"
    and R_resets_create: "changes R (resets_create u h t)"
    and R_resets_used: "changes R (resets_mark_used h t)"
    and R_verifies_create: "changes R (verifies_create u h t)"
    and R_verifies_used: "changes R (verifies_mark_used h t)"
begin

lemmas R_account_writes [moves] = R_users_create R_users_delete R_refresh_create R_resets_create R_resets_used
  R_verifies_create R_verifies_used

lemma R_account_reads [moves]:
  "changes R (users_get_by_id u)" "changes R (users_get_by_email e)" "changes R (roles_get_by_code c)"
  "changes R (refresh_get_by_hash h)" "changes R (resets_get_by_hash h)" "changes R (verifies_get_by_hash h)"
  "changes R (users_list f)"
  by (auto simp: users_get_by_id_def users_get_by_email_def roles_get_by_code_def refresh_get_by_hash_def
      resets_get_by_hash_def verifies_get_by_hash_def users_list_def intro!: moves)

lemma R_user_writes [moves]:
  "changes R (users_mark_email_verified u t)" "changes R (users_update_password_hash u h)"
  "changes R (users_update_profile u p)" "changes R (users_update_avatar_url u url)"
  "changes R (users_admin_update u a rid)" "changes R (refresh_revoke h t)" "changes R (refresh_revoke_all_for_user u t)"
  by (auto simp: users_mark_email_verified_def users_update_password_hash_def users_update_profile_def
      users_update_avatar_url_def users_admin_update_def refresh_revoke_def refresh_revoke_all_for_user_def keeps_login_def
      Let_def intro!: moves changes_exec_rows changes_exec_check changes_exec_count R_user_set R_refresh_revoke)

lemma R_session [moves]: "changes R (issue_session cr cfg random u)"
  "changes R (create_email_verification_token cr random i)"
  by (auto simp: issue_session_def create_email_verification_token_def intro!: moves split: option.split)

lemma account_operations:
  "changes R (register_user cr cfg salt random1 random2 email password name)" "changes R (login cr cfg random email password)"
  "changes R (refresh_session cr cfg random raw)" "changes R (logout cr raw)" "changes R (me u)"
  "changes R (forgot_password cr cfg random email)" "changes R (reset_password cr salt raw password)"
  "changes R (verify_email cr raw)" "changes R (update_profile u p)" "changes R (set_avatar_url uri u url)"
  "changes R (list_users f)" "changes R (admin_update_user actor u a)" "changes R (soft_delete_user actor u)"
  by (auto simp: register_user_def login_def refresh_session_def logout_def me_def forgot_password_def reset_password_def
      verify_email_def update_profile_def set_avatar_url_def list_users_def admin_update_user_def soft_delete_user_def
      Let_def intro!: moves split: option.split)

lemma account_run: "rtranclp (account_request cr cfg) w v \<Longrightarrow> R w v"
proof (induction rule: rtranclp_induct)
  case (step u v)
  from step.hyps(2) have "R u v"
    by cases (use account_operations in \<open>auto simp: changes_def\<close>)
  with step.IH show ?case by (rule R_trans)
qed (rule R_refl)

end

section \<open>Emails\<close>

definition live_emails :: "world \<Rightarrow> string list" where
  "live_emails w = map (\<lambda>u. to_lower (us_email u)) (filter user_live (users w))"

definition emails_ok :: "world \<Rightarrow> bool" where
  "emails_ok w \<longleftrightarrow> distinct (live_emails w) \<and> distinct (map us_id (users w))"

interpretation emails: world_invariant emails_ok
  by unfold_locales (simp_all add: emails_ok_def live_emails_def)

lemma live_emails_set:
  assumes "keeps_login f"
  shows "live_emails (user_set i f w) = live_emails w" "map us_id (users (user_set i f w)) = map us_id (users w)"
proof -
  have "us_email (if p then (f r)\<lparr>us_updated_at := t\<rparr> else r) = us_email r"
    "user_live (if p then (f r)\<lparr>us_updated_at := t\<rparr> else r) = user_live r" for p r t
    using assms by (simp_all add: keeps_login_def user_live_def)
  then show "live_emails (user_set i f w) = live_emails w"
    unfolding live_emails_def user_set_def upd_where_def by (simp add: filter_map comp_def)
  show "map us_id (users (user_set i f w)) = map us_id (users w)"
    using assms by (simp add: user_set_def keeps_login_def)
qed

interpretation emails: account_relation "keeping emails_ok"
proof unfold_locales
  show "keeping emails_ok w (user_set i f w)" if "keeps_login f" for f w i
    using live_emails_set [OF that] by (simp add: keeping_def emails_ok_def)
  show "changes (keeping emails_ok) (users_create email pw name r)" for email pw name r
    unfolding users_create_def
    by (rule emails.kept.changes_insert_row)
      (auto simp: keeping_def emails_ok_def live_emails_def pk_free_def email_is_def list_ex_iff)
  show "changes (keeping emails_ok) (users_soft_delete i t)" for i t
  proof -
    let ?f = "\<lambda>r. r\<lparr>us_deleted_at := Some t, us_is_active := False\<rparr>"
    have "live_emails (user_set i ?f w) = map (\<lambda>u. to_lower (us_email u)) (filter (\<lambda>u. user_live u \<and> us_id u \<noteq> i) (users w))" for w
      unfolding live_emails_def user_set_def
      by (simp add: upd_where_def filter_map comp_def user_live_def)
        (auto intro!: map_cong filter_cong)
    moreover have "map us_id (users (user_set i ?f w)) = map us_id (users w)" for w by (simp add: user_set_def)
    ultimately show ?thesis
      unfolding users_soft_delete_def
      by (intro emails.kept.changes_exec_rows)
        (auto simp: keeping_def emails_ok_def live_emails_def distinct_map inj_on_def)
  qed
qed (auto simp: keeping_def emails_ok_def live_emails_set refresh_create_def revoke_where_def resets_create_def
      resets_mark_used_def verifies_create_def verifies_mark_used_def live_emails_def
    intro!: emails.kept.changes_insert_row emails.kept.changes_exec_or)

section \<open>Tokens\<close>

text \<open>The token of a hash, as the three repositories find it; what was used up or revoked stays so.\<close>

definition session_with :: "string \<Rightarrow> world \<Rightarrow> refresh_token option" where
  "session_with h w = find (\<lambda>r. rt_hash r = h) (refresh_tokens w)"

definition reset_with :: "string \<Rightarrow> world \<Rightarrow> one_time_token option" where
  "reset_with h w = find (\<lambda>r. ot_hash r = h) (reset_tokens w)"

definition revoked :: "string \<Rightarrow> world \<Rightarrow> bool" where
  "revoked h w \<longleftrightarrow> (case session_with h w of None \<Rightarrow> False | Some t \<Rightarrow> rt_revoked_at t \<noteq> None)"

definition reset_used :: "string \<Rightarrow> world \<Rightarrow> bool" where
  "reset_used h w \<longleftrightarrow> (case reset_with h w of None \<Rightarrow> False | Some t \<Rightarrow> ot_used_at t \<noteq> None)"

definition tokens_step :: "world \<Rightarrow> world \<Rightarrow> bool" where
  "tokens_step w v \<longleftrightarrow> (\<forall>h. (revoked h w \<longrightarrow> revoked h v) \<and> (reset_used h w \<longrightarrow> reset_used h v))"

lemma tokens_same: "refresh_tokens v = refresh_tokens w \<Longrightarrow> reset_tokens v = reset_tokens w \<Longrightarrow> tokens_step w v"
  by (simp add: tokens_step_def revoked_def session_with_def reset_used_def reset_with_def)

interpretation tokens: world_order tokens_step
proof unfold_locales
  show "tokens_step w v \<Longrightarrow> tokens_step v u \<Longrightarrow> tokens_step w u" for w v u
    by (simp add: tokens_step_def)
qed (simp_all add: tokens_same)

lemma session_revoked:
  "session_with h (revoke_where p t w)
     = map_option (\<lambda>r. if standing p r then r\<lparr>rt_revoked_at := Some t\<rparr> else r) (session_with h w)"
  by (simp add: session_with_def revoke_where_def find_upd_where)

lemma reset_used_up:
  "find (\<lambda>r. ot_hash r = h) (use_up k t rs)
     = map_option (\<lambda>r. if unused k r then r\<lparr>ot_used_at := Some t\<rparr> else r) (find (\<lambda>r. ot_hash r = h) rs)"
  by (simp add: use_up_def find_upd_where)

interpretation tokens: account_relation tokens_step
proof unfold_locales
  show "tokens_step w (revoke_where p t w)" for p t w
    using session_revoked [of _ p t w]
    by (auto simp: tokens_step_def revoked_def reset_used_def reset_with_def standing_def split: option.splits)
       (auto simp: revoke_where_def)
  show "changes tokens_step (resets_mark_used h t)" for h t
    unfolding resets_mark_used_def
    by (rule tokens.changes_exec_or)
      (auto simp: tokens_step_def revoked_def session_with_def reset_used_def reset_with_def reset_used_up unused_def
        split: option.splits)
  show "changes tokens_step (refresh_create u h t)" for u h t
    unfolding refresh_create_def
    by (rule tokens.changes_insert_row)
      (auto simp: tokens_step_def revoked_def session_with_def reset_used_def reset_with_def find_append split: option.splits)
  show "changes tokens_step (resets_create u h t)" for u h t
    unfolding resets_create_def
    by (rule tokens.changes_insert_row)
      (auto simp: tokens_step_def revoked_def session_with_def reset_used_def reset_with_def find_append split: option.splits)
qed (auto simp: user_set_def users_create_def users_soft_delete_def verifies_create_def verifies_mark_used_def
    intro: tokens_same intro!: tokens.changes_insert_row tokens.changes_exec_or tokens.changes_exec_rows)

text \<open>A token that was revoked or used up opens nothing.\<close>

lemma revoked_refused:
  assumes "revoked (hash_token cr raw) w"
  shows "\<exists>e. fst (refresh_session cr cfg random raw w) = Inl e" and "read_only w (snd (refresh_session cr cfg random raw w))"
proof -
  have "wpre (refresh_session cr cfg random raw) (\<lambda>_ _. False) (\<lambda>_. read_only w) w"
    using assms by (auto simp: refresh_session_def refresh_get_by_hash_def revoked_def session_with_def refresh_spent_def
        wp_guard_then wp_asks_then wp_andThen [of "fetch_or s m c" for s m c] wp_fetch_or pop_def reads.R_refl
        split: option.splits)
  then show "\<exists>e. fst (refresh_session cr cfg random raw w) = Inl e"
    "read_only w (snd (refresh_session cr cfg random raw w))" by (rule wp_refused)+
qed

lemma used_refused:
  assumes "reset_used (hash_token cr raw) w"
  shows "\<exists>e. fst (reset_password cr salt raw password w) = Inl e" and "read_only w (snd (reset_password cr salt raw password w))"
proof -
  have "wpre (reset_password cr salt raw password) (\<lambda>_ _. False) (\<lambda>_. read_only w) w"
    using assms by (auto simp: reset_password_def resets_get_by_hash_def reset_used_def reset_with_def one_time_spent_def
        wp_guard_then wp_asks_then wp_andThen [of "fetch_or s m c" for s m c] wp_fetch_or pop_def reads.R_refl
        split: option.splits)
  then show "\<exists>e. fst (reset_password cr salt raw password w) = Inl e"
    "read_only w (snd (reset_password cr salt raw password w))" by (rule wp_refused)+
qed

lemma revoke_where_revokes:
  assumes "session_with h w = Some t" and "p t"
  shows "revoked h (revoke_where p at w)"
  using assms by (simp add: revoked_def session_revoked standing_def)

lemma token_faults [simp]:
  "session_with h (w\<lparr>faults := f\<rparr>) = session_with h w" "session_with h (pop w) = session_with h w"
  "reset_with h (w\<lparr>faults := f\<rparr>) = reset_with h w" "reset_with h (pop w) = reset_with h w"
  by (simp_all add: session_with_def reset_with_def)

lemma session_hash: "session_with h w = Some t \<Longrightarrow> rt_hash t = h"
  by (auto simp: session_with_def dest: find_SomeD)

lemma logout_revokes:
  assumes "logout cr raw w = (Inr (), v)" and "session_with (hash_token cr raw) w \<noteq> None"
  shows "revoked (hash_token cr raw) v"
proof -
  obtain t where t: "session_with (hash_token cr raw) w = Some t" using assms(2) by blast
  have "revoked (hash_token cr raw) (revoke_where (\<lambda>r. rt_hash r = hash_token cr raw) at (pop w))" for at
    using t session_hash [OF t] by (intro revoke_where_revokes [of _ _ t]) simp_all
  then have "wpre (logout cr raw) (\<lambda>_. revoked (hash_token cr raw)) (\<lambda>_ _. True) w"
    by (simp add: logout_def refresh_revoke_def wp)
  with assms(1) show ?thesis by (simp add: wpre_def)
qed

section \<open>Logging in\<close>

lemma session_user: "wpre (issue_session cr cfg random user) (\<lambda>r _. ar_user r = user) (\<lambda>_ _. True) s"
  by (auto simp: issue_session_def refresh_create_def wp split: option.split)

text \<open>The account a login finds, by its email.\<close>

definition account_of :: "world \<Rightarrow> string \<Rightarrow> user option" where
  "account_of w e = (case find (email_is (trim_space e)) (users w) of None \<Rightarrow> None | Some u \<Rightarrow> scan_user w u)"

lemma users_get_by_email_eq:
  "users_get_by_email e = fetch_row (\<lambda>w. account_of w e) ''user not found'' ''get user by email''"
  by (simp add: users_get_by_email_def account_of_def)

lemma account_pop [simp]: "account_of (pop w) e = account_of w e"
  by (simp add: account_of_def scan_user_def cong: option.case_cong)

lemma login_checks:
  assumes "login cr cfg random email password w = (Inr r, v)"
  shows "account_of w (to_lower (trim_space email)) = Some (ar_user r)" and "us_is_active (ar_user r)"
    and "bcrypt_check cr (us_password_hash (ar_user r)) password"
proof -
  let ?Q = "\<lambda>r _. account_of w (to_lower (trim_space email)) = Some (ar_user r) \<and> us_is_active (ar_user r)
      \<and> bcrypt_check cr (us_password_hash (ar_user r)) password"
  have find: "wpre (users_get_by_email e) (\<lambda>u _. account_of w e = Some u) (\<lambda>_ _. True) w" for e
    by (auto simp: users_get_by_email_def wp account_of_def scan_user_def split: option.split)
  have issue: "wpre (andThen (guard (us_is_active u) e) (\<lambda>_. andThen (guard (bcrypt_check cr (us_password_hash u) password) e')
      (\<lambda>_. issue_session cr cfg random u))) ?Q (\<lambda>_ _. True) s"
    if "account_of w (to_lower (trim_space email)) = Some u" for u e e' s
    using that by (auto simp: wp_guard_then intro: wp_mono [OF session_user])
  have "wpre (login cr cfg random email password) ?Q (\<lambda>_ _. True) w"
    unfolding login_def wp_andThen [of "orElse m h" for m h] wp_orElse wp_if wp_raise if_cancel
    by (rule wp_mono [OF find issue]) simp_all
  with assms show "account_of w (to_lower (trim_space email)) = Some (ar_user r)" "us_is_active (ar_user r)"
    "bcrypt_check cr (us_password_hash (ar_user r)) password" by (simp_all add: wpre_def)
qed

section \<open>Forgotten passwords\<close>

lemma account_has_user: "account_of w e = Some u \<Longrightarrow> has_user w (us_id u)"
  by (auto simp: account_of_def scan_user_def has_user_def split: option.splits dest: find_SomeD)

lemma forgot_uniform:
  assumes "quiet w" and "new_opaque_token cr random = Some (raw, h)" and "\<not> au_expose_dev cfg"
    and "h \<notin> set (map ot_hash (reset_tokens w))" and "pk_free (map ot_id (reset_tokens w)) w"
  shows "fst (forgot_password cr cfg random email w) = Inr (forgot_message, '''')"
proof -
  have "wpre (forgot_password cr cfg random email) (\<lambda>r _. r = (forgot_message, '''')) (\<lambda>_ _. False) w"
  proof (cases "account_of w (to_lower (trim_space email))")
    case None
    then show ?thesis
      using assms(1) by (simp add: forgot_password_def users_get_by_email_eq Let_def wp)
  next
    case (Some u)
    have "has_user w (us_id u)" using Some by (rule account_has_user)
    with Some show ?thesis
      using assms by (simp add: forgot_password_def users_get_by_email_eq Let_def wp resets_create_def one_time_free_def violation_def)
  qed
  then show ?thesis by (auto simp: wpre_def split: prod.splits sum.splits)
qed

section \<open>Resetting a password\<close>

lemma reset_hash: "reset_with h w = Some t \<Longrightarrow> ot_hash t = h"
  by (auto simp: reset_with_def dest: find_SomeD)

lemma revoke_where_all: "list_all (\<lambda>r. p r \<longrightarrow> rt_revoked_at r \<noteq> None) (refresh_tokens (revoke_where p t w))"
  by (auto simp: revoke_where_def list_all_iff set_upd_where standing_def)

lemma revoke_where_frame [simp]:
  "reset_tokens (revoke_where p t w) = reset_tokens w" "users (revoke_where p t w) = users w"
  by (simp_all add: revoke_where_def)

lemma used_up: "reset_with h w = Some t \<Longrightarrow> reset_tokens v = use_up h now (reset_tokens w) \<Longrightarrow> reset_used h v"
proof -
  assume t: "reset_with h w = Some t" and v: "reset_tokens v = use_up h now (reset_tokens w)"
  have "reset_with h v = Some (if unused h t then t\<lparr>ot_used_at := Some now\<rparr> else t)"
    using t reset_used_up [of h h now "reset_tokens w"] by (simp add: reset_with_def v)
  then show "reset_used h v" using reset_hash [OF t] by (simp add: reset_used_def unused_def)
qed

definition password_is :: "uuid \<Rightarrow> string \<Rightarrow> user \<Rightarrow> bool" where
  "password_is i hp u \<longleftrightarrow> (us_id u = i \<and> user_live u \<longrightarrow> us_password_hash u = hp)"

definition signed_out :: "uuid \<Rightarrow> refresh_token \<Rightarrow> bool" where
  "signed_out i r \<longleftrightarrow> (rt_user_id r = i \<longrightarrow> rt_revoked_at r \<noteq> None)"

lemma password_set: "list_all (password_is i hp) (users (user_set i (\<lambda>r. r\<lparr>us_password_hash := hp\<rparr>) u))"
  by (auto simp: user_set_def user_live_def password_is_def intro!: list_all_upd_where)

definition reset_done :: "string \<Rightarrow> uuid \<Rightarrow> string \<Rightarrow> world \<Rightarrow> bool" where
  "reset_done h i hp v \<longleftrightarrow> reset_used h v \<and> list_all (signed_out i) (refresh_tokens v) \<and> list_all (password_is i hp) (users v)"

lemma reset_effects:
  assumes "reset_password cr salt raw password w = (Inr (), v)"
  obtains t hp where "reset_with (hash_token cr raw) w = Some t" and "\<not> one_time_spent (clock w) t"
    and "bcrypt_hash cr salt password = Some hp" and "reset_done (hash_token cr raw) (ot_user_id t) hp v"
proof -
  let ?h = "hash_token cr raw"
  have signed: "list_all (signed_out i) (refresh_tokens (revoke_where (\<lambda>r. rt_user_id r = i) t u))" for i t u
    using revoke_where_all [of "\<lambda>r. rt_user_id r = i" t u] by (simp add: signed_out_def list_all_iff)
  have last: "wpre (refresh_revoke_all_for_user i now) (\<lambda>_. reset_done ?h i hp) (\<lambda>_ _. True) u"
    if "reset_used ?h u" "list_all (password_is i hp) (users u)" for i now hp u
    using that signed by (simp add: refresh_revoke_all_for_user_def wp reset_done_def reset_used_def reset_with_def)
  have mark: "wpre (andThen (resets_mark_used (ot_hash t) now) (\<lambda>_. refresh_revoke_all_for_user (ot_user_id t) now))
      (\<lambda>_. reset_done ?h (ot_user_id t) hp) (\<lambda>_ _. True) u"
    if "reset_with ?h u = Some t" "list_all (password_is (ot_user_id t) hp) (users u)" for t now hp u
    using that reset_hash [OF that(1)]
    by (auto simp: resets_mark_used_def wp_andThen wp_exec_or intro!: last used_up [of ?h u t])
  have "wpre (reset_password cr salt raw password)
      (\<lambda>_ v. \<exists>t hp. reset_with ?h w = Some t \<and> \<not> one_time_spent (clock w) t \<and> bcrypt_hash cr salt password = Some hp
        \<and> reset_done ?h (ot_user_id t) hp v) (\<lambda>_ _. True) w"
  proof -
    have password: "wpre (andThen (users_update_password_hash (ot_user_id t) hp) (\<lambda>_.
        andThen (resets_mark_used (ot_hash t) now) (\<lambda>_. refresh_revoke_all_for_user (ot_user_id t) now)))
        (\<lambda>_. reset_done ?h (ot_user_id t) hp) (\<lambda>_ _. True) u"
      if "reset_with ?h u = Some t" for t now hp u
      using that password_set unfolding wp_andThen [of "users_update_password_hash i h" for i h]
      by (auto simp: users_update_password_hash_def wp_exec_rows reset_with_def user_set_def intro!: mark)
    show ?thesis
      unfolding reset_password_def wp_guard_then resets_get_by_hash_def wp_andThen [of "fetch_or s m c" for s m c] wp_fetch_or
        wp_asks_then wp_case_option
      by (auto simp: wp_raise reset_with_def split: option.split intro!: wp_mono [OF password])
  qed
  with assms that show thesis by (auto simp: wpre_def)
qed

section \<open>Refreshing a session\<close>

lemma refresh_rotates:
  assumes "quiet w" and "refresh_session cr cfg random raw w = (Inr r, v)"
  shows "revoked (hash_token cr raw) v"
proof -
  have issue: "wpre (issue_session cr cfg random u) (\<lambda>_. revoked (hash_token cr raw)) (\<lambda>_ _. True) s"
    if "revoked (hash_token cr raw) s" for u s
    using that tokens.R_session(1) [of cr cfg random u, THEN changesD, of s]
    by (intro wp_run) (auto simp: tokens_step_def split: sum.split)
  have rotate: "wpre (andThen (optional (\<lambda>_. True) (refresh_revoke (rt_hash t) now)) (\<lambda>_. issue_session cr cfg random u))
      (\<lambda>_. revoked (hash_token cr raw)) (\<lambda>_ _. True) s"
    if "quiet s" "session_with (hash_token cr raw) s = Some t" for t now u s
    using that session_hash [OF that(2)] unfolding wp_andThen [of "optional p m" for p m]
    by (auto simp: refresh_revoke_def wp_optional wp_andThen wp_exec_count wp_ret intro!: issue revoke_where_revokes)
  have "wpre (refresh_session cr cfg random raw) (\<lambda>_. revoked (hash_token cr raw)) (\<lambda>_ _. True) w"
    unfolding refresh_session_def wp_guard_then refresh_get_by_hash_def users_get_by_id_def
      wp_andThen [of "fetch_or s m c" for s m c] wp_andThen [of "fetch_row s m c" for s m c] wp_fetch_or wp_fetch_row wp_asks_then
    using assms(1) by (auto simp: session_with_def split: option.split intro!: rotate)
  with assms(2) show ?thesis by (simp add: wpre_def)
qed

end
