(* ===== verification/Organizations.thy ===== *)
theory Organizations
  imports OrgRepo Slugs Tokens
begin

text \<open>
  \<open>OrganizationService\<close> (\<open>internal/service/organization.go\<close>): schools, their members and the invites by
  email. One definition per method.
\<close>

definition can_manage :: "string \<Rightarrow> bool" where
  "can_manage r \<longleftrightarrow> r = ''owner'' \<or> r = ''admin''"

definition require_org_manage :: "uuid \<Rightarrow> uuid \<Rightarrow> bool \<Rightarrow> unit act" where
  "require_org_manage actor g admin =
     (if admin then ret ()
      else andThen (members_get g actor) (\<lambda>m.
        guard (can_manage (om_role m)) (forbidden ''insufficient organization role'')))"

definition new_org :: "uuid \<Rightarrow> string \<Rightarrow> string \<Rightarrow> string \<Rightarrow> organization" where
  "new_org actor name slug descr = \<lparr>org_id = '''', org_name = name, org_slug = slug,
     org_description = trim_space descr, org_logo_url = '''', org_created_by = Some actor,
     org_created_at = 0, org_updated_at = 0, org_deleted_at = None\<rparr>"

definition create_org :: "unicode \<Rightarrow> uuid \<Rightarrow> string \<Rightarrow> string \<Rightarrow> string \<Rightarrow> organization act" where
  "create_org uc actor name0 slug0 descr =
     (let name = trim_space name0; slug = slug_for uc (trim_space slug0) name
      in andThen (guard (name \<noteq> '''') (validation ''name is required'')) (\<lambda>_.
         andThen (guard (slug \<noteq> '''') (validation ''slug is required'')) (\<lambda>_.
         andThen (orgs_create (new_org actor name slug descr)) (\<lambda>g.
         andThen (members_add (org_id g) actor owner) (\<lambda>_.
         ret g)))))"

definition list_my_orgs :: "uuid \<Rightarrow> organization list act" where
  "list_my_orgs u = orgs_list_for_user u"

definition get_org :: "uuid \<Rightarrow> uuid \<Rightarrow> bool \<Rightarrow> (organization \<times> org_member option) act" where
  "get_org actor g admin =
     andThen (orgs_get_by_id g) (\<lambda>org.
     if admin then andThen (optional (\<lambda>_. True) (members_get g actor)) (\<lambda>m. ret (org, m))
     else andThen (members_get g actor) (\<lambda>m. ret (org, Some m)))"

definition update_org :: "uuid \<Rightarrow> uuid \<Rightarrow> org_patch \<Rightarrow> bool \<Rightarrow> organization act" where
  "update_org actor g p admin =
     andThen (require_org_manage actor g admin) (\<lambda>_.
     andThen (guard (\<not> (case op_name p of None \<Rightarrow> False | Some n \<Rightarrow> trim_space n = ''''))
       (validation ''name cannot be empty'')) (\<lambda>_.
     orgs_update g p))"

definition delete_org :: "uuid \<Rightarrow> uuid \<Rightarrow> bool \<Rightarrow> unit act" where
  "delete_org actor g admin =
     andThen (if admin then ret ()
       else andThen (members_get g actor) (\<lambda>m.
         guard (om_role m = owner) (forbidden ''only owners can delete an organization''))) (\<lambda>_.
     andThen (asks clock) (\<lambda>now. orgs_soft_delete g now))"

definition list_members :: "uuid \<Rightarrow> uuid \<Rightarrow> bool \<Rightarrow> org_member list act" where
  "list_members actor g admin =
     andThen (get_org actor g admin) (\<lambda>_. members_list_by_org g)"

text \<open>The target of a change of membership: for it, being no member is a missing row.\<close>

definition is_forbidden :: "err \<Rightarrow> bool" where
  "is_forbidden e = (case as_app e of None \<Rightarrow> False | Some a \<Rightarrow> app_code_of a = CodeForbidden)"

definition get_target :: "uuid \<Rightarrow> uuid \<Rightarrow> org_member act" where
  "get_target g u = orElse (members_get g u) (\<lambda>e.
     if is_forbidden e then raise (not_found ''member not found'') else raise e)"

definition keep_an_owner :: "uuid \<Rightarrow> string \<Rightarrow> unit act" where
  "keep_an_owner g msg =
     andThen (members_count_owners g) (\<lambda>n. guard (\<not> n \<le> 1) (validation msg))"

definition update_member_role :: "uuid \<Rightarrow> uuid \<Rightarrow> uuid \<Rightarrow> string \<Rightarrow> bool \<Rightarrow> unit act" where
  "update_member_role actor g u r admin =
     andThen (require_org_manage actor g admin) (\<lambda>_.
     andThen (guard (r \<in> {''admin'', ''member'', ''owner''}) (validation ''invalid org role'')) (\<lambda>_.
     andThen (get_target g u) (\<lambda>target.
     andThen (if om_role target = owner \<and> r \<noteq> owner
              then keep_an_owner g ''cannot demote the last owner'' else ret ()) (\<lambda>_.
     members_update_role g u r))))"

definition remove_member :: "uuid \<Rightarrow> uuid \<Rightarrow> uuid \<Rightarrow> bool \<Rightarrow> unit act" where
  "remove_member actor g u admin =
     andThen (require_org_manage actor g admin) (\<lambda>_.
     andThen (guard (actor \<noteq> u)
       (validation ''use leave flow or transfer ownership before removing yourself'')) (\<lambda>_.
     andThen (get_target g u) (\<lambda>target.
     andThen (if om_role target = owner
              then keep_an_owner g ''cannot remove the last owner'' else ret ()) (\<lambda>_.
     members_remove g u))))"

text \<open>\<open>inviteTTL\<close>, in seconds.\<close>

definition invite_ttl :: int where
  "invite_ttl = 7 * 24 * 3600"

definition contains_at :: "string \<Rightarrow> bool" where
  "contains_at s \<longleftrightarrow> CHR ''@'' \<in> set s"

definition create_invite ::
  "crypto \<Rightarrow> bool \<Rightarrow> string option \<Rightarrow> uuid \<Rightarrow> uuid \<Rightarrow> string \<Rightarrow> string \<Rightarrow> bool \<Rightarrow> (org_invite \<times> string) act" where
  "create_invite cr expose_dev random actor g email0 r admin =
     andThen (require_org_manage actor g admin) (\<lambda>_.
     let email = to_lower (trim_space email0)
     in andThen (guard (\<not> (email = '''' \<or> \<not> contains_at email)) (validation ''a valid email is required'')) (\<lambda>_.
        andThen (guard (r \<in> {''admin'', ''member''}) (validation ''invite role must be admin or member'')) (\<lambda>_.
        case new_opaque_token cr random of
          None \<Rightarrow> raise (internal ''could not create invite token'')
        | Some (raw, h) \<Rightarrow>
            andThen (asks clock) (\<lambda>now.
            andThen (org_invites_create \<lparr>oi_id = '''', oi_org_id = g, oi_email = email, oi_role = r,
              oi_token_hash = h, oi_invited_by = Some actor, oi_expires_at = now + invite_ttl,
              oi_accepted_at = None, oi_revoked_at = None, oi_created_at = 0\<rparr>) (\<lambda>i.
            ret (i, if expose_dev then raw else ''''))))))"

definition list_invites :: "uuid \<Rightarrow> uuid \<Rightarrow> bool \<Rightarrow> org_invite list act" where
  "list_invites actor g admin =
     andThen (require_org_manage actor g admin) (\<lambda>_. org_invites_list_pending g)"

definition revoke_invite :: "uuid \<Rightarrow> uuid \<Rightarrow> uuid \<Rightarrow> bool \<Rightarrow> unit act" where
  "revoke_invite actor g i admin =
     andThen (require_org_manage actor g admin) (\<lambda>_.
     andThen (org_invites_get_by_id i) (\<lambda>inv.
     andThen (guard (oi_org_id inv = g) (not_found ''invite not found'')) (\<lambda>_.
     andThen (asks clock) (\<lambda>now. org_invites_revoke i now))))"

definition is_conflict :: "err \<Rightarrow> bool" where
  "is_conflict e = (case as_app e of None \<Rightarrow> False | Some a \<Rightarrow> app_code_of a = CodeConflict)"

definition invite_spent :: "time \<Rightarrow> org_invite \<Rightarrow> bool" where
  "invite_spent now i \<longleftrightarrow> oi_revoked_at i \<noteq> None \<or> oi_accepted_at i \<noteq> None \<or> oi_expires_at i < now"

definition accept_invite :: "crypto \<Rightarrow> uuid \<Rightarrow> string \<Rightarrow> organization act" where
  "accept_invite cr actor raw =
     andThen (guard (trim_space raw \<noteq> '''') (validation ''token is required'')) (\<lambda>_.
     andThen (org_invites_get_by_hash (hash_token cr raw)) (\<lambda>inv.
     andThen (asks clock) (\<lambda>now.
     andThen (guard (\<not> invite_spent now inv) (unauthorized ''invalid or expired invite'')) (\<lambda>_.
     andThen (users_get_by_id actor) (\<lambda>user.
     andThen (guard (equal_fold (us_email user) (oi_email inv))
       (forbidden ''invite email does not match your account'')) (\<lambda>_.
     andThen (orgs_get_by_id (oi_org_id inv)) (\<lambda>org.
     andThen (optional is_conflict (members_add (oi_org_id inv) actor (oi_role inv))) (\<lambda>_.
     andThen (org_invites_mark_accepted (oi_id inv) now) (\<lambda>_.
     ret org)))))))))"

end
