(* ===== verification/OrgRules.thy ===== *)
theory OrgRules
  imports Organizations
begin

text \<open>
  What holds of organizations over any run of requests to \<open>OrganizationService\<close>: the membership table has
  one row per organization and user, an organization does not lose its last owner, and an invite is
  accepted once.
\<close>

section \<open>Owners\<close>

definition member_keys :: "world \<Rightarrow> (uuid \<times> uuid) list" where
  "member_keys w = map (\<lambda>m. (om_org_id m, om_user_id m)) (org_members w)"

definition owners_step :: "world \<Rightarrow> world \<Rightarrow> bool" where
  "owners_step w v \<longleftrightarrow> (distinct (member_keys w) \<longrightarrow> distinct (member_keys v)
     \<and> (\<forall>g. 1 \<le> owners g w \<longrightarrow> 1 \<le> owners g v))"

lemma owners_same: "org_members v = org_members w \<Longrightarrow> owners_step w v"
  by (simp add: owners_step_def member_keys_def owners_def)

interpretation owned: world_order owners_step
proof unfold_locales
  show "owners_step w v \<Longrightarrow> owners_step v u \<Longrightarrow> owners_step w u" for w v u
    by (auto simp: owners_step_def)
qed (auto simp: owners_same)

lemma member_unique:
  assumes "distinct (member_keys w)" and "m \<in> set (org_members w)" "m' \<in> set (org_members w)"
    and "is_member g u m" "is_member g u m'"
  shows "m = m'"
  using distinct_key_unique [OF assms(1) [unfolded member_keys_def] assms(2,3)] assms(4,5)
  by (simp add: is_member_def)

lemma is_member_key: "m \<in> set (org_members w) \<Longrightarrow> is_member g u m \<Longrightarrow> is_member g u = (\<lambda>s. (om_org_id s, om_user_id s) = (om_org_id m, om_user_id m))"
  by (auto simp: is_member_def fun_eq_iff)

text \<open>Changing or removing one member leaves the owners of another organization alone.\<close>

lemma owners_updated:
  assumes keys: "distinct (member_keys w)" and m: "find (is_member g u) (org_members w) = Some m"
    and v: "org_members v = upd_where (is_member g u) (\<lambda>m. m\<lparr>om_role := r\<rparr>) (org_members w)"
  shows "int (owners g' v) = int (owners g' w) - of_bool (g' = g \<and> om_role m = owner) + of_bool (g' = g \<and> r = owner)"
proof -
  have "m \<in> set (org_members w)" "is_member g u m" using find_SomeD [OF m] by auto
  then have "om_org_id m = g" and pred: "is_member g u = (\<lambda>s. (om_org_id s, om_user_id s) = (om_org_id m, om_user_id m))"
    using is_member_key [of m w g u] by (auto simp: is_member_def)
  from cnt_upd_key [OF keys [unfolded member_keys_def] \<open>m \<in> set (org_members w)\<close>,
      of "\<lambda>m. om_org_id m = g' \<and> om_role m = owner" "\<lambda>m. m\<lparr>om_role := r\<rparr>"]
  show ?thesis unfolding owners_def v pred using \<open>om_org_id m = g\<close> by (auto simp: eq_commute)
qed

lemma cnt_filter_key:
  assumes "distinct (map k rs)" and "r \<in> set rs"
  shows "int (cnt q (filter (\<lambda>s. k s \<noteq> k r) rs)) = int (cnt q rs) - of_bool (q r)"
  using assms
proof (induction rs)
  case (Cons s rs)
  show ?case
  proof (cases "s = r")
    case True
    then have "filter (\<lambda>s. k s \<noteq> k r) rs = rs" using Cons.prems by (intro filter_True) (auto simp: image_iff)
    with True show ?thesis by auto
  next
    case False
    then have "k s \<noteq> k r" and "r \<in> set rs" and "distinct (map k rs)"
      using Cons.prems by (auto simp: image_iff)
    with Cons.IH show ?thesis by auto
  qed
qed simp

lemma owners_removed:
  assumes keys: "distinct (member_keys w)" and m: "find (is_member g u) (org_members w) = Some m"
    and v: "org_members v = filter (\<lambda>m. \<not> is_member g u m) (org_members w)"
  shows "int (owners g' v) = int (owners g' w) - of_bool (g' = g \<and> om_role m = owner)"
proof -
  have "m \<in> set (org_members w)" "is_member g u m" using find_SomeD [OF m] by auto
  then have "om_org_id m = g" and pred: "is_member g u = (\<lambda>s. (om_org_id s, om_user_id s) = (om_org_id m, om_user_id m))"
    using is_member_key [of m w g u] by (auto simp: is_member_def)
  from cnt_filter_key [OF keys [unfolded member_keys_def] \<open>m \<in> set (org_members w)\<close>,
      of "\<lambda>m. om_org_id m = g' \<and> om_role m = owner"]
  show ?thesis unfolding owners_def v pred using \<open>om_org_id m = g\<close> by (auto simp: eq_commute)
qed

section \<open>Changes of membership\<close>

text \<open>The checks read: the role of the target and the number of owners are those of the table.\<close>

lemma org_reads [moves]:
  "changes read_only (members_get g u)" "changes read_only (orgs_get_by_id g)" "changes read_only (members_count_owners g)"
  "changes read_only (org_invites_get_by_hash h)" "changes read_only (users_get_by_id u)"
  "changes read_only (members_list_by_org g)" "changes read_only (org_invites_list_pending g)"
  "changes read_only (org_invites_get_by_id i)" "changes read_only (orgs_list_for_user u)"
  by (simp_all add: members_get_def orgs_get_by_id_def members_count_owners_def org_invites_get_by_hash_def
      users_get_by_id_def members_list_by_org_def org_invites_list_pending_def org_invites_get_by_id_def
      orgs_list_for_user_def read_only_fetch)

lemma require_manage_reads [moves]: "changes read_only (require_org_manage actor g admin)"
  by (auto simp: require_org_manage_def intro!: moves)

lemma member_row_faults [simp]: "member_row (w\<lparr>faults := f\<rparr>) g u = member_row w g u"
  "owners g (w\<lparr>faults := f\<rparr>) = owners g w"
  by (simp_all add: member_row_def live_user_def scan_member_def owners_def fun_eq_iff
      cong: option.case_cong option.map_cong)

lemma wp_target:
  assumes "\<And>e f. E e (w\<lparr>faults := f\<rparr>)"
    and "\<And>m f. member_row w g u = Some m \<Longrightarrow> wpre (h m) Q E (w\<lparr>faults := f\<rparr>)"
  shows "wpre (andThen (get_target g u) h) Q E (w\<lparr>faults := f'\<rparr>)"
  using assms by (auto simp: get_target_def members_get_def wp pop_def split: option.split)

lemma wp_keep_owner:
  assumes "\<And>e f. E e (w\<lparr>faults := f\<rparr>)"
    and "\<And>f. (c \<longrightarrow> 1 < owners g w) \<Longrightarrow> wpre (h ()) Q E (w\<lparr>faults := f\<rparr>)"
  shows "wpre (andThen (if c then keep_an_owner g msg else ret ()) h) Q E (w\<lparr>faults := f'\<rparr>)"
  using assms by (auto simp: keep_an_owner_def members_count_owners_def wp pop_def)

lemma member_row_stored:
  "member_row w g u = Some m \<Longrightarrow> \<exists>s. find (is_member g u) (org_members w) = Some s \<and> om_role s = om_role m"
  by (auto simp: member_row_def scan_member_def split: option.splits)

text \<open>A write that takes away at most one owner, and one only when there are more.\<close>

lemma owners_written:
  assumes "distinct (member_keys w) \<Longrightarrow> distinct (member_keys v)"
    and "\<And>g'. distinct (member_keys w) \<Longrightarrow> int (owners g' w) - of_bool (g' = g \<and> c) \<le> int (owners g' v)"
    and "c \<longrightarrow> 1 < owners g w"
  shows "owners_step w v"
  unfolding owners_step_def
proof (intro impI conjI allI)
  fix g' assume k: "distinct (member_keys w)" and "1 \<le> owners g' w"
  with assms(2) [OF k, of g'] assms(3) show "1 \<le> owners g' v" by (cases "g' = g \<and> c") auto
qed (rule assms(1))

lemma update_role_step: "changes owners_step (update_member_role actor g u r admin)"
proof (rule owned.changes_wp)
  fix w
  have written: "wpre (members_update_role g u r) (\<lambda>_. owners_step w) (\<lambda>_. owners_step w) (w\<lparr>faults := f\<rparr>)"
    if row: "member_row w g u = Some m" and enough: "om_role m = owner \<and> r \<noteq> owner \<longrightarrow> 1 < owners g w" for m f
  proof -
    obtain s where s: "find (is_member g u) (org_members w) = Some s" "om_role s = om_role m"
      using member_row_stored [OF row] by blast
    have "owners_step w (w\<lparr>faults := f, org_members := upd_where (is_member g u) (\<lambda>m. m\<lparr>om_role := r\<rparr>) (org_members w)\<rparr>)" (is "owners_step w ?v") for f
    proof (rule owners_written [where c = "om_role m = owner \<and> r \<noteq> owner"])
      show "int (owners g' w) - of_bool (g' = g \<and> om_role m = owner \<and> r \<noteq> owner) \<le> int (owners g' ?v)"
        if "distinct (member_keys w)" for g'
        using owners_updated [OF that s(1), of ?v r g'] s(2) by (auto simp: of_bool_def split: if_splits)
    qed (use enough in \<open>simp_all add: member_keys_def\<close>)
    then show ?thesis
      by (auto simp: members_update_role_def wp pop_def owners_same split: option.split)
  qed
  show "wpre (update_member_role actor g u r admin) (\<lambda>_. owners_step w) (\<lambda>_. owners_step w) w"
    unfolding update_member_role_def
    by (rule wp_read_start [OF require_manage_reads], simp add: owners_same, simp only: wp_guard_then split: if_split,
        intro conjI impI wp_target wp_keep_owner written) (assumption | simp add: owners_same)+
qed

lemma remove_member_step: "changes owners_step (remove_member actor g u admin)"
proof (rule owned.changes_wp)
  fix w
  have written: "wpre (members_remove g u) (\<lambda>_. owners_step w) (\<lambda>_. owners_step w) (w\<lparr>faults := f\<rparr>)"
    if row: "member_row w g u = Some m" and enough: "om_role m = owner \<longrightarrow> 1 < owners g w" for m f
  proof -
    obtain s where s: "find (is_member g u) (org_members w) = Some s" "om_role s = om_role m"
      using member_row_stored [OF row] by blast
    have "owners_step w (w\<lparr>faults := f, org_members := filter (\<lambda>m. \<not> is_member g u m) (org_members w)\<rparr>)" (is "owners_step w ?v") for f
    proof (rule owners_written [where c = "om_role m = owner"])
      show "int (owners g' w) - of_bool (g' = g \<and> om_role m = owner) \<le> int (owners g' ?v)"
        if "distinct (member_keys w)" for g'
        using owners_removed [OF that s(1), of ?v g'] s(2) by simp
    qed (use enough in \<open>simp_all add: member_keys_def distinct_map_filter\<close>)
    then show ?thesis
      by (auto simp: members_remove_def wp pop_def owners_same)
  qed
  show "wpre (remove_member actor g u admin) (\<lambda>_. owners_step w) (\<lambda>_. owners_step w) w"
    unfolding remove_member_def
    by (rule wp_read_start [OF require_manage_reads])
      (auto simp: wp_guard_then owners_same intro!: wp_target wp_keep_owner written)
qed

lemma members_add_step [moves]: "changes owners_step (members_add g u r)"
  unfolding members_add_def
  by (rule owned.changes_insert_row)
    (auto simp: owners_step_def member_keys_def owners_def is_member_def list_ex_iff)

section \<open>Invites\<close>

text \<open>The invite with a token hash; once accepted or revoked it stays so.\<close>

definition invite_with :: "string \<Rightarrow> world \<Rightarrow> org_invite option" where
  "invite_with h w = find (\<lambda>r. oi_token_hash r = h) (org_invites w)"

definition closed :: "string \<Rightarrow> world \<Rightarrow> bool" where
  "closed h w \<longleftrightarrow> (case invite_with h w of None \<Rightarrow> False
     | Some i \<Rightarrow> oi_accepted_at i \<noteq> None \<or> oi_revoked_at i \<noteq> None)"

definition invite_step :: "world \<Rightarrow> world \<Rightarrow> bool" where
  "invite_step w v \<longleftrightarrow> (\<forall>h. closed h w \<longrightarrow> closed h v)"

lemma org_invite_same: "org_invites v = org_invites w \<Longrightarrow> invite_step w v"
  by (simp add: invite_step_def closed_def invite_with_def)

interpretation invites: world_order invite_step
proof unfold_locales
  show "invite_step w v \<Longrightarrow> invite_step v u \<Longrightarrow> invite_step w u" for w v u
    by (auto simp: invite_step_def)
qed (auto simp: org_invite_same)

lemma invite_updated:
  assumes "org_invites v = upd_where p f (org_invites w)" and "\<And>r. oi_token_hash (f r) = oi_token_hash r"
    and "\<And>r. oi_accepted_at (f r) = None \<and> oi_revoked_at (f r) = None \<longrightarrow> oi_accepted_at r = None \<and> oi_revoked_at r = None"
  shows "invite_step w v"
proof -
  have found: "invite_with h v = map_option (\<lambda>r. if p r then f r else r) (invite_with h w)" for h
    unfolding invite_with_def assms(1) by (rule find_upd_where) (simp add: assms(2))
  have "closed h v" if "closed h w" for h
  proof -
    obtain i where i: "invite_with h w = Some i" "oi_accepted_at i \<noteq> None \<or> oi_revoked_at i \<noteq> None"
      using \<open>closed h w\<close> by (auto simp: closed_def split: option.splits)
    with assms(3) [of i] show ?thesis by (auto simp: closed_def found)
  qed
  then show ?thesis by (simp add: invite_step_def)
qed

lemma invite_writes [moves]:
  "changes invite_step (org_invites_create i)" "changes invite_step (org_invites_mark_accepted k t)"
  "changes invite_step (org_invites_revoke k t)"
proof -
  show "changes invite_step (org_invites_create i)"
    unfolding org_invites_create_def
    by (rule invites.changes_insert_row)
      (auto simp: invite_step_def closed_def invite_with_def find_append split: option.splits)
  show "changes invite_step (org_invites_mark_accepted k t)" "changes invite_step (org_invites_revoke k t)"
    by (auto simp: org_invites_mark_accepted_def org_invites_revoke_def
        intro!: invites.changes_exec_or invites.changes_exec_rows intro: invite_updated)
qed

section \<open>Runs\<close>

inductive org_request :: "unicode \<Rightarrow> crypto \<Rightarrow> bool \<Rightarrow> world \<Rightarrow> world \<Rightarrow> bool" for uc cr dev where
  req_create_org: "org_request uc cr dev w (snd (create_org uc actor name slug descr w))"
| req_my_orgs: "org_request uc cr dev w (snd (list_my_orgs u w))"
| req_get_org: "org_request uc cr dev w (snd (get_org actor g admin w))"
| req_update_org: "org_request uc cr dev w (snd (update_org actor g p admin w))"
| req_delete_org: "org_request uc cr dev w (snd (delete_org actor g admin w))"
| req_list_members: "org_request uc cr dev w (snd (list_members actor g admin w))"
| req_member_role: "org_request uc cr dev w (snd (update_member_role actor g u r admin w))"
| req_remove_member: "org_request uc cr dev w (snd (remove_member actor g u admin w))"
| req_create_invite: "org_request uc cr dev w (snd (create_invite cr dev random actor g email r admin w))"
| req_list_invites: "org_request uc cr dev w (snd (list_invites actor g admin w))"
| req_revoke_invite: "org_request uc cr dev w (snd (revoke_invite actor g i admin w))"
| req_accept_invite: "org_request uc cr dev w (snd (accept_invite cr actor raw w))"

text \<open>A relation that the writes of organizations respect is one that every request respects.\<close>

locale org_relation = world_order R for R :: "world \<Rightarrow> world \<Rightarrow> bool" +
  assumes R_organizations: "R w (w\<lparr>organizations := gs\<rparr>)"
    and R_members_add: "changes R (members_add g u r)"
    and R_member_role: "changes R (update_member_role actor g u r admin)"
    and R_remove_member: "changes R (remove_member actor g u admin)"
    and R_invites_create: "changes R (org_invites_create iv)"
    and R_mark_accepted: "changes R (org_invites_mark_accepted k t)"
    and R_revoke: "changes R (org_invites_revoke k t)"
begin

lemma R_org_reads [moves]:
  "changes R (members_get g u)" "changes R (orgs_get_by_id g)" "changes R (org_invites_get_by_hash h)"
  "changes R (users_get_by_id u)" "changes R (members_list_by_org g)" "changes R (org_invites_list_pending g)"
  "changes R (org_invites_get_by_id i)" "changes R (orgs_list_for_user u)" "changes R (require_org_manage actor g admin)"
  by (auto simp: members_get_def orgs_get_by_id_def org_invites_get_by_hash_def users_get_by_id_def
      members_list_by_org_def org_invites_list_pending_def org_invites_get_by_id_def orgs_list_for_user_def
      require_org_manage_def intro!: moves)

lemma R_org_writes [moves]:
  "changes R (orgs_create og)" "changes R (orgs_update g p)" "changes R (orgs_soft_delete g t)"
  unfolding orgs_create_def orgs_update_def orgs_soft_delete_def Let_def org_set_def
  by (auto intro!: moves changes_insert_row changes_exec_check changes_exec_rows R_organizations)
    (metis R_organizations R_trans R_uuid)

lemmas R_changes [moves] = R_members_add R_member_role R_remove_member R_invites_create R_mark_accepted R_revoke

lemma org_operations:
  "changes R (create_org uc actor name slug descr)" "changes R (list_my_orgs u)" "changes R (get_org actor g admin)"
  "changes R (update_org actor g p admin)" "changes R (delete_org actor g admin)" "changes R (list_members actor g admin)"
  "changes R (create_invite cr dev random actor g email r admin)" "changes R (list_invites actor g admin)"
  "changes R (revoke_invite actor g i admin)" "changes R (accept_invite cr actor raw)"
  by (auto simp: create_org_def list_my_orgs_def get_org_def update_org_def delete_org_def list_members_def
      create_invite_def list_invites_def revoke_invite_def accept_invite_def Let_def intro!: moves split: option.split)

lemma org_run: "rtranclp (org_request uc cr dev) w v \<Longrightarrow> R w v"
proof (induction rule: rtranclp_induct)
  case (step u v)
  from step.hyps(2) have "R u v"
    by cases (use org_operations R_changes in \<open>auto simp: changes_def\<close>)
  with step.IH show ?case by (rule R_trans)
qed (rule R_refl)

end

interpretation owned: org_relation owners_step
  by unfold_locales
    (auto simp: org_invites_create_def org_invites_mark_accepted_def org_invites_revoke_def
      intro: owners_same update_role_step remove_member_step moves
      intro!: owned.changes_insert_row owned.changes_exec_or owned.changes_exec_rows)

interpretation invites: org_relation invite_step
proof unfold_locales
  show "changes invite_step (update_member_role actor g u r admin)"
    "changes invite_step (remove_member actor g u admin)" for actor g u r admin
    by (auto simp: update_member_role_def remove_member_def require_org_manage_def get_target_def keep_an_owner_def
        members_get_def members_count_owners_def members_update_role_def members_remove_def
        intro!: moves invites.changes_exec_check invites.changes_exec_rows intro: org_invite_same)
qed (auto simp: members_add_def intro: org_invite_same moves intro!: invites.changes_insert_row)

section \<open>An invite is accepted once\<close>

lemma closed_faults [simp]: "closed h (w\<lparr>faults := f\<rparr>) = closed h w" "closed h (pop w) = closed h w"
  by (simp_all add: closed_def invite_with_def cong: option.case_cong)

lemma closed_refused:
  assumes "closed (hash_token cr raw) w"
  shows "\<exists>e. fst (accept_invite cr actor raw w) = Inl e" and "read_only w (snd (accept_invite cr actor raw w))"
proof -
  have "wpre (accept_invite cr actor raw) (\<lambda>_ _. False) (\<lambda>_. read_only w) w"
    using assms by (auto simp: accept_invite_def org_invites_get_by_hash_def closed_def invite_with_def invite_spent_def
        wp_guard_then wp_asks_then wp_andThen [of "fetch_or s m c" for s m c] wp_fetch_or pop_def reads.R_refl
        split: option.splits)
  then show "\<exists>e. fst (accept_invite cr actor raw w) = Inl e" "read_only w (snd (accept_invite cr actor raw w))"
    by (rule wp_refused)+
qed

definition same_invites :: "world \<Rightarrow> world \<Rightarrow> bool" where
  "same_invites w v \<longleftrightarrow> org_invites v = org_invites w"

interpretation invites_kept: world_order same_invites
  by unfold_locales (auto simp: same_invites_def)

lemma add_keeps_invites [moves]: "changes same_invites (members_add g u r)"
  by (auto simp: members_add_def same_invites_def intro!: invites_kept.changes_insert_row)

lemma accept_closes:
  assumes "accept_invite cr actor raw w = (Inr og, v)"
  shows "closed (hash_token cr raw) v"
proof -
  have accepted: "wpre (andThen (org_invites_mark_accepted (oi_id i) t) (\<lambda>_. ret og)) (\<lambda>_. closed (hash_token cr raw)) (\<lambda>_ _. True) u"
    if "invite_with (hash_token cr raw) u = Some i" "\<not> invite_spent t' i" for i t t' og u
  proof -
    have "find (\<lambda>r. oi_token_hash r = hash_token cr raw) (upd_where (open_invite (oi_id i)) (\<lambda>r. r\<lparr>oi_accepted_at := Some t\<rparr>)
        (org_invites u)) = map_option (\<lambda>r. if open_invite (oi_id i) r then r\<lparr>oi_accepted_at := Some t\<rparr> else r)
        (find (\<lambda>r. oi_token_hash r = hash_token cr raw) (org_invites u))"
      by (rule find_upd_where) simp
    then show ?thesis
      using that by (auto simp: org_invites_mark_accepted_def wp closed_def invite_with_def open_invite_def invite_spent_def)
  qed
  have final: "wpre (andThen (users_get_by_id actor) (\<lambda>user.
     andThen (guard (equal_fold (us_email user) (oi_email i)) e) (\<lambda>_.
     andThen (orgs_get_by_id (oi_org_id i)) (\<lambda>og.
     andThen (optional is_conflict (members_add (oi_org_id i) actor (oi_role i))) (\<lambda>_.
     andThen (org_invites_mark_accepted (oi_id i) t) (\<lambda>_. ret og)))))) (\<lambda>_. closed (hash_token cr raw)) (\<lambda>_ _. True) u"
    if i: "invite_with (hash_token cr raw) u = Some i" "\<not> invite_spent t' i" for i t t' e u
    apply (rule wp_any_related [where R = same_invites])
     apply (auto simp: users_get_by_id_def intro!: moves)[1]
    subgoal for user v
      apply (rule wp_any_related [where R = same_invites])
       apply (auto intro!: moves)[1]
      apply (rule wp_any_related [where R = same_invites])
       apply (auto simp: orgs_get_by_id_def intro!: moves)[1]
      apply (rule wp_any_related [where R = same_invites])
       apply (auto intro!: moves)[1]
      apply (rule accepted)
      using i apply (auto simp: same_invites_def invite_with_def)
      done
    done
  have "wpre (accept_invite cr actor raw) (\<lambda>_. closed (hash_token cr raw)) (\<lambda>_ _. True) w"
    unfolding accept_invite_def wp_guard_then org_invites_get_by_hash_def wp_andThen [of "fetch_or s m c" for s m c]
      wp_fetch_or wp_asks_then
    using final by (auto simp: invite_with_def split: option.split)
  with assms show ?thesis by (simp add: wpre_def)
qed

section \<open>Rights inside an organization\<close>

definition live_owners :: "uuid \<Rightarrow> world \<Rightarrow> org_member list" where
  "live_owners g w = filter (\<lambda>m. om_org_id m = g \<and> om_role m = owner \<and> live_user w (om_user_id m) \<noteq> None) (org_members w)"

lemma members_get_quiet: "quiet w \<Longrightarrow> member_row w g u = Some m \<Longrightarrow> members_get g u w = (Inr m, w)"
  by (simp add: members_get_def fetch_or_def)

lemma member_row_updated:
  assumes row: "member_row w g u = Some m" and v: "org_members v = upd_where (is_member g u) (\<lambda>m. m\<lparr>om_role := r\<rparr>) (org_members w)"
    and us: "users v = users w"
  shows "\<exists>m'. member_row v g u = Some m' \<and> om_role m' = r"
proof -
  obtain x s where x: "live_user w u = Some x" "find (is_member g u) (org_members w) = Some s"
    using row by (auto simp: member_row_def split: option.splits)
  have "find (is_member g u) (org_members v)
      = map_option (\<lambda>m. if is_member g u m then m\<lparr>om_role := r\<rparr> else m) (find (is_member g u) (org_members w))"
    unfolding v by (rule find_upd_where) (simp add: is_member_def)
  then have "find (is_member g u) (org_members v) = Some (s\<lparr>om_role := r\<rparr>)"
    using x(2) find_SomeD [OF x(2)] by simp
  moreover have "live_user v u = Some x" using x(1) us by (simp add: live_user_def)
  ultimately show ?thesis by (simp add: member_row_def scan_member_def)
qed

text \<open>Whoever may manage members may make itself an owner, and so delete the organization.\<close>

lemma manager_becomes_owner:
  assumes "quiet w" and "member_row w g u = Some m" and "can_manage (om_role m)"
  obtains v m' where "update_member_role u g u owner False w = (Inr (), v)" and "quiet v"
    and "member_row v g u = Some m'" and "om_role m' = owner" and "organizations v = organizations w"
proof -
  let ?v = "w\<lparr>org_members := upd_where (is_member g u) (\<lambda>m. m\<lparr>om_role := owner\<rparr>) (org_members w)\<rparr>"
  have "0 < cnt (is_member g u) (org_members w)"
    using member_row_stored [OF assms(2)] by (auto simp: cnt_def filter_empty_conv dest!: find_SomeD)
  then have "update_member_role u g u owner False w = (Inr (), ?v)"
    using assms members_get_quiet [OF assms(1,2)]
    by (simp add: update_member_role_def require_org_manage_def get_target_def andThen_def orElse_def guard_def ret_def
        members_update_role_def exec_check_def org_roles_def violation_def)
  moreover obtain m' where "member_row ?v g u = Some m'" "om_role m' = owner"
    using member_row_updated [OF assms(2), of ?v owner] by auto
  ultimately show thesis using that [of ?v m'] assms(1) by simp
qed

lemma owner_deletes:
  assumes "quiet w" and "member_row w g u = Some m" and "om_role m = owner"
    and "find (\<lambda>r. org_id r = g \<and> org_live r) (organizations w) = Some og"
  shows "\<exists>v. delete_org u g False w = (Inr (), v)"
proof -
  have "org_rows g w \<noteq> 0"
    using assms(4) by (auto simp: org_rows_def cnt_def filter_empty_conv dest!: find_SomeD)
  then show ?thesis
    using assms members_get_quiet [OF assms(1,2)]
    by (simp add: delete_org_def andThen_def guard_def ret_def asks_def orgs_soft_delete_def exec_rows_def)
qed

end
