(* ===== verification/LiveRepo.thy ===== *)
theory LiveRepo
  imports CurriculumRepo EnrollmentRepo
begin

text \<open>
  \<open>LiveSessionRepository\<close> and \<open>SessionAttendanceRepository\<close> (\<open>internal/repository/postgres/live.go\<close>).
  The queries of sessions join the course, those of the attendance the user; a row without them is not read.
  The JSON column of the provider's metadata holds the map itself.
\<close>

section \<open>Sessions\<close>

definition scan_session :: "world \<Rightarrow> live_session \<Rightarrow> live_session" where
  "scan_session w s = s\<lparr>ls_course_title := course_title_of w (ls_course_id s),
     ls_course_slug := course_slug_of w (ls_course_id s)\<rparr>"

definition session_joined :: "world \<Rightarrow> live_session \<Rightarrow> bool" where
  "session_joined w s \<longleftrightarrow> has_course w (ls_course_id s)"

abbreviation live_providers :: "string list" where
  "live_providers \<equiv> [''custom'', ''jitsi'', ''zoom'', ''google_meet'']"

definition session_check :: "live_session \<Rightarrow> bool" where
  "session_check s \<longleftrightarrow> sql_nonblank (ls_title s) \<and> ls_provider s \<in> set live_providers \<and> ls_starts_at s < ls_ends_at s"

definition sessions_create :: "live_session \<Rightarrow> live_session act" where
  "sessions_create s = insert_row
     (\<lambda>w. violation True (session_check s) (pk_free (map ls_id (live_sessions w)) w)
            (has_course w (ls_course_id s) \<and> has_lesson w (ls_lesson_id s) \<and> has_user w (ls_created_by s)))
     (\<lambda>w. s\<lparr>ls_id := fresh_uuid w, ls_created_at := clock w, ls_updated_at := clock w\<rparr>)
     (\<lambda>r w. w\<lparr>live_sessions := live_sessions w @ [r]\<rparr>)
     (\<lambda>st. WrapError ''create live session'' (DriverError st))"

definition session_row :: "uuid \<Rightarrow> world \<Rightarrow> live_session option" where
  "session_row i w = map_option (scan_session w) (find (\<lambda>r. ls_id r = i \<and> session_joined w r) (live_sessions w))"

definition sessions_get_by_id :: "uuid \<Rightarrow> live_session act" where
  "sessions_get_by_id i = fetch_row (session_row i) ''session not found'' ''get live session''"

definition sessions_list_by_course :: "uuid \<Rightarrow> live_session list act" where
  "sessions_list_by_course c = fetch_val
     (\<lambda>w. map (scan_session w) (sort_key ls_starts_at
        (filter (\<lambda>r. ls_course_id r = c \<and> session_joined w r) (live_sessions w)))) ''list live sessions''"

definition session_rows :: "uuid \<Rightarrow> world \<Rightarrow> nat" where
  "session_rows i w = cnt (\<lambda>r. ls_id r = i) (live_sessions w)"

definition session_set :: "uuid \<Rightarrow> (live_session \<Rightarrow> live_session) \<Rightarrow> world \<Rightarrow> world" where
  "session_set i f w = w\<lparr>live_sessions := upd_where (\<lambda>r. ls_id r = i)
     (\<lambda>r. (f r)\<lparr>ls_updated_at := clock w\<rparr>) (live_sessions w)\<rparr>"

definition session_write :: "live_session \<Rightarrow> live_session \<Rightarrow> live_session" where
  "session_write s r = r\<lparr>ls_lesson_id := ls_lesson_id s, ls_title := ls_title s, ls_description := ls_description s,
     ls_starts_at := ls_starts_at s, ls_ends_at := ls_ends_at s, ls_timezone := ls_timezone s,
     ls_provider := ls_provider s, ls_join_url := ls_join_url s, ls_host_url := ls_host_url s,
     ls_external_id := ls_external_id s, ls_metadata := ls_metadata s\<rparr>"

definition sessions_update :: "live_session \<Rightarrow> live_session act" where
  "sessions_update s =
     andThen (exec_check (session_rows (ls_id s))
       (\<lambda>w. violation True (session_check s) True (has_lesson w (ls_lesson_id s)))
       (session_set (ls_id s) (session_write s)) ''session not found'' ''update live session'') (\<lambda>_.
     sessions_get_by_id (ls_id s))"

definition sessions_set_status :: "uuid \<Rightarrow> session_status \<Rightarrow> live_session act" where
  "sessions_set_status i st =
     andThen (exec_rows (session_rows i) (session_set i (\<lambda>r. r\<lparr>ls_status := st\<rparr>))
       ''session not found'' ''set session status'') (\<lambda>_.
     sessions_get_by_id i)"

record calendar_filter =
  cal_from :: time
  cal_to :: time
  cal_user_id :: uuid
  cal_admin :: bool
  cal_page :: int
  cal_per_page :: int

definition calendar_course :: "world \<Rightarrow> uuid \<Rightarrow> course \<Rightarrow> bool" where
  "calendar_course w u c \<longleftrightarrow>
     (co_teacher_id c = u \<or> list_ex (\<lambda>e. en_course_id e = co_id c \<and> en_user_id e = u \<and> en_status e = EnActive) (enrollments w))
     \<and> (co_status c = CoursePublished \<or> co_teacher_id c = u)"

definition on_calendar :: "world \<Rightarrow> calendar_filter \<Rightarrow> live_session \<Rightarrow> bool" where
  "on_calendar w f s \<longleftrightarrow> ls_status s \<in> {SessionScheduled, SessionCompleted}
     \<and> cal_from f \<le> ls_starts_at s \<and> ls_starts_at s < cal_to f
     \<and> list_ex (\<lambda>c. co_id c = ls_course_id s \<and> (cal_admin f \<or> calendar_course w (cal_user_id f) c)) (courses w)"

definition calendar_per_page :: "int \<Rightarrow> int" where
  "calendar_per_page n = (if n \<le> 0 then 50 else if 200 < n then 200 else n)"

definition calendar_page :: "int \<Rightarrow> int" where
  "calendar_page n = (if n \<le> 0 then 1 else n)"

definition sessions_list_calendar :: "calendar_filter \<Rightarrow> (live_session list \<times> nat) act" where
  "sessions_list_calendar f =
     andThen (fetch_val (\<lambda>w. cnt (on_calendar w f) (live_sessions w)) ''count calendar'') (\<lambda>total.
     andThen (fetch_val (\<lambda>w. map (scan_session w)
         (page_of (calendar_page (cal_page f)) (calendar_per_page (cal_per_page f))
            (sort_key ls_starts_at (filter (on_calendar w f) (live_sessions w))))) ''list calendar'') (\<lambda>rows.
     ret (rows, total)))"

section \<open>Attendance\<close>

abbreviation attendance_statuses :: "string list" where
  "attendance_statuses \<equiv> [''registered'', ''present'', ''absent'', ''late'', ''excused'']"

definition scan_attendance :: "world \<Rightarrow> attendance \<Rightarrow> attendance" where
  "scan_attendance w a = a\<lparr>sa_user_email := user_email_of w (sa_user_id a), sa_user_name := user_name_of w (sa_user_id a)\<rparr>"

definition blank_attendance_joins :: "attendance \<Rightarrow> attendance" where
  "blank_attendance_joins a = a\<lparr>sa_user_email := '''', sa_user_name := ''''\<rparr>"

definition of_session_user :: "uuid \<Rightarrow> uuid \<Rightarrow> attendance \<Rightarrow> bool" where
  "of_session_user s u r \<longleftrightarrow> sa_session_id r = s \<and> sa_user_id r = u"

text \<open>The time of joining is kept when the new row has none.\<close>

definition attendance_write :: "attendance \<Rightarrow> time \<Rightarrow> attendance \<Rightarrow> attendance" where
  "attendance_write a now r = r\<lparr>sa_status := sa_status a,
     sa_joined_at := (case sa_joined_at a of None \<Rightarrow> sa_joined_at r | Some t \<Rightarrow> Some t),
     sa_left_at := sa_left_at a, sa_marked_by := sa_marked_by a, sa_note := sa_note a, sa_updated_at := now\<rparr>"

definition attendance_violation :: "attendance \<Rightarrow> world \<Rightarrow> bool \<Rightarrow> bool \<Rightarrow> string option" where
  "attendance_violation a w uniq fk = violation True (sa_status a \<in> set attendance_statuses) uniq
     (fk \<and> (case sa_marked_by a of None \<Rightarrow> True | Some u \<Rightarrow> has_user w u))"

definition attendance_upsert :: "attendance \<Rightarrow> unit act" where
  "attendance_upsert a = upsert_row
     (\<lambda>w. list_ex (of_session_user (sa_session_id a) (sa_user_id a)) (attendances w))
     (\<lambda>w. attendance_violation a w True True)
     (\<lambda>w. w\<lparr>attendances := upd_where (of_session_user (sa_session_id a) (sa_user_id a))
        (attendance_write a (clock w)) (attendances w)\<rparr>)
     (\<lambda>w. attendance_violation a w (pk_free (map sa_id (attendances w)) w)
        (sa_session_id a \<in> set (map ls_id (live_sessions w)) \<and> has_user w (sa_user_id a)))
     (\<lambda>w. w\<lparr>attendances := attendances w @ [blank_attendance_joins
        (a\<lparr>sa_id := fresh_uuid w, sa_created_at := clock w, sa_updated_at := clock w\<rparr>)]\<rparr>)
     DriverError"

definition attendance_get :: "uuid \<Rightarrow> uuid \<Rightarrow> attendance act" where
  "attendance_get s u = fetch_row
     (\<lambda>w. map_option (scan_attendance w)
        (find (\<lambda>r. of_session_user s u r \<and> has_user w (sa_user_id r)) (attendances w)))
     ''attendance not found'' ''get attendance''"

text \<open>\<open>ORDER BY full_name, email\<close>: by the bytes of the names, the C collation.\<close>

definition attendance_list :: "uuid \<Rightarrow> attendance list act" where
  "attendance_list s = fetch_val
     (\<lambda>w. sort_key sa_user_name (sort_key sa_user_email (map (scan_attendance w)
        (filter (\<lambda>r. sa_session_id r = s \<and> has_user w (sa_user_id r)) (attendances w)))))
     ''list attendance''"

end
