(* ===== verification/LiveSessions.thy ===== *)
theory LiveSessions
  imports LiveRepo Progress
begin

text \<open>
  Live classes: the adapters of the video services (\<open>internal/live/provider.go\<close>) and \<open>LiveService\<close>
  (\<open>internal/service/live.go\<close>). Times are in seconds; \<open>requireActiveEnrollment\<close> is the method of the
  progress service, word for word.
\<close>

section \<open>Meeting links\<close>

record meeting_link =
  ml_join_url :: string
  ml_host_url :: string
  ml_external_id :: string
  ml_metadata :: "(string \<times> string) list"

record live_config =
  lc_jitsi_base :: string
  lc_default_provider :: string

text \<open>\<open>strings.TrimRight(s, "/")\<close>.\<close>

definition trim_slashes :: "string \<Rightarrow> string" where
  "trim_slashes s = rev (dropWhile (\<lambda>c. c = CHR ''/'') (rev s))"

definition jitsi_base :: "string \<Rightarrow> string" where
  "jitsi_base base = (if trim_slashes base = '''' then ''https://meet.jit.si'' else trim_slashes base)"

definition live_default_provider :: "live_config \<Rightarrow> string" where
  "live_default_provider cfg = (if lc_default_provider cfg = '''' then ''custom'' else lc_default_provider cfg)"

definition jitsi_room_name :: "string \<Rightarrow> string" where
  "jitsi_room_name i = ''asnakech-'' @ take 20 (filter (\<lambda>c. c \<noteq> CHR ''-'') i)"

definition custom_link :: "live_session \<Rightarrow> err + meeting_link" where
  "custom_link s = (let join = trim_space (ls_join_url s)
     in if join = '''' then Inl (validation ''join_url is required for custom provider'')
        else Inr \<lparr>ml_join_url = join, ml_host_url = trim_space (ls_host_url s), ml_external_id = '''', ml_metadata = []\<rparr>)"

definition jitsi_link :: "string \<Rightarrow> live_session \<Rightarrow> err + meeting_link" where
  "jitsi_link base s = (let room = jitsi_room_name (ls_id s); join = jitsi_base base @ ''/'' @ room
     in Inr \<lparr>ml_join_url = join, ml_host_url = join, ml_external_id = room, ml_metadata = [(''room'', room)]\<rparr>)"

text \<open>The message contains a dash of three bytes.\<close>

definition manual_link :: "string \<Rightarrow> live_session \<Rightarrow> err + meeting_link" where
  "manual_link provider s = (let join = trim_space (ls_join_url s)
     in if join = '''' then Inl (validation (provider @ '' integration is manual in v1 ''
          @ [CHR 0xE2, CHR 0x80, CHR 0x94] @ '' set join_url on the session''))
        else Inr \<lparr>ml_join_url = join, ml_host_url = trim_space (ls_host_url s),
               ml_external_id = trim_space (ls_external_id s), ml_metadata = []\<rparr>)"

text \<open>\<open>Registry.For(p).GenerateLink\<close>; \<open>NewRegistry\<close> trims the base address once more.\<close>

definition provider_link :: "live_config \<Rightarrow> string \<Rightarrow> live_session \<Rightarrow> err + meeting_link" where
  "provider_link cfg p s =
     (let q = (if p = '''' then live_default_provider cfg else p)
      in if q = ''jitsi'' then jitsi_link (jitsi_base (lc_jitsi_base cfg)) s
         else if q = ''zoom'' \<or> q = ''google_meet'' then manual_link q s
         else custom_link s)"

section \<open>Rights and forms\<close>

definition require_live_write :: "uuid \<Rightarrow> uuid \<Rightarrow> bool \<Rightarrow> unit act" where
  "require_live_write actor c admin =
     andThen (courses_get_by_id c) (\<lambda>course.
     guard (admin \<or> co_teacher_id course = actor)
       (forbidden ''only the course teacher or an admin can manage live sessions''))"

definition require_session_read :: "uuid \<Rightarrow> live_session \<Rightarrow> bool \<Rightarrow> unit act" where
  "require_session_read actor s admin =
     andThen (courses_get_by_id (ls_course_id s)) (\<lambda>course.
     if admin \<or> co_teacher_id course = actor then ret ()
     else andThen (guard (\<not> (ls_status s = SessionDraft \<or> ls_status s = SessionCancelled)) (not_found ''session not found'')) (\<lambda>_.
          andThen (require_active_enrollment actor (ls_course_id s)) (\<lambda>_. ret ())))"

definition valid_provider :: "string \<Rightarrow> bool" where
  "valid_provider p \<longleftrightarrow> p = ''custom'' \<or> p = ''jitsi'' \<or> p = ''zoom'' \<or> p = ''google_meet''"

definition valid_attendance_status :: "string \<Rightarrow> bool" where
  "valid_attendance_status s \<longleftrightarrow> s = ''registered'' \<or> s = ''present'' \<or> s = ''absent'' \<or> s = ''late'' \<or> s = ''excused''"

definition strip_session_links :: "live_session \<Rightarrow> live_session" where
  "strip_session_links s = s\<lparr>ls_join_url := '''', ls_host_url := '''', ls_external_id := '''', ls_metadata := Map.empty\<rparr>"

definition utc_or :: "string \<Rightarrow> string" where
  "utc_or tz = (if trim_space tz = '''' then ''UTC'' else trim_space tz)"

section \<open>Sessions\<close>

record session_create =
  sc_lesson_id :: "uuid option"
  sc_title :: string
  sc_description :: string
  sc_starts_at :: time
  sc_ends_at :: time
  sc_timezone :: string
  sc_provider :: string
  sc_join_url :: string
  sc_host_url :: string

definition create_session :: "live_config \<Rightarrow> uuid \<Rightarrow> uuid \<Rightarrow> session_create \<Rightarrow> bool \<Rightarrow> live_session act" where
  "create_session cfg actor c i admin =
     andThen (require_live_write actor c admin) (\<lambda>_.
     let title = trim_space (sc_title i);
         provider = (if sc_provider i = '''' then live_default_provider cfg else sc_provider i)
     in andThen (guard (title \<noteq> '''') (validation ''title is required'')) (\<lambda>_.
     andThen (guard (\<not> (sc_ends_at i < sc_starts_at i \<or> sc_ends_at i = sc_starts_at i))
       (validation ''ends_at must be after starts_at'')) (\<lambda>_.
     andThen (guard (valid_provider provider) (validation ''invalid provider'')) (\<lambda>_.
     sessions_create \<lparr>ls_id = '''', ls_course_id = c, ls_lesson_id = sc_lesson_id i, ls_title = title,
       ls_description = trim_space (sc_description i), ls_status = SessionDraft, ls_starts_at = sc_starts_at i,
       ls_ends_at = sc_ends_at i, ls_timezone = utc_or (sc_timezone i), ls_provider = provider,
       ls_join_url = trim_space (sc_join_url i), ls_host_url = trim_space (sc_host_url i), ls_external_id = '''',
       ls_metadata = Map.empty, ls_created_by = actor, ls_created_at = 0, ls_updated_at = 0,
       ls_course_title = '''', ls_course_slug = ''''\<rparr>))))"

definition list_course_sessions :: "uuid \<Rightarrow> uuid \<Rightarrow> bool \<Rightarrow> live_session list act" where
  "list_course_sessions actor c admin =
     andThen (courses_get_by_id c) (\<lambda>course.
     andThen (sessions_list_by_course c) (\<lambda>items.
     if admin \<or> co_teacher_id course = actor then ret items
     else andThen (require_active_enrollment actor c) (\<lambda>_.
          ret (map strip_session_links
            (filter (\<lambda>s. ls_status s = SessionScheduled \<or> ls_status s = SessionCompleted) items)))))"

definition get_session :: "uuid \<Rightarrow> uuid \<Rightarrow> bool \<Rightarrow> live_session act" where
  "get_session actor i admin =
     andThen (sessions_get_by_id i) (\<lambda>s.
     andThen (courses_get_by_id (ls_course_id s)) (\<lambda>course.
     andThen (require_session_read actor s admin) (\<lambda>_.
     ret (if admin \<or> co_teacher_id course = actor then s else strip_session_links s))))"

record session_update =
  su_lesson_id :: "uuid option"
  su_title :: "string option"
  su_description :: "string option"
  su_starts_at :: "time option"
  su_ends_at :: "time option"
  su_timezone :: "string option"
  su_provider :: "string option"
  su_join_url :: "string option"
  su_host_url :: "string option"

abbreviation patched :: "'a option \<Rightarrow> 'a \<Rightarrow> 'a" where
  "patched p x \<equiv> (case p of None \<Rightarrow> x | Some y \<Rightarrow> y)"

definition patch_session :: "session_update \<Rightarrow> live_session \<Rightarrow> live_session" where
  "patch_session p s = s\<lparr>
     ls_lesson_id := (case su_lesson_id p of None \<Rightarrow> ls_lesson_id s | Some l \<Rightarrow> Some l),
     ls_title := patched (map_option trim_space (su_title p)) (ls_title s),
     ls_description := patched (map_option trim_space (su_description p)) (ls_description s),
     ls_starts_at := patched (su_starts_at p) (ls_starts_at s), ls_ends_at := patched (su_ends_at p) (ls_ends_at s),
     ls_timezone := patched (map_option utc_or (su_timezone p)) (ls_timezone s),
     ls_provider := patched (su_provider p) (ls_provider s),
     ls_join_url := patched (map_option trim_space (su_join_url p)) (ls_join_url s),
     ls_host_url := patched (map_option trim_space (su_host_url p)) (ls_host_url s)\<rparr>"

definition update_session :: "uuid \<Rightarrow> uuid \<Rightarrow> session_update \<Rightarrow> bool \<Rightarrow> live_session act" where
  "update_session actor i p admin =
     andThen (sessions_get_by_id i) (\<lambda>s.
     andThen (require_live_write actor (ls_course_id s) admin) (\<lambda>_.
     andThen (guard (ls_status s \<noteq> SessionCancelled) (validation ''cancelled sessions cannot be edited'')) (\<lambda>_.
     andThen (guard (case su_title p of None \<Rightarrow> True | Some t \<Rightarrow> trim_space t \<noteq> '''')
       (validation ''title cannot be empty'')) (\<lambda>_.
     let q = patch_session p s
     in andThen (guard (\<not> (ls_ends_at q < ls_starts_at q \<or> ls_ends_at q = ls_starts_at q))
          (validation ''ends_at must be after starts_at'')) (\<lambda>_.
     andThen (guard (case su_provider p of None \<Rightarrow> True | Some v \<Rightarrow> valid_provider v) (validation ''invalid provider'')) (\<lambda>_.
     sessions_update q))))))"

text \<open>\<open>applyGeneratedLink\<close>, with the session it leaves in the caller's hands.\<close>

definition with_link :: "meeting_link \<Rightarrow> live_session \<Rightarrow> live_session" where
  "with_link l s = s\<lparr>ls_join_url := ml_join_url l, ls_host_url := (if ml_host_url l \<noteq> '''' then ml_host_url l else ls_host_url s),
     ls_external_id := ml_external_id l,
     ls_metadata := (if ml_metadata l \<noteq> [] then map_of (ml_metadata l) else ls_metadata s)\<rparr>"

definition apply_generated_link :: "live_config \<Rightarrow> live_session \<Rightarrow> live_session act" where
  "apply_generated_link cfg s = (case provider_link cfg (ls_provider s) s of
       Inl e \<Rightarrow> raise e
     | Inr l \<Rightarrow> andThen (sessions_update (with_link l s)) (\<lambda>_. ret (with_link l s)))"

definition publish_session :: "live_config \<Rightarrow> uuid \<Rightarrow> uuid \<Rightarrow> bool \<Rightarrow> live_session act" where
  "publish_session cfg actor i admin =
     andThen (sessions_get_by_id i) (\<lambda>s.
     andThen (require_live_write actor (ls_course_id s) admin) (\<lambda>_.
     andThen (guard (ls_status s = SessionDraft) (validation ''only draft sessions can be published'')) (\<lambda>_.
     andThen (if ls_join_url s = '''' \<and> ls_provider s \<noteq> ''custom'' then apply_generated_link cfg s else ret s) (\<lambda>t.
     andThen (guard (ls_join_url t \<noteq> '''') (validation ''join_url is required before publishing'')) (\<lambda>_.
     sessions_set_status i SessionScheduled)))))"

definition complete_session :: "uuid \<Rightarrow> uuid \<Rightarrow> bool \<Rightarrow> live_session act" where
  "complete_session actor i admin =
     andThen (sessions_get_by_id i) (\<lambda>s.
     andThen (require_live_write actor (ls_course_id s) admin) (\<lambda>_.
     andThen (guard (ls_status s = SessionScheduled) (validation ''only scheduled sessions can be completed'')) (\<lambda>_.
     sessions_set_status i SessionCompleted)))"

definition cancel_session :: "uuid \<Rightarrow> uuid \<Rightarrow> bool \<Rightarrow> live_session act" where
  "cancel_session actor i admin =
     andThen (sessions_get_by_id i) (\<lambda>s.
     andThen (require_live_write actor (ls_course_id s) admin) (\<lambda>_.
     andThen (guard (ls_status s \<noteq> SessionCompleted) (validation ''completed sessions cannot be cancelled'')) (\<lambda>_.
     sessions_set_status i SessionCancelled)))"

definition generate_session_link :: "live_config \<Rightarrow> uuid \<Rightarrow> uuid \<Rightarrow> bool \<Rightarrow> live_session act" where
  "generate_session_link cfg actor i admin =
     andThen (sessions_get_by_id i) (\<lambda>s.
     andThen (require_live_write actor (ls_course_id s) admin) (\<lambda>_.
     andThen (apply_generated_link cfg s) (\<lambda>t.
     sessions_update t)))"

record join_info =
  ji_session_id :: uuid
  ji_join_url :: string
  ji_host_url :: string
  ji_starts_at :: time
  ji_ends_at :: time
  ji_status :: session_status
  ji_is_host :: bool

definition join_session :: "uuid \<Rightarrow> uuid \<Rightarrow> bool \<Rightarrow> join_info act" where
  "join_session actor i admin =
     andThen (sessions_get_by_id i) (\<lambda>s.
     andThen (courses_get_by_id (ls_course_id s)) (\<lambda>course.
     let host = admin \<or> co_teacher_id course = actor
     in andThen (if host then ret ()
          else andThen (guard (ls_status s = SessionScheduled) (forbidden ''session is not open for joining'')) (\<lambda>_.
               andThen (require_active_enrollment actor (ls_course_id s)) (\<lambda>_. ret ()))) (\<lambda>_.
     andThen (guard (trim_space (ls_join_url s) \<noteq> '''') (validation ''session has no join link'')) (\<lambda>_.
     ret \<lparr>ji_session_id = ls_id s, ji_join_url = ls_join_url s,
          ji_host_url = (if host then (if ls_host_url s = '''' then ls_join_url s else ls_host_url s) else ''''),
          ji_starts_at = ls_starts_at s, ji_ends_at = ls_ends_at s, ji_status = ls_status s, ji_is_host = host\<rparr>))))"

section \<open>Attendance\<close>

definition check_in_early_window :: time where "check_in_early_window = 15 * 60"
definition check_in_late_grace :: time where "check_in_late_grace = 10 * 60"
definition check_in_end_grace :: time where "check_in_end_grace = 30 * 60"

definition new_attendance :: "uuid \<Rightarrow> uuid \<Rightarrow> string \<Rightarrow> time option \<Rightarrow> uuid option \<Rightarrow> string \<Rightarrow> attendance" where
  "new_attendance i u st joined by note = \<lparr>sa_id = '''', sa_session_id = i, sa_user_id = u, sa_status = st,
     sa_joined_at = joined, sa_left_at = None, sa_marked_by = by, sa_note = note, sa_created_at = 0, sa_updated_at = 0,
     sa_user_email = '''', sa_user_name = ''''\<rparr>"

definition list_attendance :: "uuid \<Rightarrow> uuid \<Rightarrow> bool \<Rightarrow> attendance list act" where
  "list_attendance actor i admin =
     andThen (sessions_get_by_id i) (\<lambda>s.
     andThen (require_live_write actor (ls_course_id s) admin) (\<lambda>_.
     attendance_list i))"

definition mark_attendance :: "uuid \<Rightarrow> uuid \<Rightarrow> uuid \<Rightarrow> string \<Rightarrow> string \<Rightarrow> bool \<Rightarrow> attendance act" where
  "mark_attendance actor i u st note admin =
     andThen (sessions_get_by_id i) (\<lambda>s.
     andThen (require_live_write actor (ls_course_id s) admin) (\<lambda>_.
     andThen (guard (valid_attendance_status st) (validation ''invalid attendance status'')) (\<lambda>_.
     andThen (asks clock) (\<lambda>now.
     andThen (attendance_upsert (new_attendance i u st
       (if st = ''present'' \<or> st = ''late'' then Some now else None) (Some actor) (trim_space note))) (\<lambda>_.
     attendance_get i u)))))"

definition in_window :: "live_session \<Rightarrow> time \<Rightarrow> bool" where
  "in_window s now \<longleftrightarrow> \<not> (now < ls_starts_at s - check_in_early_window \<or> ls_ends_at s + check_in_end_grace < now)"

definition check_in_status :: "live_session \<Rightarrow> time \<Rightarrow> string" where
  "check_in_status s now = (if ls_starts_at s + check_in_late_grace < now then ''late'' else ''present'')"

definition check_in :: "uuid \<Rightarrow> uuid \<Rightarrow> bool \<Rightarrow> attendance act" where
  "check_in actor i admin =
     andThen (sessions_get_by_id i) (\<lambda>s.
     andThen (courses_get_by_id (ls_course_id s)) (\<lambda>course.
     andThen (if admin \<or> co_teacher_id course = actor then ret ()
          else andThen (guard (ls_status s = SessionScheduled) (forbidden ''session is not open for check-in'')) (\<lambda>_.
               andThen (require_active_enrollment actor (ls_course_id s)) (\<lambda>_. ret ()))) (\<lambda>_.
     andThen (asks clock) (\<lambda>now.
     andThen (guard (in_window s now) (forbidden ''check-in is outside the allowed window'')) (\<lambda>_.
     andThen (attendance_upsert (new_attendance i actor (check_in_status s now) (Some now) None '''')) (\<lambda>_.
     attendance_get i actor))))))"

section \<open>The calendar\<close>

definition calendar_item :: "uuid \<Rightarrow> live_session \<Rightarrow> live_session act" where
  "calendar_item actor s =
     andThen (courses_get_by_id (ls_course_id s)) (\<lambda>course.
     ret (if co_teacher_id course = actor then s else strip_session_links s))"

definition list_calendar :: "uuid \<Rightarrow> time \<Rightarrow> time \<Rightarrow> int \<Rightarrow> int \<Rightarrow> bool \<Rightarrow> (live_session list \<times> nat) act" where
  "list_calendar actor from_t to_t page per admin =
     andThen (guard (\<not> to_t < from_t) (validation ''to must be after from'')) (\<lambda>_.
     andThen (guard (\<not> 366 * 24 * 3600 < to_t - from_t) (validation ''date range cannot exceed 366 days'')) (\<lambda>_.
     andThen (sessions_list_calendar \<lparr>cal_from = from_t, cal_to = to_t, cal_user_id = actor, cal_admin = admin,
       cal_page = page, cal_per_page = per\<rparr>) (\<lambda>(items, total).
     if admin then ret (items, total)
     else andThen (map_each items (calendar_item actor)) (\<lambda>out. ret (out, total)))))"

end
