(* ===== verification/CertificateRepo.thy ===== *)
theory CertificateRepo
  imports EnrollmentRepo
begin

text \<open>
  \<open>CertificateRepository\<close> (\<open>internal/repository/postgres/certificate.go\<close>). The queries join the course and
  the user of a certificate, so a row without them is not read.
\<close>

definition scan_certificate :: "world \<Rightarrow> certificate \<Rightarrow> certificate" where
  "scan_certificate w c = c\<lparr>ce_course_slug := course_slug_of w (ce_course_id c), ce_user_email := user_email_of w (ce_user_id c)\<rparr>"

definition certificate_joined :: "world \<Rightarrow> certificate \<Rightarrow> bool" where
  "certificate_joined w c \<longleftrightarrow> has_course w (ce_course_id c) \<and> has_user w (ce_user_id c)"

definition of_course_user :: "uuid \<Rightarrow> uuid \<Rightarrow> certificate \<Rightarrow> bool" where
  "of_course_user c u r \<longleftrightarrow> ce_course_id r = c \<and> ce_user_id r = u"

definition certificates_create :: "certificate \<Rightarrow> certificate act" where
  "certificates_create c = insert_row
     (\<lambda>w. violation True (sql_nonblank (ce_code c))
            (\<not> list_ex (of_course_user (ce_course_id c) (ce_user_id c)) (certificates w)
             \<and> \<not> list_ex (\<lambda>r. ce_code r = ce_code c) (certificates w)
             \<and> pk_free (map ce_id (certificates w)) w)
            (has_course w (ce_course_id c) \<and> has_user w (ce_user_id c)))
     (\<lambda>w. c\<lparr>ce_id := fresh_uuid w, ce_created_at := clock w, ce_updated_at := clock w, ce_revoked_at := None,
            ce_course_slug := '''', ce_user_email := ''''\<rparr>)
     (\<lambda>r w. w\<lparr>certificates := certificates w @ [r]\<rparr>)
     (insert_err ''certificate already issued for this course'' ''create certificate'')"

definition certificate_row :: "(certificate \<Rightarrow> bool) \<Rightarrow> world \<Rightarrow> certificate option" where
  "certificate_row p w = map_option (scan_certificate w) (find (\<lambda>r. p r \<and> certificate_joined w r) (certificates w))"

definition certificates_get_by_id :: "uuid \<Rightarrow> certificate act" where
  "certificates_get_by_id i = fetch_row (certificate_row (\<lambda>r. ce_id r = i))
     ''certificate not found'' ''get certificate''"

definition certificates_get_by_code :: "string \<Rightarrow> certificate act" where
  "certificates_get_by_code code = fetch_row (certificate_row (\<lambda>r. ce_code r = code))
     ''certificate not found'' ''verify certificate''"

definition certificates_get_by_course_user :: "uuid \<Rightarrow> uuid \<Rightarrow> certificate act" where
  "certificates_get_by_course_user c u = fetch_row (certificate_row (of_course_user c u))
     ''certificate not found'' ''get certificate''"

definition certificate_list :: "(certificate \<Rightarrow> bool) \<Rightarrow> world \<Rightarrow> certificate list" where
  "certificate_list p w = map (scan_certificate w)
     (order_desc ce_issued_at (filter (\<lambda>r. p r \<and> certificate_joined w r) (certificates w)))"

definition certificates_list_by_user :: "uuid \<Rightarrow> certificate list act" where
  "certificates_list_by_user u = fetch_val (certificate_list (\<lambda>r. ce_user_id r = u)) ''list certificates''"

definition certificates_list_by_course :: "uuid \<Rightarrow> certificate list act" where
  "certificates_list_by_course c = fetch_val (certificate_list (\<lambda>r. ce_course_id r = c)) ''list course certificates''"

definition unrevoked :: "uuid \<Rightarrow> certificate \<Rightarrow> bool" where
  "unrevoked i r \<longleftrightarrow> ce_id r = i \<and> ce_revoked_at r = None"

definition certificates_revoke :: "uuid \<Rightarrow> certificate act" where
  "certificates_revoke i =
     andThen (exec_rows (\<lambda>w. cnt (unrevoked i) (certificates w))
       (\<lambda>w. w\<lparr>certificates := upd_where (unrevoked i)
          (\<lambda>r. r\<lparr>ce_revoked_at := Some (clock w), ce_updated_at := clock w\<rparr>) (certificates w)\<rparr>)
       ''certificate not found or already revoked'' ''revoke certificate'') (\<lambda>_.
     certificates_get_by_id i)"

definition certificates_update_storage :: "uuid \<Rightarrow> string \<Rightarrow> string \<Rightarrow> unit act" where
  "certificates_update_storage i key url = exec_rows (\<lambda>w. cnt (\<lambda>r. ce_id r = i) (certificates w))
     (\<lambda>w. w\<lparr>certificates := upd_where (\<lambda>r. ce_id r = i)
        (\<lambda>r. r\<lparr>ce_storage_key := key, ce_public_url := url, ce_updated_at := clock w\<rparr>) (certificates w)\<rparr>)
     ''certificate not found'' ''update certificate storage''"

end
