(* ===== verification/AssessmentRepo.thy ===== *)
theory AssessmentRepo
  imports CurriculumRepo EnrollmentRepo
begin

text \<open>
  \<open>QuizRepository\<close>, \<open>QuizQuestionRepository\<close>, \<open>QuizAttemptRepository\<close>, \<open>QuizAttemptAnswerRepository\<close>,
  \<open>AssignmentRepository\<close> and \<open>AssignmentSubmissionRepository\<close>
  (\<open>internal/repository/postgres/assessment.go\<close>). The JSON columns (options, selected options, rubric and
  its scores) hold the values themselves: encoding and decoding them is the identity on what the services
  write, \<open>nil\<close> included, which is stored as an empty list.
\<close>

section \<open>Quizzes\<close>

definition optional_positive :: "int option \<Rightarrow> bool" where
  "optional_positive n \<longleftrightarrow> (case n of None \<Rightarrow> True | Some k \<Rightarrow> 0 < k)"

definition optional_int4 :: "int option \<Rightarrow> bool" where
  "optional_int4 n \<longleftrightarrow> (case n of None \<Rightarrow> True | Some k \<Rightarrow> int4 k)"

definition quiz_violation :: "quiz \<Rightarrow> bool \<Rightarrow> bool \<Rightarrow> string option" where
  "quiz_violation q uniq fk = violation
     (optional_int4 (qz_time_limit q) \<and> optional_int4 (qz_max_attempts q) \<and> int4 (qz_pass_percent q))
     (sql_nonblank (qz_title q) \<and> 0 \<le> qz_pass_percent q \<and> qz_pass_percent q \<le> 100
      \<and> optional_positive (qz_time_limit q) \<and> optional_positive (qz_max_attempts q))
     uniq fk"

definition quizzes_create :: "quiz \<Rightarrow> quiz act" where
  "quizzes_create q = insert_row
     (\<lambda>w. quiz_violation q (pk_free (map qz_id (quizzes w)) w) (has_course w (qz_course_id q)))
     (\<lambda>w. q\<lparr>qz_id := fresh_uuid w, qz_created_at := clock w, qz_updated_at := clock w\<rparr>)
     (\<lambda>r w. w\<lparr>quizzes := quizzes w @ [r]\<rparr>)
     (\<lambda>st. WrapError ''create quiz'' (DriverError st))"

definition quizzes_get_by_id :: "uuid \<Rightarrow> quiz act" where
  "quizzes_get_by_id i = fetch_row (\<lambda>w. find (\<lambda>r. qz_id r = i) (quizzes w)) ''quiz not found'' ''get quiz''"

definition quizzes_list_by_course :: "uuid \<Rightarrow> quiz list act" where
  "quizzes_list_by_course c = fetch_val
     (\<lambda>w. sort_key qz_created_at (filter (\<lambda>r. qz_course_id r = c) (quizzes w))) ''list quizzes''"

definition quiz_rows :: "uuid \<Rightarrow> world \<Rightarrow> nat" where
  "quiz_rows i w = cnt (\<lambda>r. qz_id r = i) (quizzes w)"

definition quiz_set :: "uuid \<Rightarrow> (quiz \<Rightarrow> quiz) \<Rightarrow> world \<Rightarrow> world" where
  "quiz_set i f w = w\<lparr>quizzes := upd_where (\<lambda>r. qz_id r = i) (\<lambda>r. (f r)\<lparr>qz_updated_at := clock w\<rparr>) (quizzes w)\<rparr>"

definition quizzes_update :: "quiz \<Rightarrow> quiz act" where
  "quizzes_update q =
     andThen (exec_check (quiz_rows (qz_id q)) (\<lambda>w. quiz_violation q True True)
       (quiz_set (qz_id q) (\<lambda>r. r\<lparr>qz_title := qz_title q, qz_description := qz_description q,
          qz_time_limit := qz_time_limit q, qz_max_attempts := qz_max_attempts q,
          qz_pass_percent := qz_pass_percent q, qz_shuffle := qz_shuffle q\<rparr>))
       ''quiz not found'' ''update quiz'') (\<lambda>_.
     quizzes_get_by_id (qz_id q))"

definition quizzes_set_status :: "uuid \<Rightarrow> quiz_status \<Rightarrow> quiz act" where
  "quizzes_set_status i st =
     andThen (exec_rows (quiz_rows i) (quiz_set i (\<lambda>r. r\<lparr>qz_status := st\<rparr>))
       ''quiz not found'' ''set quiz status'') (\<lambda>_.
     quizzes_get_by_id i)"

text \<open>\<open>ON DELETE CASCADE\<close>: questions and attempts go with their quiz, the answers with both.\<close>

definition delete_quiz :: "uuid \<Rightarrow> world \<Rightarrow> world" where
  "delete_quiz i w =
     (let gone_q = (\<lambda>r. qq_quiz_id r = i); gone_a = (\<lambda>r. at_quiz_id r = i)
      in w\<lparr>world.quizzes := filter (\<lambda>r. qz_id r \<noteq> i) (quizzes w),
           quiz_questions := filter (\<lambda>r. \<not> gone_q r) (quiz_questions w),
           quiz_attempts := filter (\<lambda>r. \<not> gone_a r) (quiz_attempts w),
           attempt_answers := filter (\<lambda>r. an_question_id r \<notin> set (map qq_id (filter gone_q (quiz_questions w)))
             \<and> an_attempt_id r \<notin> set (map at_id (filter gone_a (quiz_attempts w)))) (attempt_answers w),
           content_blocks := upd_where (\<lambda>r. cb_quiz_ref r = Some i)
             (\<lambda>r. r\<lparr>cb_quiz_ref := None, cb_updated_at := clock w\<rparr>) (content_blocks w)\<rparr>)"

definition quizzes_delete :: "uuid \<Rightarrow> unit act" where
  "quizzes_delete i = exec_rows (quiz_rows i) (delete_quiz i) ''quiz not found'' ''delete quiz''"

section \<open>Questions\<close>

definition questions_table :: "quiz_question ordered_table" where
  "questions_table = \<lparr>ord_rows = quiz_questions, ord_put = (\<lambda>rs w. w\<lparr>quiz_questions := rs\<rparr>),
     ord_id = qq_id, ord_parent = qq_quiz_id, ord_position = qq_position,
     ord_move = (\<lambda>p t r. r\<lparr>qq_position := p, qq_updated_at := t\<rparr>)\<rparr>"

interpretation questions_ordered: ordered questions_table
  by unfold_locales (simp_all add: questions_table_def)

definition question_check :: "quiz_question \<Rightarrow> bool" where
  "question_check q \<longleftrightarrow> qq_type q \<in> {type_mcq, type_short_answer} \<and> sql_nonblank (qq_prompt q) \<and> 0 < qq_points q"

definition questions_create :: "quiz_question \<Rightarrow> quiz_question act" where
  "questions_create q = insert_row
     (\<lambda>w. violation (int4 (qq_points q) \<and> int4 (qq_position q)) (question_check q)
            (position_free questions_table (qq_quiz_id q) (qq_position q) w
             \<and> pk_free (map qq_id (quiz_questions w)) w)
            (qq_quiz_id q \<in> set (map qz_id (quizzes w))))
     (\<lambda>w. q\<lparr>qq_id := fresh_uuid w, qq_created_at := clock w, qq_updated_at := clock w\<rparr>)
     (\<lambda>r w. w\<lparr>quiz_questions := quiz_questions w @ [r]\<rparr>)
     (insert_err ''quiz question position conflict'' ''create quiz question'')"

definition questions_get_by_id :: "uuid \<Rightarrow> quiz_question act" where
  "questions_get_by_id i = fetch_row (\<lambda>w. find (\<lambda>r. qq_id r = i) (quiz_questions w))
     ''quiz question not found'' ''get quiz question''"

definition questions_list_by_quiz :: "uuid \<Rightarrow> quiz_question list act" where
  "questions_list_by_quiz q = fetch_val (children questions_table q) ''list quiz questions''"

definition question_rows :: "uuid \<Rightarrow> world \<Rightarrow> nat" where
  "question_rows i w = cnt (\<lambda>r. qq_id r = i) (quiz_questions w)"

definition questions_update :: "quiz_question \<Rightarrow> quiz_question act" where
  "questions_update q =
     andThen (exec_check (question_rows (qq_id q)) (\<lambda>w. violation (int4 (qq_points q)) (question_check q) True True)
       (\<lambda>w. w\<lparr>quiz_questions := upd_where (\<lambda>r. qq_id r = qq_id q)
          (\<lambda>r. r\<lparr>qq_type := qq_type q, qq_prompt := qq_prompt q, qq_points := qq_points q,
             qq_options := qq_options q, qq_correct_answer := qq_correct_answer q,
             qq_updated_at := clock w\<rparr>) (quiz_questions w)\<rparr>)
       ''quiz question not found'' ''update quiz question'') (\<lambda>_.
     questions_get_by_id (qq_id q))"

definition questions_delete :: "uuid \<Rightarrow> unit act" where
  "questions_delete i = exec_rows (question_rows i)
     (\<lambda>w. w\<lparr>quiz_questions := filter (\<lambda>r. qq_id r \<noteq> i) (quiz_questions w),
            attempt_answers := filter (\<lambda>r. an_question_id r \<noteq> i) (attempt_answers w)\<rparr>)
     ''quiz question not found'' ''delete quiz question''"

definition questions_reorder :: "uuid \<Rightarrow> uuid list \<Rightarrow> unit act" where
  "questions_reorder q ids = reorder_positions questions_table q ids"

definition questions_next_position :: "uuid \<Rightarrow> int act" where
  "questions_next_position q = fetch_val (next_position questions_table q) ''next quiz question position''"

section \<open>Attempts\<close>

definition scan_attempt :: "world \<Rightarrow> quiz_attempt \<Rightarrow> quiz_attempt" where
  "scan_attempt w a = a\<lparr>at_user_email := user_email_of w (at_user_id a), at_user_name := user_name_of w (at_user_id a)\<rparr>"

definition of_quiz_user :: "uuid \<Rightarrow> uuid \<Rightarrow> quiz_attempt \<Rightarrow> bool" where
  "of_quiz_user q u r \<longleftrightarrow> at_quiz_id r = q \<and> at_user_id r = u"

definition attempt_range :: "quiz_attempt \<Rightarrow> bool" where
  "attempt_range a \<longleftrightarrow> int4 (at_score a) \<and> int4 (at_max a) \<and> int4 (at_percent a)"

definition attempts_create :: "quiz_attempt \<Rightarrow> quiz_attempt act" where
  "attempts_create a = insert_row
     (\<lambda>w. violation (int4 (at_number a) \<and> attempt_range a)
            (0 < at_number a \<and> 0 \<le> at_percent a \<and> at_percent a \<le> 100)
            (\<not> list_ex (\<lambda>r. of_quiz_user (at_quiz_id a) (at_user_id a) r \<and> at_number r = at_number a) (quiz_attempts w)
             \<and> pk_free (map at_id (quiz_attempts w)) w)
            (at_quiz_id a \<in> set (map qz_id (quizzes w)) \<and> has_user w (at_user_id a)))
     (\<lambda>w. a\<lparr>at_id := fresh_uuid w, at_created_at := clock w, at_updated_at := clock w\<rparr>)
     (\<lambda>r w. w\<lparr>quiz_attempts := quiz_attempts w @ [r]\<rparr>)
     (insert_err ''quiz attempt number conflict'' ''create quiz attempt'')"

definition attempts_get_by_id :: "uuid \<Rightarrow> quiz_attempt act" where
  "attempts_get_by_id i = fetch_row
     (\<lambda>w. map_option (scan_attempt w) (find (\<lambda>r. at_id r = i) (quiz_attempts w)))
     ''quiz attempt not found'' ''get quiz attempt''"

definition attempts_list_by_quiz_user :: "uuid \<Rightarrow> uuid \<Rightarrow> quiz_attempt list act" where
  "attempts_list_by_quiz_user q u = fetch_val
     (\<lambda>w. map (scan_attempt w) (sort_key at_number (filter (of_quiz_user q u) (quiz_attempts w))))
     ''list quiz attempts''"

definition attempts_count_by_quiz_user :: "uuid \<Rightarrow> uuid \<Rightarrow> int act" where
  "attempts_count_by_quiz_user q u =
     fetch_val (\<lambda>w. int (cnt (of_quiz_user q u) (quiz_attempts w))) ''count quiz attempts''"

definition attempt_write :: "quiz_attempt \<Rightarrow> time \<Rightarrow> quiz_attempt \<Rightarrow> quiz_attempt" where
  "attempt_write a now r = r\<lparr>at_status := at_status a, at_score := at_score a, at_max := at_max a,
     at_percent := at_percent a, at_passed := at_passed a, at_submitted_at := at_submitted_at a,
     at_graded_at := at_graded_at a, at_updated_at := now\<rparr>"

definition attempts_update :: "quiz_attempt \<Rightarrow> unit act" where
  "attempts_update a = exec_check (\<lambda>w. cnt (\<lambda>r. at_id r = at_id a) (quiz_attempts w))
     (\<lambda>w. violation (attempt_range a) (0 \<le> at_percent a \<and> at_percent a \<le> 100) True True)
     (\<lambda>w. w\<lparr>quiz_attempts := upd_where (\<lambda>r. at_id r = at_id a) (attempt_write a (clock w)) (quiz_attempts w)\<rparr>)
     ''quiz attempt not found'' ''update quiz attempt''"

definition attempts_get_in_progress :: "uuid \<Rightarrow> uuid \<Rightarrow> quiz_attempt act" where
  "attempts_get_in_progress q u = fetch_row
     (\<lambda>w. map_option (scan_attempt w)
        (find (\<lambda>r. of_quiz_user q u r \<and> at_status r = AttemptInProgress) (quiz_attempts w)))
     ''in-progress quiz attempt not found'' ''get in-progress quiz attempt''"

text \<open>
  \<open>SELECT DISTINCT ON (quiz_id, user_id) ... ORDER BY quiz_id, user_id, percent DESC\<close>: the first row of each
  group after the sort. Its readers look rows up by quiz and user, so the order of the groups is left as
  the sort by percent gives it.
\<close>

primrec first_per :: "('r \<Rightarrow> 'k) \<Rightarrow> 'r list \<Rightarrow> 'r list" where
  "first_per k [] = []"
| "first_per k (r # rs) = r # filter (\<lambda>s. k s \<noteq> k r) (first_per k rs)"

definition attempts_best_graded_by_course :: "uuid \<Rightarrow> quiz_attempt list act" where
  "attempts_best_graded_by_course c = fetch_val
     (\<lambda>w. map (scan_attempt w) (first_per (\<lambda>r. (at_quiz_id r, at_user_id r)) (order_desc at_percent
        (filter (\<lambda>r. at_status r = AttemptGraded
           \<and> list_ex (\<lambda>q. qz_id q = at_quiz_id r \<and> qz_course_id q = c) (quizzes w)) (quiz_attempts w)))))
     ''best graded quiz attempts by course''"

section \<open>Answers\<close>

definition of_attempt_question :: "uuid \<Rightarrow> uuid \<Rightarrow> attempt_answer \<Rightarrow> bool" where
  "of_attempt_question a q r \<longleftrightarrow> an_attempt_id r = a \<and> an_question_id r = q"

definition answer_violation :: "attempt_answer \<Rightarrow> world \<Rightarrow> bool \<Rightarrow> string option" where
  "answer_violation a w uniq = violation (int4 (an_points a)) (0 \<le> an_points a)
     (uniq \<and> pk_free (map an_id (attempt_answers w)) w)
     (an_attempt_id a \<in> set (map at_id (quiz_attempts w)) \<and> an_question_id a \<in> set (map qq_id (quiz_questions w)))"

definition answer_row :: "attempt_answer \<Rightarrow> world \<Rightarrow> attempt_answer" where
  "answer_row a w = a\<lparr>an_id := fresh_uuid w, an_created_at := clock w, an_updated_at := clock w\<rparr>"

definition answers_upsert :: "attempt_answer \<Rightarrow> unit act" where
  "answers_upsert a = upsert_row
     (\<lambda>w. list_ex (of_attempt_question (an_attempt_id a) (an_question_id a)) (attempt_answers w))
     (\<lambda>w. violation (int4 (an_points a)) (0 \<le> an_points a) True True)
     (\<lambda>w. w\<lparr>attempt_answers := upd_where (of_attempt_question (an_attempt_id a) (an_question_id a))
        (\<lambda>r. r\<lparr>an_selected := an_selected a, an_text := an_text a, an_correct := an_correct a,
           an_points := an_points a, an_updated_at := clock w\<rparr>) (attempt_answers w)\<rparr>)
     (\<lambda>w. answer_violation a w True)
     (\<lambda>w. w\<lparr>attempt_answers := attempt_answers w @ [answer_row a w]\<rparr>)
     (\<lambda>st. WrapError ''upsert quiz attempt answer'' (DriverError st))"

definition answers_list_by_attempt :: "uuid \<Rightarrow> attempt_answer list act" where
  "answers_list_by_attempt a = fetch_val
     (\<lambda>w. sort_key an_created_at (filter (\<lambda>r. an_attempt_id r = a) (attempt_answers w))) ''list quiz attempt answers''"

definition answers_clear :: "uuid \<Rightarrow> nat act" where
  "answers_clear a = exec_count (\<lambda>w. cnt (\<lambda>r. an_attempt_id r = a) (attempt_answers w)) (\<lambda>_. None)
     (\<lambda>w. w\<lparr>attempt_answers := filter (\<lambda>r. an_attempt_id r \<noteq> a) (attempt_answers w)\<rparr>)
     ''delete quiz attempt answers''"

definition answers_insert :: "attempt_answer \<Rightarrow> attempt_answer act" where
  "answers_insert a = insert_row
     (\<lambda>w. answer_violation a w
        (\<not> list_ex (of_attempt_question (an_attempt_id a) (an_question_id a)) (attempt_answers w)))
     (answer_row a)
     (\<lambda>r w. w\<lparr>attempt_answers := attempt_answers w @ [r]\<rparr>)
     (insert_err ''duplicate answer for question in attempt'' ''insert quiz attempt answer'')"

definition answers_replace_all :: "uuid \<Rightarrow> attempt_answer list \<Rightarrow> unit act" where
  "answers_replace_all a answers = in_tx ''begin replace answers'' (
     andThen (answers_clear a) (\<lambda>_.
     for_each answers (\<lambda>an. andThen (answers_insert (an\<lparr>an_attempt_id := a\<rparr>)) (\<lambda>_. ret ()))))"

section \<open>Assignments\<close>

definition assignments_create :: "assignment \<Rightarrow> assignment act" where
  "assignments_create a = insert_row
     (\<lambda>w. violation (int4 (as_max_score a)) (sql_nonblank (as_title a) \<and> 0 < as_max_score a)
            (pk_free (map as_id (assignments w)) w) (has_course w (as_course_id a)))
     (\<lambda>w. a\<lparr>as_id := fresh_uuid w, as_created_at := clock w, as_updated_at := clock w\<rparr>)
     (\<lambda>r w. w\<lparr>assignments := assignments w @ [r]\<rparr>)
     (\<lambda>st. WrapError ''create assignment'' (DriverError st))"

definition assignments_get_by_id :: "uuid \<Rightarrow> assignment act" where
  "assignments_get_by_id i = fetch_row (\<lambda>w. find (\<lambda>r. as_id r = i) (assignments w))
     ''assignment not found'' ''get assignment''"

definition assignments_list_by_course :: "uuid \<Rightarrow> assignment list act" where
  "assignments_list_by_course c = fetch_val
     (\<lambda>w. sort_key as_created_at (filter (\<lambda>r. as_course_id r = c) (assignments w))) ''list assignments''"

definition assignment_rows :: "uuid \<Rightarrow> world \<Rightarrow> nat" where
  "assignment_rows i w = cnt (\<lambda>r. as_id r = i) (assignments w)"

definition assignment_set :: "uuid \<Rightarrow> (assignment \<Rightarrow> assignment) \<Rightarrow> world \<Rightarrow> world" where
  "assignment_set i f w = w\<lparr>assignments := upd_where (\<lambda>r. as_id r = i)
     (\<lambda>r. (f r)\<lparr>as_updated_at := clock w\<rparr>) (assignments w)\<rparr>"

definition assignments_update :: "assignment \<Rightarrow> assignment act" where
  "assignments_update a =
     andThen (exec_check (assignment_rows (as_id a))
       (\<lambda>w. violation (int4 (as_max_score a)) (sql_nonblank (as_title a) \<and> 0 < as_max_score a) True True)
       (assignment_set (as_id a) (\<lambda>r. r\<lparr>as_title := as_title a, as_description := as_description a,
          as_max_score := as_max_score a, as_due_at := as_due_at a, as_allow_late := as_allow_late a,
          as_rubric := as_rubric a\<rparr>))
       ''assignment not found'' ''update assignment'') (\<lambda>_.
     assignments_get_by_id (as_id a))"

definition assignments_set_status :: "uuid \<Rightarrow> assignment_status \<Rightarrow> assignment act" where
  "assignments_set_status i st =
     andThen (exec_rows (assignment_rows i) (assignment_set i (\<lambda>r. r\<lparr>as_status := st\<rparr>))
       ''assignment not found'' ''set assignment status'') (\<lambda>_.
     assignments_get_by_id i)"

definition assignments_delete :: "uuid \<Rightarrow> unit act" where
  "assignments_delete i = exec_rows (assignment_rows i)
     (\<lambda>w. w\<lparr>world.assignments := filter (\<lambda>r. as_id r \<noteq> i) (assignments w),
            submissions := filter (\<lambda>r. sb_assignment_id r \<noteq> i) (submissions w)\<rparr>)
     ''assignment not found'' ''delete assignment''"

section \<open>Submissions\<close>

definition scan_submission :: "world \<Rightarrow> submission \<Rightarrow> submission" where
  "scan_submission w s = s\<lparr>sb_user_email := user_email_of w (sb_user_id s), sb_user_name := user_name_of w (sb_user_id s)\<rparr>"

definition blank_submission_joins :: "submission \<Rightarrow> submission" where
  "blank_submission_joins s = s\<lparr>sb_user_email := '''', sb_user_name := ''''\<rparr>"

definition of_assignment_user :: "uuid \<Rightarrow> uuid \<Rightarrow> submission \<Rightarrow> bool" where
  "of_assignment_user a u r \<longleftrightarrow> sb_assignment_id r = a \<and> sb_user_id r = u"

definition submission_write :: "submission \<Rightarrow> time \<Rightarrow> submission \<Rightarrow> submission" where
  "submission_write s now r = r\<lparr>sb_status := sb_status s, sb_body := sb_body s, sb_attachment_url := sb_attachment_url s,
     sb_score := sb_score s, sb_feedback := sb_feedback s, sb_rubric_scores := sb_rubric_scores s,
     sb_submitted_at := sb_submitted_at s, sb_graded_at := sb_graded_at s, sb_graded_by := sb_graded_by s,
     sb_updated_at := now\<rparr>"

definition submission_violation :: "submission \<Rightarrow> world \<Rightarrow> bool \<Rightarrow> bool \<Rightarrow> string option" where
  "submission_violation s w uniq fk = violation (optional_int4 (sb_score s))
     (case sb_score s of None \<Rightarrow> True | Some k \<Rightarrow> 0 \<le> k) uniq
     (fk \<and> (case sb_graded_by s of None \<Rightarrow> True | Some u \<Rightarrow> has_user w u))"

definition submissions_upsert :: "submission \<Rightarrow> unit act" where
  "submissions_upsert s = upsert_row
     (\<lambda>w. list_ex (of_assignment_user (sb_assignment_id s) (sb_user_id s)) (submissions w))
     (\<lambda>w. submission_violation s w True True)
     (\<lambda>w. w\<lparr>submissions := upd_where (of_assignment_user (sb_assignment_id s) (sb_user_id s))
        (submission_write s (clock w)) (submissions w)\<rparr>)
     (\<lambda>w. submission_violation s w (pk_free (map sb_id (submissions w)) w)
        (sb_assignment_id s \<in> set (map as_id (assignments w)) \<and> has_user w (sb_user_id s)))
     (\<lambda>w. w\<lparr>submissions := submissions w @ [blank_submission_joins
        (s\<lparr>sb_id := fresh_uuid w, sb_created_at := clock w, sb_updated_at := clock w\<rparr>)]\<rparr>)
     (\<lambda>st. WrapError ''upsert assignment submission'' (DriverError st))"

definition submissions_get_by_assignment_user :: "uuid \<Rightarrow> uuid \<Rightarrow> submission act" where
  "submissions_get_by_assignment_user a u = fetch_row
     (\<lambda>w. map_option (scan_submission w) (find (of_assignment_user a u) (submissions w)))
     ''assignment submission not found'' ''get assignment submission''"

definition submissions_get_by_id :: "uuid \<Rightarrow> submission act" where
  "submissions_get_by_id i = fetch_row
     (\<lambda>w. map_option (scan_submission w) (find (\<lambda>r. sb_id r = i) (submissions w)))
     ''assignment submission not found'' ''get assignment submission''"

definition submissions_list_by_assignment :: "uuid \<Rightarrow> submission list act" where
  "submissions_list_by_assignment a = fetch_val
     (\<lambda>w. map (scan_submission w) (order_desc sb_updated_at (filter (\<lambda>r. sb_assignment_id r = a) (submissions w))))
     ''list assignment submissions''"

definition submissions_list_graded_by_course :: "uuid \<Rightarrow> submission list act" where
  "submissions_list_graded_by_course c = fetch_val
     (\<lambda>w. map (scan_submission w) (order_desc sb_updated_at (filter (\<lambda>r. sb_status r \<noteq> SubmissionDraft
        \<and> list_ex (\<lambda>a. as_id a = sb_assignment_id r \<and> as_course_id a = c) (assignments w)) (submissions w))))
     ''list graded submissions by course''"

end
