(* ===== verification/Hex.thy ===== *)
theory Hex
  imports Prelude
begin

text \<open>
  \<open>hex.EncodeToString\<close>: two lower-case digits per byte. The server draws the identifiers of quiz options
  and rubric rows, the verification codes of certificates and the identifiers of requests this way; the
  decoder below shows that different bytes give different texts, in either case of the letters.
\<close>

definition hex_digits :: string where
  "hex_digits = ''0123456789abcdef''"

definition hex_digit :: "nat \<Rightarrow> char" where
  "hex_digit n = hex_digits ! (n mod 16)"

primrec hex_encode :: "string \<Rightarrow> string" where
  "hex_encode [] = []"
| "hex_encode (c # s) = hex_digit (of_char c div 16) # hex_digit (of_char c) # hex_encode s"

definition hex_value :: "char \<Rightarrow> nat" where
  "hex_value c = length (takeWhile (\<lambda>d. d \<noteq> lower_char c) hex_digits)"

fun hex_decode :: "string \<Rightarrow> string" where
  "hex_decode (c # d # s) = char_of (hex_value c * 16 + hex_value d) # hex_decode s"
| "hex_decode _ = []"

lemma hex_value_digit [simp]: "hex_value (hex_digit n) = n mod 16" "hex_value (upper_char (hex_digit n)) = n mod 16"
proof -
  have "map hex_value hex_digits = [0..<16]" by code_simp
  then have "map hex_value hex_digits ! (n mod 16) = n mod 16" by (simp add: nth_upt)
  moreover have "n mod 16 < length hex_digits" by (simp add: hex_digits_def)
  ultimately show *: "hex_value (hex_digit n) = n mod 16" by (simp add: hex_digit_def)
  then show "hex_value (upper_char (hex_digit n)) = n mod 16" by (simp add: hex_value_def)
qed

lemma two_hex_digits: "(of_char c div 16 mod 16) * 16 + of_char c mod 16 = (of_char c :: nat)"
proof -
  have "(of_char c :: nat) div 16 < 16" by (rule less_mult_imp_div_less) simp
  then show ?thesis by (simp add: div_mult_mod_eq)
qed

lemma hex_decode_encode: "hex_decode (hex_encode s) = s" "hex_decode (to_upper (hex_encode s)) = s"
  by (induction s) (simp_all add: to_upper_def two_hex_digits)

lemma hex_encode_eq_Nil [simp]: "hex_encode s = [] \<longleftrightarrow> s = []"
  by (cases s) simp_all

lemma length_hex_encode [simp]: "length (hex_encode s) = 2 * length s"
  by (induction s) simp_all

end
