(* ===== verification/Grading.thy ===== *)
theory Grading
  imports AssessmentRepo Hex
begin

text \<open>
  The pure part of \<open>AssessmentService\<close> (\<open>internal/service/assessment.go\<close>): which questions are accepted,
  how an answer and an attempt are graded, what a learner is shown of a question, and the identifiers drawn
  for options and rubric rows. The four random bytes drawn at index \<open>k\<close> of a list are \<open>rnd k\<close>; the code
  ignores an error of \<open>rand.Read\<close>, which leaves zero bytes.
\<close>

section \<open>Questions\<close>

text \<open>The loop over the options of a multiple-choice question: an error, or whether one is correct.\<close>

primrec scan_options :: "quiz_option list \<Rightarrow> bool \<Rightarrow> err + bool" where
  "scan_options [] correct = Inr correct"
| "scan_options (o1 # os) correct =
     (if trim_space (op_text o1) = '''' then Inl (validation ''option text is required'')
      else scan_options os (correct \<or> op_correct o1))"

definition validate_question :: "string \<Rightarrow> quiz_option list \<Rightarrow> string \<Rightarrow> err option" where
  "validate_question t options correct =
     (if t = type_mcq then
        if length options < 2 then Some (validation ''mcq requires at least 2 options'')
        else (case scan_options options False of
            Inl e \<Rightarrow> Some e
          | Inr has \<Rightarrow> if has then None else Some (validation ''mcq requires at least one correct option''))
      else if t = type_short_answer then
        if trim_space correct = '''' then Some (validation ''short_answer requires correct_answer'') else None
      else Some (validation ''invalid question_type''))"

definition random_id :: "string \<Rightarrow> string" where
  "random_id bytes = hex_encode bytes"

definition ensure_option_ids :: "(nat \<Rightarrow> string) \<Rightarrow> quiz_option list \<Rightarrow> quiz_option list" where
  "ensure_option_ids rnd options = map (\<lambda>(k, o1).
     if trim_space (op_id o1) = '''' then o1\<lparr>op_id := random_id (rnd k)\<rparr> else o1) (enumerate 0 options)"

definition ensure_rubric_ids :: "(nat \<Rightarrow> string) \<Rightarrow> rubric_criterion list \<Rightarrow> rubric_criterion list" where
  "ensure_rubric_ids rnd rubric = map (\<lambda>(k, c).
     if trim_space (rc_id c) = '''' then c\<lparr>rc_id := random_id (rnd k)\<rparr> else c) (enumerate 0 rubric)"

text \<open>What a learner is shown.\<close>

definition strip_question_secrets :: "quiz_question \<Rightarrow> quiz_question" where
  "strip_question_secrets q =
     q\<lparr>qq_correct_answer := '''', qq_options := map (\<lambda>o1. o1\<lparr>op_correct := False\<rparr>) (qq_options q)\<rparr>"

section \<open>Grading\<close>

text \<open>The keys of the map \<open>correctIDs\<close>.\<close>

definition correct_ids :: "quiz_question \<Rightarrow> string list" where
  "correct_ids q = remdups (map op_id (filter op_correct (qq_options q)))"

definition grade_answer :: "quiz_question \<Rightarrow> attempt_answer \<Rightarrow> bool \<times> int" where
  "grade_answer q a =
     (if qq_type q = type_mcq then
        if length (an_selected a) \<noteq> length (correct_ids q) then (False, 0)
        else if list_all (\<lambda>i. i \<in> set (correct_ids q)) (an_selected a) then (True, qq_points q)
        else (False, 0)
      else if qq_type q = type_short_answer then
        if equal_fold (trim_space (an_text a)) (trim_space (qq_correct_answer q)) then (True, qq_points q)
        else (False, 0)
      else (False, 0))"

text \<open>\<open>byQ\<close>: a later answer to the same question replaces an earlier one.\<close>

definition answer_to :: "attempt_answer list \<Rightarrow> uuid \<Rightarrow> attempt_answer option" where
  "answer_to answers q = find (\<lambda>a. an_question_id a = q) (rev answers)"

definition blank_answer :: "uuid \<Rightarrow> uuid \<Rightarrow> attempt_answer" where
  "blank_answer a q = \<lparr>an_id = '''', an_attempt_id = a, an_question_id = q, an_selected = [], an_text = '''',
     an_correct = None, an_points = 0, an_created_at = 0, an_updated_at = 0\<rparr>"

definition graded_answer :: "uuid \<Rightarrow> attempt_answer list \<Rightarrow> quiz_question \<Rightarrow> attempt_answer" where
  "graded_answer a answers q =
     (let ans = (case answer_to answers (qq_id q) of None \<Rightarrow> blank_answer a (qq_id q) | Some x \<Rightarrow> x);
          (correct, pts) = grade_answer q ans
      in ans\<lparr>an_correct := Some correct, an_points := pts\<rparr>)"

text \<open>The loop of \<open>SubmitAttempt\<close>: the graded answers, the score and the maximum, in 64-bit integers.\<close>

definition grade_step ::
  "uuid \<Rightarrow> attempt_answer list \<Rightarrow> quiz_question \<Rightarrow> attempt_answer list \<times> int \<times> int \<Rightarrow> attempt_answer list \<times> int \<times> int" where
  "grade_step a answers q acc = (case acc of (graded, score, mx) \<Rightarrow>
     (let g = graded_answer a answers q
      in (graded @ [g], wrap64 (score + an_points g), wrap64 (mx + qq_points q))))"

definition grade_attempt :: "uuid \<Rightarrow> attempt_answer list \<Rightarrow> quiz_question list \<Rightarrow> attempt_answer list \<times> int \<times> int" where
  "grade_attempt a answers qs = fold (grade_step a answers) qs ([], 0, 0)"

definition attempt_percent :: "int \<Rightarrow> int \<Rightarrow> int" where
  "attempt_percent score mx = (if 0 < mx then go_quot (go_mul score 100) mx else 0)"

definition graded_attempt :: "time \<Rightarrow> quiz \<Rightarrow> int \<Rightarrow> int \<Rightarrow> quiz_attempt \<Rightarrow> quiz_attempt" where
  "graded_attempt now quiz score mx a =
     (let p = attempt_percent score mx
      in a\<lparr>at_status := AttemptGraded, at_score := score, at_max := mx, at_percent := p,
           at_passed := (qz_pass_percent quiz \<le> p), at_submitted_at := Some now, at_graded_at := Some now\<rparr>)"

section \<open>Facts\<close>

lemma scan_options_Inr:
  "scan_options os c = Inr has \<longleftrightarrow> (\<forall>o1 \<in> set os. trim_space (op_text o1) \<noteq> []) \<and> has = (c \<or> list_ex op_correct os)"
  by (induction os arbitrary: c) auto

text \<open>An accepted multiple-choice question has a correct option, so its key is not empty.\<close>

lemma validated_mcq:
  assumes "validate_question type_mcq options correct = None"
  shows "2 \<le> length options" "list_ex op_correct options" "\<forall>o1 \<in> set options. trim_space (op_text o1) \<noteq> []"
proof -
  have "2 \<le> length options \<and> scan_options options False = Inr True"
    using assms by (auto simp: validate_question_def split: if_split_asm sum.split_asm)
  then show "2 \<le> length options" "list_ex op_correct options" "\<forall>o1 \<in> set options. trim_space (op_text o1) \<noteq> []"
    using scan_options_Inr [of options False True] by simp_all
qed

lemma distinct_correct_ids [simp]: "distinct (correct_ids q)"
  by (simp add: correct_ids_def)

lemma set_correct_ids: "set (correct_ids q) = op_id ` {o1 \<in> set (qq_options q). op_correct o1}"
  by (auto simp: correct_ids_def)

lemma grade_answer_cases: "grade_answer q a = (False, 0) \<or> grade_answer q a = (True, qq_points q)"
  by (simp add: grade_answer_def)

text \<open>
  The reference: a selection without repetitions is correct exactly when it is the set of the correct options.
\<close>

lemma grade_mcq_distinct:
  assumes "qq_type q = type_mcq" and "distinct (an_selected a)"
  shows "fst (grade_answer q a) \<longleftrightarrow> set (an_selected a) = set (correct_ids q)"
proof
  assume "fst (grade_answer q a)"
  then have "length (an_selected a) = length (correct_ids q)" "set (an_selected a) \<subseteq> set (correct_ids q)"
    using assms(1) by (auto simp: grade_answer_def list_all_iff split: if_splits)
  then show "set (an_selected a) = set (correct_ids q)"
    using assms(2) by (intro card_subset_eq) (simp_all add: distinct_card)
next
  assume "set (an_selected a) = set (correct_ids q)"
  moreover from this have "length (an_selected a) = length (correct_ids q)"
    using assms(2) by (metis distinct_card distinct_correct_ids)
  ultimately show "fst (grade_answer q a)" using assms(1) by (simp add: grade_answer_def list_all_iff)
qed

text \<open>The totals, as long as they fit 64 bits.\<close>

definition total_points :: "quiz_question list \<Rightarrow> int" where
  "total_points qs = (\<Sum>q\<leftarrow>qs. qq_points q)"

definition earned_points :: "uuid \<Rightarrow> attempt_answer list \<Rightarrow> quiz_question list \<Rightarrow> int" where
  "earned_points a answers qs = (\<Sum>q\<leftarrow>qs. an_points (graded_answer a answers q))"

lemma graded_points: "0 \<le> qq_points q \<Longrightarrow> 0 \<le> an_points (graded_answer a answers q) \<and> an_points (graded_answer a answers q) \<le> qq_points q"
  using grade_answer_cases [of q] by (auto simp: graded_answer_def Let_def split: prod.split option.split)
    (metis order_refl prod.inject)+

lemma earned_bounds:
  "(\<And>q. q \<in> set qs \<Longrightarrow> 0 \<le> qq_points q) \<Longrightarrow> 0 \<le> earned_points a answers qs \<and> earned_points a answers qs \<le> total_points qs"
proof (induction qs)
  case Nil
  then show ?case by (simp add: earned_points_def total_points_def)
next
  case (Cons q qs)
  then show ?case using graded_points [of q a answers] by (fastforce simp: earned_points_def total_points_def)
qed

lemma grade_fold:
  assumes "\<And>q. q \<in> set qs \<Longrightarrow> 0 \<le> qq_points q" and "0 \<le> s" "s \<le> m" and "m + total_points qs < 2 ^ 63"
  shows "fold (grade_step a answers) qs (gs, s, m)
     = (gs @ map (graded_answer a answers) qs, s + earned_points a answers qs, m + total_points qs)"
  using assms
proof (induction qs arbitrary: gs s m)
  case Nil
  then show ?case by (simp add: earned_points_def total_points_def)
next
  case (Cons q qs)
  have pts: "0 \<le> an_points (graded_answer a answers q)" "an_points (graded_answer a answers q) \<le> qq_points q"
    using graded_points Cons.prems(1) by simp_all
  have rest: "0 \<le> total_points qs"
    unfolding total_points_def using Cons.prems(1) by (intro sum_list_nonneg) auto
  have m: "m + qq_points q + total_points qs < 2 ^ 63" using Cons.prems(4) by (simp add: total_points_def)
  with pts rest Cons.prems(2,3)
  have "wrap64 (m + qq_points q) = m + qq_points q"
    "wrap64 (s + an_points (graded_answer a answers q)) = s + an_points (graded_answer a answers q)"
    by (intro wrap64_id; linarith)+
  then have step: "grade_step a answers q (gs, s, m)
      = (gs @ [graded_answer a answers q], s + an_points (graded_answer a answers q), m + qq_points q)"
    by (simp add: grade_step_def Let_def)
  have "fold (grade_step a answers) qs (gs @ [graded_answer a answers q], s + an_points (graded_answer a answers q), m + qq_points q)
     = ((gs @ [graded_answer a answers q]) @ map (graded_answer a answers) qs,
        (s + an_points (graded_answer a answers q)) + earned_points a answers qs, (m + qq_points q) + total_points qs)"
    using Cons.prems pts m by (intro Cons.IH) auto
  with step show ?case by (simp add: earned_points_def total_points_def)
qed

lemma grade_attempt_eq:
  assumes "\<And>q. q \<in> set qs \<Longrightarrow> 0 \<le> qq_points q" and "total_points qs < 2 ^ 63"
  shows "grade_attempt a answers qs = (map (graded_answer a answers) qs, earned_points a answers qs, total_points qs)"
  using grade_fold [of qs 0 0 a answers "[]"] assms by (simp add: grade_attempt_def)

text \<open>Points fit an \<open>INTEGER\<close>, so the totals of less than \<open>2 ^ 31\<close> questions fit 64 bits.\<close>

lemma total_points_small:
  assumes "\<And>q. q \<in> set qs \<Longrightarrow> qq_points q < 2 ^ 31" and "int (length qs) \<le> 2 ^ 31"
  shows "total_points qs < 2 ^ 63"
proof -
  have "total_points qs \<le> int (length qs) * 2 ^ 31"
    using assms(1) by (induction qs) (auto simp: total_points_def algebra_simps intro: add_mono less_imp_le)
  also have "\<dots> \<le> 2 ^ 31 * 2 ^ 31" using assms(2) by (intro mult_right_mono) auto
  finally show ?thesis by simp
qed

lemma attempt_percent_range:
  assumes "0 \<le> s" "s \<le> m" "m < 2 ^ 31"
  shows "0 \<le> attempt_percent s m \<and> attempt_percent s m \<le> 100
    \<and> (0 < m \<longrightarrow> attempt_percent s m = s * 100 div m) \<and> (0 < m \<longrightarrow> (attempt_percent s m = 100 \<longleftrightarrow> s = m))"
proof (cases "0 < m")
  case True
  have p: "attempt_percent s m = s * 100 div m"
    using assms True by (simp add: attempt_percent_def go_mul_small go_quot_nonneg)
  have "s * 100 div m \<le> m * 100 div m" using assms True by (intro zdiv_mono1) auto
  moreover have "s * 100 div m < 100" if "s < m"
  proof (rule ccontr)
    assume "\<not> s * 100 div m < 100"
    then have "100 * m \<le> (s * 100 div m) * m" using True by (intro mult_right_mono) auto
    also have "\<dots> \<le> s * 100" by (simp add: minus_mod_eq_div_mult [symmetric] True)
    finally show False using that by simp
  qed
  ultimately show ?thesis using p assms True by (auto simp: pos_imp_zdiv_nonneg_iff order_less_le)
qed (use assms in \<open>simp add: attempt_percent_def\<close>)

end
