(* ===== verification/Assessments.thy ===== *)
theory Assessments
  imports Grading Progress
begin

text \<open>
  \<open>AssessmentService\<close> (\<open>internal/service/assessment.go\<close>): quizzes and their questions, the attempts of a
  learner, assignments and submissions, the gradebook. One definition per method; \<open>admin\<close> is the caller's
  \<open>platformAdmin\<close>. \<open>requireActiveEnrollment\<close> is the method of the progress service, word for word, and is
  taken from there.
\<close>

section \<open>Rights\<close>

definition require_assessment_write :: "uuid \<Rightarrow> uuid \<Rightarrow> bool \<Rightarrow> unit act" where
  "require_assessment_write actor c admin =
     andThen (courses_get_by_id c) (\<lambda>course.
     guard (admin \<or> co_teacher_id course = actor)
       (forbidden ''only the course teacher or an admin can manage assessments''))"

section \<open>Quizzes\<close>

definition create_quiz ::
  "uuid \<Rightarrow> uuid \<Rightarrow> string \<Rightarrow> string \<Rightarrow> int option \<Rightarrow> int option \<Rightarrow> int \<Rightarrow> bool \<Rightarrow> bool \<Rightarrow> quiz act" where
  "create_quiz actor c title description limit attempts pass shuffle admin =
     andThen (require_assessment_write actor c admin) (\<lambda>_.
     let t = trim_space title
     in andThen (guard (t \<noteq> '''') (validation ''title is required'')) (\<lambda>_.
     quizzes_create \<lparr>qz_id = '''', qz_course_id = c, qz_title = t, qz_description = trim_space description,
       qz_status = QuizDraft, qz_time_limit = limit, qz_max_attempts = attempts,
       qz_pass_percent = (if pass < 0 \<or> 100 < pass then 60 else pass), qz_shuffle = shuffle,
       qz_created_at = 0, qz_updated_at = 0, qz_questions = []\<rparr>))"

definition list_quizzes :: "uuid \<Rightarrow> uuid \<Rightarrow> bool \<Rightarrow> quiz list act" where
  "list_quizzes actor c admin =
     andThen (courses_get_by_id c) (\<lambda>course.
     andThen (quizzes_list_by_course c) (\<lambda>items.
     if admin \<or> co_teacher_id course = actor then ret items
     else andThen (require_active_enrollment actor c) (\<lambda>_.
          ret (filter (\<lambda>q. qz_status q = QuizPublished) items))))"

definition get_quiz :: "uuid \<Rightarrow> uuid \<Rightarrow> bool \<Rightarrow> quiz act" where
  "get_quiz actor q admin =
     andThen (quizzes_get_by_id q) (\<lambda>quiz.
     andThen (courses_get_by_id (qz_course_id quiz)) (\<lambda>course.
     let author = admin \<or> co_teacher_id course = actor
     in andThen (if author then ret ()
          else andThen (guard (qz_status quiz = QuizPublished) (not_found ''quiz not found'')) (\<lambda>_.
               andThen (require_active_enrollment actor (qz_course_id quiz)) (\<lambda>_. ret ()))) (\<lambda>_.
     andThen (questions_list_by_quiz q) (\<lambda>qs.
     ret (quiz\<lparr>qz_questions := (if author then qs else map strip_question_secrets qs)\<rparr>)))))"

definition update_quiz ::
  "uuid \<Rightarrow> uuid \<Rightarrow> string \<Rightarrow> string \<Rightarrow> int option \<Rightarrow> int option \<Rightarrow> int option \<Rightarrow> bool option \<Rightarrow> bool \<Rightarrow> quiz act" where
  "update_quiz actor q title description limit attempts pass shuffle admin =
     andThen (quizzes_get_by_id q) (\<lambda>quiz.
     andThen (require_assessment_write actor (qz_course_id quiz) admin) (\<lambda>_.
     let t = trim_space title
     in andThen (guard (case pass of None \<Rightarrow> True | Some p \<Rightarrow> \<not> (p < 0 \<or> 100 < p))
          (validation ''pass_percent must be 0-100'')) (\<lambda>_.
     quizzes_update (quiz\<lparr>qz_title := (if t \<noteq> '''' then t else qz_title quiz),
       qz_description := trim_space description, qz_time_limit := limit, qz_max_attempts := attempts,
       qz_pass_percent := (case pass of None \<Rightarrow> qz_pass_percent quiz | Some p \<Rightarrow> p),
       qz_shuffle := (case shuffle of None \<Rightarrow> qz_shuffle quiz | Some b \<Rightarrow> b)\<rparr>))))"

definition publish_quiz :: "uuid \<Rightarrow> uuid \<Rightarrow> bool \<Rightarrow> quiz act" where
  "publish_quiz actor q admin =
     andThen (quizzes_get_by_id q) (\<lambda>quiz.
     andThen (require_assessment_write actor (qz_course_id quiz) admin) (\<lambda>_.
     andThen (questions_list_by_quiz q) (\<lambda>qs.
     andThen (guard (qs \<noteq> []) (validation ''quiz must have at least one question'')) (\<lambda>_.
     quizzes_set_status q QuizPublished))))"

section \<open>Questions\<close>

definition add_question ::
  "(nat \<Rightarrow> string) \<Rightarrow> uuid \<Rightarrow> uuid \<Rightarrow> string \<Rightarrow> string \<Rightarrow> int \<Rightarrow> quiz_option list \<Rightarrow> string \<Rightarrow> bool \<Rightarrow> quiz_question act" where
  "add_question rnd actor q t prompt points options correct admin =
     andThen (quizzes_get_by_id q) (\<lambda>quiz.
     andThen (require_assessment_write actor (qz_course_id quiz) admin) (\<lambda>_.
     let p = trim_space prompt
     in andThen (guard (p \<noteq> '''') (validation ''prompt is required'')) (\<lambda>_.
     andThen (check (validate_question t options correct)) (\<lambda>_.
     andThen (questions_next_position q) (\<lambda>pos.
     questions_create \<lparr>qq_id = '''', qq_quiz_id = q, qq_type = t, qq_prompt = p,
       qq_points = (if points \<le> 0 then 1 else points), qq_position = pos,
       qq_options = ensure_option_ids rnd options, qq_correct_answer = trim_space correct,
       qq_created_at = 0, qq_updated_at = 0\<rparr>)))))"

definition update_question ::
  "(nat \<Rightarrow> string) \<Rightarrow> uuid \<Rightarrow> uuid \<Rightarrow> string \<Rightarrow> int \<Rightarrow> quiz_option list \<Rightarrow> string \<Rightarrow> bool \<Rightarrow> quiz_question act" where
  "update_question rnd actor i prompt points options correct admin =
     andThen (questions_get_by_id i) (\<lambda>q.
     andThen (quizzes_get_by_id (qq_quiz_id q)) (\<lambda>quiz.
     andThen (require_assessment_write actor (qz_course_id quiz) admin) (\<lambda>_.
     let p = trim_space prompt
     in andThen (guard (p \<noteq> '''') (validation ''prompt is required'')) (\<lambda>_.
     andThen (guard (0 < points) (validation ''points must be > 0'')) (\<lambda>_.
     andThen (check (validate_question (qq_type q) options correct)) (\<lambda>_.
     questions_update (q\<lparr>qq_prompt := p, qq_points := points, qq_options := ensure_option_ids rnd options,
       qq_correct_answer := trim_space correct\<rparr>)))))))"

definition delete_question :: "uuid \<Rightarrow> uuid \<Rightarrow> bool \<Rightarrow> unit act" where
  "delete_question actor i admin =
     andThen (questions_get_by_id i) (\<lambda>q.
     andThen (quizzes_get_by_id (qq_quiz_id q)) (\<lambda>quiz.
     andThen (require_assessment_write actor (qz_course_id quiz) admin) (\<lambda>_.
     questions_delete i)))"

definition reorder_questions :: "uuid \<Rightarrow> uuid \<Rightarrow> uuid list \<Rightarrow> bool \<Rightarrow> unit act" where
  "reorder_questions actor q ids admin =
     andThen (quizzes_get_by_id q) (\<lambda>quiz.
     andThen (require_assessment_write actor (qz_course_id quiz) admin) (\<lambda>_.
     questions_reorder q ids))"

section \<open>Attempts\<close>

definition new_attempt :: "uuid \<Rightarrow> uuid \<Rightarrow> int \<Rightarrow> time \<Rightarrow> quiz_attempt" where
  "new_attempt q u n now = \<lparr>at_id = '''', at_quiz_id = q, at_user_id = u, at_number = n,
     at_status = AttemptInProgress, at_score = 0, at_max = 0, at_percent = 0, at_passed = False,
     at_started_at = now, at_submitted_at = None, at_graded_at = None, at_created_at = 0, at_updated_at = 0,
     at_answers = [], at_user_email = '''', at_user_name = ''''\<rparr>"

definition start_attempt :: "uuid \<Rightarrow> uuid \<Rightarrow> quiz_attempt act" where
  "start_attempt actor q =
     andThen (quizzes_get_by_id q) (\<lambda>quiz.
     andThen (guard (qz_status quiz = QuizPublished) (validation ''quiz is not published'')) (\<lambda>_.
     andThen (require_active_enrollment actor (qz_course_id quiz)) (\<lambda>_.
     andThen (optional is_not_found (attempts_get_in_progress q actor)) (\<lambda>existing.
     case existing of Some a \<Rightarrow> ret a
     | None \<Rightarrow>
         andThen (attempts_count_by_quiz_user q actor) (\<lambda>count.
         andThen (guard (\<not> (case qz_max_attempts quiz of None \<Rightarrow> False | Some n \<Rightarrow> n \<le> count))
           (conflict ''maximum attempts reached'')) (\<lambda>_.
         andThen (asks clock) (\<lambda>now.
         attempts_create (new_attempt q actor (count + 1) now))))))))"

definition list_my_attempts :: "uuid \<Rightarrow> uuid \<Rightarrow> quiz_attempt list act" where
  "list_my_attempts actor q =
     andThen (quizzes_get_by_id q) (\<lambda>quiz.
     andThen (require_active_enrollment actor (qz_course_id quiz)) (\<lambda>_.
     attempts_list_by_quiz_user q actor))"

definition get_attempt :: "uuid \<Rightarrow> uuid \<Rightarrow> bool \<Rightarrow> quiz_attempt act" where
  "get_attempt actor i admin =
     andThen (attempts_get_by_id i) (\<lambda>a.
     andThen (quizzes_get_by_id (at_quiz_id a)) (\<lambda>quiz.
     andThen (courses_get_by_id (qz_course_id quiz)) (\<lambda>course.
     andThen (guard (admin \<or> co_teacher_id course = actor \<or> at_user_id a = actor)
       (forbidden ''cannot view this attempt'')) (\<lambda>_.
     andThen (answers_list_by_attempt i) (\<lambda>answers.
     ret (a\<lparr>at_answers := answers\<rparr>))))))"

definition time_is_up :: "quiz \<Rightarrow> quiz_attempt \<Rightarrow> time \<Rightarrow> bool" where
  "time_is_up quiz a now \<longleftrightarrow> (case qz_time_limit quiz of None \<Rightarrow> False | Some n \<Rightarrow> at_started_at a + n < now)"

definition clean_answer :: "uuid \<Rightarrow> attempt_answer \<Rightarrow> attempt_answer" where
  "clean_answer i a = a\<lparr>an_attempt_id := i, an_text := trim_space (an_text a), an_correct := None, an_points := 0\<rparr>"

definition save_answers :: "uuid \<Rightarrow> uuid \<Rightarrow> attempt_answer list \<Rightarrow> quiz_attempt act" where
  "save_answers actor i answers =
     andThen (attempts_get_by_id i) (\<lambda>a.
     andThen (guard (at_user_id a = actor) (forbidden ''cannot modify this attempt'')) (\<lambda>_.
     andThen (guard (at_status a = AttemptInProgress) (conflict ''attempt is already submitted'')) (\<lambda>_.
     andThen (quizzes_get_by_id (at_quiz_id a)) (\<lambda>quiz.
     andThen (asks clock) (\<lambda>now.
     andThen (guard (\<not> time_is_up quiz a now) (conflict ''time limit exceeded'')) (\<lambda>_.
     andThen (questions_list_by_quiz (at_quiz_id a)) (\<lambda>qs.
     andThen (guard (list_all (\<lambda>x. an_question_id x \<in> set (map qq_id qs)) answers)
       (validation ''invalid question_id'')) (\<lambda>_.
     andThen (answers_replace_all i (map (clean_answer i) answers)) (\<lambda>_.
     get_attempt actor i False)))))))))"

definition submit_attempt :: "uuid \<Rightarrow> uuid \<Rightarrow> quiz_attempt act" where
  "submit_attempt actor i =
     andThen (attempts_get_by_id i) (\<lambda>a.
     andThen (guard (at_user_id a = actor) (forbidden ''cannot submit this attempt'')) (\<lambda>_.
     andThen (guard (at_status a = AttemptInProgress) (conflict ''attempt is already submitted'')) (\<lambda>_.
     andThen (quizzes_get_by_id (at_quiz_id a)) (\<lambda>quiz.
     andThen (questions_list_by_quiz (at_quiz_id a)) (\<lambda>qs.
     andThen (answers_list_by_attempt i) (\<lambda>existing.
     andThen (asks clock) (\<lambda>now.
     case grade_attempt i existing qs of (graded, score, mx) \<Rightarrow>
       andThen (answers_replace_all i graded) (\<lambda>_.
       andThen (attempts_update (graded_attempt now quiz score mx a)) (\<lambda>_.
       get_attempt actor i False)))))))))"

section \<open>Assignments\<close>

definition create_assignment ::
  "(nat \<Rightarrow> string) \<Rightarrow> uuid \<Rightarrow> uuid \<Rightarrow> string \<Rightarrow> string \<Rightarrow> int \<Rightarrow> time option \<Rightarrow> bool \<Rightarrow> rubric_criterion list \<Rightarrow> bool \<Rightarrow>
   assignment act" where
  "create_assignment rnd actor c title description mx due late rubric admin =
     andThen (require_assessment_write actor c admin) (\<lambda>_.
     let t = trim_space title
     in andThen (guard (t \<noteq> '''') (validation ''title is required'')) (\<lambda>_.
     assignments_create \<lparr>as_id = '''', as_course_id = c, as_title = t, as_description = trim_space description,
       as_status = AssignmentDraft, as_max_score = (if mx \<le> 0 then 100 else mx), as_due_at = due,
       as_allow_late = late, as_rubric = ensure_rubric_ids rnd rubric, as_created_at = 0, as_updated_at = 0\<rparr>))"

definition list_assignments :: "uuid \<Rightarrow> uuid \<Rightarrow> bool \<Rightarrow> assignment list act" where
  "list_assignments actor c admin =
     andThen (courses_get_by_id c) (\<lambda>course.
     andThen (assignments_list_by_course c) (\<lambda>items.
     if admin \<or> co_teacher_id course = actor then ret items
     else andThen (require_active_enrollment actor c) (\<lambda>_.
          ret (filter (\<lambda>a. as_status a = AssignmentPublished) items))))"

definition get_assignment :: "uuid \<Rightarrow> uuid \<Rightarrow> bool \<Rightarrow> assignment act" where
  "get_assignment actor i admin =
     andThen (assignments_get_by_id i) (\<lambda>a.
     andThen (courses_get_by_id (as_course_id a)) (\<lambda>course.
     if admin \<or> co_teacher_id course = actor then ret a
     else andThen (guard (as_status a = AssignmentPublished) (not_found ''assignment not found'')) (\<lambda>_.
          andThen (require_active_enrollment actor (as_course_id a)) (\<lambda>_.
          ret a))))"

definition update_assignment ::
  "(nat \<Rightarrow> string) \<Rightarrow> uuid \<Rightarrow> uuid \<Rightarrow> string \<Rightarrow> string \<Rightarrow> int \<Rightarrow> time option \<Rightarrow> bool \<Rightarrow> rubric_criterion list \<Rightarrow> bool \<Rightarrow>
   assignment act" where
  "update_assignment rnd actor i title description mx due late rubric admin =
     andThen (assignments_get_by_id i) (\<lambda>a.
     andThen (require_assessment_write actor (as_course_id a) admin) (\<lambda>_.
     let t = trim_space title
     in assignments_update (a\<lparr>as_title := (if t \<noteq> '''' then t else as_title a),
       as_description := trim_space description, as_max_score := (if 0 < mx then mx else as_max_score a),
       as_due_at := due, as_allow_late := late, as_rubric := ensure_rubric_ids rnd rubric\<rparr>)))"

definition publish_assignment :: "uuid \<Rightarrow> uuid \<Rightarrow> bool \<Rightarrow> assignment act" where
  "publish_assignment actor i admin =
     andThen (assignments_get_by_id i) (\<lambda>a.
     andThen (require_assessment_write actor (as_course_id a) admin) (\<lambda>_.
     assignments_set_status i AssignmentPublished))"

section \<open>Submissions\<close>

definition new_submission :: "uuid \<Rightarrow> uuid \<Rightarrow> string \<Rightarrow> string \<Rightarrow> submission" where
  "new_submission i u body url = \<lparr>sb_id = '''', sb_assignment_id = i, sb_user_id = u, sb_status = SubmissionDraft,
     sb_body = body, sb_attachment_url = url, sb_score = None, sb_feedback = '''', sb_rubric_scores = Map.empty,
     sb_submitted_at = None, sb_graded_at = None, sb_graded_by = None, sb_created_at = 0, sb_updated_at = 0,
     sb_user_email = '''', sb_user_name = ''''\<rparr>"

definition past_due :: "assignment \<Rightarrow> time \<Rightarrow> bool" where
  "past_due a now \<longleftrightarrow> (case as_due_at a of None \<Rightarrow> False | Some t \<Rightarrow> t < now) \<and> \<not> as_allow_late a"

definition handed_in :: "bool \<Rightarrow> time \<Rightarrow> submission \<Rightarrow> submission" where
  "handed_in submit now s = (if submit then s\<lparr>sb_status := SubmissionSubmitted, sb_submitted_at := Some now\<rparr>
     else s\<lparr>sb_status := SubmissionDraft\<rparr>)"

definition upsert_submission :: "uuid \<Rightarrow> uuid \<Rightarrow> string \<Rightarrow> string \<Rightarrow> bool \<Rightarrow> submission act" where
  "upsert_submission actor i body url submit =
     andThen (assignments_get_by_id i) (\<lambda>a.
     andThen (guard (as_status a = AssignmentPublished) (validation ''assignment is not published'')) (\<lambda>_.
     andThen (require_active_enrollment actor (as_course_id a)) (\<lambda>_.
     andThen (asks clock) (\<lambda>now.
     andThen (guard (\<not> (submit \<and> past_due a now)) (forbidden ''past due date'')) (\<lambda>_.
     andThen (optional is_not_found (submissions_get_by_assignment_user i actor)) (\<lambda>existing.
     andThen (guard (case existing of None \<Rightarrow> True
          | Some s \<Rightarrow> \<not> (sb_status s = SubmissionGraded \<or> sb_status s = SubmissionReturned))
        (conflict ''submission already graded'')) (\<lambda>_.
     let s = (case existing of None \<Rightarrow> new_submission i actor (trim_space body) (trim_space url)
       | Some s \<Rightarrow> s\<lparr>sb_body := trim_space body, sb_attachment_url := trim_space url\<rparr>)
     in andThen (submissions_upsert (handed_in submit now s)) (\<lambda>_.
        submissions_get_by_assignment_user i actor))))))))"

definition get_my_submission :: "uuid \<Rightarrow> uuid \<Rightarrow> submission act" where
  "get_my_submission actor i =
     andThen (assignments_get_by_id i) (\<lambda>a.
     andThen (require_active_enrollment actor (as_course_id a)) (\<lambda>_.
     andThen (optional is_not_found (submissions_get_by_assignment_user i actor)) (\<lambda>r. case r of
       None \<Rightarrow> ret (new_submission i actor '''' '''')
     | Some s \<Rightarrow> ret s)))"

definition list_submissions :: "uuid \<Rightarrow> uuid \<Rightarrow> bool \<Rightarrow> submission list act" where
  "list_submissions actor i admin =
     andThen (assignments_get_by_id i) (\<lambda>a.
     andThen (require_assessment_write actor (as_course_id a) admin) (\<lambda>_.
     submissions_list_by_assignment i))"

definition grade_submission ::
  "uuid \<Rightarrow> uuid \<Rightarrow> int \<Rightarrow> string \<Rightarrow> (string \<rightharpoonup> int) \<Rightarrow> bool \<Rightarrow> submission act" where
  "grade_submission actor i score feedback rubric admin =
     andThen (submissions_get_by_id i) (\<lambda>s.
     andThen (assignments_get_by_id (sb_assignment_id s)) (\<lambda>a.
     andThen (require_assessment_write actor (as_course_id a) admin) (\<lambda>_.
     andThen (guard (sb_status s = SubmissionSubmitted \<or> sb_status s = SubmissionGraded
         \<or> sb_status s = SubmissionReturned) (validation ''submission is not ready for grading'')) (\<lambda>_.
     andThen (guard (\<not> (score < 0 \<or> as_max_score a < score))
       (validation ''score must be between 0 and max_score'')) (\<lambda>_.
     andThen (asks clock) (\<lambda>now.
     andThen (submissions_upsert (s\<lparr>sb_score := Some score, sb_feedback := trim_space feedback,
       sb_rubric_scores := rubric, sb_status := SubmissionGraded, sb_graded_at := Some now,
       sb_graded_by := Some actor\<rparr>)) (\<lambda>_.
     submissions_get_by_id i)))))))"

section \<open>The gradebook\<close>

record quiz_score =
  gq_quiz_id :: uuid
  gq_title :: string
  gq_percent :: "int option"
  gq_passed :: "bool option"
  gq_attempts :: int

record assignment_score =
  ga_assignment_id :: uuid
  ga_title :: string
  ga_score :: "int option"
  ga_max_score :: int
  ga_status :: string

record gradebook_entry =
  gb_user_id :: uuid
  gb_user_email :: string
  gb_user_name :: string
  gb_quizzes :: "quiz_score list"
  gb_assignments :: "assignment_score list"

text \<open>The best attempt of a user at a quiz, in the answer of \<open>BestGradedByCourse\<close>.\<close>

definition best_of :: "quiz_attempt list \<Rightarrow> uuid \<Rightarrow> uuid \<Rightarrow> quiz_attempt option" where
  "best_of best u q = find (\<lambda>a. at_user_id a = u \<and> at_quiz_id a = q) (rev best)"

definition submission_of :: "submission list \<Rightarrow> uuid \<Rightarrow> uuid \<Rightarrow> submission option" where
  "submission_of subs u a = find (\<lambda>s. sb_user_id s = u \<and> sb_assignment_id s = a) (rev subs)"

definition quiz_cell :: "quiz_attempt list \<Rightarrow> (uuid \<Rightarrow> uuid \<Rightarrow> int) \<Rightarrow> uuid \<Rightarrow> quiz \<Rightarrow> quiz_score" where
  "quiz_cell best counts u q =
     \<lparr>gq_quiz_id = qz_id q, gq_title = qz_title q,
      gq_percent = map_option at_percent (best_of best u (qz_id q)),
      gq_passed = map_option at_passed (best_of best u (qz_id q)), gq_attempts = counts u (qz_id q)\<rparr>"

definition assignment_cell :: "submission list \<Rightarrow> uuid \<Rightarrow> assignment \<Rightarrow> assignment_score" where
  "assignment_cell subs u a =
     \<lparr>ga_assignment_id = as_id a, ga_title = as_title a,
      ga_score = (case submission_of subs u (as_id a) of None \<Rightarrow> None | Some s \<Rightarrow> sb_score s),
      ga_max_score = as_max_score a,
      ga_status = (case submission_of subs u (as_id a) of None \<Rightarrow> '''' | Some s \<Rightarrow> submission_status_text (sb_status s))\<rparr>"

definition gradebook_row ::
  "quiz list \<Rightarrow> assignment list \<Rightarrow> quiz_attempt list \<Rightarrow> submission list \<Rightarrow> (uuid \<Rightarrow> uuid \<Rightarrow> int) \<Rightarrow> enrollment \<Rightarrow>
   gradebook_entry" where
  "gradebook_row qs as best subs counts en =
     \<lparr>gb_user_id = en_user_id en, gb_user_email = en_user_email en, gb_user_name = en_user_name en,
      gb_quizzes = map (quiz_cell best counts (en_user_id en)) qs,
      gb_assignments = map (assignment_cell subs (en_user_id en)) as\<rparr>"

text \<open>The number of attempts of each learner at each quiz; an error of the count is ignored and reads as 0.\<close>

definition attempt_counts :: "quiz list \<Rightarrow> enrollment list \<Rightarrow> (uuid \<times> uuid \<times> int) list act" where
  "attempt_counts qs ens = map_each (List.product qs ens) (\<lambda>(q, en).
     andThen (orElse (attempts_count_by_quiz_user (qz_id q) (en_user_id en)) (\<lambda>_. ret 0)) (\<lambda>n.
     ret (en_user_id en, qz_id q, n)))"

definition count_in :: "(uuid \<times> uuid \<times> int) list \<Rightarrow> uuid \<Rightarrow> uuid \<Rightarrow> int" where
  "count_in counts u q = (case find (\<lambda>(v, p, _). v = u \<and> p = q) (rev counts) of None \<Rightarrow> 0 | Some (_, _, n) \<Rightarrow> n)"

definition gradebook :: "uuid \<Rightarrow> uuid \<Rightarrow> bool \<Rightarrow> gradebook_entry list act" where
  "gradebook actor c admin =
     andThen (require_assessment_write actor c admin) (\<lambda>_.
     andThen (enrollments_list_by_course c \<lparr>ef_page = 1, ef_per_page = 100, ef_status = ''active''\<rparr>) (\<lambda>(ens, _).
     andThen (quizzes_list_by_course c) (\<lambda>qs.
     andThen (assignments_list_by_course c) (\<lambda>as.
     andThen (attempts_best_graded_by_course c) (\<lambda>best.
     andThen (submissions_list_graded_by_course c) (\<lambda>subs.
     andThen (attempt_counts qs ens) (\<lambda>counts.
     ret (map (gradebook_row qs as best subs (count_in counts)) ens))))))))"

end
