(* ===== verification/Pdf.thy ===== *)
theory Pdf
  imports Prelude
begin

text \<open>
  The certificate document (\<open>internal/certificate/pdf.go\<close>): a PDF file of five objects, whose
  cross-reference table holds the byte offset of each object, and a text that is escaped into the one
  string literal of the page. A \<open>time\<close> is a number of seconds since 1970 (UTC).
\<close>

section \<open>Numbers and dates\<close>

text \<open>\<open>%d\<close> and \<open>%010d\<close> of a number that is not negative.\<close>

fun decimal :: "nat \<Rightarrow> string" where
  "decimal n = (if n < 10 then [char_of (48 + n)] else decimal (n div 10) @ [char_of (48 + n mod 10)])"

declare decimal.simps [simp del]

definition padded :: "nat \<Rightarrow> nat \<Rightarrow> string" where
  "padded width n = replicate (width - length (decimal n)) (CHR ''0'') @ decimal n"

text \<open>
  The proleptic Gregorian calendar. Counting from 1 March of the year 0, an era of 400 years has 146097
  days; \<open>doe\<close>, \<open>yoe\<close>, \<open>doy\<close> are the day and the year in the era and the day in the year.
\<close>

definition civil :: "int \<Rightarrow> int \<times> nat \<times> nat" where
  "civil days =
     (let z = days + 719468; era = z div 146097; doe = z mod 146097;
          yoe = (doe - doe div 1460 + doe div 36524 - doe div 146096) div 365;
          doy = doe - (365 * yoe + yoe div 4 - yoe div 100);
          mp = (5 * doy + 2) div 153;
          m = (if mp < 10 then mp + 3 else mp - 9)
      in (yoe + era * 400 + (if m \<le> 2 then 1 else 0), nat m, nat (doy - (153 * mp + 2) div 5 + 1)))"

definition month_names :: "string list" where
  "month_names = [''January'', ''February'', ''March'', ''April'', ''May'', ''June'', ''July'', ''August'',
     ''September'', ''October'', ''November'', ''December'']"

text \<open>\<open>Format("January 2, 2006")\<close>, for years from 0 on.\<close>

definition long_date :: "int \<Rightarrow> string" where
  "long_date t = (case civil (t div 86400) of (y, m, d) \<Rightarrow>
     month_names ! (m - 1) @ '' '' @ decimal d @ '', '' @ padded 4 (nat y))"

lemma long_date_samples: "long_date 0 = ''January 1, 1970''" "long_date 951782400 = ''February 29, 2000''"
  "long_date 1735689599 = ''December 31, 2024''"
  by code_simp+

section \<open>The document\<close>

abbreviation nl :: string where "nl \<equiv> [CHR 0x0A]"

definition pdf_escape_char :: "char \<Rightarrow> string" where
  "pdf_escape_char c =
     (if c = CHR 0x28 \<or> c = CHR 0x29 \<or> c = CHR 0x5C then [CHR 0x5C, c]
      else if c = CHR 0x0A then [CHR 0x5C, CHR ''n''] else [c])"

definition pdf_escape :: "string \<Rightarrow> string" where
  "pdf_escape s = concat (map pdf_escape_char s)"

record pdf_doc =
  pd_buf :: string
  pd_offsets :: "nat list"

definition pdf_write :: "string \<Rightarrow> pdf_doc \<Rightarrow> pdf_doc" where
  "pdf_write s d = d\<lparr>pd_buf := pd_buf d @ s\<rparr>"

definition obj_start :: "nat \<Rightarrow> string \<Rightarrow> pdf_doc \<Rightarrow> pdf_doc" where
  "obj_start i body d = d\<lparr>pd_offsets := pd_offsets d @ [length (pd_buf d)],
     pd_buf := pd_buf d @ decimal i @ '' 0 obj'' @ nl @ body @ nl @ ''endobj'' @ nl\<rparr>"

definition content_stream :: "string \<Rightarrow> string" where
  "content_stream text = ''BT'' @ nl @ ''/F1 14 Tf'' @ nl @ ''72 720 Td'' @ nl
     @ ''('' @ pdf_escape text @ '') Tj'' @ nl @ ''ET''"

text \<open>The bodies of the objects 1 to 5.\<close>

definition pdf_objects :: "string \<Rightarrow> string list" where
  "pdf_objects text =
    [''<< /Type /Catalog /Pages 2 0 R >>'',
     ''<< /Type /Pages /Kids [3 0 R] /Count 1 >>'',
     ''<< /Type /Page /Parent 2 0 R /MediaBox [0 0 612 792] /Contents 4 0 R /Resources << /Font << /F1 5 0 R >> >> >>'',
     ''<< /Length '' @ decimal (length (content_stream text)) @ '' >>'' @ nl @ ''stream'' @ nl
       @ content_stream text @ nl @ ''endstream'',
     ''<< /Type /Font /Subtype /Type1 /BaseFont /Helvetica >>'']"

definition pdf_body :: "string \<Rightarrow> pdf_doc" where
  "pdf_body text = fold (\<lambda>(i, b). obj_start i b) (enumerate 1 (pdf_objects text))
     (pdf_write (''%PDF-1.4'' @ nl) \<lparr>pd_buf = '''', pd_offsets = [0]\<rparr>)"

definition xref_entry :: "nat \<Rightarrow> string" where
  "xref_entry n = padded 10 n @ '' 00000 n '' @ nl"

definition xref_table :: "nat list \<Rightarrow> string" where
  "xref_table offsets = ''xref'' @ nl @ ''0 6'' @ nl @ ''0000000000 65535 f '' @ nl @ concat (map xref_entry offsets)"

definition pdf_trailer :: "nat \<Rightarrow> string" where
  "pdf_trailer xref = ''trailer'' @ nl @ ''<< /Size 6 /Root 1 0 R >>'' @ nl @ ''startxref'' @ nl
     @ decimal xref @ nl @ ''%%EOF''"

definition minimal_pdf :: "string \<Rightarrow> string" where
  "minimal_pdf text = (let d = pdf_body text
     in pd_buf d @ xref_table (map (\<lambda>i. pd_offsets d ! i) [1..<6]) @ pdf_trailer (length (pd_buf d)))"

record pdf_data =
  pf_learner :: string
  pf_course :: string
  pf_issued_at :: int
  pf_code :: string

definition pdf_text :: "pdf_data \<Rightarrow> string" where
  "pdf_text d = ''Certificate of Completion'' @ nl @ nl @ ''This certifies that'' @ nl @ pf_learner d @ nl
     @ ''has successfully completed'' @ nl @ pf_course d @ nl @ nl @ ''Issued: '' @ long_date (pf_issued_at d) @ nl
     @ ''Verification code: '' @ pf_code d"

definition generate_pdf :: "pdf_data \<Rightarrow> string" where
  "generate_pdf d = minimal_pdf (pdf_text d)"

section \<open>Reading it back\<close>

text \<open>A string literal, up to its closing parenthesis: the text and what follows it.\<close>

fun pdf_literal :: "string \<Rightarrow> (string \<times> string) option" where
  "pdf_literal [] = None"
| "pdf_literal (c # s) =
     (if c = CHR 0x29 then Some ([], s)
      else if c = CHR 0x28 then None
      else if c = CHR 0x5C then (case s of [] \<Rightarrow> None
        | d # t \<Rightarrow> map_option (apfst ((#) (if d = CHR ''n'' then CHR 0x0A else d))) (pdf_literal t))
      else map_option (apfst ((#) c)) (pdf_literal s))"

lemma pdf_literal_escape: "pdf_literal (pdf_escape s @ CHR 0x29 # rest) = Some (s, rest)"
  by (induction s) (auto simp: pdf_escape_def pdf_escape_char_def)

text \<open>Each recorded offset is the place of its object.\<close>

definition object_at :: "string \<Rightarrow> nat \<Rightarrow> nat \<Rightarrow> bool" where
  "object_at doc i off \<longleftrightarrow> take (length (decimal i) + 6) (drop off doc) = decimal i @ '' 0 obj''"

lemma object_at_append: "object_at doc i off \<Longrightarrow> object_at (doc @ s) i off"
proof -
  assume at: "object_at doc i off"
  then have "length (take (length (decimal i) + 6) (drop off doc)) = length (decimal i) + 6"
    by (simp add: object_at_def)
  then have "length (decimal i) + 6 \<le> length (drop off doc)" by simp
  with at show ?thesis by (simp add: object_at_def)
qed

lemma object_at_here: "object_at (doc @ decimal i @ '' 0 obj'' @ s) i (length doc)"
  by (simp add: object_at_def)

text \<open>A document with the objects \<open>1\<close> to \<open>n - 1\<close>.\<close>

definition objects_placed :: "nat \<Rightarrow> pdf_doc \<Rightarrow> bool" where
  "objects_placed n d \<longleftrightarrow> length (pd_offsets d) = n \<and> (\<forall>i. 1 \<le> i \<longrightarrow> i < n \<longrightarrow> object_at (pd_buf d) i (pd_offsets d ! i))"

lemma obj_start_placed: "objects_placed n d \<Longrightarrow> objects_placed (Suc n) (obj_start n body d)"
  using object_at_here [of "pd_buf d" n "nl @ body @ nl @ ''endobj'' @ nl"]
  by (auto simp: objects_placed_def obj_start_def less_Suc_eq nth_append object_at_append)

lemma objects_placed_fold:
  "objects_placed n d \<Longrightarrow> objects_placed (n + length bs) (fold (\<lambda>(i, b). obj_start i b) (enumerate n bs) d)"
proof (induction bs arbitrary: n d)
  case (Cons b bs)
  from Cons.IH [OF obj_start_placed [OF Cons.prems]] show ?case by simp
qed simp

lemma pdf_body_placed: "objects_placed 6 (pdf_body text)"
  using objects_placed_fold [of 1 "pdf_write (''%PDF-1.4'' @ nl) \<lparr>pd_buf = '''', pd_offsets = [0]\<rparr>" "pdf_objects text"]
  by (simp add: pdf_body_def objects_placed_def pdf_write_def pdf_objects_def del: enumerate_simps)

end
