(* ===== verification/Certificates.thy ===== *)
theory Certificates
  imports CertificateRepo Assessments UserRepo Pdf
begin

text \<open>
  \<open>CertificateService\<close> (\<open>internal/service/certificate.go\<close>): certificates are issued, verified by their
  code, downloaded and revoked; a transcript collects what a learner did in each course. The six random
  bytes of a code are an argument of the request that draws them (\<open>None\<close> when \<open>rand.Read\<close> fails).
\<close>

definition require_certificate_write :: "uuid \<Rightarrow> uuid \<Rightarrow> bool \<Rightarrow> unit act" where
  "require_certificate_write actor c admin =
     andThen (courses_get_by_id c) (\<lambda>course.
     guard (admin \<or> co_teacher_id course = actor)
       (forbidden ''only the course teacher or an admin can manage certificates''))"

definition require_certificate_read :: "uuid \<Rightarrow> certificate \<Rightarrow> bool \<Rightarrow> unit act" where
  "require_certificate_read actor cert admin =
     (if ce_user_id cert = actor then ret () else require_certificate_write actor (ce_course_id cert) admin)"

definition require_course_complete :: "uuid \<Rightarrow> uuid \<Rightarrow> unit act" where
  "require_course_complete u c =
     andThen (optional is_not_found (course_progress_get u c)) (\<lambda>r. case r of
       None \<Rightarrow> raise (validation ''course is not complete'')
     | Some cp \<Rightarrow> guard (\<not> (pr_percent cp < 100 \<or> pr_completed_at cp = None))
         (validation ''course must be 100% complete before issuing a certificate''))"

definition new_verification_code :: "string option \<Rightarrow> string option" where
  "new_verification_code random = map_option (\<lambda>b. to_upper (hex_encode b)) random"

definition learner_name :: "user \<Rightarrow> string" where
  "learner_name u = (if trim_space (us_full_name u) = '''' then us_email u else trim_space (us_full_name u))"

definition new_certificate :: "course \<Rightarrow> uuid \<Rightarrow> uuid \<Rightarrow> string \<Rightarrow> user \<Rightarrow> time \<Rightarrow> certificate" where
  "new_certificate course c u code user now = \<lparr>ce_id = '''', ce_course_id = c, ce_user_id = u, ce_code = code,
     ce_learner_name = learner_name user, ce_course_title = co_title course, ce_storage_key = '''',
     ce_public_url = '''', ce_issued_at = now, ce_revoked_at = None, ce_created_at = 0, ce_updated_at = 0,
     ce_course_slug = '''', ce_user_email = ''''\<rparr>"

text \<open>Whom the certificate is for, with the checks of the request: the first part of \<open>Issue\<close>.\<close>

definition issue_for :: "uuid \<Rightarrow> uuid \<Rightarrow> uuid option \<Rightarrow> bool \<Rightarrow> uuid act" where
  "issue_for actor c target override =
     (let t = (case target of None \<Rightarrow> '''' | Some s \<Rightarrow> trim_space s)
      in if t \<noteq> '''' then
           andThen (guard override (forbidden ''only the course teacher or an admin can issue for another user'')) (\<lambda>_.
           ret t)
         else if \<not> override then
           andThen (require_active_enrollment actor c) (\<lambda>_.
           andThen (require_course_complete actor c) (\<lambda>_. ret actor))
         else
           andThen (optional is_not_found (enrollments_get_by_course_user c actor)) (\<lambda>en. case en of
             None \<Rightarrow> raise (validation ''user is not enrolled in this course'')
           | Some _ \<Rightarrow> ret actor))"

definition issue_certificate :: "uuid \<Rightarrow> uuid \<Rightarrow> uuid option \<Rightarrow> bool \<Rightarrow> string option \<Rightarrow> certificate act" where
  "issue_certificate actor c target admin random =
     andThen (courses_get_by_id c) (\<lambda>course.
     andThen (issue_for actor c target (admin \<or> co_teacher_id course = actor)) (\<lambda>u.
     andThen (users_get_by_id u) (\<lambda>user.
     andThen (asks clock) (\<lambda>now.
     case new_verification_code random of
       None \<Rightarrow> raise (internal ''failed to generate verification code'')
     | Some code \<Rightarrow>
         andThen (certificates_create (new_certificate course c u code user now)) (\<lambda>cert.
         certificates_get_by_id (ce_id cert))))))"

definition list_my_certificates :: "uuid \<Rightarrow> certificate list act" where
  "list_my_certificates actor = certificates_list_by_user actor"

definition list_course_certificates :: "uuid \<Rightarrow> uuid \<Rightarrow> bool \<Rightarrow> certificate list act" where
  "list_course_certificates actor c admin =
     andThen (require_certificate_write actor c admin) (\<lambda>_. certificates_list_by_course c)"

definition get_certificate :: "uuid \<Rightarrow> uuid \<Rightarrow> bool \<Rightarrow> certificate act" where
  "get_certificate actor i admin =
     andThen (certificates_get_by_id i) (\<lambda>cert.
     andThen (require_certificate_read actor cert admin) (\<lambda>_. ret cert))"

record certificate_verify =
  cv_valid :: bool
  cv_code :: string
  cv_learner_name :: string
  cv_course_title :: string
  cv_issued_at :: time
  cv_revoked_at :: "time option"

definition verify_certificate :: "string \<Rightarrow> certificate_verify act" where
  "verify_certificate raw =
     (let code = to_upper (trim_space raw)
      in andThen (guard (code \<noteq> '''') (validation ''verification code is required'')) (\<lambda>_.
         andThen (optional is_not_found (certificates_get_by_code code)) (\<lambda>r. case r of
           None \<Rightarrow> ret \<lparr>cv_valid = False, cv_code = code, cv_learner_name = '''', cv_course_title = '''',
             cv_issued_at = 0, cv_revoked_at = None\<rparr>
         | Some cert \<Rightarrow> ret \<lparr>cv_valid = (ce_revoked_at cert = None), cv_code = ce_code cert,
             cv_learner_name = ce_learner_name cert, cv_course_title = ce_course_title cert,
             cv_issued_at = ce_issued_at cert, cv_revoked_at = ce_revoked_at cert\<rparr>)))"

definition download_pdf :: "uuid \<Rightarrow> uuid \<Rightarrow> bool \<Rightarrow> (string \<times> string) act" where
  "download_pdf actor i admin =
     andThen (get_certificate actor i admin) (\<lambda>cert.
     andThen (guard (ce_revoked_at cert = None) (forbidden ''certificate has been revoked'')) (\<lambda>_.
     ret (generate_pdf \<lparr>pf_learner = ce_learner_name cert, pf_course = ce_course_title cert,
            pf_issued_at = ce_issued_at cert, pf_code = ce_code cert\<rparr>,
          ''certificate-'' @ ce_code cert @ ''.pdf'')))"

definition revoke_certificate :: "uuid \<Rightarrow> uuid \<Rightarrow> bool \<Rightarrow> certificate act" where
  "revoke_certificate actor i admin =
     andThen (certificates_get_by_id i) (\<lambda>cert.
     andThen (require_certificate_write actor (ce_course_id cert) admin) (\<lambda>_.
     certificates_revoke i))"

section \<open>Transcripts\<close>

record transcript_certificate =
  tc_id :: uuid
  tc_code :: string
  tc_issued_at :: time
  tc_revoked :: bool

record transcript_course =
  tr_course_id :: uuid
  tr_title :: string
  tr_slug :: string
  tr_percent :: int
  tr_completed_at :: "time option"
  tr_quizzes :: "quiz_score list"
  tr_assignments :: "assignment_score list"
  tr_certificate :: "transcript_certificate option"

record transcript =
  ts_user_id :: uuid
  ts_user_email :: string
  ts_user_name :: string
  ts_generated_at :: time
  ts_courses :: "transcript_course list"

text \<open>The loop over the attempts keeps the first graded one with the highest percentage.\<close>

definition better_attempt :: "quiz_attempt \<Rightarrow> (int \<times> bool) option \<Rightarrow> (int \<times> bool) option" where
  "better_attempt a best =
     (if at_status a = AttemptGraded \<and> (case best of None \<Rightarrow> True | Some (p, _) \<Rightarrow> p < at_percent a)
      then Some (at_percent a, at_passed a) else best)"

definition transcript_quiz :: "uuid \<Rightarrow> quiz \<Rightarrow> quiz_score act" where
  "transcript_quiz u q =
     andThen (orElse (attempts_count_by_quiz_user (qz_id q) u) (\<lambda>_. ret 0)) (\<lambda>n.
     andThen (orElse (attempts_list_by_quiz_user (qz_id q) u) (\<lambda>_. ret [])) (\<lambda>attempts.
     let best = fold better_attempt attempts None
     in ret \<lparr>gq_quiz_id = qz_id q, gq_title = qz_title q, gq_percent = map_option fst best,
             gq_passed = map_option snd best, gq_attempts = n\<rparr>))"

definition transcript_assignment :: "uuid \<Rightarrow> assignment \<Rightarrow> assignment_score act" where
  "transcript_assignment u a =
     andThen (optional (\<lambda>_. True) (submissions_get_by_assignment_user (as_id a) u)) (\<lambda>sub.
     ret \<lparr>ga_assignment_id = as_id a, ga_title = as_title a,
          ga_score = (case sub of None \<Rightarrow> None | Some s \<Rightarrow> sb_score s), ga_max_score = as_max_score a,
          ga_status = (case sub of None \<Rightarrow> '''' | Some s \<Rightarrow> submission_status_text (sb_status s))\<rparr>)"

text \<open>Every failing read of the entry is skipped, so an entry is always built.\<close>

definition transcript_entry :: "uuid \<Rightarrow> uuid \<Rightarrow> string \<Rightarrow> string \<Rightarrow> transcript_course act" where
  "transcript_entry u c title slug =
     andThen (optional (\<lambda>_. True) (course_progress_get u c)) (\<lambda>cp.
     andThen (orElse (quizzes_list_by_course c) (\<lambda>_. ret [])) (\<lambda>qs.
     andThen (orElse (assignments_list_by_course c) (\<lambda>_. ret [])) (\<lambda>as.
     andThen (map_each (filter (\<lambda>q. qz_status q = QuizPublished) qs) (transcript_quiz u)) (\<lambda>gq.
     andThen (map_each (filter (\<lambda>a. as_status a = AssignmentPublished) as) (transcript_assignment u)) (\<lambda>ga.
     andThen (optional (\<lambda>_. True) (certificates_get_by_course_user c u)) (\<lambda>cert.
     ret \<lparr>tr_course_id = c, tr_title = title, tr_slug = slug,
          tr_percent = (case cp of None \<Rightarrow> 0 | Some p \<Rightarrow> pr_percent p),
          tr_completed_at = (case cp of None \<Rightarrow> None | Some p \<Rightarrow> pr_completed_at p),
          tr_quizzes = gq, tr_assignments = ga,
          tr_certificate = map_option (\<lambda>x. \<lparr>tc_id = ce_id x, tc_code = ce_code x, tc_issued_at = ce_issued_at x,
            tc_revoked = (ce_revoked_at x \<noteq> None)\<rparr>) cert\<rparr>))))))"

definition build_transcript :: "user \<Rightarrow> transcript act" where
  "build_transcript user =
     andThen (enrollments_list_by_user (us_id user) \<lparr>ef_page = 1, ef_per_page = 500, ef_status = ''active''\<rparr>) (\<lambda>(ens, _).
     andThen (asks clock) (\<lambda>now.
     andThen (map_each ens (\<lambda>en. transcript_entry (us_id user) (en_course_id en) (en_course_title en) (en_course_slug en))) (\<lambda>cs.
     ret \<lparr>ts_user_id = us_id user, ts_user_email = us_email user, ts_user_name = us_full_name user,
          ts_generated_at = now, ts_courses = cs\<rparr>)))"

definition my_transcript :: "uuid \<Rightarrow> transcript act" where
  "my_transcript actor = andThen (users_get_by_id actor) build_transcript"

definition user_transcript :: "uuid \<Rightarrow> uuid \<Rightarrow> uuid \<Rightarrow> bool \<Rightarrow> transcript act" where
  "user_transcript actor c u admin =
     andThen (require_certificate_write actor c admin) (\<lambda>_.
     andThen (enrollments_get_by_course_user c u) (\<lambda>_.
     andThen (users_get_by_id u) (\<lambda>user.
     andThen (build_transcript user) (\<lambda>tr.
     ret (tr\<lparr>ts_courses := filter (\<lambda>x. tr_course_id x = c) (ts_courses tr)\<rparr>)))))"

end
