(* ===== verification/AttemptRules.thy ===== *)
theory AttemptRules
  imports Assessments Completion
begin

text \<open>
  What holds of attempts and submissions over any run of requests to \<open>AssessmentService\<close>. Only two requests
  write attempts and only two write submissions; the others leave both tables alone (\<open>same_work\<close>). The
  locale \<open>assessment_relation\<close> is the interface of a relation that those four requests respect.
\<close>

section \<open>Requests that leave the work of learners alone\<close>

definition same_work :: "world \<Rightarrow> world \<Rightarrow> bool" where
  "same_work w v \<longleftrightarrow> quiz_attempts v = quiz_attempts w \<and> submissions v = submissions w"

interpretation work: world_order same_work
  by unfold_locales (auto simp: same_work_def)

lemma in_tx_same_work [moves]: "changes same_work body \<Longrightarrow> changes same_work (in_tx ctx body)"
  by (rule changes_in_tx) (auto simp: same_work_def)

lemma assessment_reads [moves]:
  "changes read_only (quizzes_get_by_id q)" "changes read_only (quizzes_list_by_course c)"
  "changes read_only (questions_get_by_id i)" "changes read_only (questions_list_by_quiz q)"
  "changes read_only (questions_next_position q)" "changes read_only (attempts_get_by_id i)"
  "changes read_only (attempts_list_by_quiz_user q u)" "changes read_only (attempts_count_by_quiz_user q u)"
  "changes read_only (attempts_get_in_progress q u)" "changes read_only (attempts_best_graded_by_course c)"
  "changes read_only (answers_list_by_attempt i)" "changes read_only (assignments_get_by_id a)"
  "changes read_only (assignments_list_by_course c)" "changes read_only (submissions_get_by_assignment_user a u)"
  "changes read_only (submissions_get_by_id i)" "changes read_only (submissions_list_by_assignment a)"
  "changes read_only (submissions_list_graded_by_course c)" "changes read_only (courses_get_by_id c)"
  by (simp_all add: quizzes_get_by_id_def quizzes_list_by_course_def questions_get_by_id_def questions_list_by_quiz_def
      questions_next_position_def attempts_get_by_id_def attempts_list_by_quiz_user_def attempts_count_by_quiz_user_def
      attempts_get_in_progress_def attempts_best_graded_by_course_def answers_list_by_attempt_def
      assignments_get_by_id_def assignments_list_by_course_def submissions_get_by_assignment_user_def
      submissions_get_by_id_def submissions_list_by_assignment_def submissions_list_graded_by_course_def
      courses_get_by_id_def read_only_fetch)

lemma assessment_checks_read [moves]:
  "changes read_only (require_assessment_write actor c admin)" "changes read_only (get_attempt actor i admin)"
  "changes read_only (enrollments_list_by_course c f)" "changes read_only (attempt_counts qs ens)"
  by (auto simp: require_assessment_write_def get_attempt_def enrollments_list_by_course_def enrollments_list_def Let_def
      attempt_counts_def intro!: moves split: option.split prod.split)

lemma reads_same_work: "changes read_only m \<Longrightarrow> changes same_work m"
  by (rule reads_respect) (simp_all add: same_work_def)

lemmas same_work_reads [moves] = assessment_reads [THEN reads_same_work] assessment_checks_read [THEN reads_same_work]
  progress_checks_read [THEN reads_same_work]

lemma same_work_writes [moves]:
  "changes same_work (quizzes_create q)" "changes same_work (quizzes_update q)" "changes same_work (quizzes_set_status i st)"
  "changes same_work (questions_create qq)" "changes same_work (questions_update qq)" "changes same_work (questions_delete i)"
  "changes same_work (answers_replace_all i as)" "changes same_work (assignments_create a)"
  "changes same_work (assignments_update a)" "changes same_work (assignments_set_status i ast)"
  by (auto simp: quizzes_create_def quizzes_update_def quizzes_set_status_def questions_create_def questions_update_def
      questions_delete_def answers_replace_all_def answers_clear_def answers_insert_def assignments_create_def
      assignments_update_def assignments_set_status_def quiz_set_def assignment_set_def same_work_def
      intro!: moves work.changes_insert_row work.changes_exec_check work.changes_exec_rows work.changes_exec_count)

lemma reorder_same_work [moves]: "changes same_work (questions_reorder q ids)"
  by (auto simp: questions_reorder_def reorder_positions_def update_position_def moved_def questions_table_def same_work_def
      intro!: moves work.changes_exec_count)

lemma same_work_requests:
  "changes same_work (create_quiz actor c title d limit n pass shuffle admin)" "changes same_work (list_quizzes actor c admin)"
  "changes same_work (get_quiz actor q admin)" "changes same_work (update_quiz actor q title d limit n pass' shuffle' admin)"
  "changes same_work (publish_quiz actor q admin)" "changes same_work (add_question rnd actor q t prompt points options correct admin)"
  "changes same_work (update_question rnd actor i prompt points options correct admin)"
  "changes same_work (delete_question actor i admin)" "changes same_work (reorder_questions actor q ids admin)"
  "changes same_work (list_my_attempts actor q)" "changes same_work (save_answers actor i answers)"
  by (auto simp: create_quiz_def list_quizzes_def get_quiz_def update_quiz_def publish_quiz_def add_question_def
      update_question_def delete_question_def reorder_questions_def list_my_attempts_def save_answers_def Let_def
      intro!: moves split: option.split)

lemma same_work_requests_more:
  "changes same_work (create_assignment rnd actor c title d mx due late rubric admin)"
  "changes same_work (list_assignments actor c admin)" "changes same_work (get_assignment actor i admin)"
  "changes same_work (update_assignment rnd actor i title d mx due late rubric admin)"
  "changes same_work (publish_assignment actor i admin)" "changes same_work (get_my_submission actor i)"
  "changes same_work (list_submissions actor i admin)" "changes same_work (gradebook actor c admin)"
  by (auto simp: create_assignment_def list_assignments_def get_assignment_def update_assignment_def publish_assignment_def
      get_my_submission_def list_submissions_def gradebook_def Let_def
      intro!: moves split: option.split prod.split)

section \<open>Runs\<close>

inductive assessment_request :: "world \<Rightarrow> world \<Rightarrow> bool" where
  req_create_quiz: "assessment_request w (snd (create_quiz actor c title d limit n pass shuffle admin w))"
| req_list_quizzes: "assessment_request w (snd (list_quizzes actor c admin w))"
| req_get_quiz: "assessment_request w (snd (get_quiz actor q admin w))"
| req_update_quiz: "assessment_request w (snd (update_quiz actor q title d limit n pass' shuffle' admin w))"
| req_publish_quiz: "assessment_request w (snd (publish_quiz actor q admin w))"
| req_add_question: "assessment_request w (snd (add_question rnd actor q t prompt points options correct admin w))"
| req_update_question: "assessment_request w (snd (update_question rnd actor i prompt points options correct admin w))"
| req_delete_question: "assessment_request w (snd (delete_question actor i admin w))"
| req_reorder_questions: "assessment_request w (snd (reorder_questions actor q ids admin w))"
| req_start_attempt: "assessment_request w (snd (start_attempt actor q w))"
| req_list_my_attempts: "assessment_request w (snd (list_my_attempts actor q w))"
| req_get_attempt: "assessment_request w (snd (get_attempt actor i admin w))"
| req_save_answers: "assessment_request w (snd (save_answers actor i answers w))"
| req_submit_attempt: "assessment_request w (snd (submit_attempt actor i w))"
| req_create_assignment: "assessment_request w (snd (create_assignment rnd actor c title d mx due late rubric admin w))"
| req_list_assignments: "assessment_request w (snd (list_assignments actor c admin w))"
| req_get_assignment: "assessment_request w (snd (get_assignment actor i admin w))"
| req_update_assignment: "assessment_request w (snd (update_assignment rnd actor i title d mx due late rubric admin w))"
| req_publish_assignment: "assessment_request w (snd (publish_assignment actor i admin w))"
| req_upsert_submission: "assessment_request w (snd (upsert_submission actor i body url submit w))"
| req_get_my_submission: "assessment_request w (snd (get_my_submission actor i w))"
| req_list_submissions: "assessment_request w (snd (list_submissions actor i admin w))"
| req_grade_submission: "assessment_request w (snd (grade_submission actor i score feedback rubric admin w))"
| req_gradebook: "assessment_request w (snd (gradebook actor c admin w))"

locale assessment_relation = world_order R for R :: "world \<Rightarrow> world \<Rightarrow> bool" +
  assumes R_same_work: "same_work w v \<Longrightarrow> R w v"
    and R_start: "changes R (start_attempt actor q)"
    and R_submit: "changes R (submit_attempt actor i)"
    and R_hand_in: "changes R (upsert_submission actor i body url submit)"
    and R_grade: "changes R (grade_submission actor i score feedback rubric admin)"
begin

lemma same_work_step: "changes same_work m \<Longrightarrow> changes R m"
  by (auto simp: changes_def intro: R_same_work)

lemmas assessment_operations = same_work_requests [THEN same_work_step] same_work_requests_more [THEN same_work_step]
  assessment_checks_read(2) [THEN reads_same_work, THEN same_work_step] R_start R_submit R_hand_in R_grade

lemma assessment_run: "rtranclp assessment_request w v \<Longrightarrow> R w v"
proof (induction rule: rtranclp_induct)
  case (step u v)
  from step.hyps(2) have "R u v"
    by cases (use assessment_operations in \<open>auto simp: changes_def\<close>)
  with step.IH show ?case by (rule R_trans)
qed (rule R_refl)

end

section \<open>Attempts\<close>

definition open_attempt :: "quiz_attempt \<Rightarrow> bool" where
  "open_attempt a \<longleftrightarrow> at_status a = AttemptInProgress"

definition attempt_key :: "quiz_attempt \<Rightarrow> uuid \<times> uuid" where
  "attempt_key a = (at_quiz_id a, at_user_id a)"

text \<open>An attempt is open and has no score, or it is graded.\<close>

definition attempt_row_ok :: "quiz_attempt \<Rightarrow> bool" where
  "attempt_row_ok a \<longleftrightarrow> (if open_attempt a then at_score a = 0 \<and> \<not> at_passed a \<and> at_graded_at a = None
     else at_status a = AttemptGraded \<and> 0 \<le> at_percent a \<and> at_percent a \<le> 100 \<and> at_graded_at a \<noteq> None)"

text \<open>The attempts of a learner at a quiz are numbered from 1 in the order in which they were started.\<close>

definition numbered :: "quiz_attempt list \<Rightarrow> bool" where
  "numbered rs \<longleftrightarrow> (\<forall>k < length rs. at_number (rs ! k) = int (cnt (\<lambda>r. attempt_key r = attempt_key (rs ! k)) (take k rs)) + 1)"

definition attempts_ok :: "world \<Rightarrow> bool" where
  "attempts_ok w \<longleftrightarrow> distinct (map at_id (quiz_attempts w)) \<and> numbered (quiz_attempts w)
     \<and> distinct (map attempt_key (filter open_attempt (quiz_attempts w))) \<and> list_all attempt_row_ok (quiz_attempts w)"

text \<open>A graded attempt is never changed.\<close>

definition attempts_step :: "world \<Rightarrow> world \<Rightarrow> bool" where
  "attempts_step w v \<longleftrightarrow> (attempts_ok w \<longrightarrow> attempts_ok v
     \<and> (\<forall>a \<in> set (quiz_attempts w). \<not> open_attempt a \<longrightarrow> a \<in> set (quiz_attempts v)))"

interpretation attempts: world_order attempts_step
  by unfold_locales (auto simp: attempts_step_def attempts_ok_def)

lemma attempts_same: "quiz_attempts v = quiz_attempts w \<Longrightarrow> attempts_step w v"
  by (simp add: attempts_step_def attempts_ok_def)

lemma of_quiz_user_key: "of_quiz_user q u r \<longleftrightarrow> attempt_key r = (q, u)"
  by (auto simp: of_quiz_user_def attempt_key_def)

lemma numbered_snoc:
  "numbered (rs @ [a]) \<longleftrightarrow> numbered rs \<and> at_number a = int (cnt (\<lambda>r. attempt_key r = attempt_key a) rs) + 1"
  by (auto simp: numbered_def nth_append less_Suc_eq)

lemma numbered_map:
  assumes "\<And>r. at_number (f r) = at_number r" "\<And>r. attempt_key (f r) = attempt_key r"
  shows "numbered (map f rs) \<longleftrightarrow> numbered rs"
  by (simp add: numbered_def assms cnt_def take_map filter_map comp_def cong: conj_cong)

text \<open>Starting an attempt.\<close>

lemma faults_attempts [simp]: "attempts_step w (v\<lparr>faults := f\<rparr>) = attempts_step w v"
  "attempts_step (w\<lparr>faults := f\<rparr>) v = attempts_step w v"
  by (simp_all add: attempts_step_def attempts_ok_def)

lemma wp_open_attempt:
  assumes "\<And>e f. E e (w\<lparr>faults := f\<rparr>)"
    and "\<And>f. wpre (g (map_option (scan_attempt w) (find (\<lambda>r. of_quiz_user q u r \<and> open_attempt r) (quiz_attempts w)))) Q E (w\<lparr>faults := f\<rparr>)"
  shows "wpre (andThen (optional is_not_found (attempts_get_in_progress q u)) g) Q E (w\<lparr>faults := h\<rparr>)"
proof -
  have "scan_attempt (w\<lparr>faults := f\<rparr>) = scan_attempt w" for f by (simp add: scan_attempt_def fun_eq_iff)
  then show ?thesis
    using assms by (auto simp: attempts_get_in_progress_def wp pop_def open_attempt_def split: option.split)
qed

lemma wp_attempt_count:
  assumes "\<And>e f. E e (w\<lparr>faults := f\<rparr>)"
    and "\<And>f. wpre (g (int (cnt (of_quiz_user q u) (quiz_attempts w)))) Q E (w\<lparr>faults := f\<rparr>)"
  shows "wpre (andThen (attempts_count_by_quiz_user q u) g) Q E (w\<lparr>faults := h\<rparr>)"
  using assms by (auto simp: attempts_count_by_quiz_user_def wp pop_def)

lemma new_attempt_added:
  assumes none: "find (\<lambda>r. of_quiz_user q u r \<and> open_attempt r) (quiz_attempts w) = None"
    and i: "i \<notin> set (map at_id (quiz_attempts w))"
    and v: "quiz_attempts v = quiz_attempts w @
      [(new_attempt q u (int (cnt (of_quiz_user q u) (quiz_attempts w)) + 1) t)\<lparr>at_id := i, at_created_at := t', at_updated_at := t'\<rparr>]"
  shows "attempts_step w v"
proof -
  have "(q, u) \<notin> set (map attempt_key (filter open_attempt (quiz_attempts w)))"
    using none by (auto simp: find_None_iff of_quiz_user_key)
  with i show ?thesis
    by (simp add: attempts_step_def attempts_ok_def v numbered_snoc new_attempt_def open_attempt_def attempt_row_ok_def)
      (simp add: attempt_key_def of_quiz_user_def [abs_def])
qed

lemma create_attempt_step:
  assumes none: "find (\<lambda>r. of_quiz_user q u r \<and> open_attempt r) (quiz_attempts w) = None"
  shows "wpre (attempts_create (new_attempt q u (int (cnt (of_quiz_user q u) (quiz_attempts w)) + 1) t))
    (\<lambda>_. attempts_step w) (\<lambda>_. attempts_step w) (w\<lparr>faults := f\<rparr>)"
proof -
  let ?a = "new_attempt q u (int (cnt (of_quiz_user q u) (quiz_attempts w)) + 1) t"
  have "attempts_step w v" if "pk_free (map at_id (quiz_attempts w)) w"
    "quiz_attempts v = quiz_attempts w @ [?a\<lparr>at_id := fresh_uuid w, at_created_at := clock w, at_updated_at := clock w\<rparr>]" for v
    using that by (intro new_attempt_added [OF none _ that(2)]) (simp add: pk_free_def)
  then show ?thesis by (simp add: attempts_create_def wp_insert_row attempts_same pop_def split: option.split)
qed

lemma start_rest_step:
  "wpre (case map_option (scan_attempt w) (find (\<lambda>r. of_quiz_user q u r \<and> open_attempt r) (quiz_attempts w)) of
       Some a \<Rightarrow> ret a
     | None \<Rightarrow>
         andThen (attempts_count_by_quiz_user q u) (\<lambda>count.
         andThen (guard (allowed count) e) (\<lambda>_.
         andThen (asks clock) (\<lambda>now. attempts_create (new_attempt q u (count + 1) now)))))
     (\<lambda>_. attempts_step w) (\<lambda>_. attempts_step w) (w\<lparr>faults := f\<rparr>)"
  by (auto simp: wp_ret wp_guard_then wp_asks_then attempts.R_refl create_attempt_step intro!: wp_attempt_count
      split: option.split)

lemma start_attempt_step: "changes attempts_step (start_attempt actor q)"
  unfolding start_attempt_def
  by (rule attempts.changes_wp, rule wp_read_start [OF assessment_reads(1)])
    (auto simp: wp_guard_then attempts.R_refl
      intro!: wp_read_then [OF progress_checks_read(2)] wp_open_attempt start_rest_step)

text \<open>Submitting an attempt.\<close>

lemma wp_the_attempt:
  assumes "\<And>e f. E e (w\<lparr>faults := f\<rparr>)"
    and "\<And>a f. find (\<lambda>r. at_id r = i) (quiz_attempts w) = Some a \<Longrightarrow> wpre (g (scan_attempt w a)) Q E (w\<lparr>faults := f\<rparr>)"
  shows "wpre (andThen (attempts_get_by_id i) g) Q E w"
proof -
  have "scan_attempt (w\<lparr>faults := f\<rparr>) = scan_attempt w" for f by (simp add: scan_attempt_def fun_eq_iff)
  then show ?thesis
    using assms by (auto simp: attempts_get_by_id_def wp pop_def split: option.split)
qed

lemma attempt_graded_step:
  assumes found: "find (\<lambda>r. at_id r = i) (quiz_attempts w) = Some a" and "open_attempt a"
    and b: "at_status b = AttemptGraded" "0 \<le> at_percent b" "at_percent b \<le> 100" "at_graded_at b \<noteq> None"
    and v: "quiz_attempts v = upd_where (\<lambda>r. at_id r = i) (attempt_write b t) (quiz_attempts w)"
  shows "attempts_step w v"
proof -
  let ?rs = "quiz_attempts w" and ?f = "\<lambda>r. if at_id r = i then attempt_write b t r else r"
  have fields: "at_number (?f r) = at_number r" "attempt_key (?f r) = attempt_key r" "at_id (?f r) = at_id r" for r
    by (simp_all add: attempt_write_def attempt_key_def)
  have closes: "open_attempt (?f r) \<longleftrightarrow> open_attempt r \<and> at_id r \<noteq> i" for r
    using b(1) by (simp add: open_attempt_def attempt_write_def)
  have row: "attempt_row_ok r \<Longrightarrow> attempt_row_ok (?f r)" for r
    using b by (auto simp: attempt_row_ok_def open_attempt_def attempt_write_def split: if_splits)
  have "attempts_ok v" if ok: "attempts_ok w"
  proof -
    have rows: "list_all (\<lambda>r. attempt_row_ok (?f r)) ?rs"
      using ok row by (simp only: attempts_ok_def list_all_iff) blast
    have "filter open_attempt (map ?f ?rs) = map ?f (filter (\<lambda>r. open_attempt r \<and> at_id r \<noteq> i) ?rs)"
      by (simp add: filter_map comp_def closes)
    then have "map attempt_key (filter open_attempt (map ?f ?rs)) = map attempt_key (filter (\<lambda>r. at_id r \<noteq> i) (filter open_attempt ?rs))"
      by (simp add: fields comp_def conj_commute)
    then show ?thesis
      using ok rows unfolding attempts_ok_def v upd_where_def
      by (simp add: fields comp_def numbered_map distinct_map_filter list.pred_map del: filter_filter)
  qed
  moreover have "r \<in> set (quiz_attempts v)" if "attempts_ok w" "r \<in> set ?rs" "\<not> open_attempt r" for r
  proof -
    have "distinct (map at_id ?rs)" using that(1) by (simp add: attempts_ok_def)
    then have "at_id r \<noteq> i"
      using distinct_key_unique [of at_id ?rs r a] find_SomeD [OF found] that(2,3) assms(2) by auto
    with that(2) show ?thesis unfolding v set_upd_where by (force simp: image_iff)
  qed
  ultimately show ?thesis by (simp add: attempts_step_def)
qed

lemma scan_attempt_simps [simp]:
  "at_id (scan_attempt w a) = at_id a" "at_status (scan_attempt w a) = at_status a" "at_quiz_id (scan_attempt w a) = at_quiz_id a"
  "at_user_id (scan_attempt w a) = at_user_id a" "at_started_at (scan_attempt w a) = at_started_at a"
  by (simp_all add: scan_attempt_def)

lemma work_then_attempts: "same_work w u \<Longrightarrow> attempts_step u v \<Longrightarrow> attempts_step w v"
  using attempts.R_trans [OF attempts_same] by (auto simp: same_work_def)

lemma grade_written_step:
  assumes "find (\<lambda>r. at_id r = i) (quiz_attempts w) = Some a" and "open_attempt a" and "same_work w u"
  shows "wpre (attempts_update (graded_attempt now quiz score mx (scan_attempt w a)))
    (\<lambda>_ t. attempts_step w t) (\<lambda>_ t. attempts_step w t) u"
proof -
  have id: "at_id a = i" using find_SomeD [OF assms(1)] by simp
  have "quiz_attempts u = quiz_attempts w" using assms(3) by (simp add: same_work_def)
  then show ?thesis
    using assms attempt_graded_step [OF assms(1,2), of "graded_attempt now quiz score mx (scan_attempt w a)" _ "clock u"] id
    by (auto simp: attempts_update_def wp_exec_check attempts_same graded_attempt_def Let_def
        split: option.split)
qed

lemma attempts_reads_step: "changes read_only m \<Longrightarrow> changes attempts_step m"
  by (rule reads_respect) (simp_all add: attempts_same)

lemma submit_rest_step:
  assumes found: "find (\<lambda>r. at_id r = i) (quiz_attempts w) = Some a" and "open_attempt a"
  shows "wpre (case grade_attempt i existing qs of (graded, score, mx) \<Rightarrow>
       andThen (answers_replace_all i graded) (\<lambda>_.
       andThen (attempts_update (graded_attempt now quiz score mx (scan_attempt w a))) (\<lambda>_.
       get_attempt actor i False)))
      (\<lambda>_. attempts_step w) (\<lambda>_. attempts_step w) (w\<lparr>faults := f\<rparr>)"
proof -
  obtain gr sc mx where g: "grade_attempt i existing qs = (gr, sc, mx)" by (cases "grade_attempt i existing qs") auto
  have last: "changes attempts_step (get_attempt actor i False)"
    by (rule attempts_reads_step) (rule moves)
  have "wpre (andThen (attempts_update (graded_attempt now quiz sc mx (scan_attempt w a))) (\<lambda>_. get_attempt actor i False))
      (\<lambda>_. attempts_step w) (\<lambda>_. attempts_step w) u" if "same_work w u" for u
    by (rule attempts.wp_then_changes [OF grade_written_step [OF assms that] last])
  moreover have "attempts_step w t" if "same_work w t" for t
    using that by (simp add: attempts_same same_work_def)
  moreover have "same_work w (w\<lparr>faults := f\<rparr>)" by (simp add: same_work_def)
  note work.wp_changes [OF same_work_writes(7) this, of i gr]
  ultimately show ?thesis
    unfolding g prod.case wp_andThen [of "answers_replace_all i gr"] by (auto elim: wp_mono)
qed

lemma submit_attempt_step: "changes attempts_step (submit_attempt actor i)"
  unfolding submit_attempt_def
  by (rule attempts.changes_wp, rule wp_the_attempt)
    (auto simp: wp_guard_then wp_asks_then attempts.R_refl open_attempt_def
      intro!: wp_read_then [OF assessment_reads(1)] wp_read_then [OF assessment_reads(4)] wp_read_then [OF assessment_reads(11)]
        submit_rest_step)

section \<open>Submissions\<close>

definition closed_submission :: "submission \<Rightarrow> bool" where
  "closed_submission s \<longleftrightarrow> sb_status s = SubmissionGraded \<or> sb_status s = SubmissionReturned"

definition submission_key :: "submission \<Rightarrow> uuid \<times> uuid" where
  "submission_key s = (sb_assignment_id s, sb_user_id s)"

definition submissions_ok :: "world \<Rightarrow> bool" where
  "submissions_ok w \<longleftrightarrow> distinct (map sb_id (submissions w)) \<and> distinct (map submission_key (submissions w))"

text \<open>
  Graded work stays graded, with the text the learner handed in; only its grade may change.
\<close>

definition same_handed_in :: "submission \<Rightarrow> submission \<Rightarrow> bool" where
  "same_handed_in s t \<longleftrightarrow> sb_id t = sb_id s \<and> submission_key t = submission_key s \<and> closed_submission t
     \<and> sb_body t = sb_body s \<and> sb_attachment_url t = sb_attachment_url s \<and> sb_submitted_at t = sb_submitted_at s"

definition grades_step :: "world \<Rightarrow> world \<Rightarrow> bool" where
  "grades_step w v \<longleftrightarrow> (submissions_ok w \<longrightarrow> submissions_ok v
     \<and> (\<forall>s \<in> set (submissions w). closed_submission s \<longrightarrow> (\<exists>t \<in> set (submissions v). same_handed_in s t)))"

lemma grades_same: "submissions v = submissions w \<Longrightarrow> grades_step w v"
  by (auto simp: grades_step_def submissions_ok_def same_handed_in_def)

interpretation grades: world_order grades_step
proof unfold_locales
  show "grades_step w v \<Longrightarrow> grades_step v u \<Longrightarrow> grades_step w u" for w v u
    unfolding grades_step_def same_handed_in_def by metis
qed (simp_all add: grades_same)

lemma grades_faults [simp]: "grades_step w (v\<lparr>faults := f\<rparr>) = grades_step w v"
  "grades_step (w\<lparr>faults := f\<rparr>) v = grades_step w v"
  by (simp_all add: grades_step_def submissions_ok_def)

lemma of_assignment_user_key: "of_assignment_user a u r \<longleftrightarrow> submission_key r = (a, u)"
  by (auto simp: of_assignment_user_def submission_key_def)

lemma submission_write_key [simp]:
  "sb_id (submission_write s t r) = sb_id r" "submission_key (submission_write s t r) = submission_key r"
  by (simp_all add: submission_write_def submission_key_def)

text \<open>
  A write of a submission that was read before: if it was closed, the write keeps what was handed in.
\<close>

lemma submission_updated:
  assumes found: "find (of_assignment_user a u) (submissions w) = Some r"
    and keeps: "closed_submission r \<Longrightarrow> closed_submission s \<and> sb_body s = sb_body r
        \<and> sb_attachment_url s = sb_attachment_url r \<and> sb_submitted_at s = sb_submitted_at r"
    and v: "submissions v = upd_where (of_assignment_user a u) (submission_write s t) (submissions w)"
  shows "grades_step w v"
proof -
  have "submissions_ok v" if "submissions_ok w"
    using that by (simp add: submissions_ok_def v)
  moreover have "\<exists>y \<in> set (submissions v). same_handed_in x y"
    if ok: "submissions_ok w" and x: "x \<in> set (submissions w)" "closed_submission x" for x
  proof (cases "of_assignment_user a u x")
    case True
    have "submission_key r = submission_key x"
      using find_SomeD [OF found] True by (simp add: of_assignment_user_key)
    then have "x = r"
      using ok find_SomeD [OF found] x(1) distinct_key_unique [of submission_key "submissions w" x r]
      by (simp add: submissions_ok_def)
    with keeps x(2) True have "same_handed_in x (submission_write s t x)"
      by (auto simp: same_handed_in_def submission_write_def closed_submission_def submission_key_def)
    with True x(1) show ?thesis unfolding v set_upd_where by (force simp: image_iff)
  next
    case False
    have "same_handed_in x x" using x(2) by (simp add: same_handed_in_def)
    with False x(1) show ?thesis unfolding v set_upd_where by (force simp: image_iff)
  qed
  ultimately show ?thesis by (simp add: grades_step_def)
qed

lemma submission_added:
  assumes "find (of_assignment_user (sb_assignment_id s) (sb_user_id s)) (submissions w) = None"
    and "i \<notin> set (map sb_id (submissions w))"
    and v: "submissions v = submissions w @ [blank_submission_joins (s\<lparr>sb_id := i, sb_created_at := t, sb_updated_at := t\<rparr>)]"
  shows "grades_step w v"
  using assms(1,2)
  by (auto simp: grades_step_def submissions_ok_def v blank_submission_joins_def submission_key_def same_handed_in_def
      find_None_iff of_assignment_user_def)

lemma wp_the_submission:
  assumes "\<And>e f. E e (w\<lparr>faults := f\<rparr>)"
    and "\<And>f. wpre (g (map_option (scan_submission w) (find (of_assignment_user a u) (submissions w)))) Q E (w\<lparr>faults := f\<rparr>)"
  shows "wpre (andThen (optional is_not_found (submissions_get_by_assignment_user a u)) g) Q E (w\<lparr>faults := h\<rparr>)"
proof -
  have "scan_submission (w\<lparr>faults := f\<rparr>) = scan_submission w" for f by (simp add: scan_submission_def fun_eq_iff)
  then show ?thesis
    using assms by (auto simp: submissions_get_by_assignment_user_def wp pop_def split: option.split)
qed

lemma submission_written_step:
  assumes "\<And>r. find (of_assignment_user (sb_assignment_id s) (sb_user_id s)) (submissions w) = Some r \<Longrightarrow> closed_submission r \<Longrightarrow>
      closed_submission s \<and> sb_body s = sb_body r \<and> sb_attachment_url s = sb_attachment_url r \<and> sb_submitted_at s = sb_submitted_at r"
  shows "wpre (submissions_upsert s) (\<lambda>_. grades_step w) (\<lambda>_. grades_step w) (w\<lparr>faults := f\<rparr>)"
proof (cases "find (of_assignment_user (sb_assignment_id s) (sb_user_id s)) (submissions w)")
  case None
  have "grades_step w v" if "pk_free (map sb_id (submissions w)) w"
    "submissions v = submissions w @ [blank_submission_joins (s\<lparr>sb_id := fresh_uuid w, sb_created_at := clock w, sb_updated_at := clock w\<rparr>)]" for v
    using that by (intro submission_added [OF None _ that(2)]) (simp add: pk_free_def)
  moreover have "\<not> list_ex (of_assignment_user (sb_assignment_id s) (sb_user_id s)) (submissions w)"
    using None by (auto simp: find_None_iff list_ex_iff)
  ultimately show ?thesis
    by (simp add: submissions_upsert_def wp_upsert_row grades_same pop_def submission_violation_def split: option.split)
next
  case (Some r)
  have "grades_step w v" if "submissions v = upd_where (of_assignment_user (sb_assignment_id s) (sb_user_id s))
      (submission_write s (clock w)) (submissions w)" for v
    using submission_updated [OF Some assms [OF Some] that] .
  moreover have "list_ex (of_assignment_user (sb_assignment_id s) (sb_user_id s)) (submissions w)"
    using find_SomeD [OF Some] by (auto simp: list_ex_iff)
  ultimately show ?thesis
    by (simp add: submissions_upsert_def wp_upsert_row grades_same pop_def split: option.split)
qed

lemma grades_reads: "changes read_only m \<Longrightarrow> changes grades_step m"
  by (rule reads_respect) (simp_all add: grades_same)

lemma scan_submission_simps [simp]:
  "sb_id (scan_submission w s) = sb_id s" "sb_assignment_id (scan_submission w s) = sb_assignment_id s"
  "sb_user_id (scan_submission w s) = sb_user_id s" "sb_status (scan_submission w s) = sb_status s"
  "sb_body (scan_submission w s) = sb_body s" "sb_attachment_url (scan_submission w s) = sb_attachment_url s"
  "sb_submitted_at (scan_submission w s) = sb_submitted_at s"
  by (simp_all add: scan_submission_def)

lemma found_submission_key: "find (of_assignment_user a u) rs = Some s \<Longrightarrow> sb_assignment_id s = a \<and> sb_user_id s = u"
  by (drule find_SomeD) (simp add: of_assignment_user_def)

lemma hand_in_rest_step:
  assumes "case find (of_assignment_user i u) (submissions w) of None \<Rightarrow> True | Some r \<Rightarrow> \<not> closed_submission r"
    and "sb_assignment_id s = i" "sb_user_id s = u"
  shows "wpre (andThen (submissions_upsert (handed_in submit now s)) (\<lambda>_. submissions_get_by_assignment_user i u))
     (\<lambda>_. grades_step w) (\<lambda>_. grades_step w) (w\<lparr>faults := f\<rparr>)"
proof (rule grades.wp_then_changes)
  have key: "sb_assignment_id (handed_in submit now s) = i" "sb_user_id (handed_in submit now s) = u"
    using assms(2,3) by (simp_all add: handed_in_def)
  show "wpre (submissions_upsert (handed_in submit now s)) (\<lambda>_. grades_step w) (\<lambda>_. grades_step w) (w\<lparr>faults := f\<rparr>)"
    using assms(1) by (intro submission_written_step) (simp add: key)
  show "changes grades_step (submissions_get_by_assignment_user i u)" for x :: unit
    by (rule grades_reads) (rule moves)
qed

lemma hand_in_step: "changes grades_step (upsert_submission actor i body url submit)"
  unfolding upsert_submission_def
  by (rule grades.changes_wp, rule wp_read_start [OF assessment_reads(12)],
      auto simp: wp_guard_then wp_asks_then grades.R_refl closed_submission_def Let_def new_submission_def
        intro!: wp_read_then [OF progress_checks_read(2)] wp_the_submission hand_in_rest_step split: option.split)
    (auto dest: found_submission_key)

lemma wp_submission_by_id:
  assumes "\<And>e f. E e (w\<lparr>faults := f\<rparr>)"
    and "\<And>s f. find (\<lambda>r. sb_id r = i) (submissions w) = Some s \<Longrightarrow> wpre (g (scan_submission w s)) Q E (w\<lparr>faults := f\<rparr>)"
  shows "wpre (andThen (submissions_get_by_id i) g) Q E w"
proof -
  have "scan_submission (w\<lparr>faults := f\<rparr>) = scan_submission w" for f by (simp add: scan_submission_def fun_eq_iff)
  then show ?thesis
    using assms by (auto simp: submissions_get_by_id_def wp pop_def split: option.split)
qed

text \<open>Without the uniqueness that \<open>grades_step\<close> assumes there is nothing to show.\<close>

lemma grade_rest_step:
  assumes found: "find (\<lambda>r. sb_id r = i) (submissions w) = Some r" and "closed_submission s"
    and s: "sb_assignment_id s = sb_assignment_id r" "sb_user_id s = sb_user_id r" "sb_body s = sb_body r"
      "sb_attachment_url s = sb_attachment_url r" "sb_submitted_at s = sb_submitted_at r"
  shows "wpre (andThen (submissions_upsert s) (\<lambda>_. submissions_get_by_id i))
     (\<lambda>_. grades_step w) (\<lambda>_. grades_step w) (w\<lparr>faults := f\<rparr>)"
proof (cases "submissions_ok w")
  case True
  have "x = r" if "find (of_assignment_user (sb_assignment_id s) (sb_user_id s)) (submissions w) = Some x" for x
  proof -
    have "submission_key x = submission_key r"
      using find_SomeD [OF that] s(1,2) by (simp add: of_assignment_user_def submission_key_def)
    then show ?thesis
      using True find_SomeD [OF that] find_SomeD [OF found] distinct_key_unique [of submission_key "submissions w" x r]
      by (simp add: submissions_ok_def)
  qed
  then have "wpre (submissions_upsert s) (\<lambda>_. grades_step w) (\<lambda>_. grades_step w) (w\<lparr>faults := f\<rparr>)"
    using s \<open>closed_submission s\<close> by (intro submission_written_step) blast
  then show ?thesis by (rule grades.wp_then_changes) (rule grades_reads, rule moves)
next
  case False
  then have "grades_step w v" for v by (simp add: grades_step_def)
  then show ?thesis by (intro wp_run) (simp split: sum.split)
qed

lemma grade_step: "changes grades_step (grade_submission actor i score feedback rubric admin)"
  unfolding grade_submission_def
  by (rule grades.changes_wp, rule wp_submission_by_id)
    (auto simp: wp_guard_then wp_asks_then grades.R_refl closed_submission_def
      intro!: wp_read_then [OF assessment_reads(12)] wp_read_then [OF assessment_checks_read(1)] grade_rest_step)

lemma answers_keep_grades [moves]: "changes grades_step (answers_replace_all i graded)"
  using same_work_writes(7) [of i graded] by (auto simp: changes_def same_work_def intro: grades_same)

lemma other_table_steps:
  "changes grades_step (start_attempt actor q)" "changes grades_step (submit_attempt actor i)"
  "changes attempts_step (upsert_submission actor i body url submit)"
  "changes attempts_step (grade_submission actor i score feedback rubric admin)"
  by (auto simp: start_attempt_def submit_attempt_def upsert_submission_def grade_submission_def attempts_create_def
      attempts_update_def submissions_upsert_def Let_def grades_same attempts_same
      intro!: moves grades.changes_insert_row grades.changes_exec_check attempts.changes_upsert_row
        assessment_reads [THEN grades_reads] assessment_reads [THEN attempts_reads_step]
        assessment_checks_read [THEN grades_reads] assessment_checks_read [THEN attempts_reads_step]
        progress_checks_read [THEN grades_reads] progress_checks_read [THEN attempts_reads_step]
      split: option.split prod.split)

interpretation attempts: assessment_relation attempts_step
  by unfold_locales (auto simp: same_work_def intro: attempts_same start_attempt_step submit_attempt_step other_table_steps)

interpretation grades: assessment_relation grades_step
  by unfold_locales (auto simp: same_work_def intro: grades_same hand_in_step grade_step other_table_steps)

end
