(* ===== verification/AssessmentRules.thy ===== *)
theory AssessmentRules
  imports AttemptRules
begin

text \<open>
  What the requests to \<open>AssessmentService\<close> return: the grade of a submitted attempt, the decision on a new
  attempt, what a learner can see of a quiz, when work is accepted, and the best attempt of the gradebook.
\<close>

section \<open>The grade of an attempt\<close>

text \<open>What the constraints of the table guarantee, and a table of less than \<open>2 ^ 31\<close> rows.\<close>

definition questions_ok :: "world \<Rightarrow> bool" where
  "questions_ok w \<longleftrightarrow> list_all (\<lambda>q. 0 < qq_points q \<and> int4 (qq_points q)) (quiz_questions w)
     \<and> length (quiz_questions w) < 2 ^ 31"

definition quiz_of :: "world \<Rightarrow> uuid \<Rightarrow> quiz option" where
  "quiz_of w q = find (\<lambda>r. qz_id r = q) (quizzes w)"

definition questions_of :: "world \<Rightarrow> uuid \<Rightarrow> quiz_question list" where
  "questions_of w q = children questions_table q w"

definition saved_answers :: "world \<Rightarrow> uuid \<Rightarrow> attempt_answer list" where
  "saved_answers w i = sort_key an_created_at (filter (\<lambda>r. an_attempt_id r = i) (attempt_answers w))"

text \<open>\<open>a\<close> carries the grade of the answers that were saved for the attempt \<open>i\<close>.\<close>

definition graded_right :: "world \<Rightarrow> uuid \<Rightarrow> quiz_attempt \<Rightarrow> bool" where
  "graded_right w i a \<longleftrightarrow> (\<exists>quiz. quiz_of w (at_quiz_id a) = Some quiz
     \<and> at_status a = AttemptGraded
     \<and> at_max a = total_points (questions_of w (at_quiz_id a))
     \<and> at_score a = earned_points i (saved_answers w i) (questions_of w (at_quiz_id a))
     \<and> 0 \<le> at_score a \<and> at_score a \<le> at_max a
     \<and> at_percent a = (if 0 < at_max a then at_score a * 100 div at_max a else 0)
     \<and> 0 \<le> at_percent a \<and> at_percent a \<le> 100
     \<and> (at_passed a \<longleftrightarrow> qz_pass_percent quiz \<le> at_percent a))"

lemma questions_of_points:
  assumes "questions_ok w"
  shows "q \<in> set (questions_of w i) \<Longrightarrow> 0 < qq_points q" "total_points (questions_of w i) < 2 ^ 63"
proof -
  have sub: "set (questions_of w i) \<subseteq> set (quiz_questions w)"
    by (auto simp: questions_of_def children_def questions_table_def)
  with assms show "q \<in> set (questions_of w i) \<Longrightarrow> 0 < qq_points q"
    by (auto simp: questions_ok_def list_all_iff)
  have "length (questions_of w i) \<le> length (quiz_questions w)"
    by (simp add: questions_of_def children_def questions_table_def)
  with assms sub show "total_points (questions_of w i) < 2 ^ 63"
    by (intro total_points_small) (auto simp: questions_ok_def list_all_iff int4_def)
qed

lemma wp_the_quiz:
  assumes "\<And>e f. E e (w\<lparr>faults := f\<rparr>)"
    and "\<And>quiz f. quiz_of w q = Some quiz \<Longrightarrow> wpre (g quiz) Q E (w\<lparr>faults := f\<rparr>)"
  shows "wpre (andThen (quizzes_get_by_id q) g) Q E (w\<lparr>faults := h\<rparr>)"
  using assms by (auto simp: quizzes_get_by_id_def quiz_of_def wp pop_def split: option.split)

lemma wp_the_questions:
  assumes "\<And>e f. E e (w\<lparr>faults := f\<rparr>)" and "\<And>f. wpre (g (questions_of w q)) Q E (w\<lparr>faults := f\<rparr>)"
  shows "wpre (andThen (questions_list_by_quiz q) g) Q E (w\<lparr>faults := h\<rparr>)"
  using assms by (auto simp: questions_list_by_quiz_def questions_of_def children_def wp pop_def)

lemma wp_saved_answers:
  assumes "\<And>e f. E e (w\<lparr>faults := f\<rparr>)" and "\<And>f. wpre (g (saved_answers w i)) Q E (w\<lparr>faults := f\<rparr>)"
  shows "wpre (andThen (answers_list_by_attempt i) g) Q E (w\<lparr>faults := h\<rparr>)"
  using assms by (auto simp: answers_list_by_attempt_def saved_answers_def wp pop_def)

lemma wp_get_attempt:
  "wpre (get_attempt actor i admin)
     (\<lambda>a _. \<exists>r ans. find (\<lambda>r. at_id r = i) (quiz_attempts w) = Some r \<and> a = (scan_attempt w r)\<lparr>at_answers := ans\<rparr>)
     (\<lambda>_ _. True) w"
  unfolding get_attempt_def
  by (rule wp_the_attempt) (auto simp: wp_ret intro!: wp_any)

text \<open>After the writes of \<open>SubmitAttempt\<close>, the attempt that is read back has the grade that was written.\<close>

definition same_grade :: "quiz_attempt \<Rightarrow> quiz_attempt \<Rightarrow> bool" where
  "same_grade a b \<longleftrightarrow> at_quiz_id a = at_quiz_id b \<and> at_status a = at_status b \<and> at_score a = at_score b
     \<and> at_max a = at_max b \<and> at_percent a = at_percent b \<and> at_passed a = at_passed b"

lemma wp_grade_written:
  assumes found: "find (\<lambda>r. at_id r = i) (quiz_attempts w) = Some r"
    and b: "at_id b = i" "at_quiz_id b = at_quiz_id r"
  shows "wpre (andThen (answers_replace_all i answers) (\<lambda>_. andThen (attempts_update b) (\<lambda>_. get_attempt actor i False)))
    (\<lambda>a _. attempt_range b \<and> same_grade a b) (\<lambda>_ _. True) (w\<lparr>faults := f\<rparr>)"
proof (rule wp_any_related [OF same_work_writes(7)])
  fix u assume "same_work (w\<lparr>faults := f\<rparr>) u"
  then have u: "quiz_attempts u = quiz_attempts w" by (simp add: same_work_def)
  have read: "wpre (get_attempt actor i False) (\<lambda>a _. same_grade a b) (\<lambda>_ _. True) t"
    if "quiz_attempts t = upd_where (\<lambda>r. at_id r = i) (attempt_write b c) (quiz_attempts w)" for t c
  proof (rule wp_mono [OF wp_get_attempt])
    have "find (\<lambda>r. at_id r = i) (quiz_attempts t) = Some (attempt_write b c r)"
      using that found find_SomeD [OF found] by (simp add: find_upd_where attempt_write_def)
    with b show "\<exists>r ans. find (\<lambda>r. at_id r = i) (quiz_attempts t) = Some r \<and> a = (scan_attempt t r)\<lparr>at_answers := ans\<rparr> \<Longrightarrow>
        same_grade a b" for a
      by (auto simp: scan_attempt_def attempt_write_def same_grade_def)
  qed simp
  have range: "attempt_range b \<Longrightarrow> wpre m (\<lambda>a _. same_grade a b) E t \<Longrightarrow> wpre m (\<lambda>a _. attempt_range b \<and> same_grade a b) E t"
    for m :: "quiz_attempt act" and E t by simp
  show "wpre (andThen (attempts_update b) (\<lambda>_. get_attempt actor i False)) (\<lambda>a _. attempt_range b \<and> same_grade a b) (\<lambda>_ _. True) u"
    using b u read [where c = "clock u"]
    by (simp add: wp_andThen attempts_update_def wp_exec_check split: option.split)
qed

lemma submit_graded:
  assumes "questions_ok w" and "submit_attempt actor i w = (Inr a, v)"
  shows "graded_right w i a"
proof -
  have graded: "wpre (case grade_attempt i (saved_answers w i) (questions_of w (at_quiz_id r)) of (graded, score, mx) \<Rightarrow>
       andThen (answers_replace_all i graded) (\<lambda>_.
       andThen (attempts_update (graded_attempt now quiz score mx (scan_attempt w r))) (\<lambda>_.
       get_attempt u i False)))
      (\<lambda>a _. graded_right w i a) (\<lambda>_ _. True) (w\<lparr>faults := f\<rparr>)"
    if r: "find (\<lambda>r. at_id r = i) (quiz_attempts w) = Some r" and quiz: "quiz_of w (at_quiz_id r) = Some quiz" for r quiz now f u
  proof -
    let ?qs = "questions_of w (at_quiz_id r)" and ?as = "saved_answers w i"
    have pts: "0 \<le> qq_points q" if "q \<in> set ?qs" for q using questions_of_points(1) [OF assms(1) that] by simp
    have grade: "grade_attempt i ?as ?qs = (map (graded_answer i ?as) ?qs, earned_points i ?as ?qs, total_points ?qs)"
      by (intro grade_attempt_eq pts questions_of_points(2) assms(1))
    have score: "0 \<le> earned_points i ?as ?qs" "earned_points i ?as ?qs \<le> total_points ?qs"
      using earned_bounds [of ?qs i ?as] pts by blast+
    have id: "at_id r = i" using find_SomeD [OF r] by simp
    show ?thesis
      unfolding grade prod.case
    proof (rule wp_mono [OF wp_grade_written [OF r]])
      fix a :: quiz_attempt and v :: world
      let ?b = "graded_attempt now quiz (earned_points i ?as ?qs) (total_points ?qs) (scan_attempt w r)"
      assume a: "attempt_range ?b \<and> same_grade a ?b"
      then have "total_points ?qs < 2 ^ 31" by (simp add: attempt_range_def graded_attempt_def Let_def int4_def)
      from attempt_percent_range [OF score this] a quiz score show "graded_right w i a"
        by (auto simp: graded_right_def graded_attempt_def same_grade_def Let_def attempt_percent_def)
    qed (simp_all add: graded_attempt_def Let_def id)
  qed
  have "wpre (submit_attempt actor i) (\<lambda>a _. graded_right w i a) (\<lambda>_ _. True) w"
    unfolding submit_attempt_def
    by (rule wp_the_attempt)
      (auto simp: wp_guard_then wp_asks_then intro!: wp_the_quiz wp_the_questions wp_saved_answers graded)
  then show ?thesis using assms(2) by (simp add: wpre_def)
qed

section \<open>Starting an attempt\<close>

text \<open>Who may attempt a quiz.\<close>

definition may_attempt :: "world \<Rightarrow> uuid \<Rightarrow> uuid \<Rightarrow> bool" where
  "may_attempt w u q \<longleftrightarrow> (case quiz_of w q of None \<Rightarrow> False
     | Some quiz \<Rightarrow> qz_status quiz = QuizPublished \<and> enrolled_active w u (qz_course_id quiz))"

definition attempts_of :: "world \<Rightarrow> uuid \<Rightarrow> uuid \<Rightarrow> quiz_attempt list" where
  "attempts_of w q u = filter (of_quiz_user q u) (quiz_attempts w)"

definition attempts_left :: "world \<Rightarrow> uuid \<Rightarrow> uuid \<Rightarrow> bool" where
  "attempts_left w q u \<longleftrightarrow> (case quiz_of w q of None \<Rightarrow> False | Some quiz \<Rightarrow>
     (case qz_max_attempts quiz of None \<Rightarrow> True | Some n \<Rightarrow> int (length (attempts_of w q u)) < n))"

text \<open>
  A run that succeeds returns the open attempt and writes nothing, or it adds the next attempt while some
  are left.
\<close>

definition attempt_started :: "world \<Rightarrow> uuid \<Rightarrow> uuid \<Rightarrow> quiz_attempt \<Rightarrow> world \<Rightarrow> bool" where
  "attempt_started w q u a v \<longleftrightarrow> may_attempt w u q \<and> open_attempt a \<and> attempt_key a = (q, u)
    \<and> (if list_ex open_attempt (attempts_of w q u) then read_only w v
       else attempts_left w q u \<and> at_number a = int (length (attempts_of w q u)) + 1
         \<and> quiz_attempts v = quiz_attempts w @ [a])"

lemma open_attempts_of:
  "list_ex open_attempt (attempts_of w q u) \<longleftrightarrow> find (\<lambda>r. of_quiz_user q u r \<and> open_attempt r) (quiz_attempts w) \<noteq> None"
  by (auto simp: attempts_of_def list_ex_iff find_None_iff)

lemma wp_started:
  assumes q: "quiz_of w q = Some quiz" "qz_status quiz = QuizPublished" "enrolled_active w u (qz_course_id quiz)"
  shows "wpre (case map_option (scan_attempt w) (find (\<lambda>r. of_quiz_user q u r \<and> open_attempt r) (quiz_attempts w)) of
       Some a \<Rightarrow> ret a
     | None \<Rightarrow>
         andThen (attempts_count_by_quiz_user q u) (\<lambda>count.
         andThen (guard (\<not> (case qz_max_attempts quiz of None \<Rightarrow> False | Some n \<Rightarrow> n \<le> count)) e) (\<lambda>_.
         andThen (asks clock) (\<lambda>now. attempts_create (new_attempt q u (count + 1) now)))))
     (attempt_started w q u) (\<lambda>_ _. True) (w\<lparr>faults := f\<rparr>)"
proof (cases "find (\<lambda>r. of_quiz_user q u r \<and> open_attempt r) (quiz_attempts w)")
  case (Some r)
  with q open_attempts_of [of w q u] find_SomeD [OF Some] show ?thesis
    by (simp add: wp_ret attempt_started_def may_attempt_def open_attempt_def attempt_key_def of_quiz_user_def)
next
  case None
  let ?n = "cnt (of_quiz_user q u) (quiz_attempts w)"
  have count: "?n = length (attempts_of w q u)" by (simp add: cnt_def attempts_of_def)
  have "wpre (attempts_create (new_attempt q u (int ?n + 1) (clock w))) (attempt_started w q u) (\<lambda>_ _. True) (w\<lparr>faults := g\<rparr>)"
    if "case qz_max_attempts quiz of None \<Rightarrow> True | Some n \<Rightarrow> int ?n < n" for g
    using q None open_attempts_of [of w q u] that
    by (simp add: attempts_create_def wp_insert_row attempt_started_def may_attempt_def attempts_left_def new_attempt_def
        open_attempt_def attempt_key_def pop_def count split: option.split option.split_asm)
  then show ?thesis
    unfolding None option.case option.map
    by (intro wp_attempt_count) (auto simp: wp_guard_then wp_asks_then split: option.splits)
qed

lemma start_attempt_result: "start_attempt actor q w = (Inr a, v) \<Longrightarrow> attempt_started w q actor a v"
proof -
  have "wpre (start_attempt actor q) (attempt_started w q actor) (\<lambda>_ _. True) (w\<lparr>faults := faults w\<rparr>)"
    unfolding start_attempt_def
    by (intro wp_the_quiz) (auto simp: wp_guard_then intro!: wp_active_enrollment wp_open_attempt wp_started)
  then show "start_attempt actor q w = (Inr a, v) \<Longrightarrow> attempt_started w q actor a v" by (simp add: wpre_def)
qed

text \<open>Nobody else starts one, and nobody who has no attempt left.\<close>

lemma start_attempt_refused:
  assumes "\<not> may_attempt w actor q \<or> \<not> list_ex open_attempt (attempts_of w q actor) \<and> \<not> attempts_left w q actor"
  shows "\<exists>e. fst (start_attempt actor q w) = Inl e"
proof (rule ccontr)
  assume "\<nexists>e. fst (start_attempt actor q w) = Inl e"
  then obtain a v where "start_attempt actor q w = (Inr a, v)"
    by (metis prod.collapse sum.exhaust_sel)
  from start_attempt_result [OF this] assms show False by (auto simp: attempt_started_def split: if_splits)
qed

section \<open>What a learner can see of a quiz\<close>

text \<open>The world without the answer keys.\<close>

definition without_keys :: "world \<Rightarrow> world" where
  "without_keys w = w\<lparr>quiz_questions := map strip_question_secrets (quiz_questions w)\<rparr>"

definition teaches :: "world \<Rightarrow> uuid \<Rightarrow> uuid \<Rightarrow> bool" where
  "teaches w u c \<longleftrightarrow> (case live_course w c of None \<Rightarrow> False | Some co \<Rightarrow> co_teacher_id co = u)"

lemma strip_idem: "strip_question_secrets (strip_question_secrets q) = strip_question_secrets q"
  by (simp add: strip_question_secrets_def)

lemma sort_key_map: "(\<And>x. k (f x) = k x) \<Longrightarrow> sort_key k (map f xs) = map f (sort_key k xs)"
proof (induction xs)
  case (Cons x xs)
  have "insort_key k (f x) (map f ys) = map f (insort_key k x ys)" for ys
    by (induction ys) (simp_all add: Cons.prems)
  with Cons show ?case by simp
qed simp

lemma children_without_keys: "children questions_table q (without_keys w) = map strip_question_secrets (children questions_table q w)"
proof -
  have "qq_quiz_id (strip_question_secrets r) = qq_quiz_id r" "qq_position (strip_question_secrets r) = qq_position r" for r
    by (simp_all add: strip_question_secrets_def)
  then have "sort_key qq_position (map strip_question_secrets rs) = map strip_question_secrets (sort_key qq_position rs)"
    "filter (\<lambda>r. qq_quiz_id r = q) (map strip_question_secrets rs) = map strip_question_secrets (filter (\<lambda>r. qq_quiz_id r = q) rs)" for rs
    by (simp_all add: sort_key_map filter_map comp_def)
  then show ?thesis by (simp add: children_def questions_table_def without_keys_def)
qed

text \<open>An operation that does not look at the keys: without them it does the same.\<close>

definition blind :: "'a act \<Rightarrow> bool" where
  "blind m \<longleftrightarrow> (\<forall>w. m (without_keys w) = apsnd without_keys (m w))"

named_theorems blind "operations that do not look at the keys"

lemma keys_frame [simp]:
  "down (without_keys w) = down w" "pop (without_keys w) = without_keys (pop w)"
  "quizzes (without_keys w) = quizzes w" "courses (without_keys w) = courses w"
  "enrollments (without_keys w) = enrollments w"
  by (simp_all add: without_keys_def down_def pop_def)

lemma category_name_keys [simp]: "category_name_of (without_keys w) c = category_name_of w c"
  by (simp add: category_name_of_def without_keys_def cong: option.case_cong)

lemma scan_course_keys [simp]: "scan_course (without_keys w) = scan_course w"
  by (simp add: fun_eq_iff scan_course_def) (simp add: user_name_of_def without_keys_def)

lemma scan_enrollment_keys [simp]: "scan_enrollment (without_keys w) = scan_enrollment w"
  by (simp add: fun_eq_iff scan_enrollment_def user_email_of_def user_name_of_def course_title_of_def course_slug_of_def
      without_keys_def)

lemma blind_basic [blind]: "blind (ret a)" "blind (raise e)" "blind (guard c e)"
  by (simp_all add: blind_def guard_def ret_def raise_def)

lemma blind_andThen [blind]: "blind m \<Longrightarrow> (\<And>a. blind (f a)) \<Longrightarrow> blind (andThen m f)"
  by (simp add: blind_def andThen_def split: prod.split sum.split)

lemma blind_optional [blind]: "blind m \<Longrightarrow> blind (optional p m)"
  by (simp add: blind_def optional_def split: prod.split sum.split)

lemma blind_fetch_row: "(\<And>w. sel (without_keys w) = sel w) \<Longrightarrow> blind (fetch_row sel missing ctx)"
  by (simp add: blind_def fetch_row_def split: option.split)

lemma blind_reads [blind]:
  "blind (quizzes_get_by_id q)" "blind (courses_get_by_id c)" "blind (enrollments_get_by_course_user c u)"
  by (simp_all add: quizzes_get_by_id_def courses_get_by_id_def enrollments_get_by_course_user_def blind_fetch_row)

lemma blind_enrollment [blind]: "blind (require_active_enrollment u c)"
  by (auto simp: require_active_enrollment_def intro!: blind split: option.split)

lemma blind_stripped [blind]:
  "blind (andThen (questions_list_by_quiz q) (\<lambda>qs. ret (quiz\<lparr>qz_questions := map strip_question_secrets qs\<rparr>)))"
  by (simp add: blind_def questions_list_by_quiz_def fetch_val_def andThen_def ret_def children_without_keys strip_idem comp_def)

text \<open>The request as it runs for somebody who does not teach the course.\<close>

definition learner_quiz :: "uuid \<Rightarrow> uuid \<Rightarrow> quiz act" where
  "learner_quiz actor q =
     andThen (quizzes_get_by_id q) (\<lambda>quiz.
     andThen (courses_get_by_id (qz_course_id quiz)) (\<lambda>course.
     andThen (andThen (guard (qz_status quiz = QuizPublished) (not_found ''quiz not found'')) (\<lambda>_.
               andThen (require_active_enrollment actor (qz_course_id quiz)) (\<lambda>_. ret ()))) (\<lambda>_.
     andThen (questions_list_by_quiz q) (\<lambda>qs.
     ret (quiz\<lparr>qz_questions := map strip_question_secrets qs\<rparr>)))))"

lemma blind_learner_quiz: "blind (learner_quiz actor q)"
  unfolding learner_quiz_def by (intro blind)

definition not_author :: "world \<Rightarrow> uuid \<Rightarrow> uuid \<Rightarrow> bool" where
  "not_author w u q \<longleftrightarrow> (case quiz_of w q of None \<Rightarrow> True | Some quiz \<Rightarrow> \<not> teaches w u (qz_course_id quiz))"

lemma not_author_keys [simp]: "not_author (without_keys w) u q = not_author w u q"
proof -
  have "teaches (without_keys w) u c = teaches w u c" for c by (simp add: teaches_def live_course_def)
  then show ?thesis by (simp add: not_author_def quiz_of_def cong: option.case_cong)
qed

lemma get_quiz_learner: "not_author w actor q \<Longrightarrow> get_quiz actor q False w = learner_quiz actor q w"
  by (auto simp: get_quiz_def learner_quiz_def andThen_def quizzes_get_by_id_def courses_get_by_id_def fetch_row_def
      not_author_def quiz_of_def teaches_def live_course_def pop_def Let_def split: option.splits prod.split sum.split)

lemma learner_sees_no_key:
  "not_author w actor q \<Longrightarrow> get_quiz actor q False (without_keys w) = apsnd without_keys (get_quiz actor q False w)"
  using blind_learner_quiz by (simp add: get_quiz_learner blind_def)

section \<open>Handing in\<close>

definition assignment_of :: "world \<Rightarrow> uuid \<Rightarrow> assignment option" where
  "assignment_of w i = find (\<lambda>r. as_id r = i) (assignments w)"

definition submission_by :: "world \<Rightarrow> uuid \<Rightarrow> uuid \<Rightarrow> submission option" where
  "submission_by w i u = find (of_assignment_user i u) (submissions w)"

text \<open>When a learner may write a submission: as a draft, or to hand it in.\<close>

definition may_write_work :: "world \<Rightarrow> uuid \<Rightarrow> uuid \<Rightarrow> bool \<Rightarrow> bool" where
  "may_write_work w u i submit \<longleftrightarrow> (case assignment_of w i of None \<Rightarrow> False
     | Some a \<Rightarrow> as_status a = AssignmentPublished \<and> enrolled_active w u (as_course_id a)
         \<and> \<not> (submit \<and> past_due a (clock w))
         \<and> (case submission_by w i u of None \<Rightarrow> True | Some s \<Rightarrow> \<not> closed_submission s))"

lemma wp_the_assignment:
  assumes "\<And>e f. E e (w\<lparr>faults := f\<rparr>)"
    and "\<And>a f. assignment_of w i = Some a \<Longrightarrow> wpre (g a) Q E (w\<lparr>faults := f\<rparr>)"
  shows "wpre (andThen (assignments_get_by_id i) g) Q E (w\<lparr>faults := h\<rparr>)"
  using assms by (auto simp: assignments_get_by_id_def assignment_of_def wp pop_def split: option.split)

lemma work_refused:
  assumes "\<not> may_write_work w actor i submit"
  shows "\<exists>e. fst (upsert_submission actor i body url submit w) = Inl e"
    and "read_only w (snd (upsert_submission actor i body url submit w))"
proof -
  have "wpre (upsert_submission actor i body url submit) (\<lambda>_ _. False) (\<lambda>_. read_only w) (w\<lparr>faults := faults w\<rparr>)"
    unfolding upsert_submission_def
    using assms
    by (intro wp_the_assignment) (auto simp: may_write_work_def wp_guard_then wp_asks_then submission_by_def closed_submission_def
      intro!: wp_active_enrollment wp_the_submission split: option.splits)
  then have *: "wpre (upsert_submission actor i body url submit) (\<lambda>_ _. False) (\<lambda>_. read_only w) w" by simp
  show "\<exists>e. fst (upsert_submission actor i body url submit w) = Inl e"
    and "read_only w (snd (upsert_submission actor i body url submit w))"
    by (rule wp_refused [OF *])+
qed

section \<open>The best attempt\<close>

text \<open>The best percentage among the graded attempts of a learner at a quiz, in two ways.\<close>

definition graded_percents :: "world \<Rightarrow> uuid \<Rightarrow> uuid \<Rightarrow> int list" where
  "graded_percents w q u = map at_percent (filter (\<lambda>a. at_status a = AttemptGraded) (attempts_of w q u))"

definition best_percent :: "world \<Rightarrow> uuid \<Rightarrow> uuid \<Rightarrow> int option" where
  "best_percent w q u = (if graded_percents w q u = [] then None else Some (Max (set (graded_percents w q u))))"

definition best_rows :: "world \<Rightarrow> uuid \<Rightarrow> quiz_attempt list" where
  "best_rows w c = map (scan_attempt w) (first_per (\<lambda>r. (at_quiz_id r, at_user_id r)) (order_desc at_percent
        (filter (\<lambda>r. at_status r = AttemptGraded
           \<and> list_ex (\<lambda>q. qz_id q = at_quiz_id r \<and> qz_course_id q = c) (quizzes w)) (quiz_attempts w))))"

lemma find_first_per: "find (\<lambda>r. k r = x) (first_per k rs) = find (\<lambda>r. k r = x) rs"
proof (induction rs)
  case (Cons r rs)
  have "find (\<lambda>s. k s = x) (filter (\<lambda>s. k s \<noteq> k r) ss) = find (\<lambda>s. k s = x) ss" if "k r \<noteq> x" for ss
    using that by (induction ss) auto
  with Cons show ?case by auto
qed simp

lemma distinct_first_per: "distinct (map k (first_per k rs))"
  by (induction rs) (auto simp: distinct_map_filter)

lemma find_order_desc:
  assumes "find P (order_desc key rs) = Some r"
  shows "P r \<and> r \<in> set rs \<and> (\<forall>s \<in> set rs. P s \<longrightarrow> key s \<le> key r)"
proof -
  let ?ss = "order_desc key rs"
  obtain i where i: "i < length ?ss" "P (?ss ! i)" "r = ?ss ! i" "\<forall>j < i. \<not> P (?ss ! j)"
    using assms by (auto simp: find_Some_iff)
  have sorted: "sorted (map (\<lambda>r. - key r) ?ss)" unfolding order_desc_def by (rule sorted_sort_key)
  have "key s \<le> key r" if "s \<in> set rs" "P s" for s
  proof -
    from that have "s \<in> set ?ss" by simp
    then obtain j where j: "j < length ?ss" "s = ?ss ! j" by (metis in_set_conv_nth)
    with i that have "i \<le> j" by (metis not_le_imp_less)
    with sorted_nth_mono [OF sorted this] j i show ?thesis by simp
  qed
  moreover have "r \<in> set ?ss" using i(1,3) nth_mem by blast
  ultimately show ?thesis using i by simp
qed

lemma best_percentI:
  assumes "a \<in> set (attempts_of w q u)" "at_status a = AttemptGraded"
    and "\<And>b. b \<in> set (attempts_of w q u) \<Longrightarrow> at_status b = AttemptGraded \<Longrightarrow> at_percent b \<le> at_percent a"
  shows "best_percent w q u = Some (at_percent a)"
proof -
  have "Max (set (graded_percents w q u)) = at_percent a"
    using assms by (intro Max_eqI) (auto simp: graded_percents_def)
  moreover have "graded_percents w q u \<noteq> []"
    using assms(1,2) by (auto simp: graded_percents_def filter_empty_conv)
  ultimately show ?thesis by (simp add: best_percent_def)
qed

lemma best_percent_None: "best_percent w q u = None \<longleftrightarrow> (\<forall>a \<in> set (attempts_of w q u). at_status a \<noteq> AttemptGraded)"
  by (auto simp: best_percent_def graded_percents_def filter_empty_conv)

lemma find_rev_distinct:
  assumes "distinct (map k xs)"
  shows "find (\<lambda>r. k r = x) (rev xs) = find (\<lambda>r. k r = x) xs"
proof (cases "\<exists>r \<in> set xs. k r = x")
  case True
  then obtain r where r: "r \<in> set xs" "k r = x" by blast
  moreover have "distinct (map k (rev xs))" using assms by (simp add: rev_map [symmetric])
  ultimately show ?thesis
    using find_distinct_key [OF assms, of r] find_distinct_key [of k "rev xs" r] by simp
next
  case False
  then have "find (\<lambda>r. k r = x) (rev xs) = None" "find (\<lambda>r. k r = x) xs = None" by (auto simp: find_None_iff)
  then show ?thesis by simp
qed

lemma find_map_same: "(\<And>r. P (f r) = P r) \<Longrightarrow> find P (map f rs) = map_option f (find P rs)"
  by (induction rs) auto

lemma gradebook_best:
  assumes "quiz_of w q = Some quiz" and "qz_course_id quiz = c"
  shows "map_option at_percent (best_of (best_rows w c) u q) = best_percent w q u"
proof -
  let ?k = "\<lambda>r. (at_quiz_id r, at_user_id r)"
  let ?rs = "filter (\<lambda>r. at_status r = AttemptGraded
           \<and> list_ex (\<lambda>q. qz_id q = at_quiz_id r \<and> qz_course_id q = c) (quizzes w)) (quiz_attempts w)"
  have in_course: "list_ex (\<lambda>z. qz_id z = q \<and> qz_course_id z = c) (quizzes w)"
    using assms find_SomeD [of "\<lambda>r. qz_id r = q" "quizzes w" quiz] by (auto simp: quiz_of_def list_ex_iff)
  have keys: "map ?k (best_rows w c) = map ?k (first_per ?k (order_desc at_percent ?rs))"
    by (simp add: best_rows_def comp_def)
  have "best_of (best_rows w c) u q = find (\<lambda>r. ?k r = (q, u)) (rev (best_rows w c))"
    by (simp add: best_of_def conj_commute)
  also have "\<dots> = find (\<lambda>r. ?k r = (q, u)) (best_rows w c)"
    by (rule find_rev_distinct) (simp only: keys distinct_first_per)
  also have "\<dots> = map_option (scan_attempt w) (find (\<lambda>r. ?k r = (q, u)) (first_per ?k (order_desc at_percent ?rs)))"
    unfolding best_rows_def by (rule find_map_same) simp
  also have "\<dots> = map_option (scan_attempt w) (find (\<lambda>r. ?k r = (q, u)) (order_desc at_percent ?rs))"
    by (simp only: find_first_per)
  finally have best: "best_of (best_rows w c) u q = map_option (scan_attempt w) (find (\<lambda>r. ?k r = (q, u)) (order_desc at_percent ?rs))" .
  show ?thesis
  proof (cases "find (\<lambda>r. ?k r = (q, u)) (order_desc at_percent ?rs)")
    case None
    then have "best_percent w q u = None"
      using in_course by (auto simp: best_percent_None attempts_of_def of_quiz_user_def find_None_iff)
    with best None show ?thesis by simp
  next
    case (Some r)
    from find_order_desc [OF Some] in_course have "best_percent w q u = Some (at_percent r)"
      by (intro best_percentI) (auto simp: attempts_of_def of_quiz_user_def)
    with best Some show ?thesis by (simp add: scan_attempt_def)
  qed
qed

end
