(* ===== verification/CertificateRules.thy ===== *)
theory CertificateRules
  imports Certificates AssessmentRules
begin

text \<open>
  What certificates and transcripts promise: a learner gets a certificate only for a finished course, a
  certificate is never changed except by its revocation, its code answers for it, and a transcript shows
  the percentages of the gradebook.
\<close>

section \<open>Runs\<close>

inductive certificate_request :: "world \<Rightarrow> world \<Rightarrow> bool" where
  req_issue: "certificate_request w (snd (issue_certificate actor c target admin random w))"
| req_list_mine: "certificate_request w (snd (list_my_certificates actor w))"
| req_list_course: "certificate_request w (snd (list_course_certificates actor c admin w))"
| req_get: "certificate_request w (snd (get_certificate actor i admin w))"
| req_verify: "certificate_request w (snd (verify_certificate raw w))"
| req_download: "certificate_request w (snd (download_pdf actor i admin w))"
| req_revoke: "certificate_request w (snd (revoke_certificate actor i admin w))"
| req_my_transcript: "certificate_request w (snd (my_transcript actor w))"
| req_user_transcript: "certificate_request w (snd (user_transcript actor c u admin w))"

definition certificates_ok :: "world \<Rightarrow> bool" where
  "certificates_ok w \<longleftrightarrow> distinct (map ce_id (certificates w)) \<and> distinct (map ce_code (certificates w))
     \<and> distinct (map (\<lambda>r. (ce_course_id r, ce_user_id r)) (certificates w))"

definition certificate_evolves :: "certificate \<Rightarrow> certificate \<Rightarrow> bool" where
  "certificate_evolves r s \<longleftrightarrow> s = r\<lparr>ce_revoked_at := ce_revoked_at s, ce_updated_at := ce_updated_at s\<rparr>
     \<and> (ce_revoked_at r \<noteq> None \<longrightarrow> s = r)"

definition certificates_step :: "world \<Rightarrow> world \<Rightarrow> bool" where
  "certificates_step w v \<longleftrightarrow> (certificates_ok w \<longrightarrow> certificates_ok v)
     \<and> (\<forall>r \<in> set (certificates w). \<exists>s \<in> set (certificates v). certificate_evolves r s)"

lemma certificate_evolves_refl [simp]: "certificate_evolves r r"
  by (simp add: certificate_evolves_def)

lemma certificate_evolves_trans: "certificate_evolves r s \<Longrightarrow> certificate_evolves s t \<Longrightarrow> certificate_evolves r t"
  unfolding certificate_evolves_def
  by (cases r, cases s, cases t) auto

lemma certificates_same: "certificates v = certificates w \<Longrightarrow> certificates_step w v"
  using certificate_evolves_refl by (auto simp: certificates_step_def certificates_ok_def simp del: certificate_evolves_refl)

interpretation certs: world_order certificates_step
proof unfold_locales
  show "certificates_step w v \<Longrightarrow> certificates_step v u \<Longrightarrow> certificates_step w u" for w v u
    unfolding certificates_step_def using certificate_evolves_trans by meson
qed (simp_all add: certificates_same)

lemma certificate_reads [moves]:
  "changes read_only (certificates_get_by_id i)" "changes read_only (certificates_get_by_code code)"
  "changes read_only (certificates_get_by_course_user c u)" "changes read_only (certificates_list_by_user u)"
  "changes read_only (certificates_list_by_course c)" "changes read_only (users_get_by_id u)"
  "changes read_only (enrollments_list_by_user u f)"
  by (auto simp: certificates_get_by_id_def certificates_get_by_code_def certificates_get_by_course_user_def
      certificates_list_by_user_def certificates_list_by_course_def users_get_by_id_def enrollments_list_by_user_def
      enrollments_list_def Let_def intro!: moves)

lemma certificate_checks_read [moves]:
  "changes read_only (require_certificate_write actor c admin)" "changes read_only (require_certificate_read actor cert admin)"
  "changes read_only (require_course_complete u c)" "changes read_only (issue_for actor c target override)"
  by (auto simp: require_certificate_write_def require_certificate_read_def require_course_complete_def issue_for_def Let_def
      intro!: moves split: option.split)

lemma transcript_reads [moves]:
  "changes read_only (transcript_quiz u q)" "changes read_only (transcript_assignment u a)"
  "changes read_only (transcript_entry u c title slug)" "changes read_only (build_transcript user)"
  "changes read_only (my_transcript actor)" "changes read_only (user_transcript actor c u admin)"
  by (auto simp: transcript_quiz_def transcript_assignment_def transcript_entry_def build_transcript_def my_transcript_def
      user_transcript_def Let_def intro!: moves split: prod.split)

lemma certificate_requests_read [moves]:
  "changes read_only (list_my_certificates actor)" "changes read_only (list_course_certificates actor c admin)"
  "changes read_only (get_certificate actor i admin)" "changes read_only (verify_certificate raw)"
  "changes read_only (download_pdf actor i admin)"
  by (auto simp: list_my_certificates_def list_course_certificates_def get_certificate_def verify_certificate_def
      download_pdf_def Let_def intro!: moves split: option.split)

lemma certs_reads: "changes read_only m \<Longrightarrow> changes certificates_step m"
  by (rule reads_respect) (simp_all add: certificates_same)

lemma certificate_created [moves]: "changes certificates_step (certificates_create c)"
  unfolding certificates_create_def
  by (rule certs.changes_insert_row)
    (auto simp: certificates_step_def certificates_ok_def pk_free_def of_course_user_def list_ex_iff)

lemma certificate_revoked [moves]: "changes certificates_step (certificates_revoke i)"
proof -
  let ?f = "\<lambda>t r. if unrevoked i r then r\<lparr>ce_revoked_at := Some t, ce_updated_at := t\<rparr> else r"
  have "\<exists>s \<in> set (map (?f t) rs). certificate_evolves r s" if "r \<in> set rs" for t r rs
  proof (rule bexI)
    show "certificate_evolves r (?f t r)" by (auto simp: certificate_evolves_def unrevoked_def)
    show "?f t r \<in> set (map (?f t) rs)" unfolding set_map using that by (rule imageI)
  qed
  moreover have "certificates_ok (w\<lparr>certificates := map (?f t) (certificates w)\<rparr>) = certificates_ok w" for w t
  proof -
    have "ce_id (?f t r) = ce_id r" "ce_code (?f t r) = ce_code r" "ce_course_id (?f t r) = ce_course_id r"
      "ce_user_id (?f t r) = ce_user_id r" for r by simp_all
    then show ?thesis by (simp add: certificates_ok_def comp_def)
  qed
  ultimately have "certificates_step w (w\<lparr>certificates := upd_where (unrevoked i) (\<lambda>r. r\<lparr>ce_revoked_at := Some (clock w),
      ce_updated_at := clock w\<rparr>) (certificates w)\<rparr>)" for w
    unfolding certificates_step_def upd_where_def by simp
  then show ?thesis
    unfolding certificates_revoke_def
    by (intro moves certs.changes_exec_rows certificate_reads [THEN certs_reads])
qed

lemma certificate_operations:
  "changes certificates_step (issue_certificate actor c target admin random)"
  "changes certificates_step (revoke_certificate actor i admin)"
  by (auto simp: issue_certificate_def revoke_certificate_def
      intro!: moves certificate_reads [THEN certs_reads] certificate_checks_read [THEN certs_reads]
        assessment_reads [THEN certs_reads] split: option.split)

lemma certificate_run: "rtranclp certificate_request w v \<Longrightarrow> certificates_step w v"
proof (induction rule: rtranclp_induct)
  case (step u v)
  from step.hyps(2) have "certificates_step u v"
    by cases (use certificate_operations certificate_requests_read [THEN certs_reads] transcript_reads [THEN certs_reads]
        in \<open>auto simp: changes_def\<close>)
  with step.IH show ?case by (rule certs.R_trans)
qed (rule certs.R_refl)

section \<open>Issuing\<close>

text \<open>The progress row of a learner says that the course is finished.\<close>

definition course_complete :: "world \<Rightarrow> uuid \<Rightarrow> uuid \<Rightarrow> bool" where
  "course_complete w u c \<longleftrightarrow> (case find (of_user_course u c) (course_progresses w) of None \<Rightarrow> False
     | Some p \<Rightarrow> 100 \<le> pr_percent p \<and> pr_completed_at p \<noteq> None)"

definition certificate_for :: "world \<Rightarrow> uuid \<Rightarrow> uuid \<Rightarrow> certificate option" where
  "certificate_for w c u = find (of_course_user c u) (certificates w)"

lemma wp_course_complete:
  assumes "\<And>e f. E e (w\<lparr>faults := f\<rparr>)"
    and "\<And>f. course_complete w u c \<Longrightarrow> wpre (g ()) Q E (w\<lparr>faults := f\<rparr>)"
  shows "wpre (andThen (require_course_complete u c) g) Q E (w\<lparr>faults := h\<rparr>)"
  using assms by (auto simp: require_course_complete_def course_progress_get_def course_complete_def scan_course_progress_def
      wp pop_def split: option.split)

lemma andThen_assoc: "andThen (andThen m f) g = andThen m (\<lambda>a. andThen (f a) g)"
  by (simp add: andThen_def fun_eq_iff split: prod.split sum.split)

lemma andThen_ret: "andThen (ret a) g = g a"
  by (simp add: andThen_def ret_def fun_eq_iff)

text \<open>A learner asking for the own certificate.\<close>

lemma wp_issue_for_self:
  assumes "\<And>e f. E e (w\<lparr>faults := f\<rparr>)"
    and "\<And>f. enrolled_active w u c \<Longrightarrow> course_complete w u c \<Longrightarrow> wpre (g u) Q E (w\<lparr>faults := f\<rparr>)"
  shows "wpre (andThen (issue_for u c None False) g) Q E (w\<lparr>faults := h\<rparr>)"
proof -
  have "wpre (andThen (require_active_enrollment u c) (\<lambda>_. andThen (require_course_complete u c) (\<lambda>_. g u))) Q E (w\<lparr>faults := h\<rparr>)"
    by (intro wp_active_enrollment wp_course_complete assms)
  then show ?thesis by (simp add: issue_for_def andThen_assoc andThen_ret)
qed

definition new_row_for :: "world \<Rightarrow> uuid \<Rightarrow> uuid \<Rightarrow> string option \<Rightarrow> world \<Rightarrow> bool" where
  "new_row_for w c u random v \<longleftrightarrow> certificate_for w c u = None
     \<and> (\<exists>r. certificates v = certificates w @ [r] \<and> of_course_user c u r \<and> ce_revoked_at r = None
          \<and> new_verification_code random = Some (ce_code r))"

lemma wp_certificate_created:
  assumes "ce_course_id x = c" "ce_user_id x = u" "new_verification_code random = Some (ce_code x)"
  shows "wpre (andThen (certificates_create x) (\<lambda>cert. certificates_get_by_id (ce_id cert)))
    (\<lambda>_ v. new_row_for w c u random v) (\<lambda>_ _. True) (w\<lparr>faults := f\<rparr>)"
proof -
  have "certificate_for w c u = None" if "\<not> list_ex (of_course_user c u) (certificates w)"
    using that by (auto simp: certificate_for_def find_None_iff list_ex_iff)
  then show ?thesis
    using assms
    by (simp add: certificates_create_def certificates_get_by_id_def wp_andThen wp_insert_row wp_fetch_row new_row_for_def
        of_course_user_def pop_def split: option.split)
qed

lemma issued_to_learner:
  assumes "issue_certificate u c None False random w = (Inr cert, v)" and "\<not> teaches w u c"
  shows "enrolled_active w u c \<and> course_complete w u c \<and> new_row_for w c u random v"
proof -
  have "wpre (issue_certificate u c None False random)
      (\<lambda>_ v. enrolled_active w u c \<and> course_complete w u c \<and> new_row_for w c u random v) (\<lambda>_ _. True) (w\<lparr>faults := faults w\<rparr>)"
    unfolding issue_certificate_def
  proof (rule wp_course)
    fix co f
    assume co: "live_course w c = Some co"
    have "co_teacher_id co \<noteq> u" using assms(2) co by (simp add: teaches_def)
    moreover have "wpre (andThen (issue_for u c None False) (\<lambda>u.
     andThen (users_get_by_id u) (\<lambda>user.
     andThen (asks clock) (\<lambda>now.
     case new_verification_code random of
       None \<Rightarrow> raise (internal ''failed to generate verification code'')
     | Some code \<Rightarrow>
         andThen (certificates_create (new_certificate co c u code user now)) (\<lambda>cert.
         certificates_get_by_id (ce_id cert))))))
      (\<lambda>_ v. enrolled_active w u c \<and> course_complete w u c \<and> new_row_for w c u random v) (\<lambda>_ _. True) (w\<lparr>faults := f\<rparr>)"
      by (rule wp_issue_for_self)
        (auto simp: wp_asks_then wp_raise new_certificate_def intro!: wp_read_then [OF certificate_reads(6)] wp_certificate_created
          split: option.split)
    ultimately show "wpre (andThen (issue_for u c None (False \<or> co_teacher_id co = u)) (\<lambda>u.
     andThen (users_get_by_id u) (\<lambda>user.
     andThen (asks clock) (\<lambda>now.
     case new_verification_code random of
       None \<Rightarrow> raise (internal ''failed to generate verification code'')
     | Some code \<Rightarrow>
         andThen (certificates_create (new_certificate co c u code user now)) (\<lambda>cert.
         certificates_get_by_id (ce_id cert))))))
      (\<lambda>_ v. enrolled_active w u c \<and> course_complete w u c \<and> new_row_for w c u random v) (\<lambda>_ _. True) (w\<lparr>faults := f\<rparr>)"
      by simp
  qed simp
  with assms(1) show ?thesis by (simp add: wpre_def)
qed

section \<open>Verifying\<close>

text \<open>\<open>Verify\<close> ignores blanks at the ends of the code and the case of its letters.\<close>

definition code_of :: "string \<Rightarrow> string" where
  "code_of raw = to_upper (trim_space raw)"

text \<open>The certificates are joined with their course and their learner, which the foreign keys provide.\<close>

definition certificates_joined :: "world \<Rightarrow> bool" where
  "certificates_joined w \<longleftrightarrow> list_all (certificate_joined w) (certificates w)"

lemma certificate_row_code:
  assumes "certificates_ok w" and "c \<in> set (certificates w)" and "certificate_joined w c"
  shows "certificate_row (\<lambda>r. ce_code r = ce_code c) w = Some (scan_certificate w c)"
proof -
  have "find (\<lambda>r. ce_code r = ce_code c \<and> certificate_joined w r) (certificates w) = Some c"
  proof -
    obtain r where r: "find (\<lambda>r. ce_code r = ce_code c \<and> certificate_joined w r) (certificates w) = Some r"
      using assms(2,3) by (cases "find (\<lambda>r. ce_code r = ce_code c \<and> certificate_joined w r) (certificates w)")
        (auto simp: find_None_iff)
    from find_SomeD [OF r] have "r = c"
      using assms(1,2) distinct_key_unique [of ce_code "certificates w" r c] by (simp add: certificates_ok_def)
    with r show ?thesis by simp
  qed
  then show ?thesis by (simp add: certificate_row_def)
qed

lemma verify_known:
  assumes "quiet w" and "certificates_ok w" and "certificates_joined w"
    and "c \<in> set (certificates w)" and "code_of raw = ce_code c" and "ce_code c \<noteq> ''''"
  shows "\<exists>cv. verify_certificate raw w = (Inr cv, w) \<and> cv_valid cv = (ce_revoked_at c = None)
    \<and> cv_code cv = ce_code c \<and> cv_learner_name cv = ce_learner_name c \<and> cv_course_title cv = ce_course_title c"
proof -
  have "certificate_row (\<lambda>r. ce_code r = ce_code c) w = Some (scan_certificate w c)"
    using assms by (intro certificate_row_code) (auto simp: certificates_joined_def list_all_iff)
  with assms show ?thesis
    by (simp add: verify_certificate_def Let_def code_of_def certificates_get_by_code_def fetch_row_def optional_def
        andThen_def guard_def ret_def scan_certificate_def)
qed

lemma verify_unknown:
  assumes "quiet w" and "code_of raw \<notin> ce_code ` set (certificates w)" and "code_of raw \<noteq> ''''"
  shows "\<exists>cv. verify_certificate raw w = (Inr cv, w) \<and> \<not> cv_valid cv"
proof -
  have "certificate_row (\<lambda>r. ce_code r = code_of raw) w = None"
    using assms(2) by (auto simp: certificate_row_def find_None_iff image_iff)
  with assms show ?thesis
    by (simp add: verify_certificate_def Let_def code_of_def certificates_get_by_code_def fetch_row_def optional_def
        andThen_def guard_def ret_def not_found_def new_error_def is_not_found_def)
qed

text \<open>The answer is that of the certificate with the code, so it never becomes valid again.\<close>

lemma verify_result:
  assumes "verify_certificate raw w = (Inr cv, v)" and "cv_valid cv"
  shows "\<exists>c \<in> set (certificates w). ce_code c = code_of raw \<and> ce_revoked_at c = None"
proof -
  have scan: "certificate_row p (w\<lparr>faults := f\<rparr>) = certificate_row p w" for f p
  proof -
    have "scan_certificate (w\<lparr>faults := f\<rparr>) = scan_certificate w" "certificate_joined (w\<lparr>faults := f\<rparr>) = certificate_joined w"
      by (simp_all add: fun_eq_iff scan_certificate_def certificate_joined_def)
    then show ?thesis by (simp add: certificate_row_def)
  qed
  have "\<exists>c \<in> set (certificates w). ce_code c = code \<and> ce_revoked_at c = ce_revoked_at x"
    if "certificate_row (\<lambda>r. ce_code r = code) w = Some x" for code x
    using that find_SomeD unfolding certificate_row_def by (fastforce simp: scan_certificate_def)
  then have "wpre (verify_certificate raw) (\<lambda>cv _. cv_valid cv \<longrightarrow>
      (\<exists>c \<in> set (certificates w). ce_code c = code_of raw \<and> ce_revoked_at c = None)) (\<lambda>_ _. True) w"
    by (auto simp: verify_certificate_def Let_def certificates_get_by_code_def code_of_def wp pop_def scan split: option.split)
      metis
  with assms show ?thesis by (simp add: wpre_def)
qed

lemma revoked_never_valid:
  assumes "rtranclp certificate_request w v" and "certificates_ok w"
    and "c \<in> set (certificates w)" "ce_revoked_at c \<noteq> None" "code_of raw = ce_code c"
    and "verify_certificate raw v = (Inr cv, v')"
  shows "\<not> cv_valid cv"
proof
  assume "cv_valid cv"
  with assms(6) obtain d where d: "d \<in> set (certificates v)" "ce_code d = code_of raw" "ce_revoked_at d = None"
    using verify_result by blast
  from certificate_run [OF assms(1)] assms(2-4) have "certificates_ok v" "c \<in> set (certificates v)"
    by (auto simp: certificates_step_def certificate_evolves_def)
  then have "c = d"
    using d assms(5) distinct_key_unique [of ce_code "certificates v" c d] by (simp add: certificates_ok_def)
  with d assms(4) show False by simp
qed

section \<open>Transcripts and the gradebook\<close>

text \<open>Both count the attempts of a learner and show the best percentage.\<close>

lemma better_attempt_fold:
  "fold better_attempt as best = None \<longleftrightarrow> best = None \<and> (\<forall>a \<in> set as. at_status a \<noteq> AttemptGraded)"
  "fold better_attempt as best = Some (p, b) \<Longrightarrow>
     (\<forall>a \<in> set as. at_status a = AttemptGraded \<longrightarrow> at_percent a \<le> p) \<and> (\<forall>q c. best = Some (q, c) \<longrightarrow> q \<le> p)
     \<and> (best = Some (p, b) \<or> (\<exists>a \<in> set as. at_status a = AttemptGraded \<and> at_percent a = p))"
proof (induction as arbitrary: best)
  case (Cons a as)
  {
    case 1
    then show ?case using Cons.IH(1) by (auto simp: better_attempt_def split: option.splits)
  next
    case 2
    then show ?case using Cons.IH(2) [of "better_attempt a best"]
      by (auto simp: better_attempt_def split: if_splits option.splits)
  }
qed auto

lemma transcript_best:
  assumes "map_option fst (fold better_attempt as None) = r" and "set as = scan_attempt w ` set (attempts_of w q u)"
  shows "best_percent w q u = r"
proof (cases "fold better_attempt as None")
  case None
  with assms show ?thesis using better_attempt_fold(1) [of as None] by (auto simp: best_percent_None)
next
  case (Some x)
  obtain p b where x: "x = (p, b)" by force
  from better_attempt_fold(2) [OF Some [unfolded x]] assms(2)
  obtain a where a: "a \<in> set (attempts_of w q u)" "at_status a = AttemptGraded" "at_percent a = p"
    and most: "\<And>a. a \<in> set (attempts_of w q u) \<Longrightarrow> at_status a = AttemptGraded \<Longrightarrow> at_percent a \<le> p"
    by (auto simp: scan_attempt_def)
  from best_percentI [OF a(1,2)] most a(3) have "best_percent w q u = Some p" by simp
  with assms(1) Some x show ?thesis by simp
qed

lemma transcript_quiz_quiet:
  assumes "quiet w"
  shows "\<exists>s. transcript_quiz u q w = (Inr s, w) \<and> gq_percent s = best_percent w (qz_id q) u
    \<and> gq_attempts s = int (length (attempts_of w (qz_id q) u))"
proof -
  let ?as = "map (scan_attempt w) (sort_key at_number (attempts_of w (qz_id q) u))"
  have "best_percent w (qz_id q) u = map_option fst (fold better_attempt ?as None)"
    by (rule transcript_best [OF refl]) simp
  then show ?thesis
    using assms by (simp add: transcript_quiz_def attempts_count_by_quiz_user_def attempts_list_by_quiz_user_def orElse_def
        fetch_val_def andThen_def ret_def Let_def cnt_def attempts_of_def)
qed

lemma map_each_quiet: "(\<And>x. x \<in> set xs \<Longrightarrow> f x w = (Inr (g x), w)) \<Longrightarrow> map_each xs f w = (Inr (map g xs), w)"
  by (induction xs) (simp_all add: andThen_def ret_def)

lemma attempt_counts_quiet:
  "quiet w \<Longrightarrow> attempt_counts qs ens w =
     (Inr (map (\<lambda>(q, en). (en_user_id en, qz_id q, int (length (attempts_of w (qz_id q) (en_user_id en))))) (List.product qs ens)), w)"
  unfolding attempt_counts_def
  by (rule map_each_quiet)
    (auto simp: attempts_count_by_quiz_user_def orElse_def fetch_val_def andThen_def ret_def cnt_def attempts_of_def)

lemma count_in_counts:
  assumes "q \<in> set qs" "en \<in> set ens"
  shows "count_in (map (\<lambda>(q, en). (en_user_id en, qz_id q, n (qz_id q) (en_user_id en))) (List.product qs ens))
     (en_user_id en) (qz_id q) = n (qz_id q) (en_user_id en)"
proof -
  let ?cs = "map (\<lambda>(q, en). (en_user_id en, qz_id q, n (qz_id q) (en_user_id en))) (List.product qs ens)"
  let ?P = "\<lambda>(v, p, _). v = en_user_id en \<and> p = qz_id q"
  have "(en_user_id en, qz_id q, n (qz_id q) (en_user_id en)) \<in> set (rev ?cs)" using assms by force
  then obtain x where x: "find ?P (rev ?cs) = Some x"
    by (cases "find ?P (rev ?cs)") (fastforce simp: find_None_iff)+
  from find_SomeD [OF x] have "snd (snd x) = n (qz_id q) (en_user_id en)" by auto
  with x show ?thesis by (auto simp: count_in_def split: prod.split)
qed

lemma assessment_write_quiet: "quiet w \<Longrightarrow> snd (require_assessment_write actor c admin w) = w"
  by (simp add: require_assessment_write_def courses_get_by_id_def fetch_row_def andThen_def guard_def ret_def raise_def
      split: option.split)

lemma enrollments_list_quiet:
  "quiet w \<Longrightarrow> \<exists>ens n. enrollments_list_by_course c f w = (Inr (ens, n), w)"
  by (simp add: enrollments_list_by_course_def enrollments_list_def Let_def fetch_val_def andThen_def ret_def)

definition course_quizzes :: "world \<Rightarrow> uuid \<Rightarrow> quiz list" where
  "course_quizzes w c = sort_key qz_created_at (filter (\<lambda>r. qz_course_id r = c) (quizzes w))"

definition quiet_counts :: "world \<Rightarrow> uuid \<Rightarrow> enrollment list \<Rightarrow> (uuid \<times> uuid \<times> int) list" where
  "quiet_counts w c ens = map (\<lambda>(q, en). (en_user_id en, qz_id q, int (length (attempts_of w (qz_id q) (en_user_id en)))))
     (List.product (course_quizzes w c) ens)"

lemma gradebook_quiet:
  assumes "quiet w" and "gradebook actor c admin w = (Inr es, v)"
  obtains ens as subs where "es = map (gradebook_row (course_quizzes w c) as (best_rows w c) subs (count_in (quiet_counts w c ens))) ens"
proof -
  obtain r where r: "require_assessment_write actor c admin w = (r, w)"
    using assessment_write_quiet [OF assms(1), of actor c admin] by (metis prod.collapse)
  obtain ens n where ens: "enrollments_list_by_course c \<lparr>ef_page = 1, ef_per_page = 100, ef_status = ''active''\<rparr> w = (Inr (ens, n), w)"
    using enrollments_list_quiet [OF assms(1)] by blast
  have "quizzes_list_by_course c w = (Inr (course_quizzes w c), w)" "attempts_best_graded_by_course c w = (Inr (best_rows w c), w)"
    "\<exists>as. assignments_list_by_course c w = (Inr as, w)" "\<exists>subs. submissions_list_graded_by_course c w = (Inr subs, w)"
    using assms(1)
    by (simp_all add: quizzes_list_by_course_def course_quizzes_def attempts_best_graded_by_course_def best_rows_def
        assignments_list_by_course_def submissions_list_graded_by_course_def fetch_val_def)
  then obtain as subs where "quizzes_list_by_course c w = (Inr (course_quizzes w c), w)"
    "attempts_best_graded_by_course c w = (Inr (best_rows w c), w)"
    "assignments_list_by_course c w = (Inr as, w)" "submissions_list_graded_by_course c w = (Inr subs, w)" by blast
  with assms(2) r ens have "es = map (gradebook_row (course_quizzes w c) as (best_rows w c) subs (count_in (quiet_counts w c ens))) ens"
    by (cases r) (auto simp: gradebook_def andThen_def attempt_counts_quiet [OF assms(1)] quiet_counts_def ret_def)
  then show thesis by (rule that)
qed

lemma gradebook_matches_transcript:
  assumes "quiet w" and "distinct (map qz_id (quizzes w))" and "gradebook actor c admin w = (Inr es, v)"
    and "e \<in> set es" and "cell \<in> set (gb_quizzes e)"
  shows "\<exists>q \<in> set (quizzes w). qz_id q = gq_quiz_id cell \<and> qz_course_id q = c
    \<and> (\<exists>s. transcript_quiz (gb_user_id e) q w = (Inr s, w)
         \<and> gq_percent s = gq_percent cell \<and> gq_attempts s = gq_attempts cell)"
proof -
  obtain ens as subs where es: "es = map (gradebook_row (course_quizzes w c) as (best_rows w c) subs (count_in (quiet_counts w c ens))) ens"
    by (rule gradebook_quiet [OF assms(1,3)])
  with assms(4,5) obtain en q where en: "en \<in> set ens" "gb_user_id e = en_user_id en" and q: "q \<in> set (course_quizzes w c)"
    and cell: "cell = quiz_cell (best_rows w c) (count_in (quiet_counts w c ens)) (en_user_id en) q"
    by (auto simp: gradebook_row_def)
  from q have quiz: "q \<in> set (quizzes w)" "qz_course_id q = c" by (auto simp: course_quizzes_def)
  with assms(2) have "quiz_of w (qz_id q) = Some q"
    using find_distinct_key [of qz_id "quizzes w" q] by (simp add: quiz_of_def)
  from gradebook_best [OF this quiz(2)]
  have "gq_percent cell = best_percent w (qz_id q) (en_user_id en)" by (simp add: cell quiz_cell_def)
  moreover have "gq_attempts cell = int (length (attempts_of w (qz_id q) (en_user_id en)))"
    using count_in_counts [OF q en(1), of "\<lambda>i u. int (length (attempts_of w i u))"] by (simp add: cell quiz_cell_def quiet_counts_def)
  moreover have "gq_quiz_id cell = qz_id q" by (simp add: cell quiz_cell_def)
  ultimately show ?thesis
    using transcript_quiz_quiet [OF assms(1), of "en_user_id en" q] quiz en(2) by auto
qed

end
