(* ===== verification/LiveRules.thy ===== *)
theory LiveRules
  imports LiveSessions CertificateRules
begin

text \<open>
  What live sessions promise over any run of requests: their states are left in one direction only, links
  are for the participants of an open session, and a check-in is recorded in its window. The last section
  shows what one session of a deleted course does to a calendar.
\<close>

section \<open>The life of a session\<close>

inductive live_request :: "live_config \<Rightarrow> world \<Rightarrow> world \<Rightarrow> bool" for cfg where
  req_create_session: "live_request cfg w (snd (create_session cfg actor c i admin w))"
| req_list_sessions: "live_request cfg w (snd (list_course_sessions actor c admin w))"
| req_get_session: "live_request cfg w (snd (get_session actor i' admin w))"
| req_update_session: "live_request cfg w (snd (update_session actor i' p admin w))"
| req_publish_session: "live_request cfg w (snd (publish_session cfg actor i' admin w))"
| req_complete_session: "live_request cfg w (snd (complete_session actor i' admin w))"
| req_cancel_session: "live_request cfg w (snd (cancel_session actor i' admin w))"
| req_generate_link: "live_request cfg w (snd (generate_session_link cfg actor i' admin w))"
| req_join_session: "live_request cfg w (snd (join_session actor i' admin w))"
| req_list_attendance: "live_request cfg w (snd (list_attendance actor i' admin w))"
| req_mark_attendance: "live_request cfg w (snd (mark_attendance actor i' u st note admin w))"
| req_check_in: "live_request cfg w (snd (check_in actor i' admin w))"
| req_calendar: "live_request cfg w (snd (list_calendar actor from_t to_t page per admin w))"

fun may_follow :: "session_status \<Rightarrow> session_status \<Rightarrow> bool" where
  "may_follow SessionDraft st = True"
| "may_follow SessionScheduled st = (st \<noteq> SessionDraft)"
| "may_follow SessionCompleted st = (st = SessionCompleted)"
| "may_follow SessionCancelled st = (st = SessionCancelled)"

definition sessions_ok :: "world \<Rightarrow> bool" where
  "sessions_ok w \<longleftrightarrow> distinct (map ls_id (live_sessions w)) \<and> list_all (\<lambda>s. ls_starts_at s < ls_ends_at s) (live_sessions w)"

definition session_follows :: "live_session \<Rightarrow> live_session \<Rightarrow> bool" where
  "session_follows r s \<longleftrightarrow> ls_id s = ls_id r \<and> ls_course_id s = ls_course_id r \<and> ls_created_by s = ls_created_by r
     \<and> may_follow (ls_status r) (ls_status s)"

definition sessions_step :: "world \<Rightarrow> world \<Rightarrow> bool" where
  "sessions_step w v \<longleftrightarrow> (sessions_ok w \<longrightarrow> sessions_ok v
     \<and> (\<forall>r \<in> set (live_sessions w). \<exists>s \<in> set (live_sessions v). session_follows r s))"

lemma may_follow_refl [simp]: "may_follow s s"
  by (cases s) simp_all

lemma may_follow_trans: "may_follow r s \<Longrightarrow> may_follow s t \<Longrightarrow> may_follow r t"
  by (cases r; cases s; cases t) simp_all

lemma session_follows_refl: "session_follows r r"
  by (simp add: session_follows_def)

lemma session_follows_trans: "session_follows r s \<Longrightarrow> session_follows s t \<Longrightarrow> session_follows r t"
  unfolding session_follows_def using may_follow_trans by metis

lemma sessions_same: "live_sessions v = live_sessions w \<Longrightarrow> sessions_step w v"
  using session_follows_refl by (auto simp: sessions_step_def sessions_ok_def)

interpretation life: world_order sessions_step
proof unfold_locales
  show "sessions_step w v \<Longrightarrow> sessions_step v u \<Longrightarrow> sessions_step w u" for w v u
    unfolding sessions_step_def using session_follows_trans by meson
qed (simp_all add: sessions_same)

lemma life_faults [simp]: "sessions_step w (v\<lparr>faults := f\<rparr>) = sessions_step w v"
  "sessions_step (w\<lparr>faults := f\<rparr>) v = sessions_step w v"
  by (simp_all add: sessions_step_def sessions_ok_def)

lemma life_reads: "changes read_only m \<Longrightarrow> changes sessions_step m"
  by (rule reads_respect) (simp_all add: sessions_same)

lemma live_reads [moves]:
  "changes read_only (sessions_get_by_id i)" "changes read_only (sessions_list_by_course c)"
  "changes read_only (sessions_list_calendar f)" "changes read_only (attendance_get i u)" "changes read_only (attendance_list i)"
  by (auto simp: sessions_get_by_id_def sessions_list_by_course_def sessions_list_calendar_def attendance_get_def
      attendance_list_def intro!: moves)

lemma live_checks_read [moves]:
  "changes read_only (require_live_write actor c admin)" "changes read_only (require_session_read actor s admin)"
  "changes read_only (calendar_item actor s)"
  by (auto simp: require_live_write_def require_session_read_def calendar_item_def intro!: moves)

lemma live_requests_read [moves]:
  "changes read_only (list_course_sessions actor c admin)" "changes read_only (get_session actor i admin)"
  "changes read_only (join_session actor i admin)" "changes read_only (list_attendance actor i admin)"
  "changes read_only (list_calendar actor from_t to_t page per admin)"
  by (auto simp: list_course_sessions_def get_session_def join_session_def list_attendance_def list_calendar_def Let_def
      intro!: moves split: prod.split)

text \<open>An \<open>UPDATE\<close> of one session.\<close>

lemma session_updated:
  assumes "\<And>r. ls_id r = i \<Longrightarrow> r \<in> set (live_sessions w) \<Longrightarrow> sessions_ok w \<Longrightarrow> session_follows r (f r) \<and> ls_starts_at (f r) < ls_ends_at (f r)"
  shows "sessions_step w (session_set i f w)"
proof -
  let ?g = "\<lambda>r. if ls_id r = i then (f r)\<lparr>ls_updated_at := clock w\<rparr> else r"
  have rows: "live_sessions (session_set i f w) = map ?g (live_sessions w)" by (simp add: session_set_def upd_where_def)
  show ?thesis
    unfolding sessions_step_def
  proof (intro impI conjI ballI)
    assume ok: "sessions_ok w"
    have row: "session_follows r (?g r) \<and> ls_starts_at (?g r) < ls_ends_at (?g r)" if "r \<in> set (live_sessions w)" for r
      using that ok assms [of r] by (auto simp: session_follows_def sessions_ok_def list_all_iff)
    have "map ls_id (map ?g (live_sessions w)) = map ls_id (live_sessions w)"
      unfolding map_map comp_def using row by (intro map_cong) (auto simp: session_follows_def)
    moreover have "list_all (\<lambda>r. ls_starts_at (?g r) < ls_ends_at (?g r)) (live_sessions w)"
      unfolding list_all_iff using row by blast
    then have "list_all (\<lambda>s. ls_starts_at s < ls_ends_at s) (map ?g (live_sessions w))"
      by (simp only: list.pred_map comp_def)
    ultimately show "sessions_ok (session_set i f w)"
      using ok unfolding sessions_ok_def rows by (simp only:)
    fix r assume "r \<in> set (live_sessions w)"
    with row [OF this] show "\<exists>s \<in> set (live_sessions (session_set i f w)). session_follows r s"
      unfolding rows set_map by blast
  qed
qed

lemma life_update [moves]: "changes sessions_step (sessions_update s)"
proof -
  have "sessions_step w (session_set (ls_id s) (session_write s) w)" if "session_check s" for w
    by (rule session_updated) (use that in \<open>auto simp: session_write_def session_follows_def session_check_def\<close>)
  then show ?thesis
    unfolding sessions_update_def
    by (intro moves life.changes_exec_check live_reads [THEN life_reads]) simp
qed

lemma life_create [moves]: "changes sessions_step (sessions_create s)"
  unfolding sessions_create_def
  by (rule life.changes_insert_row)
    (auto simp: sessions_step_def sessions_ok_def pk_free_def session_check_def intro: session_follows_refl)

lemma life_attendance [moves]: "changes sessions_step (attendance_upsert a)"
  unfolding attendance_upsert_def by (rule life.changes_upsert_row) (simp_all add: sessions_same)

lemma life_link [moves]: "changes sessions_step (apply_generated_link cfg s)"
  by (auto simp: apply_generated_link_def intro!: moves split: sum.split)

lemmas live_steps [moves] = live_reads [THEN life_reads] live_checks_read [THEN life_reads]
  progress_checks_read [THEN life_reads] assessment_reads [THEN life_reads] live_requests_read [THEN life_reads]

lemma life_requests:
  "changes sessions_step (create_session cfg actor c i admin)" "changes sessions_step (update_session actor i' p admin)"
  "changes sessions_step (generate_session_link cfg actor i' admin)"
  "changes sessions_step (mark_attendance actor i' u st note admin)" "changes sessions_step (check_in actor i' admin)"
  by (auto simp: create_session_def update_session_def generate_session_link_def mark_attendance_def check_in_def Let_def
      intro!: moves)

text \<open>The three requests that move a session on read its state first.\<close>

definition session_of :: "world \<Rightarrow> uuid \<Rightarrow> live_session option" where
  "session_of w i = find (\<lambda>r. ls_id r = i \<and> session_joined w r) (live_sessions w)"

lemma scan_session_simps [simp]:
  "ls_id (scan_session w s) = ls_id s" "ls_status (scan_session w s) = ls_status s"
  "ls_course_id (scan_session w s) = ls_course_id s" "ls_starts_at (scan_session w s) = ls_starts_at s"
  "ls_ends_at (scan_session w s) = ls_ends_at s" "ls_join_url (scan_session w s) = ls_join_url s"
  "ls_host_url (scan_session w s) = ls_host_url s" "ls_provider (scan_session w s) = ls_provider s"
  by (simp_all add: scan_session_def)

lemma wp_the_session:
  assumes "\<And>e f. E e (w\<lparr>faults := f\<rparr>)"
    and "\<And>s f. session_of w i = Some s \<Longrightarrow> wpre (g (scan_session w s)) Q E (w\<lparr>faults := f\<rparr>)"
  shows "wpre (andThen (sessions_get_by_id i) g) Q E w"
proof -
  have "scan_session (w\<lparr>faults := f\<rparr>) = scan_session w" "session_joined (w\<lparr>faults := f\<rparr>) = session_joined w" for f
    by (simp_all add: scan_session_def session_joined_def fun_eq_iff)
  then show ?thesis
    using assms by (auto simp: sessions_get_by_id_def session_row_def session_of_def wp pop_def split: option.split)
qed

definition status_in :: "uuid \<Rightarrow> (session_status \<Rightarrow> bool) \<Rightarrow> world \<Rightarrow> bool" where
  "status_in i P w \<longleftrightarrow> (\<forall>r \<in> set (live_sessions w). ls_id r = i \<longrightarrow> P (ls_status r))"

lemma status_in_faults [simp]: "status_in i P (w\<lparr>faults := f\<rparr>) = status_in i P w"
  by (simp add: status_in_def)

lemma session_of_status:
  assumes "sessions_ok w" and "session_of w i = Some s" and "P (ls_status s)"
  shows "status_in i P w"
  unfolding status_in_def
proof (intro ballI impI)
  fix r assume "r \<in> set (live_sessions w)" "ls_id r = i"
  with assms(1,2) have "r = s"
    using find_SomeD [of "\<lambda>r. ls_id r = i \<and> session_joined w r" "live_sessions w" s]
      distinct_key_unique [of ls_id "live_sessions w" r s]
    by (auto simp: session_of_def sessions_ok_def)
  with assms(3) show "P (ls_status r)" by simp
qed

lemma life_faults_left: "sessions_step (w\<lparr>faults := f\<rparr>) = sessions_step w"
  by (simp add: fun_eq_iff)

lemma status_written_step:
  assumes "status_in i (\<lambda>old. may_follow old st) u"
  shows "wpre (sessions_set_status i st) (\<lambda>_. sessions_step u) (\<lambda>_. sessions_step u) u"
proof -
  have step: "sessions_step v (session_set i (\<lambda>r. r\<lparr>ls_status := st\<rparr>) v)" if "live_sessions v = live_sessions u" for v
    by (rule session_updated)
      (use assms that in \<open>auto simp: session_follows_def sessions_ok_def list_all_iff status_in_def\<close>)
  have "wpre (exec_rows (session_rows i) (session_set i (\<lambda>r. r\<lparr>ls_status := st\<rparr>)) ''session not found'' ''set session status'')
      (\<lambda>_. sessions_step u) (\<lambda>_. sessions_step u) u"
    using step [of u] step [of "u\<lparr>faults := tl (faults u)\<rparr>"] by (simp add: wp_exec_rows sessions_same pop_def)
  then show ?thesis
    unfolding sessions_set_status_def by (rule life.wp_then_changes) (rule moves)
qed

lemma completed_step: "changes sessions_step (complete_session actor i' admin)"
proof (rule life.changes_wp)
  fix w
  show "wpre (complete_session actor i' admin) (\<lambda>_. sessions_step w) (\<lambda>_. sessions_step w) w"
  proof (cases "sessions_ok w")
    case True
    have "wpre (sessions_set_status i' SessionCompleted) (\<lambda>_. sessions_step w) (\<lambda>_. sessions_step w) (w\<lparr>faults := f\<rparr>)"
      if "session_of w i' = Some s" "ls_status s = SessionScheduled" for s f
      using status_written_step [of i' SessionCompleted "w\<lparr>faults := f\<rparr>"]
        session_of_status [OF True that(1), of "\<lambda>old. may_follow old SessionCompleted"] that(2) by (simp add: life_faults_left)
    then show ?thesis
      unfolding complete_session_def
      by (auto intro!: wp_the_session wp_read_then [OF live_checks_read(1)] simp: wp_guard_then sessions_same)
  qed (auto simp: sessions_step_def wpre_def split: prod.split sum.split)
qed

lemma cancelled_step: "changes sessions_step (cancel_session actor i' admin)"
proof (rule life.changes_wp)
  fix w
  show "wpre (cancel_session actor i' admin) (\<lambda>_. sessions_step w) (\<lambda>_. sessions_step w) w"
  proof (cases "sessions_ok w")
    case True
    have "wpre (sessions_set_status i' SessionCancelled) (\<lambda>_. sessions_step w) (\<lambda>_. sessions_step w) (w\<lparr>faults := f\<rparr>)"
      if "session_of w i' = Some s" "ls_status s \<noteq> SessionCompleted" for s f
    proof -
      from that(2) have "may_follow (ls_status s) SessionCancelled" by (cases "ls_status s") simp_all
      then show ?thesis
        using status_written_step [of i' SessionCancelled "w\<lparr>faults := f\<rparr>"]
          session_of_status [OF True that(1), of "\<lambda>old. may_follow old SessionCancelled"] by (simp add: life_faults_left)
    qed
    then show ?thesis
      unfolding cancel_session_def
      by (auto intro!: wp_the_session wp_read_then [OF live_checks_read(1)] simp: wp_guard_then sessions_same)
  qed (auto simp: sessions_step_def wpre_def split: prod.split sum.split)
qed

text \<open>Writing the link leaves the state of the session alone.\<close>

interpretation status_kept: world_invariant "status_in i P" for i P
  by unfold_locales (simp_all add: status_in_def)

lemma link_keeps_status: "changes (keeping (status_in i P)) (apply_generated_link cfg s)"
proof -
  have "keeping (status_in i P) w (session_set j (session_write t) w)" for w j t
    by (auto simp: keeping_def status_in_def session_set_def upd_where_def session_write_def)
  moreover have "changes (keeping (status_in i P)) (sessions_get_by_id j)" for j
    unfolding sessions_get_by_id_def by (rule status_kept.kept.changes_fetch_row)
  ultimately have "changes (keeping (status_in i P)) (sessions_update t)" for t
    unfolding sessions_update_def
    by (intro status_kept.keeps.changes_andThen status_kept.kept.changes_exec_check)
  then show ?thesis
    unfolding apply_generated_link_def
    by (auto intro: status_kept.keeps.changes_andThen status_kept.keeps.changes_ret
        status_kept.keeps.changes_raise split: sum.split)
qed

lemma published_step: "changes sessions_step (publish_session cfg actor i' admin)"
proof (rule life.changes_wp)
  fix w
  show "wpre (publish_session cfg actor i' admin) (\<lambda>_. sessions_step w) (\<lambda>_. sessions_step w) w"
  proof (cases "sessions_ok w")
    case True
    let ?P = "\<lambda>old. may_follow old SessionScheduled"
    have last: "wpre (andThen (guard c e) (\<lambda>_. sessions_set_status i' SessionScheduled)) (\<lambda>_. sessions_step w) (\<lambda>_. sessions_step w) u"
      if "status_in i' ?P u" "sessions_step w u" for c e u
    proof -
      have "wpre (sessions_set_status i' SessionScheduled) (\<lambda>_. sessions_step w) (\<lambda>_. sessions_step w) u"
        by (rule wp_mono [OF status_written_step [OF that(1)]]) (auto intro: life.R_trans [OF that(2)])
      with that(2) show ?thesis by (simp add: wp_guard_then)
    qed
    have "wpre (andThen (if d then apply_generated_link cfg t else ret t)
        (\<lambda>t. andThen (guard (ls_join_url t \<noteq> '''') e) (\<lambda>_. sessions_set_status i' SessionScheduled)))
        (\<lambda>_. sessions_step w) (\<lambda>_. sessions_step w) (w\<lparr>faults := f\<rparr>)"
      if "session_of w i' = Some s" "ls_status s = SessionDraft" for s f t d e
    proof -
      from session_of_status [OF True that(1), of ?P] that(2) have st: "status_in i' ?P (w\<lparr>faults := f\<rparr>)" by simp
      have "wpre (if d then apply_generated_link cfg t else ret t)
          (\<lambda>_ u. sessions_step w u \<and> status_in i' ?P u) (\<lambda>_ u. sessions_step w u \<and> status_in i' ?P u) (w\<lparr>faults := f\<rparr>)"
      proof (rule wp_conj)
        show "wpre (if d then apply_generated_link cfg t else ret t) (\<lambda>_. sessions_step w) (\<lambda>_. sessions_step w) (w\<lparr>faults := f\<rparr>)"
          by (rule life.wp_changes) (auto intro!: moves simp: sessions_same)
        show "wpre (if d then apply_generated_link cfg t else ret t) (\<lambda>_. status_in i' ?P) (\<lambda>_. status_in i' ?P) (w\<lparr>faults := f\<rparr>)"
          using st by (intro wp_keeping) (auto intro: link_keeps_status status_kept.keeps.changes_ret)
      qed
      then show ?thesis
        unfolding wp_andThen [of "if d then apply_generated_link cfg t else ret t"]
        by (rule wp_mono) (auto intro: last)
    qed
    then show ?thesis
      unfolding publish_session_def
      by (auto intro!: wp_the_session wp_read_then [OF live_checks_read(1)] simp: wp_guard_then sessions_same)
  qed (auto simp: sessions_step_def wpre_def split: prod.split sum.split)
qed

lemma live_run: "rtranclp (live_request cfg) w v \<Longrightarrow> sessions_step w v"
proof (induction rule: rtranclp_induct)
  case (step u v)
  from step.hyps(2) have "sessions_step u v"
    by cases (use life_requests published_step completed_step cancelled_step live_requests_read [THEN life_reads]
        in \<open>auto simp: changes_def\<close>)
  with step.IH show ?case by (rule life.R_trans)
qed (rule life.R_refl)

section \<open>Links and doors\<close>

text \<open>Who manages the sessions of the course, and who attends them while they are open.\<close>

definition hosts :: "world \<Rightarrow> uuid \<Rightarrow> bool \<Rightarrow> live_session \<Rightarrow> bool" where
  "hosts w u admin s \<longleftrightarrow> admin \<or> teaches w u (ls_course_id s)"

definition attends :: "world \<Rightarrow> uuid \<Rightarrow> live_session \<Rightarrow> bool" where
  "attends w u s \<longleftrightarrow> ls_status s = SessionScheduled \<and> enrolled_active w u (ls_course_id s)"

lemma join_answer:
  assumes "join_session actor i admin w = (Inr j, v)"
  obtains s where "session_of w i = Some s" and "hosts w actor admin s \<or> attends w actor s"
    and "ji_join_url j = ls_join_url s" and "ji_host_url j \<noteq> '''' \<Longrightarrow> hosts w actor admin s"
proof -
  let ?ok = "\<lambda>j s. (hosts w actor admin s \<or> attends w actor s) \<and> ji_join_url j = ls_join_url s
      \<and> (ji_host_url j \<noteq> '''' \<longrightarrow> hosts w actor admin s)"
  have "wpre (join_session actor i admin) (\<lambda>j _. \<exists>s. session_of w i = Some s \<and> ?ok j s) (\<lambda>_ _. True) w"
    unfolding join_session_def
    by (rule wp_the_session, simp, rule wp_course)
      (auto simp: Let_def hosts_def attends_def teaches_def andThen_assoc andThen_ret wp_guard_then wp_ret
        intro!: wp_active_enrollment)
  with assms that show thesis by (auto simp: wpre_def)
qed

text \<open>A learner sees no link in the answers of \<open>Get\<close> and \<open>ListByCourse\<close>.\<close>

abbreviation linkless :: "live_session \<Rightarrow> bool" where
  "linkless s \<equiv> ls_join_url s = '''' \<and> ls_host_url s = '''' \<and> ls_external_id s = '''' \<and> ls_metadata s = Map.empty"

lemma learner_gets_linkless:
  assumes "get_session actor i False w = (Inr s, v)" and "session_of w i = Some r" "\<not> teaches w actor (ls_course_id r)"
  shows "linkless s"
proof -
  have "wpre (get_session actor i False) (\<lambda>s _. linkless s) (\<lambda>_ _. True) w"
    unfolding get_session_def
    by (rule wp_the_session, simp, rule wp_course)
      (use assms(2,3) in \<open>auto simp: teaches_def strip_session_links_def wp_ret
        intro!: wp_read_then [OF live_checks_read(2)]\<close>)
  with assms(1) show ?thesis by (simp add: wpre_def)
qed

lemma learner_lists_linkless:
  assumes "list_course_sessions actor c False w = (Inr ss, v)" and "\<not> teaches w actor c"
  shows "\<forall>s \<in> set ss. linkless s \<and> ls_status s \<in> {SessionScheduled, SessionCompleted}"
proof -
  have "wpre (list_course_sessions actor c False)
      (\<lambda>ss _. \<forall>s \<in> set ss. linkless s \<and> ls_status s \<in> {SessionScheduled, SessionCompleted}) (\<lambda>_ _. True) w"
    unfolding list_course_sessions_def
    by (rule wp_course_start)
      (use assms(2) in \<open>auto simp: teaches_def strip_session_links_def wp_ret
        intro!: wp_read_then [OF live_reads(2)] wp_active_enrollment\<close>)
  with assms(1) show ?thesis by (simp add: wpre_def)
qed

text \<open>A check-in writes the row of the session and the learner from the clock alone, whatever stood there.\<close>

definition attendance_of :: "world \<Rightarrow> uuid \<Rightarrow> uuid \<Rightarrow> attendance option" where
  "attendance_of w i u = find (of_session_user i u) (attendances w)"

definition checked_in :: "live_session \<Rightarrow> time \<Rightarrow> attendance \<Rightarrow> bool" where
  "checked_in s now a \<longleftrightarrow> sa_status a = check_in_status s now \<and> sa_joined_at a = Some now \<and> sa_left_at a = None
     \<and> sa_marked_by a = None \<and> sa_note a = ''''"

lemma attendance_upserted:
  "wpre (attendance_upsert a) (\<lambda>_ v. \<exists>r. attendance_of v (sa_session_id a) (sa_user_id a) = Some r
      \<and> sa_status r = sa_status a \<and> (sa_joined_at a \<noteq> None \<longrightarrow> sa_joined_at r = sa_joined_at a) \<and> sa_left_at r = sa_left_at a
      \<and> sa_marked_by r = sa_marked_by a \<and> sa_note r = sa_note a) (\<lambda>_ _. True) w"
proof (cases "attendance_of w (sa_session_id a) (sa_user_id a)")
  case None
  then show ?thesis
    by (simp add: attendance_upsert_def wp attendance_of_def find_there find_append blank_attendance_joins_def
        of_session_user_def split: option.split)
next
  case (Some r)
  have "of_session_user i u (attendance_write a t r) = of_session_user i u r" for i u t r
    by (simp add: of_session_user_def attendance_write_def)
  moreover from Some have "of_session_user (sa_session_id a) (sa_user_id a) r"
    unfolding attendance_of_def by (blast dest: find_SomeD)
  ultimately show ?thesis
    using Some by (simp add: attendance_upsert_def wp attendance_of_def find_there find_upd_where attendance_write_def
        split: option.split)
qed

definition checked_in_at :: "world \<Rightarrow> uuid \<Rightarrow> uuid \<Rightarrow> live_session \<Rightarrow> time \<Rightarrow> bool" where
  "checked_in_at v i u s now \<longleftrightarrow> in_window s now \<and> (\<exists>r. attendance_of v i u = Some r \<and> checked_in s now r)"

lemma wp_checked_in:
  "wpre (andThen (asks clock) (\<lambda>now. andThen (guard (in_window s now) e)
      (\<lambda>_. andThen (attendance_upsert (new_attendance i u (check_in_status s now) (Some now) None ''''))
        (\<lambda>_. attendance_get i u)))) (\<lambda>_ v. checked_in_at v i u s (clock w)) (\<lambda>_ _. True) (w\<lparr>faults := f\<rparr>)"
proof -
  have read: "wpre (attendance_get i u) (\<lambda>_ v. checked_in_at v i u s now) (\<lambda>_ _. True) v" if "checked_in_at v i u s now" for v now
    using that by (intro wp_reads live_reads(4)) (auto simp: checked_in_at_def attendance_of_def)
  have "wpre (attendance_upsert (new_attendance i u (check_in_status s now) (Some now) None ''''))
      (\<lambda>_ v. checked_in_at v i u s now) (\<lambda>_ _. True) v" if "in_window s now" for v now
    by (rule wp_mono [OF attendance_upserted])
      (use that in \<open>auto simp: checked_in_at_def new_attendance_def checked_in_def\<close>)
  then show ?thesis
    unfolding wp_asks_then wp_guard_then wp_andThen [of "attendance_upsert _"]
    by (simp, blast intro: wp_mono read)
qed

lemma checked_in_row:
  assumes "check_in actor i admin w = (Inr a, v)"
  obtains s where "session_of w i = Some s" and "hosts w actor admin s \<or> attends w actor s" and "checked_in_at v i actor s (clock w)"
proof -
  have window: "in_window (scan_session w s) = in_window s" "check_in_status (scan_session w s) = check_in_status s" for s
    by (simp_all add: fun_eq_iff in_window_def check_in_status_def)
  have "wpre (check_in actor i admin) (\<lambda>_ v. \<exists>s. session_of w i = Some s \<and> (hosts w actor admin s \<or> attends w actor s)
      \<and> checked_in_at v i actor s (clock w)) (\<lambda>_ _. True) w"
    unfolding check_in_def
    by (rule wp_the_session, simp, rule wp_course)
      (auto simp: window hosts_def attends_def teaches_def andThen_assoc andThen_ret wp_guard_then
        intro!: wp_active_enrollment wp_checked_in)
  with assms that show thesis by (auto simp: wpre_def)
qed

section \<open>The calendar of a deleted course\<close>

text \<open>
  The query of the calendar joins the courses without their deletion mark, and the handler then asks for
  each course of the page: one session of a deleted course hides the whole page.
\<close>

definition calendar_rows :: "world \<Rightarrow> calendar_filter \<Rightarrow> live_session list" where
  "calendar_rows w f = page_of (calendar_page (cal_page f)) (calendar_per_page (cal_per_page f))
     (sort_key ls_starts_at (filter (on_calendar w f) (live_sessions w)))"

lemma course_quiet: "quiet w \<Longrightarrow> courses_get_by_id c w =
    (case live_course w c of None \<Rightarrow> Inl (not_found ''course not found'') | Some co \<Rightarrow> Inr co, w)"
  by (simp add: courses_get_by_id_eq fetch_row_def split: option.split)

lemma map_each_stops:
  assumes "\<And>x. x \<in> set xs \<Longrightarrow> f x w = (Inl e, w) \<or> (\<exists>y. f x w = (Inr y, w))" and "x \<in> set xs" "f x w = (Inl e, w)"
  shows "map_each xs f w = (Inl e, w)"
  using assms
proof (induction xs)
  case (Cons a xs)
  from Cons.prems(1) [of a] consider "f a w = (Inl e, w)" | y where "f a w = (Inr y, w)" by auto
  then show ?case
  proof cases
    case 1
    then show ?thesis by (simp add: andThen_def)
  next
    case (2 y)
    with Cons.prems(2,3) have "x \<in> set xs" by auto
    with Cons have "map_each xs f w = (Inl e, w)" by simp
    with 2 show ?thesis by (simp add: andThen_def)
  qed
qed simp

lemma calendar_hidden:
  assumes "quiet w" and "from_t \<le> to_t" "to_t - from_t \<le> 366 * 24 * 3600"
    and "s \<in> set (calendar_rows w \<lparr>cal_from = from_t, cal_to = to_t, cal_user_id = actor, cal_admin = False,
      cal_page = page, cal_per_page = per\<rparr>)" and "live_course w (ls_course_id s) = None"
  shows "list_calendar actor from_t to_t page per False w = (Inl (not_found ''course not found''), w)"
proof -
  let ?rows = "calendar_rows w \<lparr>cal_from = from_t, cal_to = to_t, cal_user_id = actor, cal_admin = False,
      cal_page = page, cal_per_page = per\<rparr>"
  have item: "calendar_item actor r w = (case live_course w (ls_course_id r) of None \<Rightarrow> (Inl (not_found ''course not found''), w)
      | Some co \<Rightarrow> (Inr (if co_teacher_id co = actor then r else strip_session_links r), w))" for r
    using course_quiet [OF assms(1)] by (simp add: calendar_item_def andThen_def ret_def split: option.split)
  have "map_each (map (scan_session w) ?rows) (calendar_item actor) w = (Inl (not_found ''course not found''), w)"
  proof (rule map_each_stops)
    show "scan_session w s \<in> set (map (scan_session w) ?rows)" using assms(4) by simp
  qed (use assms(5) in \<open>auto simp: item split: option.split\<close>)
  with assms(1-3) show ?thesis
    by (simp add: list_calendar_def sessions_list_calendar_def calendar_rows_def guard_def ret_def andThen_def fetch_val_def)
qed

end
