(* ===== verification/CommunicationRepo.thy ===== *)
theory CommunicationRepo
  imports CurriculumRepo EnrollmentRepo
begin

text \<open>
  The repositories of \<open>internal/repository/postgres/communication.go\<close>: announcements, discussion threads and
  posts, conversations and their messages, and the notification outbox. Some of their methods return the
  error of the driver as it is. The rows of a query joined with the author are read only when the author
  exists. Deleting a post deletes the replies to it, and theirs (\<open>ON DELETE CASCADE\<close>).
\<close>

section \<open>Statements whose errors are not wrapped\<close>

definition fetch_raw :: "(world \<Rightarrow> 'a) \<Rightarrow> 'a act" where
  "fetch_raw sel = (\<lambda>w.
     if down w then (Inl (DriverError st_connection), pop w) else (Inr (sel (pop w)), pop w))"

definition exec_raw :: "(world \<Rightarrow> nat) \<Rightarrow> (world \<Rightarrow> world) \<Rightarrow> nat act" where
  "exec_raw affected change = (\<lambda>w.
     if down w then (Inl (DriverError st_connection), pop w) else (Inr (affected (pop w)), change (pop w)))"

text \<open>\<open>_ = m\<close>: whatever the operation returns is dropped.\<close>

definition ignoring :: "'a act \<Rightarrow> unit act" where
  "ignoring m = orElse (andThen m (\<lambda>_. ret ())) (\<lambda>_. ret ())"

lemma wp_fetch_raw [wp]:
  "wpre (fetch_raw sel) Q E w = (if down w then E (DriverError st_connection) (pop w) else Q (sel (pop w)) (pop w))"
  by (simp add: wpre_def fetch_raw_def)

lemma wp_exec_raw [wp]:
  "wpre (exec_raw affected change) Q E w =
     (if down w then E (DriverError st_connection) (pop w) else Q (affected (pop w)) (change (pop w)))"
  by (simp add: wpre_def exec_raw_def)

lemma wp_ignoring [wp]: "wpre (ignoring m) Q E w = wpre m (\<lambda>_. Q ()) (\<lambda>_. Q ()) w"
  by (simp add: ignoring_def wpre_def andThen_def orElse_def ret_def split: prod.split sum.split)

lemma read_only_raw [moves]: "changes read_only (fetch_raw sel)"
  by (simp add: changes_def fetch_raw_def read_only_def pop_def)

context world_order begin

lemma changes_ignoring [moves]: "changes R m \<Longrightarrow> changes R (ignoring m)"
  unfolding ignoring_def by (intro changes_orElse changes_andThen changes_ret)

lemma changes_fetch_raw [moves]: "changes R (fetch_raw sel)"
  by (auto simp: changes_def fetch_raw_def R_pop)

lemma changes_exec_raw: "(\<And>w. R w (change w)) \<Longrightarrow> changes R (exec_raw affected change)"
  by (auto simp: changes_def exec_raw_def R_pop intro: R_trans [OF R_pop])

end

section \<open>Announcements\<close>

definition scan_announcement :: "world \<Rightarrow> announcement \<Rightarrow> announcement" where
  "scan_announcement w a = a\<lparr>ann_author_name := user_name_of w (ann_author_id a)\<rparr>"

definition announcement_violation :: "announcement \<Rightarrow> world \<Rightarrow> bool \<Rightarrow> bool \<Rightarrow> string option" where
  "announcement_violation a w uniq fk = violation True (sql_nonblank (ann_title a)) uniq fk"

definition announcements_create :: "announcement \<Rightarrow> announcement act" where
  "announcements_create a = insert_row
     (\<lambda>w. announcement_violation a w (pk_free (map ann_id (course_announcements w)) w)
            (has_course w (ann_course_id a) \<and> has_user w (ann_author_id a)))
     (\<lambda>w. a\<lparr>ann_id := fresh_uuid w, ann_created_at := clock w, ann_updated_at := clock w\<rparr>)
     (\<lambda>r w. w\<lparr>course_announcements := course_announcements w @ [r]\<rparr>)
     DriverError"

definition announcements_get_by_id :: "uuid \<Rightarrow> announcement act" where
  "announcements_get_by_id i = fetch_row
     (\<lambda>w. map_option (scan_announcement w)
        (find (\<lambda>r. ann_id r = i \<and> has_user w (ann_author_id r)) (course_announcements w)))
     ''announcement not found'' ''get announcement''"

text \<open>\<open>ORDER BY pinned DESC, COALESCE(published_at, created_at) DESC\<close>.\<close>

definition announced_at :: "announcement \<Rightarrow> time" where
  "announced_at a = (case ann_published_at a of None \<Rightarrow> ann_created_at a | Some t \<Rightarrow> t)"

definition announcements_list_by_course :: "uuid \<Rightarrow> bool \<Rightarrow> announcement list act" where
  "announcements_list_by_course c drafts = fetch_val
     (\<lambda>w. map (scan_announcement w) (order_desc (\<lambda>r. if ann_pinned r then 1 else 0) (order_desc announced_at
        (filter (\<lambda>r. ann_course_id r = c \<and> has_user w (ann_author_id r)
           \<and> (drafts \<or> ann_status r = AnnouncementPublished)) (course_announcements w)))))
     ''list announcements''"

definition announcement_draft :: "uuid \<Rightarrow> announcement \<Rightarrow> bool" where
  "announcement_draft i r \<longleftrightarrow> ann_id r = i \<and> ann_status r = AnnouncementDraft"

definition announcement_set :: "(announcement \<Rightarrow> bool) \<Rightarrow> (announcement \<Rightarrow> announcement) \<Rightarrow> world \<Rightarrow> world" where
  "announcement_set p f w = w\<lparr>course_announcements := upd_where p
     (\<lambda>r. (f r)\<lparr>ann_updated_at := clock w\<rparr>) (course_announcements w)\<rparr>"

definition announcements_update :: "announcement \<Rightarrow> announcement act" where
  "announcements_update a =
     andThen (exec_count (\<lambda>w. cnt (announcement_draft (ann_id a)) (course_announcements w))
       (\<lambda>w. if list_ex (announcement_draft (ann_id a)) (course_announcements w)
          then announcement_violation a w True True else None)
       (announcement_set (announcement_draft (ann_id a))
          (\<lambda>r. r\<lparr>ann_title := ann_title a, ann_body := ann_body a, ann_pinned := ann_pinned a\<rparr>))
       ''update announcement'') (\<lambda>n.
     andThen (guard (n \<noteq> 0) (validation ''only draft announcements can be edited'')) (\<lambda>_.
     announcements_get_by_id (ann_id a)))"

definition announcements_set_status :: "uuid \<Rightarrow> announcement_status \<Rightarrow> unit act" where
  "announcements_set_status i st = exec_rows
     (\<lambda>w. cnt (\<lambda>r. ann_id r = i) (course_announcements w))
     (\<lambda>w. announcement_set (\<lambda>r. ann_id r = i) (\<lambda>r. r\<lparr>ann_status := st,
        ann_published_at := (if st = AnnouncementPublished then Some (clock w) else ann_published_at r)\<rparr>) w)
     ''announcement not found'' ''set announcement status''"

definition announcements_delete :: "uuid \<Rightarrow> unit act" where
  "announcements_delete i = exec_rows
     (\<lambda>w. cnt (\<lambda>r. ann_id r = i) (course_announcements w))
     (\<lambda>w. w\<lparr>course_announcements := filter (\<lambda>r. ann_id r \<noteq> i) (course_announcements w)\<rparr>)
     ''announcement not found'' ''delete announcement''"

section \<open>Threads\<close>

definition scan_thread :: "world \<Rightarrow> discussion_thread \<Rightarrow> discussion_thread" where
  "scan_thread w t = t\<lparr>dt_author_name := user_name_of w (dt_author_id t),
     dt_post_count := int (cnt (\<lambda>p. dp_thread_id p = dt_id t) (discussion_posts w))\<rparr>"

definition threads_create :: "discussion_thread \<Rightarrow> discussion_thread act" where
  "threads_create t = insert_row
     (\<lambda>w. violation True (sql_nonblank (dt_title t)) (pk_free (map dt_id (discussion_threads w)) w)
            (has_course w (dt_course_id t) \<and> has_user w (dt_author_id t)))
     (\<lambda>w. t\<lparr>dt_id := fresh_uuid w, dt_created_at := clock w, dt_updated_at := clock w\<rparr>)
     (\<lambda>r w. w\<lparr>discussion_threads := discussion_threads w @ [r]\<rparr>)
     DriverError"

definition threads_get_by_id :: "uuid \<Rightarrow> discussion_thread act" where
  "threads_get_by_id i = fetch_row
     (\<lambda>w. map_option (scan_thread w) (find (\<lambda>r. dt_id r = i \<and> has_user w (dt_author_id r)) (discussion_threads w)))
     ''thread not found'' ''get thread''"

definition threads_list_by_course :: "uuid \<Rightarrow> discussion_thread list act" where
  "threads_list_by_course c = fetch_val
     (\<lambda>w. map (scan_thread w) (order_desc dt_updated_at
        (filter (\<lambda>r. dt_course_id r = c \<and> has_user w (dt_author_id r)) (discussion_threads w))))
     ''list threads''"

definition thread_set :: "(discussion_thread \<Rightarrow> bool) \<Rightarrow> (discussion_thread \<Rightarrow> discussion_thread) \<Rightarrow> world \<Rightarrow> world" where
  "thread_set p f w = w\<lparr>discussion_threads := upd_where p
     (\<lambda>r. (f r)\<lparr>dt_updated_at := clock w\<rparr>) (discussion_threads w)\<rparr>"

definition threads_update :: "discussion_thread \<Rightarrow> discussion_thread act" where
  "threads_update t =
     (let p = (\<lambda>r. dt_id r = dt_id t \<and> dt_author_id r = dt_author_id t)
      in andThen (exec_count (\<lambda>w. cnt p (discussion_threads w))
           (\<lambda>w. if list_ex p (discussion_threads w) then violation True (sql_nonblank (dt_title t)) True True else None)
           (thread_set p (\<lambda>r. r\<lparr>dt_title := dt_title t\<rparr>)) ''update thread'') (\<lambda>n.
         andThen (guard (n \<noteq> 0) (forbidden ''only the author can edit the thread title'')) (\<lambda>_.
         threads_get_by_id (dt_id t))))"

definition threads_set_status :: "uuid \<Rightarrow> thread_status \<Rightarrow> discussion_thread act" where
  "threads_set_status i st =
     andThen (exec_rows (\<lambda>w. cnt (\<lambda>r. dt_id r = i) (discussion_threads w))
       (thread_set (\<lambda>r. dt_id r = i) (\<lambda>r. r\<lparr>dt_status := st\<rparr>)) ''thread not found'' ''set thread status'') (\<lambda>_.
     threads_get_by_id i)"

section \<open>Posts\<close>

definition scan_post :: "world \<Rightarrow> discussion_post \<Rightarrow> discussion_post" where
  "scan_post w p = p\<lparr>dp_author_name := user_name_of w (dp_author_id p)\<rparr>"

text \<open>The parent of a post is any post: the foreign key does not look at its thread.\<close>

definition post_parent_known :: "world \<Rightarrow> discussion_post \<Rightarrow> bool" where
  "post_parent_known w p \<longleftrightarrow> (case dp_parent_id p of None \<Rightarrow> True | Some q \<Rightarrow> q \<in> set (map dp_id (discussion_posts w)))"

definition posts_insert :: "discussion_post \<Rightarrow> discussion_post act" where
  "posts_insert p = insert_row
     (\<lambda>w. violation True (sql_nonblank (dp_body p)) (pk_free (map dp_id (discussion_posts w)) w)
            (dp_thread_id p \<in> set (map dt_id (discussion_threads w)) \<and> has_user w (dp_author_id p) \<and> post_parent_known w p))
     (\<lambda>w. p\<lparr>dp_id := fresh_uuid w, dp_created_at := clock w, dp_updated_at := clock w\<rparr>)
     (\<lambda>r w. w\<lparr>discussion_posts := discussion_posts w @ [r]\<rparr>)
     (\<lambda>st. WrapError ''create post'' (DriverError st))"

definition posts_create :: "discussion_post \<Rightarrow> discussion_post act" where
  "posts_create p =
     andThen (posts_insert p) (\<lambda>r.
     andThen (ignoring (exec_raw (\<lambda>w. cnt (\<lambda>t. dt_id t = dp_thread_id p) (discussion_threads w))
       (thread_set (\<lambda>t. dt_id t = dp_thread_id p) (\<lambda>t. t)))) (\<lambda>_.
     ret r))"

definition posts_get_by_id :: "uuid \<Rightarrow> discussion_post act" where
  "posts_get_by_id i = fetch_row
     (\<lambda>w. map_option (scan_post w) (find (\<lambda>r. dp_id r = i \<and> has_user w (dp_author_id r)) (discussion_posts w)))
     ''post not found'' ''get post''"

definition posts_list_by_thread :: "uuid \<Rightarrow> discussion_post list act" where
  "posts_list_by_thread t = fetch_val
     (\<lambda>w. map (scan_post w) (sort_key dp_created_at
        (filter (\<lambda>r. dp_thread_id r = t \<and> has_user w (dp_author_id r)) (discussion_posts w))))
     ''list posts''"

definition posts_update :: "discussion_post \<Rightarrow> discussion_post act" where
  "posts_update p =
     (let own = (\<lambda>r. dp_id r = dp_id p \<and> dp_author_id r = dp_author_id p)
      in andThen (exec_count (\<lambda>w. cnt own (discussion_posts w))
           (\<lambda>w. if list_ex own (discussion_posts w) then violation True (sql_nonblank (dp_body p)) True True else None)
           (\<lambda>w. w\<lparr>discussion_posts := upd_where own
              (\<lambda>r. r\<lparr>dp_body := dp_body p, dp_updated_at := clock w\<rparr>) (discussion_posts w)\<rparr>) ''update post'') (\<lambda>n.
         andThen (guard (n \<noteq> 0) (forbidden ''only the author can edit this post'')) (\<lambda>_.
         posts_get_by_id (dp_id p))))"

text \<open>The posts below a set of posts: replies are added until there are no new ones.\<close>

definition replies :: "discussion_post list \<Rightarrow> uuid list \<Rightarrow> discussion_post list" where
  "replies ps ids = filter (\<lambda>r. dp_id r \<notin> set ids \<and> (case dp_parent_id r of None \<Rightarrow> False | Some q \<Rightarrow> q \<in> set ids)) ps"

function posts_below :: "discussion_post list \<Rightarrow> uuid list \<Rightarrow> uuid list" where
  "posts_below ps ids =
     (if replies ps ids = [] then ids else posts_below ps (ids @ map dp_id (replies ps ids)))"
  by pat_completeness auto

termination
proof (relation "measure (\<lambda>(ps, ids). card (dp_id ` set ps - set ids))", goal_cases)
  case (2 ps ids)
  then obtain r where r: "r \<in> set (replies ps ids)" by (cases "replies ps ids") auto
  then have "dp_id r \<in> dp_id ` set ps - set ids" by (auto simp: replies_def)
  moreover have "dp_id r \<notin> dp_id ` set ps - set (ids @ map dp_id (replies ps ids))" using r by simp
  ultimately have "dp_id ` set ps - set (ids @ map dp_id (replies ps ids)) \<subset> dp_id ` set ps - set ids" by auto
  then show ?case by (simp add: psubset_card_mono)
qed simp

declare posts_below.simps [simp del]

definition posts_delete :: "uuid \<Rightarrow> unit act" where
  "posts_delete i = exec_rows
     (\<lambda>w. cnt (\<lambda>r. dp_id r = i) (discussion_posts w))
     (\<lambda>w. w\<lparr>discussion_posts := filter (\<lambda>r. dp_id r \<notin> set (posts_below (discussion_posts w) [i])) (discussion_posts w)\<rparr>)
     ''post not found'' ''delete post''"

text \<open>\<open>SELECT DISTINCT\<close>, in an order the query leaves open.\<close>

definition posts_list_participant_ids :: "uuid \<Rightarrow> uuid list act" where
  "posts_list_participant_ids t = fetch_raw
     (\<lambda>w. remdups (map dp_author_id (filter (\<lambda>r. dp_thread_id r = t) (discussion_posts w))))"

section \<open>Conversations and messages\<close>

definition order_pair :: "uuid \<Rightarrow> uuid \<Rightarrow> uuid \<times> uuid" where
  "order_pair a b = (if a < b then (a, b) else (b, a))"

definition of_pair :: "uuid \<Rightarrow> uuid \<Rightarrow> dm_conversation \<Rightarrow> bool" where
  "of_pair a b r \<longleftrightarrow> dc_user_a r = a \<and> dc_user_b r = b"

definition conversation_touch :: "(dm_conversation \<Rightarrow> bool) \<Rightarrow> world \<Rightarrow> world" where
  "conversation_touch p w = w\<lparr>dm_conversations := upd_where p (\<lambda>r. r\<lparr>dc_updated_at := clock w\<rparr>) (dm_conversations w)\<rparr>"

definition new_conversation :: "uuid \<Rightarrow> uuid \<Rightarrow> dm_conversation" where
  "new_conversation a b = \<lparr>dc_id = '''', dc_user_a = a, dc_user_b = b, dc_created_at = 0, dc_updated_at = 0,
     dc_other_id = '''', dc_other_name = '''', dc_last_message = '''', dc_unread = 0\<rparr>"

text \<open>The update on a conflict sets the column to itself, and the trigger sets it to the time of the update.\<close>

definition conversations_get_or_create :: "uuid \<Rightarrow> uuid \<Rightarrow> dm_conversation act" where
  "conversations_get_or_create u v = (case order_pair u v of (a, b) \<Rightarrow> (\<lambda>w.
     case find (of_pair a b) (dm_conversations w) of
       Some c \<Rightarrow> (if down w then (Inl (WrapError ''get or create conversation'' (DriverError st_connection)), pop w)
                  else (Inr (c\<lparr>dc_updated_at := clock w\<rparr>), conversation_touch (of_pair a b) (pop w)))
     | None \<Rightarrow> insert_row
         (\<lambda>w. violation True (a \<noteq> b) (pk_free (map dc_id (dm_conversations w)) w) (has_user w a \<and> has_user w b))
         (\<lambda>w. (new_conversation a b)\<lparr>dc_id := fresh_uuid w, dc_created_at := clock w, dc_updated_at := clock w\<rparr>)
         (\<lambda>r w. w\<lparr>dm_conversations := dm_conversations w @ [r]\<rparr>)
         (\<lambda>st. WrapError ''get or create conversation'' (DriverError st)) w))"

definition conversations_get_by_id :: "uuid \<Rightarrow> dm_conversation act" where
  "conversations_get_by_id i = fetch_row (\<lambda>w. find (\<lambda>r. dc_id r = i) (dm_conversations w))
     ''conversation not found'' ''get conversation''"

definition other_of :: "uuid \<Rightarrow> dm_conversation \<Rightarrow> uuid" where
  "other_of u c = (if dc_user_a c = u then dc_user_b c else dc_user_a c)"

definition scan_conversation :: "world \<Rightarrow> uuid \<Rightarrow> dm_conversation \<Rightarrow> dm_conversation" where
  "scan_conversation w u c =
     (let ms = filter (\<lambda>m. dm_conversation_id m = dc_id c) (dm_messages w)
      in c\<lparr>dc_other_id := other_of u c, dc_other_name := user_name_of w (other_of u c),
           dc_last_message := (case order_desc dm_created_at ms of [] \<Rightarrow> '''' | m # _ \<Rightarrow> dm_body m),
           dc_unread := int (cnt (\<lambda>m. dm_sender_id m \<noteq> u \<and> dm_read_at m = None) ms)\<rparr>)"

definition conversations_list_for_user :: "uuid \<Rightarrow> dm_conversation list act" where
  "conversations_list_for_user u = fetch_val
     (\<lambda>w. map (scan_conversation w u) (order_desc dc_updated_at
        (filter (\<lambda>c. dc_user_a c = u \<or> dc_user_b c = u) (dm_conversations w))))
     ''list conversations''"

definition messages_insert :: "dm_message \<Rightarrow> dm_message act" where
  "messages_insert m = insert_row
     (\<lambda>w. violation True (sql_nonblank (dm_body m)) (pk_free (map dm_id (dm_messages w)) w)
            (dm_conversation_id m \<in> set (map dc_id (dm_conversations w)) \<and> has_user w (dm_sender_id m)))
     (\<lambda>w. m\<lparr>dm_id := fresh_uuid w, dm_created_at := clock w\<rparr>)
     (\<lambda>r w. w\<lparr>dm_messages := dm_messages w @ [r]\<rparr>)
     (\<lambda>st. WrapError ''create message'' (DriverError st))"

definition messages_create :: "dm_message \<Rightarrow> dm_message act" where
  "messages_create m =
     andThen (messages_insert m) (\<lambda>r.
     andThen (ignoring (exec_raw (\<lambda>w. cnt (\<lambda>c. dc_id c = dm_conversation_id m) (dm_conversations w))
       (conversation_touch (\<lambda>c. dc_id c = dm_conversation_id m)))) (\<lambda>_.
     ret r))"

text \<open>The limit is normalised, the offset is not; PostgreSQL refuses a negative one.\<close>

definition message_limit :: "int \<Rightarrow> int" where
  "message_limit n = (if n \<le> 0 then 50 else if 200 < n then 200 else n)"

definition st_offset :: string where "st_offset = ''2201X''"

definition messages_in :: "world \<Rightarrow> uuid \<Rightarrow> dm_message list" where
  "messages_in w c = sort_key dm_created_at (filter (\<lambda>m. dm_conversation_id m = c) (dm_messages w))"

definition messages_list_by_conversation :: "uuid \<Rightarrow> int \<Rightarrow> int \<Rightarrow> (dm_message list \<times> nat) act" where
  "messages_list_by_conversation c limit offset =
     andThen (fetch_raw (\<lambda>w. cnt (\<lambda>m. dm_conversation_id m = c) (dm_messages w))) (\<lambda>total.
     andThen (fetch_val (\<lambda>w. take (nat (message_limit limit)) (drop (nat offset) (messages_in w c))) ''list messages'') (\<lambda>rows.
     andThen (guard (0 \<le> offset) (WrapError ''list messages'' (DriverError st_offset))) (\<lambda>_.
     ret (rows, total))))"

definition messages_mark_read :: "uuid \<Rightarrow> uuid \<Rightarrow> unit act" where
  "messages_mark_read c reader =
     (let p = (\<lambda>m. dm_conversation_id m = c \<and> dm_sender_id m \<noteq> reader \<and> dm_read_at m = None)
      in andThen (exec_raw (\<lambda>w. cnt p (dm_messages w))
           (\<lambda>w. w\<lparr>dm_messages := upd_where p (\<lambda>m. m\<lparr>dm_read_at := Some (clock w)\<rparr>) (dm_messages w)\<rparr>)) (\<lambda>_. ret ()))"

section \<open>The notification outbox\<close>

definition notifications_enqueue :: "notification \<Rightarrow> notification act" where
  "notifications_enqueue n = insert_row
     (\<lambda>w. violation True True (pk_free (map nt_id (notification_outbox w)) w) (has_user w (nt_user_id n)))
     (\<lambda>w. n\<lparr>nt_id := fresh_uuid w, nt_created_at := clock w, nt_read_at := None,
        nt_sent_at := (if nt_status n = NotificationSent then Some (clock w) else None)\<rparr>)
     (\<lambda>r w. w\<lparr>notification_outbox := notification_outbox w @ [r]\<rparr>)
     DriverError"

record notification_filter =
  nf_unread_only :: bool
  nf_page :: int
  nf_per_page :: int

definition notification_per_page :: "int \<Rightarrow> int" where
  "notification_per_page n = (if n \<le> 0 then 20 else if 100 < n then 100 else n)"

definition in_app_of :: "uuid \<Rightarrow> notification \<Rightarrow> bool" where
  "in_app_of u n \<longleftrightarrow> nt_user_id n = u \<and> nt_channel n = ChannelInApp"

definition notifications_list_for_user :: "uuid \<Rightarrow> notification_filter \<Rightarrow> (notification list \<times> nat) act" where
  "notifications_list_for_user u f =
     (let p = (\<lambda>n. in_app_of u n \<and> (nf_unread_only f \<longrightarrow> nt_read_at n = None))
      in andThen (fetch_raw (\<lambda>w. cnt p (notification_outbox w))) (\<lambda>total.
         andThen (fetch_val (\<lambda>w. page_of (if nf_page f \<le> 0 then 1 else nf_page f) (notification_per_page (nf_per_page f))
              (order_desc nt_created_at (filter p (notification_outbox w)))) ''list notifications'') (\<lambda>rows.
         ret (rows, total))))"

definition notifications_get_by_id :: "uuid \<Rightarrow> uuid \<Rightarrow> notification act" where
  "notifications_get_by_id i u = fetch_row (\<lambda>w. find (\<lambda>n. nt_id n = i \<and> nt_user_id n = u) (notification_outbox w))
     ''notification not found'' ''get notification''"

definition notification_read :: "(notification \<Rightarrow> bool) \<Rightarrow> world \<Rightarrow> world" where
  "notification_read p w = w\<lparr>notification_outbox := upd_where p (\<lambda>n. n\<lparr>nt_read_at := Some (clock w)\<rparr>) (notification_outbox w)\<rparr>"

definition notifications_mark_read :: "uuid \<Rightarrow> uuid \<Rightarrow> unit act" where
  "notifications_mark_read i u =
     (let p = (\<lambda>n. nt_id n = i \<and> in_app_of u n)
      in andThen (exec_raw (\<lambda>w. cnt p (notification_outbox w)) (notification_read p)) (\<lambda>n.
         guard (n \<noteq> 0) (not_found ''notification not found'')))"

definition notifications_mark_all_read :: "uuid \<Rightarrow> unit act" where
  "notifications_mark_all_read u =
     (let p = (\<lambda>n. in_app_of u n \<and> nt_read_at n = None)
      in andThen (exec_raw (\<lambda>w. cnt p (notification_outbox w)) (notification_read p)) (\<lambda>_. ret ()))"

end
