(* ===== verification/Communication.thy ===== *)
theory Communication
  imports CommunicationRepo Progress UserRepo
begin

text \<open>
  The outbox writer (\<open>internal/notify/outbox.go\<close>) and \<open>CommunicationService\<close>
  (\<open>internal/service/communication.go\<close>). Notifications are best effort: their errors are dropped. A row
  that is read back without looking at the error is a nil pointer when the read failed, and using it panics.
\<close>

section \<open>The outbox\<close>

definition outbox_entry ::
  "notification_channel \<Rightarrow> notification_status \<Rightarrow> uuid \<Rightarrow> string \<Rightarrow> string \<Rightarrow> string \<Rightarrow> (string \<rightharpoonup> string) \<Rightarrow> notification" where
  "outbox_entry ch st u ev subject body payload = \<lparr>nt_id = '''', nt_user_id = u, nt_channel = ch, nt_event_type = ev,
     nt_subject = subject, nt_body = body, nt_payload = payload, nt_status = st, nt_read_at = None, nt_created_at = 0,
     nt_sent_at = None\<rparr>"

definition enqueue_in_app :: "uuid \<Rightarrow> string \<Rightarrow> string \<Rightarrow> string \<Rightarrow> (string \<rightharpoonup> string) \<Rightarrow> notification act" where
  "enqueue_in_app u ev subject body payload =
     notifications_enqueue (outbox_entry ChannelInApp NotificationSent u ev subject body payload)"

definition enqueue_email :: "uuid \<Rightarrow> string \<Rightarrow> string \<Rightarrow> string \<Rightarrow> (string \<rightharpoonup> string) \<Rightarrow> notification act" where
  "enqueue_email u ev subject body payload =
     notifications_enqueue (outbox_entry ChannelEmail NotificationPending u ev subject body payload)"

section \<open>Rights\<close>

definition require_content_write :: "uuid \<Rightarrow> uuid \<Rightarrow> bool \<Rightarrow> unit act" where
  "require_content_write actor c admin =
     andThen (courses_get_by_id c) (\<lambda>course.
     guard (admin \<or> co_teacher_id course = actor)
       (forbidden ''only the course teacher or an admin can manage course content''))"

definition require_course_read :: "uuid \<Rightarrow> uuid \<Rightarrow> bool \<Rightarrow> unit act" where
  "require_course_read actor c admin =
     andThen (courses_get_by_id c) (\<lambda>course.
     if admin \<or> co_teacher_id course = actor then ret ()
     else andThen (require_active_enrollment actor c) (\<lambda>_. ret ()))"

definition require_announcement_read :: "uuid \<Rightarrow> announcement \<Rightarrow> bool \<Rightarrow> unit act" where
  "require_announcement_read actor a admin =
     andThen (courses_get_by_id (ann_course_id a)) (\<lambda>course.
     if admin \<or> co_teacher_id course = actor then ret ()
     else andThen (guard (ann_status a = AnnouncementPublished) (not_found ''announcement not found'')) (\<lambda>_.
          andThen (require_active_enrollment actor (ann_course_id a)) (\<lambda>_. ret ())))"

text \<open>A pointer that is used without a check.\<close>

definition deref :: "'a option \<Rightarrow> 'a act" where
  "deref p = (case p of None \<Rightarrow> raise (Panic ''nil pointer dereference'') | Some a \<Rightarrow> ret a)"

definition read_back :: "'a act \<Rightarrow> 'a option act" where
  "read_back m = optional (\<lambda>_. True) m"

section \<open>Who is notified\<close>

definition notify_course_enrollees ::
  "uuid \<Rightarrow> uuid \<Rightarrow> string \<Rightarrow> string \<Rightarrow> string \<Rightarrow> (string \<rightharpoonup> string) \<Rightarrow> unit act" where
  "notify_course_enrollees c exclude ev subject body payload =
     andThen (read_back (enrollments_list_by_course c \<lparr>ef_page = 0, ef_per_page = 1000, ef_status = ''active''\<rparr>)) (\<lambda>r. case r of
       None \<Rightarrow> ret ()
     | Some (items, _) \<Rightarrow> for_each items (\<lambda>en.
         if en_user_id en = exclude then ret ()
         else ignoring (enqueue_in_app (en_user_id en) ev subject body payload)))"

definition notify_course_teacher ::
  "uuid \<Rightarrow> uuid \<Rightarrow> string \<Rightarrow> string \<Rightarrow> string \<Rightarrow> (string \<rightharpoonup> string) \<Rightarrow> unit act" where
  "notify_course_teacher c exclude ev subject body payload =
     andThen (read_back (courses_get_by_id c)) (\<lambda>r. case r of
       None \<Rightarrow> ret ()
     | Some course \<Rightarrow>
         if co_teacher_id course = exclude then ret ()
         else ignoring (enqueue_in_app (co_teacher_id course) ev subject body payload))"

text \<open>The loop over the participants: those not in \<open>seen\<close>, each once.\<close>

primrec unseen :: "uuid list \<Rightarrow> uuid set \<Rightarrow> uuid list" where
  "unseen [] seen = []"
| "unseen (i # is) seen = (if i \<in> seen then unseen is seen else i # unseen is (insert i seen))"

definition thread_payload :: "uuid \<Rightarrow> uuid \<Rightarrow> string \<rightharpoonup> string" where
  "thread_payload t c = [''thread_id'' \<mapsto> t, ''course_id'' \<mapsto> c]"

definition notify_thread_participants :: "uuid \<Rightarrow> uuid \<Rightarrow> string \<Rightarrow> string \<Rightarrow> uuid \<Rightarrow> uuid \<Rightarrow> unit act" where
  "notify_thread_participants t exclude subject body c author =
     andThen (read_back (posts_list_participant_ids t)) (\<lambda>r. case r of
       None \<Rightarrow> ret ()
     | Some ids \<Rightarrow>
         andThen (read_back (courses_get_by_id c)) (\<lambda>course.
         let seen = insert author (case course of None \<Rightarrow> {exclude} | Some co \<Rightarrow> {exclude, co_teacher_id co})
         in andThen (for_each (unseen ids seen) (\<lambda>i.
              ignoring (enqueue_in_app i ''discussion.reply'' subject body (thread_payload t c)))) (\<lambda>_.
            case course of
              None \<Rightarrow> ret ()
            | Some co \<Rightarrow>
                if co_teacher_id co = exclude then ret ()
                else ignoring (enqueue_in_app (co_teacher_id co) ''discussion.reply'' subject body (thread_payload t c)))))"

section \<open>Announcements\<close>

definition create_announcement :: "uuid \<Rightarrow> uuid \<Rightarrow> string \<Rightarrow> string \<Rightarrow> bool \<Rightarrow> bool \<Rightarrow> announcement act" where
  "create_announcement actor c title body pinned admin =
     andThen (require_content_write actor c admin) (\<lambda>_.
     andThen (guard (trim_space title \<noteq> '''') (validation ''title is required'')) (\<lambda>_.
     andThen (announcements_create \<lparr>ann_id = '''', ann_course_id = c, ann_author_id = actor, ann_title = trim_space title,
       ann_body = trim_space body, ann_status = AnnouncementDraft, ann_pinned = pinned, ann_published_at = None,
       ann_created_at = 0, ann_updated_at = 0, ann_author_name = ''''\<rparr>) (\<lambda>a.
     andThen (read_back (users_get_by_id actor)) (\<lambda>u.
     ret (a\<lparr>ann_author_name := (case u of None \<Rightarrow> '''' | Some r \<Rightarrow> us_full_name r)\<rparr>)))))"

definition list_announcements :: "uuid \<Rightarrow> uuid \<Rightarrow> bool \<Rightarrow> announcement list act" where
  "list_announcements actor c admin =
     andThen (courses_get_by_id c) (\<lambda>course.
     if admin \<or> co_teacher_id course = actor then announcements_list_by_course c True
     else andThen (require_active_enrollment actor c) (\<lambda>_. announcements_list_by_course c False))"

definition get_announcement :: "uuid \<Rightarrow> uuid \<Rightarrow> bool \<Rightarrow> announcement act" where
  "get_announcement actor i admin =
     andThen (announcements_get_by_id i) (\<lambda>a.
     andThen (require_announcement_read actor a admin) (\<lambda>_. ret a))"

definition update_announcement :: "uuid \<Rightarrow> uuid \<Rightarrow> string \<Rightarrow> string \<Rightarrow> bool \<Rightarrow> bool \<Rightarrow> announcement act" where
  "update_announcement actor i title body pinned admin =
     andThen (announcements_get_by_id i) (\<lambda>a.
     andThen (require_content_write actor (ann_course_id a) admin) (\<lambda>_.
     andThen (guard (trim_space title \<noteq> '''') (validation ''title is required'')) (\<lambda>_.
     announcements_update (a\<lparr>ann_title := trim_space title, ann_body := trim_space body, ann_pinned := pinned\<rparr>))))"

definition publish_announcement :: "uuid \<Rightarrow> uuid \<Rightarrow> bool \<Rightarrow> announcement act" where
  "publish_announcement actor i admin =
     andThen (announcements_get_by_id i) (\<lambda>a.
     andThen (require_content_write actor (ann_course_id a) admin) (\<lambda>_.
     andThen (guard (ann_status a = AnnouncementDraft) (validation ''only draft announcements can be published'')) (\<lambda>_.
     andThen (announcements_set_status i AnnouncementPublished) (\<lambda>_.
     andThen (read_back (announcements_get_by_id i)) (\<lambda>r.
     andThen (deref r) (\<lambda>a.
     andThen (notify_course_enrollees (ann_course_id a) actor ''announcement.published'' (ann_title a) (ann_body a)
       [''announcement_id'' \<mapsto> ann_id a, ''course_id'' \<mapsto> ann_course_id a]) (\<lambda>_.
     ret a)))))))"

definition delete_announcement :: "uuid \<Rightarrow> uuid \<Rightarrow> bool \<Rightarrow> unit act" where
  "delete_announcement actor i admin =
     andThen (announcements_get_by_id i) (\<lambda>a.
     andThen (require_content_write actor (ann_course_id a) admin) (\<lambda>_.
     announcements_delete i))"

section \<open>Discussions\<close>

definition new_post :: "uuid \<Rightarrow> uuid \<Rightarrow> uuid option \<Rightarrow> string \<Rightarrow> discussion_post" where
  "new_post t author parent body = \<lparr>dp_id = '''', dp_thread_id = t, dp_author_id = author, dp_parent_id = parent,
     dp_body = body, dp_created_at = 0, dp_updated_at = 0, dp_author_name = ''''\<rparr>"

definition create_thread :: "uuid \<Rightarrow> uuid \<Rightarrow> string \<Rightarrow> string \<Rightarrow> bool \<Rightarrow> discussion_thread act" where
  "create_thread actor c title0 body0 admin =
     andThen (require_course_read actor c admin) (\<lambda>_.
     let title = trim_space title0; body = trim_space body0
     in andThen (guard (title \<noteq> '''') (validation ''title is required'')) (\<lambda>_.
     andThen (guard (body \<noteq> '''') (validation ''body is required'')) (\<lambda>_.
     andThen (threads_create \<lparr>dt_id = '''', dt_course_id = c, dt_author_id = actor, dt_title = title,
       dt_status = ThreadOpen, dt_created_at = 0, dt_updated_at = 0, dt_author_name = '''', dt_post_count = 0\<rparr>) (\<lambda>t.
     andThen (posts_create (new_post (dt_id t) actor None body)) (\<lambda>_.
     andThen (read_back (threads_get_by_id (dt_id t))) (\<lambda>r.
     andThen (deref r) (\<lambda>t.
     andThen (notify_course_teacher c actor ''discussion.new_thread'' (dt_title t) body (thread_payload (dt_id t) c)) (\<lambda>_.
     ret t))))))))"

definition list_threads :: "uuid \<Rightarrow> uuid \<Rightarrow> bool \<Rightarrow> discussion_thread list act" where
  "list_threads actor c admin =
     andThen (require_course_read actor c admin) (\<lambda>_. threads_list_by_course c)"

definition get_thread :: "uuid \<Rightarrow> uuid \<Rightarrow> bool \<Rightarrow> discussion_thread act" where
  "get_thread actor i admin =
     andThen (threads_get_by_id i) (\<lambda>t.
     andThen (require_course_read actor (dt_course_id t) admin) (\<lambda>_. ret t))"

definition lock_thread :: "uuid \<Rightarrow> uuid \<Rightarrow> bool \<Rightarrow> discussion_thread act" where
  "lock_thread actor i admin =
     andThen (threads_get_by_id i) (\<lambda>t.
     andThen (require_content_write actor (dt_course_id t) admin) (\<lambda>_.
     threads_set_status i ThreadLocked))"

text \<open>The post is returned as it was read back, so it may be nil.\<close>

definition create_post :: "uuid \<Rightarrow> uuid \<Rightarrow> string \<Rightarrow> uuid option \<Rightarrow> bool \<Rightarrow> discussion_post option act" where
  "create_post actor i body0 parent admin =
     andThen (threads_get_by_id i) (\<lambda>t.
     andThen (require_course_read actor (dt_course_id t) admin) (\<lambda>_.
     andThen (guard (dt_status t \<noteq> ThreadLocked) (forbidden ''thread is locked'')) (\<lambda>_.
     let body = trim_space body0
     in andThen (guard (body \<noteq> '''') (validation ''body is required'')) (\<lambda>_.
     andThen (posts_create (new_post i actor parent body)) (\<lambda>p.
     andThen (read_back (posts_get_by_id (dp_id p))) (\<lambda>r.
     andThen (notify_thread_participants i actor (dt_title t) body (dt_course_id t) (dt_author_id t)) (\<lambda>_.
     ret r)))))))"

definition list_posts :: "uuid \<Rightarrow> uuid \<Rightarrow> bool \<Rightarrow> discussion_post list act" where
  "list_posts actor i admin =
     andThen (threads_get_by_id i) (\<lambda>t.
     andThen (require_course_read actor (dt_course_id t) admin) (\<lambda>_. posts_list_by_thread i))"

text \<open>Any failure of the check of the teacher's rights becomes the same refusal.\<close>

definition require_post_write :: "uuid \<Rightarrow> discussion_post \<Rightarrow> uuid \<Rightarrow> bool \<Rightarrow> string \<Rightarrow> unit act" where
  "require_post_write actor p c admin msg =
     (if dp_author_id p \<noteq> actor then orElse (require_content_write actor c admin) (\<lambda>_. raise (forbidden msg)) else ret ())"

definition update_post :: "uuid \<Rightarrow> uuid \<Rightarrow> string \<Rightarrow> bool \<Rightarrow> discussion_post act" where
  "update_post actor i body0 admin =
     andThen (posts_get_by_id i) (\<lambda>p.
     andThen (threads_get_by_id (dp_thread_id p)) (\<lambda>t.
     andThen (require_post_write actor p (dt_course_id t) admin ''only the author or teacher can edit this post'') (\<lambda>_.
     andThen (guard (trim_space body0 \<noteq> '''') (validation ''body is required'')) (\<lambda>_.
     posts_update (p\<lparr>dp_body := trim_space body0\<rparr>)))))"

definition delete_post :: "uuid \<Rightarrow> uuid \<Rightarrow> bool \<Rightarrow> unit act" where
  "delete_post actor i admin =
     andThen (posts_get_by_id i) (\<lambda>p.
     andThen (threads_get_by_id (dp_thread_id p)) (\<lambda>t.
     andThen (require_post_write actor p (dt_course_id t) admin ''only the author or teacher can delete this post'') (\<lambda>_.
     posts_delete i)))"

section \<open>Direct messages\<close>

definition decorate_conversation :: "dm_conversation \<Rightarrow> uuid \<Rightarrow> dm_conversation" where
  "decorate_conversation c actor = c\<lparr>dc_other_id := (if dc_user_a c = actor then dc_user_b c else dc_user_a c)\<rparr>"

definition start_conversation :: "uuid \<Rightarrow> uuid \<Rightarrow> dm_conversation act" where
  "start_conversation actor other0 =
     (let other = trim_space other0
      in andThen (guard (\<not> (other = '''' \<or> other = actor)) (validation ''invalid recipient'')) (\<lambda>_.
         andThen (users_get_by_id other) (\<lambda>_.
         andThen (conversations_get_or_create actor other) (\<lambda>c.
         ret (decorate_conversation c actor)))))"

definition list_conversations :: "uuid \<Rightarrow> dm_conversation list act" where
  "list_conversations actor = conversations_list_for_user actor"

definition participant :: "uuid \<Rightarrow> dm_conversation \<Rightarrow> bool" where
  "participant actor c \<longleftrightarrow> \<not> (dc_user_a c \<noteq> actor \<and> dc_user_b c \<noteq> actor)"

definition send_message :: "uuid \<Rightarrow> uuid \<Rightarrow> string \<Rightarrow> dm_message act" where
  "send_message actor i body0 =
     andThen (conversations_get_by_id i) (\<lambda>c.
     andThen (guard (participant actor c) (forbidden ''not a participant'')) (\<lambda>_.
     let body = trim_space body0
     in andThen (guard (body \<noteq> '''') (validation ''body is required'')) (\<lambda>_.
     andThen (messages_create \<lparr>dm_id = '''', dm_conversation_id = i, dm_sender_id = actor, dm_body = body,
       dm_read_at = None, dm_created_at = 0\<rparr>) (\<lambda>m.
     andThen (ignoring (enqueue_in_app (if dc_user_b c = actor then dc_user_a c else dc_user_b c) ''dm.message''
       ''New message'' body [''conversation_id'' \<mapsto> i, ''sender_id'' \<mapsto> actor])) (\<lambda>_.
     ret m)))))"

definition list_messages :: "uuid \<Rightarrow> uuid \<Rightarrow> int \<Rightarrow> int \<Rightarrow> (dm_message list \<times> nat) act" where
  "list_messages actor i page per =
     andThen (conversations_get_by_id i) (\<lambda>c.
     andThen (guard (participant actor c) (forbidden ''not a participant'')) (\<lambda>_.
     messages_list_by_conversation i per (go_mul ((if page \<le> 0 then 1 else page) - 1) per)))"

definition mark_conversation_read :: "uuid \<Rightarrow> uuid \<Rightarrow> unit act" where
  "mark_conversation_read actor i =
     andThen (conversations_get_by_id i) (\<lambda>c.
     andThen (guard (participant actor c) (forbidden ''not a participant'')) (\<lambda>_.
     messages_mark_read i actor))"

section \<open>Notifications\<close>

definition list_notifications :: "uuid \<Rightarrow> notification_filter \<Rightarrow> (notification list \<times> nat) act" where
  "list_notifications actor f = notifications_list_for_user actor f"

definition mark_notification_read :: "uuid \<Rightarrow> uuid \<Rightarrow> unit act" where
  "mark_notification_read actor i = notifications_mark_read i actor"

definition mark_all_notifications_read :: "uuid \<Rightarrow> unit act" where
  "mark_all_notifications_read actor = notifications_mark_all_read actor"

end
