(* ===== verification/CommunicationRules.thy ===== *)
theory CommunicationRules
  imports Communication CertificateRules
begin

text \<open>
  What the communication requests promise: the references between posts survive every request (deleting a
  post takes the replies below it along), a locked thread takes no new post, two users have one conversation,
  and who is notified of what. The last section is about the pages of a conversation.
\<close>

section \<open>Posts below a post\<close>

lemma posts_below_closed: "replies ps (posts_below ps ids) = []"
  by (induction ps ids rule: posts_below.induct) (subst posts_below.simps, simp)

lemma posts_below_includes: "set ids \<subseteq> set (posts_below ps ids)"
  by (induction ps ids rule: posts_below.induct) (subst posts_below.simps, auto)

text \<open>A post with a parent that is deleted is deleted.\<close>

lemma posts_below_parent:
  assumes "r \<in> set ps" and "dp_parent_id r = Some q" and "q \<in> set (posts_below ps ids)"
  shows "dp_id r \<in> set (posts_below ps ids)"
proof (rule ccontr)
  assume "dp_id r \<notin> set (posts_below ps ids)"
  with assms have "r \<in> set (replies ps (posts_below ps ids))" by (simp add: replies_def)
  then show False by (simp add: posts_below_closed)
qed

text \<open>And no other post: everything deleted is the post itself or a reply to something deleted.\<close>

inductive below :: "discussion_post list \<Rightarrow> uuid \<Rightarrow> uuid \<Rightarrow> bool" for ps i where
  below_self: "below ps i i"
| below_reply: "below ps i q \<Longrightarrow> r \<in> set ps \<Longrightarrow> dp_parent_id r = Some q \<Longrightarrow> below ps i (dp_id r)"

lemma posts_below_sound: "(\<And>j. j \<in> set ids \<Longrightarrow> below ps i j) \<Longrightarrow> j \<in> set (posts_below ps ids) \<Longrightarrow> below ps i j"
proof (induction ps ids rule: posts_below.induct)
  case (1 ps ids)
  show ?case
  proof (cases "replies ps ids = []")
    case True
    with 1 show ?thesis by (simp add: posts_below.simps)
  next
    case False
    have "below ps i k" if "k \<in> set (ids @ map dp_id (replies ps ids))" for k
      using that 1(2) by (auto simp: replies_def intro: below_reply split: option.splits)
    from 1(1) [OF False this] 1(3) False show ?thesis by (simp add: posts_below.simps [of ps ids])
  qed
qed

lemma posts_below_iff: "j \<in> set (posts_below ps [i]) \<longleftrightarrow> below ps i j"
proof
  assume "j \<in> set (posts_below ps [i])"
  then show "below ps i j" by (rule posts_below_sound [rotated]) (simp add: below_self)
next
  assume "below ps i j"
  then show "j \<in> set (posts_below ps [i])"
    by induction (use posts_below_includes [of "[i]" ps] posts_below_parent in auto)
qed

section \<open>The state kept by every request\<close>

definition posts_ok :: "world \<Rightarrow> bool" where
  "posts_ok w \<longleftrightarrow> distinct (map dt_id (discussion_threads w)) \<and> distinct (map dp_id (discussion_posts w))
     \<and> (\<forall>p \<in> set (discussion_posts w). dp_thread_id p \<in> dt_id ` set (discussion_threads w)
          \<and> (\<forall>q. dp_parent_id p = Some q \<longrightarrow> q \<in> dp_id ` set (discussion_posts w)))"

definition pair_of :: "dm_conversation \<Rightarrow> uuid \<times> uuid" where
  "pair_of c = (dc_user_a c, dc_user_b c)"

definition conversations_ok :: "world \<Rightarrow> bool" where
  "conversations_ok w \<longleftrightarrow> distinct (map pair_of (dm_conversations w))
     \<and> (\<forall>c \<in> set (dm_conversations w). dc_user_a c < dc_user_b c)"

definition thread_posts :: "world \<Rightarrow> uuid \<Rightarrow> uuid set" where
  "thread_posts w t = dp_id ` {p \<in> set (discussion_posts w). dp_thread_id p = t}"

text \<open>The threads stay where they are, and a locked one stays locked and takes no post.\<close>

definition threads_step :: "world \<Rightarrow> world \<Rightarrow> bool" where
  "threads_step w v \<longleftrightarrow> (\<forall>t \<in> set (discussion_threads w). \<exists>u \<in> set (discussion_threads v).
     dt_id u = dt_id t \<and> dt_course_id u = dt_course_id t \<and> dt_author_id u = dt_author_id t
     \<and> (dt_status t = ThreadLocked \<longrightarrow> dt_status u = ThreadLocked \<and> thread_posts v (dt_id t) \<subseteq> thread_posts w (dt_id t)))"

definition talk_step :: "world \<Rightarrow> world \<Rightarrow> bool" where
  "talk_step w v \<longleftrightarrow> (posts_ok w \<longrightarrow> posts_ok v \<and> threads_step w v) \<and> (conversations_ok w \<longrightarrow> conversations_ok v)"

lemma threads_step_trans: "threads_step w v \<Longrightarrow> threads_step v u \<Longrightarrow> threads_step w u"
  unfolding threads_step_def by (metis subset_trans)

lemma talk_same:
  assumes "discussion_threads v = discussion_threads w" and "discussion_posts v = discussion_posts w"
    and "dm_conversations v = dm_conversations w"
  shows "talk_step w v"
  using assms by (auto simp: talk_step_def posts_ok_def conversations_ok_def threads_step_def thread_posts_def)

interpretation talk: world_order talk_step
proof unfold_locales
  show "talk_step w v \<Longrightarrow> talk_step v u \<Longrightarrow> talk_step w u" for w v u
    unfolding talk_step_def using threads_step_trans by blast
qed (simp_all add: talk_same)

lemma talk_faults [simp]: "talk_step w (v\<lparr>faults := f\<rparr>) = talk_step w v" "talk_step (w\<lparr>faults := f\<rparr>) = talk_step w"
  by (simp_all add: fun_eq_iff talk_step_def posts_ok_def conversations_ok_def threads_step_def thread_posts_def)

lemma talk_reads: "changes read_only m \<Longrightarrow> changes talk_step m"
  by (rule reads_respect) (simp_all add: talk_same)

lemma communication_reads [moves]:
  "changes read_only (announcements_get_by_id i)" "changes read_only (announcements_list_by_course c d)"
  "changes read_only (threads_get_by_id i)" "changes read_only (threads_list_by_course c)"
  "changes read_only (posts_get_by_id i)" "changes read_only (posts_list_by_thread i)"
  "changes read_only (posts_list_participant_ids i)" "changes read_only (conversations_get_by_id i)"
  "changes read_only (conversations_list_for_user u)" "changes read_only (messages_list_by_conversation i n k)"
  "changes read_only (notifications_list_for_user u f)" "changes read_only (notifications_get_by_id i u)"
  "changes read_only (enrollments_list_by_course c ef)"
  by (auto simp: announcements_get_by_id_def announcements_list_by_course_def threads_get_by_id_def threads_list_by_course_def
      posts_get_by_id_def posts_list_by_thread_def posts_list_participant_ids_def conversations_get_by_id_def
      conversations_list_for_user_def messages_list_by_conversation_def notifications_list_for_user_def
      notifications_get_by_id_def enrollments_list_by_course_def enrollments_list_def Let_def intro!: moves)

lemma communication_checks_read [moves]:
  "changes read_only (require_content_write actor c admin)" "changes read_only (require_course_read actor c admin)"
  "changes read_only (require_announcement_read actor a admin)" "changes read_only (require_post_write actor p c admin msg)"
  "changes read_only (deref r)"
  by (auto simp: require_content_write_def require_course_read_def require_announcement_read_def require_post_write_def
      deref_def intro!: moves)

lemma communication_requests_read [moves]:
  "changes read_only (list_announcements actor c admin)" "changes read_only (get_announcement actor i admin)"
  "changes read_only (list_threads actor c admin)" "changes read_only (get_thread actor i admin)"
  "changes read_only (list_posts actor i admin)" "changes read_only (list_conversations actor)"
  "changes read_only (list_messages actor i page per)" "changes read_only (list_notifications actor f)"
  by (auto simp: list_announcements_def get_announcement_def list_threads_def get_thread_def list_posts_def
      list_conversations_def list_messages_def list_notifications_def intro!: moves)

section \<open>The requests that write\<close>

lemma distinct_ids_upd: "(\<And>r. g (f r) = g r) \<Longrightarrow> g ` set (upd_where p f rs) = g ` set rs"
  by (metis list.set_map map_upd_where)

lemma ball_upd_where: "(\<And>r. Q (f r) = Q r) \<Longrightarrow> (\<forall>r \<in> set (upd_where p f rs). Q r) \<longleftrightarrow> (\<forall>r \<in> set rs. Q r)"
  by (induction rs) auto

lemma in_upd_where: "r \<in> set rs \<Longrightarrow> (if p r then f r else r) \<in> set (upd_where p f rs)"
  by (simp add: set_upd_where)

text \<open>An update that keeps the identity of threads, and opens none.\<close>

lemma talk_thread_set:
  assumes "\<And>r. dt_id (f r) = dt_id r \<and> dt_course_id (f r) = dt_course_id r \<and> dt_author_id (f r) = dt_author_id r"
    and "\<And>r. dt_status r = ThreadLocked \<Longrightarrow> dt_status (f r) = ThreadLocked"
  shows "talk_step w (thread_set p f w)"
proof -
  have ids: "map dt_id (discussion_threads (thread_set p f w)) = map dt_id (discussion_threads w)"
    using assms(1) by (simp add: thread_set_def)
  then have "dt_id ` set (discussion_threads (thread_set p f w)) = dt_id ` set (discussion_threads w)"
    by (metis list.set_map)
  moreover have "\<exists>u \<in> set (discussion_threads (thread_set p f w)). dt_id u = dt_id t \<and> dt_course_id u = dt_course_id t
      \<and> dt_author_id u = dt_author_id t \<and> (dt_status t = ThreadLocked \<longrightarrow> dt_status u = ThreadLocked)"
    if "t \<in> set (discussion_threads w)" for t
    using assms in_upd_where [OF that, of p "\<lambda>r. (f r)\<lparr>dt_updated_at := clock w\<rparr>"] by (auto simp: thread_set_def intro: rev_bexI)
  moreover have "discussion_posts (thread_set p f w) = discussion_posts w" "dm_conversations (thread_set p f w) = dm_conversations w"
    by (simp_all add: thread_set_def)
  ultimately show ?thesis
    using ids unfolding talk_step_def posts_ok_def conversations_ok_def threads_step_def thread_posts_def by simp
qed

lemma talk_touch: "talk_step w (conversation_touch p w)"
proof -
  have "map pair_of (dm_conversations (conversation_touch p w)) = map pair_of (dm_conversations w)"
    by (simp add: conversation_touch_def pair_of_def)
  moreover have "(\<forall>c \<in> set (dm_conversations (conversation_touch p w)). dc_user_a c < dc_user_b c)
      = (\<forall>c \<in> set (dm_conversations w). dc_user_a c < dc_user_b c)"
    by (simp add: conversation_touch_def ball_upd_where)
  moreover have "discussion_posts (conversation_touch p w) = discussion_posts w"
    "discussion_threads (conversation_touch p w) = discussion_threads w" by (simp_all add: conversation_touch_def)
  ultimately show ?thesis
    by (auto simp: talk_step_def posts_ok_def conversations_ok_def threads_step_def thread_posts_def)
qed

lemma talk_outbox [moves]: "changes talk_step (notifications_enqueue n)"
  unfolding notifications_enqueue_def by (rule talk.changes_insert_row) (auto intro: talk_same)

lemma talk_announcements [moves]:
  "changes talk_step (announcements_create a)" "changes talk_step (announcements_update a)"
  "changes talk_step (announcements_set_status i st)" "changes talk_step (announcements_delete i)"
  by (auto simp: announcements_create_def announcements_update_def announcements_set_status_def announcements_delete_def
      announcement_set_def
      intro!: moves talk.changes_insert_row talk.changes_exec_count talk.changes_exec_rows talk_same
        communication_reads [THEN talk_reads])

lemma talk_threads [moves]:
  "changes talk_step (threads_create t)" "changes talk_step (threads_set_status i ThreadLocked)"
proof -
  show "changes talk_step (threads_create t)"
    unfolding threads_create_def
    by (rule talk.changes_insert_row)
      (auto simp: talk_step_def posts_ok_def conversations_ok_def threads_step_def thread_posts_def pk_free_def)
  show "changes talk_step (threads_set_status i ThreadLocked)"
    unfolding threads_set_status_def
    by (intro moves talk.changes_exec_rows communication_reads [THEN talk_reads] talk_thread_set) simp_all
qed

lemma talk_messages [moves]:
  "changes talk_step (messages_create m)" "changes talk_step (messages_mark_read c u)"
proof -
  have "changes talk_step (messages_insert m)"
    unfolding messages_insert_def by (rule talk.changes_insert_row) (auto intro: talk_same)
  then show "changes talk_step (messages_create m)"
    unfolding messages_create_def by (intro moves talk.changes_exec_raw talk_touch)
  show "changes talk_step (messages_mark_read c u)"
    unfolding messages_mark_read_def Let_def by (intro moves talk.changes_exec_raw) (auto intro: talk_same)
qed

lemma talk_notifications [moves]:
  "changes talk_step (notifications_mark_read i u)" "changes talk_step (notifications_mark_all_read u)"
  by (auto simp: notifications_mark_read_def notifications_mark_all_read_def notification_read_def Let_def
      intro!: moves talk.changes_exec_raw talk_same)

lemma order_pair_less: "a \<noteq> b \<Longrightarrow> order_pair u v = (a, b) \<Longrightarrow> a < b"
  by (auto simp: order_pair_def split: if_splits)

lemma talk_conversation [moves]: "changes talk_step (conversations_get_or_create u v)"
proof -
  obtain a b where ab: "order_pair u v = (a, b)" by force
  have ins: "changes talk_step (\<lambda>w. insert_row
      (\<lambda>w. violation True (a \<noteq> b) (pk_free (map dc_id (dm_conversations w)) w \<and> find (of_pair a b) (dm_conversations w) = None)
         (has_user w a \<and> has_user w b))
      (\<lambda>w. (new_conversation a b)\<lparr>dc_id := fresh_uuid w, dc_created_at := clock w, dc_updated_at := clock w\<rparr>)
      (\<lambda>r w. w\<lparr>dm_conversations := dm_conversations w @ [r]\<rparr>)
      (\<lambda>st. WrapError ''get or create conversation'' (DriverError st)) w)"
    by (rule talk.changes_insert_row)
      (auto simp: talk_step_def posts_ok_def conversations_ok_def threads_step_def thread_posts_def pair_of_def of_pair_def
        new_conversation_def find_None_iff order_pair_less [OF _ ab])
  show ?thesis
    unfolding changes_def
  proof
    fix w
    show "talk_step w (snd (conversations_get_or_create u v w))"
    proof (cases "find (of_pair a b) (dm_conversations w)")
      case None
      then have "conversations_get_or_create u v w = insert_row
          (\<lambda>w. violation True (a \<noteq> b) (pk_free (map dc_id (dm_conversations w)) w \<and> find (of_pair a b) (dm_conversations w) = None)
             (has_user w a \<and> has_user w b))
          (\<lambda>w. (new_conversation a b)\<lparr>dc_id := fresh_uuid w, dc_created_at := clock w, dc_updated_at := clock w\<rparr>)
          (\<lambda>r w. w\<lparr>dm_conversations := dm_conversations w @ [r]\<rparr>)
          (\<lambda>st. WrapError ''get or create conversation'' (DriverError st)) w"
        by (simp add: conversations_get_or_create_def ab insert_row_def)
      with ins show ?thesis by (simp add: changes_def)
    next
      case (Some c)
      then show ?thesis
        using talk.R_trans [OF talk.R_pop talk_touch]
        by (simp add: conversations_get_or_create_def ab talk.R_pop)
    qed
  qed
qed

lemma thread_posts_map: "thread_posts w t = {i. (i, t) \<in> set (map (\<lambda>p. (dp_id p, dp_thread_id p)) (discussion_posts w))}"
  by (auto simp: thread_posts_def)

text \<open>Posts. A post is added only to a thread that is open.\<close>

definition thread_open :: "world \<Rightarrow> uuid \<Rightarrow> bool" where
  "thread_open w i \<longleftrightarrow> (\<forall>t \<in> set (discussion_threads w). dt_id t = i \<longrightarrow> dt_status t = ThreadOpen)"

lemma talk_post_added:
  assumes "posts_ok w \<Longrightarrow> thread_open w (dp_thread_id p)" and "dp_thread_id p \<in> dt_id ` set (discussion_threads w)"
    and "post_parent_known w p" and "dp_id p \<notin> dp_id ` set (discussion_posts w)"
  shows "talk_step w (w\<lparr>uuid_next := n, discussion_posts := discussion_posts w @ [p]\<rparr>)"
proof -
  have "thread_posts (w\<lparr>uuid_next := n, discussion_posts := discussion_posts w @ [p]\<rparr>) (dt_id t) = thread_posts w (dt_id t)"
    if "posts_ok w" "t \<in> set (discussion_threads w)" "dt_status t = ThreadLocked" for t
    using assms(1) [OF that(1)] that(2,3) by (auto simp: thread_posts_def thread_open_def)
  moreover have "posts_ok w \<longrightarrow> posts_ok (w\<lparr>uuid_next := n, discussion_posts := discussion_posts w @ [p]\<rparr>)"
    using assms(2-4) by (auto simp: posts_ok_def post_parent_known_def)
  ultimately show ?thesis by (auto simp: talk_step_def threads_step_def conversations_ok_def)
qed

lemma wp_post_created:
  assumes "posts_ok w \<Longrightarrow> thread_open w (dp_thread_id p)"
  shows "wpre (posts_create p) (\<lambda>_. talk_step w) (\<lambda>_. talk_step w) w"
proof -
  have "posts_ok (pop w) \<Longrightarrow> thread_open (pop w) (dp_thread_id p)" using assms by (simp add: thread_open_def posts_ok_def)
  then have "wpre (posts_insert p) (\<lambda>_. talk_step (pop w)) (\<lambda>_. talk_step (pop w)) w"
    by (auto simp: posts_insert_def wp_insert_row talk.R_refl pk_free_def post_parent_known_def
        intro!: talk_post_added [of "pop w", simplified] split: option.split)
  moreover have "talk_step (pop w) = talk_step w" by (simp add: pop_def)
  ultimately have ins: "wpre (posts_insert p) (\<lambda>_. talk_step w) (\<lambda>_. talk_step w) w" by simp
  have touch: "changes talk_step (ignoring (exec_raw (\<lambda>w. cnt (\<lambda>t. dt_id t = dp_thread_id p) (discussion_threads w))
       (thread_set (\<lambda>t. dt_id t = dp_thread_id p) (\<lambda>t. t))))"
    by (intro moves talk.changes_exec_raw talk_thread_set) simp_all
  show ?thesis
    unfolding posts_create_def by (rule talk.wp_then_changes [OF ins]) (intro moves touch)
qed

lemma talk_post_updated [moves]: "changes talk_step (posts_update p)"
proof -
  have "talk_step w (w\<lparr>discussion_posts := upd_where q (\<lambda>r. r\<lparr>dp_body := b, dp_updated_at := clock w\<rparr>) (discussion_posts w)\<rparr>)"
    for w q b
  proof -
    let ?v = "w\<lparr>discussion_posts := upd_where q (\<lambda>r. r\<lparr>dp_body := b, dp_updated_at := clock w\<rparr>) (discussion_posts w)\<rparr>"
    have "dp_id ` set (discussion_posts ?v) = dp_id ` set (discussion_posts w)" by (simp add: distinct_ids_upd)
    then have "posts_ok w \<longrightarrow> posts_ok ?v" by (auto simp: posts_ok_def ball_upd_where)
    moreover have "thread_posts ?v t = thread_posts w t" for t
      unfolding thread_posts_map by (simp del: set_map)
    ultimately show ?thesis by (auto simp: talk_step_def threads_step_def conversations_ok_def)
  qed
  then show ?thesis
    unfolding posts_update_def Let_def by (intro moves talk.changes_exec_count communication_reads [THEN talk_reads])
qed

lemma talk_post_deleted [moves]: "changes talk_step (posts_delete i)"
proof -
  have "talk_step w (w\<lparr>discussion_posts := filter (\<lambda>r. dp_id r \<notin> set (posts_below (discussion_posts w) [i])) (discussion_posts w)\<rparr>)" for w
  proof -
    let ?v = "w\<lparr>discussion_posts := filter (\<lambda>r. dp_id r \<notin> set (posts_below (discussion_posts w) [i])) (discussion_posts w)\<rparr>"
    have "posts_ok ?v" if ok: "posts_ok w"
      unfolding posts_ok_def
    proof (intro conjI ballI allI impI)
      show "distinct (map dp_id (discussion_posts ?v))" "distinct (map dt_id (discussion_threads ?v))"
        using ok by (simp_all add: posts_ok_def distinct_map_filter)
      fix p assume p: "p \<in> set (discussion_posts ?v)"
      with ok show "dp_thread_id p \<in> dt_id ` set (discussion_threads ?v)" by (auto simp: posts_ok_def)
      fix q assume q: "dp_parent_id p = Some q"
      with p ok have "q \<in> dp_id ` set (discussion_posts w)" by (auto simp: posts_ok_def)
      moreover have "q \<notin> set (posts_below (discussion_posts w) [i])"
        using p q posts_below_parent [of p "discussion_posts w" q "[i]"] by auto
      ultimately show "q \<in> dp_id ` set (discussion_posts ?v)" by auto
    qed
    moreover have "thread_posts ?v t \<subseteq> thread_posts w t" for t by (auto simp: thread_posts_def)
    ultimately show ?thesis by (auto simp: talk_step_def threads_step_def conversations_ok_def)
  qed
  then show ?thesis unfolding posts_delete_def by (intro talk.changes_exec_rows)
qed

lemma talk_notified [moves]:
  "changes talk_step (enqueue_in_app u ev subject body payload)" "changes talk_step (enqueue_email u ev subject body payload)"
  "changes talk_step (notify_course_enrollees c exclude ev subject body payload)"
  "changes talk_step (notify_course_teacher c exclude ev subject body payload)"
  "changes talk_step (notify_thread_participants t exclude subject body c author)"
  by (auto simp: enqueue_in_app_def enqueue_email_def notify_course_enrollees_def notify_course_teacher_def
      notify_thread_participants_def read_back_def Let_def
      intro!: moves communication_reads [THEN talk_reads] courses_get_reads [THEN talk_reads] split: prod.split)

lemma talk_read_back: "changes read_only m \<Longrightarrow> changes talk_step (read_back m)"
  unfolding read_back_def by (intro moves) (rule talk_reads)

lemmas talk_checks = communication_reads [THEN talk_reads] communication_checks_read [THEN talk_reads]
  courses_get_reads [THEN talk_reads] certificate_reads(6) [THEN talk_reads] communication_reads [THEN talk_read_back]
  certificate_reads(6) [THEN talk_read_back]

lemma talk_requests [moves]:
  "changes talk_step (create_announcement actor c title body pinned admin)"
  "changes talk_step (update_announcement actor i title body pinned admin)"
  "changes talk_step (publish_announcement actor i admin)" "changes talk_step (delete_announcement actor i admin)"
  "changes talk_step (lock_thread actor i admin)" "changes talk_step (update_post actor i body admin)"
  "changes talk_step (delete_post actor i admin)" "changes talk_step (start_conversation actor u)"
  "changes talk_step (send_message actor i body)" "changes talk_step (mark_conversation_read actor i)"
  "changes talk_step (mark_notification_read actor i)" "changes talk_step (mark_all_notifications_read actor)"
  by (auto simp: create_announcement_def update_announcement_def publish_announcement_def delete_announcement_def
      lock_thread_def update_post_def delete_post_def start_conversation_def send_message_def mark_conversation_read_def
      mark_notification_read_def mark_all_notifications_read_def Let_def intro!: moves talk_checks)

text \<open>Creating a post reads the state of the thread; creating a thread opens it.\<close>

definition thread_of :: "world \<Rightarrow> uuid \<Rightarrow> discussion_thread option" where
  "thread_of w i = find (\<lambda>r. dt_id r = i \<and> has_user w (dt_author_id r)) (discussion_threads w)"

lemma wp_thread:
  assumes "\<And>e f. E e (w\<lparr>faults := f\<rparr>)"
    and "\<And>t f. thread_of w i = Some t \<Longrightarrow> wpre (g (scan_thread w t)) Q E (w\<lparr>faults := f\<rparr>)"
  shows "wpre (andThen (threads_get_by_id i) g) Q E w"
proof -
  have "scan_thread (w\<lparr>faults := f\<rparr>) = scan_thread w" for f by (simp add: scan_thread_def fun_eq_iff)
  then show ?thesis
    using assms by (auto simp: threads_get_by_id_def thread_of_def wp pop_def split: option.split)
qed

lemma scan_thread_simps [simp]:
  "dt_id (scan_thread w t) = dt_id t" "dt_status (scan_thread w t) = dt_status t" "dt_course_id (scan_thread w t) = dt_course_id t"
  "dt_author_id (scan_thread w t) = dt_author_id t" "dt_title (scan_thread w t) = dt_title t"
  by (simp_all add: scan_thread_def)

lemma thread_of_open:
  assumes "posts_ok w" and "thread_of w i = Some t" and "dt_status t \<noteq> ThreadLocked"
  shows "thread_open w i"
  unfolding thread_open_def
proof (intro ballI impI)
  fix r assume "r \<in> set (discussion_threads w)" "dt_id r = i"
  with assms(1,2) have "r = t"
    using find_SomeD [of _ "discussion_threads w" t] distinct_key_unique [of dt_id "discussion_threads w" r t]
    by (fastforce simp: thread_of_def posts_ok_def)
  with assms(3) show "dt_status r = ThreadOpen" by (cases "dt_status r") simp_all
qed

lemma talk_post_request [moves]: "changes talk_step (create_post actor i body parent admin)"
proof (rule talk.changes_wp)
  fix w
  have rest: "changes talk_step (andThen (read_back (posts_get_by_id k)) (\<lambda>r.
      andThen (notify_thread_participants i actor subj b c a) (\<lambda>_. ret r)))" for k subj b c a
    by (intro moves talk_checks)
  have post: "wpre (posts_create p) (\<lambda>_. talk_step w) (\<lambda>_. talk_step w) (w\<lparr>faults := f\<rparr>)"
    if "thread_of w i = Some t" "dt_status t \<noteq> ThreadLocked" "dp_thread_id p = i" for t p f
    using wp_post_created [of "w\<lparr>faults := f\<rparr>" p] thread_of_open [OF _ that(1,2)] that(3)
    by (simp add: thread_open_def posts_ok_def)
  show "wpre (create_post actor i body parent admin) (\<lambda>_. talk_step w) (\<lambda>_. talk_step w) w"
    unfolding create_post_def Let_def
    by (rule wp_thread, simp add: talk_same, rule wp_read_then [OF communication_checks_read(2)])
      (auto simp: wp_guard_then new_post_def talk_same intro!: talk.wp_then_changes post rest)
qed

lemma wp_thread_created:
  assumes "dt_status t = ThreadOpen"
  shows "wpre (threads_create t) (\<lambda>r u. talk_step w u \<and> thread_open u (dt_id r)) (\<lambda>_. talk_step w) w"
proof -
  have "wpre (threads_create t) (\<lambda>r u. thread_open u (dt_id r)) (\<lambda>_ _. True) w"
    using assms by (auto simp: threads_create_def wp_insert_row thread_open_def pk_free_def image_iff split: option.split)
  moreover have "wpre (threads_create t) (\<lambda>_. talk_step w) (\<lambda>_. talk_step w) w"
    by (rule talk.wp_changes [OF talk_threads(1) talk.R_refl])
  ultimately show ?thesis by (rule wp_use) simp_all
qed

lemma talk_thread_request [moves]: "changes talk_step (create_thread actor c title body admin)"
proof (rule talk.changes_wp)
  fix w
  have rest: "changes talk_step (andThen (read_back (threads_get_by_id k)) (\<lambda>r. andThen (deref r) (\<lambda>t.
      andThen (notify_course_teacher c actor ev (dt_title t) b (thread_payload (dt_id t) c)) (\<lambda>_. ret t))))" for k ev b
    by (intro moves talk_checks)
  have post: "wpre (posts_create (new_post i actor None b)) (\<lambda>_. talk_step w) (\<lambda>_. talk_step w) u"
    if "talk_step w u" "thread_open u i" for i u b
    using wp_post_created [of u "new_post i actor None b"] that
    by (auto simp: new_post_def elim!: wp_mono intro: talk.R_trans)
  have both: "wpre (andThen (threads_create t) (\<lambda>r. andThen (posts_create (new_post (dt_id r) actor None b)) (\<lambda>_.
      andThen (read_back (threads_get_by_id (dt_id r))) (\<lambda>r. andThen (deref r) (\<lambda>t.
      andThen (notify_course_teacher c actor ev (dt_title t) b (thread_payload (dt_id t) c)) (\<lambda>_. ret t))))))
      (\<lambda>_. talk_step w) (\<lambda>_. talk_step w) (w\<lparr>faults := f\<rparr>)" if "dt_status t = ThreadOpen" for t b ev f
    unfolding wp_andThen [of "threads_create t"]
    by (rule wp_mono [OF wp_thread_created [OF that]]) (auto intro!: talk.wp_then_changes post rest)
  show "wpre (create_thread actor c title body admin) (\<lambda>_. talk_step w) (\<lambda>_. talk_step w) w"
    unfolding create_thread_def Let_def
    by (rule wp_read_start [OF communication_checks_read(2)]) (auto simp: wp_guard_then talk_same intro!: both)
qed

inductive talk_request :: "world \<Rightarrow> world \<Rightarrow> bool" where
  req_create_announcement: "talk_request w (snd (create_announcement actor c title body pinned admin w))"
| req_list_announcements: "talk_request w (snd (list_announcements actor c admin w))"
| req_get_announcement: "talk_request w (snd (get_announcement actor i admin w))"
| req_update_announcement: "talk_request w (snd (update_announcement actor i title body pinned admin w))"
| req_publish_announcement: "talk_request w (snd (publish_announcement actor i admin w))"
| req_delete_announcement: "talk_request w (snd (delete_announcement actor i admin w))"
| req_create_thread: "talk_request w (snd (create_thread actor c title body admin w))"
| req_list_threads: "talk_request w (snd (list_threads actor c admin w))"
| req_get_thread: "talk_request w (snd (get_thread actor i admin w))"
| req_lock_thread: "talk_request w (snd (lock_thread actor i admin w))"
| req_create_post: "talk_request w (snd (create_post actor i body parent admin w))"
| req_list_posts: "talk_request w (snd (list_posts actor i admin w))"
| req_update_post: "talk_request w (snd (update_post actor i body admin w))"
| req_delete_post: "talk_request w (snd (delete_post actor i admin w))"
| req_start_conversation: "talk_request w (snd (start_conversation actor u w))"
| req_list_conversations: "talk_request w (snd (list_conversations actor w))"
| req_send_message: "talk_request w (snd (send_message actor i body w))"
| req_list_messages: "talk_request w (snd (list_messages actor i page per w))"
| req_mark_conversation: "talk_request w (snd (mark_conversation_read actor i w))"
| req_list_notifications: "talk_request w (snd (list_notifications actor f w))"
| req_mark_notification: "talk_request w (snd (mark_notification_read actor i w))"
| req_mark_all: "talk_request w (snd (mark_all_notifications_read actor w))"

lemma talk_run: "rtranclp talk_request w v \<Longrightarrow> talk_step w v"
proof (induction rule: rtranclp_induct)
  case (step u v)
  from step.hyps(2) have "talk_step u v"
    by cases (use talk_requests talk_thread_request talk_post_request communication_requests_read [THEN talk_reads]
        in \<open>simp_all add: changes_def\<close>)
  with step.IH show ?case by (rule talk.R_trans)
qed (rule talk.R_refl)

section \<open>Who is notified\<close>

text \<open>An announcement reaches one page of learners: the repository resets a page of 1000 rows to 20.\<close>

definition outbox_grows :: "nat \<Rightarrow> world \<Rightarrow> world \<Rightarrow> bool" where
  "outbox_grows n w v \<longleftrightarrow> length (notification_outbox v) \<le> length (notification_outbox w) + n"

lemma outbox_same: "outbox_grows 0 w (w\<lparr>faults := f\<rparr>)"
  by (simp add: outbox_grows_def)

lemma wp_enqueued:
  "wpre (ignoring (enqueue_in_app u ev subject body payload)) (\<lambda>_. outbox_grows 1 w) (\<lambda>_. outbox_grows 1 w) w"
  by (auto simp: wp enqueue_in_app_def notifications_enqueue_def outbox_grows_def split: option.split)

lemma wp_each_enqueued:
  assumes "\<And>x s. wpre (f x) (\<lambda>_. outbox_grows 1 s) (\<lambda>_. outbox_grows 1 s) s"
  shows "wpre (for_each xs f) (\<lambda>_. outbox_grows (length xs) w) (\<lambda>_. outbox_grows (length xs) w) w"
proof (induction xs arbitrary: w)
  case (Cons x xs)
  have "wpre (for_each xs f) (\<lambda>_. outbox_grows (length (x # xs)) w) (\<lambda>_. outbox_grows (length (x # xs)) w) v"
    if "outbox_grows 1 w v" for v
    by (rule wp_mono [OF Cons.IH]) (use that in \<open>auto simp: outbox_grows_def\<close>)
  then show ?case
    unfolding for_each.simps wp_andThen by (intro wp_mono [OF assms]) (auto simp: outbox_grows_def)
qed (simp add: wp_ret outbox_grows_def)

lemma enrollment_page_bound:
  "wpre (enrollments_list_by_course c \<lparr>ef_page = 0, ef_per_page = 1000, ef_status = st\<rparr>)
     (\<lambda>(items, _) v. length items \<le> 20 \<and> notification_outbox v = notification_outbox w) (\<lambda>_ v. notification_outbox v = notification_outbox w) w"
proof -
  have "length (page_of 1 20 rs) \<le> 20" for rs :: "enrollment list" using length_page_of [of 20 1 rs] by simp
  then show ?thesis
    by (auto simp: enrollments_list_by_course_def enrollments_list_def Let_def wp norm_page_def norm_per_page_def)
qed

lemma wp_enrollees_notified:
  "wpre (notify_course_enrollees c exclude ev subject body payload) (\<lambda>_. outbox_grows 20 w) (\<lambda>_. outbox_grows 20 w) w"
proof -
  have each: "wpre (if en_user_id en = exclude then ret () else ignoring (enqueue_in_app (en_user_id en) ev subject body payload))
      (\<lambda>_. outbox_grows 1 s) (\<lambda>_. outbox_grows 1 s) s" for en s
    using wp_enqueued by (simp add: wp_ret outbox_grows_def)
  have loop: "wpre (for_each items (\<lambda>en. if en_user_id en = exclude then ret ()
      else ignoring (enqueue_in_app (en_user_id en) ev subject body payload))) (\<lambda>_. outbox_grows 20 w) (\<lambda>_. outbox_grows 20 w) v"
    if "length items \<le> 20" "notification_outbox v = notification_outbox w" for items v
    by (rule wp_mono [OF wp_each_enqueued [OF each]]) (use that in \<open>auto simp: outbox_grows_def\<close>)
  show ?thesis
    unfolding notify_course_enrollees_def read_back_def wp_andThen wp_optional
    by (rule wp_mono [OF enrollment_page_bound]) (auto simp: wp_ret outbox_grows_def intro: loop)
qed

lemma announcement_reaches_one_page:
  "outbox_grows 20 w (snd (publish_announcement actor i admin w))"
proof -
  have rest: "wpre (andThen (notify_course_enrollees c exclude ev subject body payload) (\<lambda>_. ret a))
      (\<lambda>_. outbox_grows 20 w) (\<lambda>_. outbox_grows 20 w) v" if "notification_outbox v = notification_outbox w"
    for c exclude ev subject body payload a v
    unfolding wp_andThen wp_ret
    by (rule wp_mono [OF wp_enrollees_notified]) (use that in \<open>auto simp: outbox_grows_def\<close>)
  have tail: "wpre (andThen (read_back (announcements_get_by_id i)) (\<lambda>r. andThen (deref r) (\<lambda>a.
      andThen (notify_course_enrollees (ann_course_id a) actor ev (ann_title a) (ann_body a)
        [''announcement_id'' \<mapsto> ann_id a, ''course_id'' \<mapsto> ann_course_id a]) (\<lambda>_. ret a))))
      (\<lambda>_. outbox_grows 20 w) (\<lambda>_. outbox_grows 20 w) v" if "notification_outbox v = notification_outbox w" for ev v
  proof (rule wp_read_start)
    show "changes read_only (read_back (announcements_get_by_id i))" unfolding read_back_def by (intro moves)
  qed (use that in \<open>auto simp: deref_def wp_raise wp_ret outbox_grows_def andThen_ret wp_andThen [of "raise e" for e]
      intro!: rest split: option.split\<close>)
  have "wpre (publish_announcement actor i admin) (\<lambda>_. outbox_grows 20 w) (\<lambda>_. outbox_grows 20 w) w"
    unfolding publish_announcement_def
    by (rule wp_read_start [OF communication_reads(1)], simp add: outbox_grows_def,
        rule wp_read_then [OF communication_checks_read(1)])
      (auto simp: outbox_grows_def wp_guard_then announcements_set_status_def announcement_set_def
        wp_andThen [of "exec_rows a c m x" for a c m x] wp_exec_rows pop_def intro!: tail)
  then show ?thesis by (auto simp: wpre_def split: prod.splits sum.splits)
qed

text \<open>The author of a thread is not told about the replies of others, unless the thread is the teacher's.\<close>

definition told :: "world \<Rightarrow> uuid \<Rightarrow> notification list" where
  "told w u = filter (\<lambda>n. nt_user_id n = u) (notification_outbox w)"

lemma set_unseen: "set (unseen is seen) = set is - seen"
  by (induction "is" arbitrary: seen) auto

lemma distinct_unseen: "distinct (unseen is seen)"
  by (induction "is" arbitrary: seen) (auto simp: set_unseen)

lemma wp_told_other:
  "u \<noteq> x \<Longrightarrow> wpre (ignoring (enqueue_in_app u ev subject body payload)) (\<lambda>_ v. told v x = told w x) (\<lambda>_ v. told v x = told w x) w"
  by (auto simp: wp enqueue_in_app_def notifications_enqueue_def outbox_entry_def told_def split: option.split)

lemma wp_each_told_other:
  assumes "\<And>y s. y \<in> set ys \<Longrightarrow> wpre (f y) (\<lambda>_ v. told v x = told s x) (\<lambda>_ v. told v x = told s x) s"
  shows "wpre (for_each ys f) (\<lambda>_ v. told v x = told w x) (\<lambda>_ v. told v x = told w x) w"
  using assms
proof (induction ys arbitrary: w)
  case (Cons y ys)
  have "wpre (for_each ys f) (\<lambda>_ v. told v x = told w x) (\<lambda>_ v. told v x = told w x) s" if "told s x = told w x" for s
    by (rule wp_mono [OF Cons.IH]) (use that Cons.prems in auto)
  moreover have "wpre (f y) (\<lambda>_ v. told v x = told w x) (\<lambda>_ v. told v x = told w x) w" by (rule Cons.prems) simp
  ultimately show ?case unfolding for_each.simps wp_andThen by (elim wp_mono) auto
qed (simp add: wp_ret)

lemma told_faults [simp]: "told (w\<lparr>faults := f\<rparr>) x = told w x"
  by (simp add: told_def)

lemma wp_option:
  "wpre n Q E w \<Longrightarrow> (\<And>a. wpre (m a) Q E w) \<Longrightarrow> wpre (case x of None \<Rightarrow> n | Some a \<Rightarrow> m a) Q E w"
  by (cases x) simp_all

lemma wp_participants_told:
  assumes "\<And>co. live_course w c = Some co \<Longrightarrow> co_teacher_id co \<noteq> author"
  shows "wpre (notify_thread_participants t exclude subject body c author)
    (\<lambda>_ v. told v author = told w author) (\<lambda>_ v. told v author = told w author) w"
proof -
  let ?Q = "\<lambda>_ v. told v author = told w author"
  have loop: "wpre (for_each (unseen ids (insert author seen)) (\<lambda>i. ignoring (enqueue_in_app i ev subject body payload))) ?Q ?Q v"
    if "told v author = told w author" for ids seen ev payload v
    by (rule wp_mono [OF wp_each_told_other]) (use that in \<open>auto simp: set_unseen intro!: wp_told_other\<close>)
  have teacher: "wpre (case course of None \<Rightarrow> ret () | Some co \<Rightarrow> if co_teacher_id co = exclude then ret ()
      else ignoring (enqueue_in_app (co_teacher_id co) ev subject body payload)) ?Q ?Q v"
    if "told v author = told w author" "\<And>co. course = Some co \<Longrightarrow> co_teacher_id co \<noteq> author" for course ev payload v
  proof (cases course)
    case (Some co)
    have "wpre (ignoring (enqueue_in_app (co_teacher_id co) ev subject body payload)) ?Q ?Q v"
      by (rule wp_mono [OF wp_told_other [OF that(2) [OF Some]]]) (simp_all add: that(1))
    with Some that(1) show ?thesis by (simp add: wp_ret)
  qed (simp add: that(1) wp_ret)
  have all: "wpre (let seen = insert author (case course of None \<Rightarrow> {exclude} | Some co \<Rightarrow> {exclude, co_teacher_id co})
      in andThen (for_each (unseen ids seen) (\<lambda>i. ignoring (enqueue_in_app i ev subject body payload))) (\<lambda>_.
        case course of None \<Rightarrow> ret () | Some co \<Rightarrow> if co_teacher_id co = exclude then ret ()
        else ignoring (enqueue_in_app (co_teacher_id co) ev subject body payload))) ?Q ?Q v"
    if "told v author = told w author" "\<And>co. course = Some co \<Longrightarrow> co_teacher_id co \<noteq> author" for course ev payload v ids
    unfolding Let_def wp_andThen [of "for_each xs f" for xs f]
    by (rule wp_mono [OF loop [OF that(1)]]) (auto intro!: teacher that(2))
  have course: "wpre (andThen (read_back (courses_get_by_id c)) g) ?Q ?Q (w\<lparr>faults := f\<rparr>)"
    if "\<And>course f. (\<And>co. course = Some co \<Longrightarrow> co_teacher_id co \<noteq> author) \<Longrightarrow> wpre (g course) ?Q ?Q (w\<lparr>faults := f\<rparr>)" for g f
  proof -
    have "wpre (courses_get_by_id c) (\<lambda>co v. wpre (g (Some co)) ?Q ?Q v) (\<lambda>_ v. wpre (g None) ?Q ?Q v) (w\<lparr>faults := f\<rparr>)"
      unfolding courses_get_by_id_eq by (auto simp: wp_fetch_row pop_def intro!: that assms split: option.split)
    then show ?thesis by (simp add: read_back_def wp_andThen wp_optional)
  qed
  have ids: "changes read_only (read_back (posts_list_participant_ids t))" unfolding read_back_def by (intro moves)
  show ?thesis
    unfolding notify_thread_participants_def
    by (rule wp_read_start [OF ids], simp, rule wp_option, simp add: wp_ret, rule course, rule all, simp_all)
qed

definition same_news :: "world \<Rightarrow> world \<Rightarrow> bool" where
  "same_news w v \<longleftrightarrow> told v = told w \<and> live_course v = live_course w"

lemma news_same:
  assumes "notification_outbox v = notification_outbox w" "courses v = courses w" "categories v = categories w" "users v = users w"
  shows "same_news w v"
proof -
  have "scan_course v = scan_course w" using assms by (simp add: fun_eq_iff scan_course_def category_name_of_def user_name_of_def cong: option.case_cong)
  with assms have "live_course v i = live_course w i" "told v u = told w u" for i u by (simp_all add: told_def live_course_def)
  then show ?thesis by (simp add: same_news_def fun_eq_iff)
qed

interpretation news: world_order same_news
  by unfold_locales (simp_all add: news_same, simp add: same_news_def)

lemma news_posts: "changes same_news (posts_create p)"
proof -
  have "same_news w (w\<lparr>uuid_next := n, discussion_posts := ps\<rparr>)" "same_news w (w\<lparr>discussion_threads := ts\<rparr>)" for w n ps ts
    by (simp_all add: news_same)
  then show ?thesis
    unfolding posts_create_def posts_insert_def thread_set_def
    by (intro moves news.changes_insert_row news.changes_exec_raw) auto
qed

text \<open>\<open>CreatePost\<close> notifies at its end; before that it changes no notification.\<close>

lemma reply_hides_from_author:
  assumes "thread_of w i = Some t" and "dt_author_id t \<noteq> actor"
    and "\<And>co. live_course w (dt_course_id t) = Some co \<Longrightarrow> co_teacher_id co \<noteq> dt_author_id t"
  shows "told (snd (create_post actor i body parent admin w)) (dt_author_id t) = told w (dt_author_id t)"
proof -
  let ?Q = "\<lambda>_ v. told v (dt_author_id t) = told w (dt_author_id t)"
  have tail: "wpre (andThen (read_back (posts_get_by_id k)) (\<lambda>r.
      andThen (notify_thread_participants i actor s b (dt_course_id t) (dt_author_id t)) (\<lambda>_. ret r))) ?Q ?Q v"
    if "told v (dt_author_id t) = told w (dt_author_id t)" "live_course v (dt_course_id t) = live_course w (dt_course_id t)"
    for k s b v
  proof (rule wp_read_start)
    show "changes read_only (read_back (posts_get_by_id k))" unfolding read_back_def by (intro moves)
    show "wpre (andThen (notify_thread_participants i actor s b (dt_course_id t) (dt_author_id t)) (\<lambda>_. ret r)) ?Q ?Q (v\<lparr>faults := f\<rparr>)" for r f
      unfolding wp_andThen wp_ret
      by (rule wp_mono [OF wp_participants_told]) (use that assms(3) in auto)
  qed (simp add: that(1))
  have post: "wpre (posts_create p) (\<lambda>_. same_news w) (\<lambda>_. same_news w) (w\<lparr>faults := f\<rparr>)" for p f
    by (rule news.wp_changes [OF news_posts]) (simp add: news_same)
  have "wpre (create_post actor i body parent admin) ?Q ?Q w"
    unfolding create_post_def Let_def
    by (rule wp_thread, simp, rule wp_read_then [OF communication_checks_read(2)])
      (use assms(1) in \<open>auto simp: wp_guard_then wp_andThen [of "posts_create p" for p] same_news_def
        intro!: wp_mono [OF post] tail\<close>)
  then show ?thesis by (auto simp: wpre_def split: prod.splits sum.splits)
qed

section \<open>Conversations\<close>

definition conversation_between :: "world \<Rightarrow> uuid \<Rightarrow> uuid \<Rightarrow> dm_conversation option" where
  "conversation_between w u v = (case order_pair u v of (a, b) \<Rightarrow> find (of_pair a b) (dm_conversations w))"

lemma order_pair_commute: "order_pair u v = order_pair v u"
  by (auto simp: order_pair_def)

lemma conversation_symmetric: "conversations_get_or_create u v = conversations_get_or_create v u"
  by (simp add: conversations_get_or_create_def order_pair_commute)

lemma wp_conversation:
  "wpre (conversations_get_or_create u v) (\<lambda>c z. \<exists>d. conversation_between z u v = Some d \<and> dc_id d = dc_id c) (\<lambda>_ _. True) w"
proof -
  obtain a b where ab: "order_pair u v = (a, b)" by force
  show ?thesis
  proof (cases "find (of_pair a b) (dm_conversations w)")
    case None
    then show ?thesis
      by (auto simp: conversations_get_or_create_def ab wpre_def insert_row_def conversation_between_def find_append
          new_conversation_def of_pair_def Let_def split: option.split)
  next
    case (Some c)
    have "of_pair a b (r\<lparr>dc_updated_at := t\<rparr>) = of_pair a b r" for r t by (simp add: of_pair_def)
    with Some show ?thesis
      by (auto simp: conversations_get_or_create_def ab wpre_def conversation_between_def conversation_touch_def find_upd_where)
  qed
qed

text \<open>Whoever starts it, and however often: the two users have one conversation.\<close>

lemma conversation_found:
  assumes "conversations_get_or_create u v w = (Inr c, z)"
  shows "\<exists>d. conversation_between z u v = Some d \<and> dc_id d = dc_id c"
  using wp_conversation [of u v w] assms by (simp add: wpre_def)

lemma conversation_again:
  assumes "conversation_between w u v = Some d" and "conversations_get_or_create u v w = (Inr c, z)"
  shows "dc_id c = dc_id d \<and> map dc_id (dm_conversations z) = map dc_id (dm_conversations w)"
  using assms by (auto simp: conversations_get_or_create_def conversation_between_def conversation_touch_def
      split: prod.splits if_splits)

text \<open>Only the two users of a conversation read it.\<close>

lemma strangers_read_nothing:
  assumes "find (\<lambda>r. dc_id r = i) (dm_conversations w) = Some c" and "actor \<noteq> dc_user_a c" "actor \<noteq> dc_user_b c"
  shows "\<exists>e. fst (list_messages actor i page per w) = Inl e" "\<exists>e. fst (send_message actor i body w) = Inl e"
    "dm_messages (snd (send_message actor i body w)) = dm_messages w"
proof -
  have "participant actor c = False" using assms(2,3) by (auto simp: participant_def)
  then have "wpre (list_messages actor i page per) (\<lambda>_ _. False) (\<lambda>_ _. True) w"
    "wpre (send_message actor i body) (\<lambda>_ _. False) (\<lambda>_ v. dm_messages v = dm_messages w) w"
    using assms(1) by (simp_all add: list_messages_def send_message_def conversations_get_by_id_def Let_def wp)
  then show "\<exists>e. fst (list_messages actor i page per w) = Inl e" "\<exists>e. fst (send_message actor i body w) = Inl e"
    "dm_messages (snd (send_message actor i body w)) = dm_messages w"
    by (auto dest: wp_refused)
qed

section \<open>The pages of a conversation\<close>

definition message_page :: "world \<Rightarrow> uuid \<Rightarrow> int \<Rightarrow> int \<Rightarrow> dm_message list" where
  "message_page w c page per = take (nat (message_limit per)) (drop (nat (go_mul ((if page \<le> 0 then 1 else page) - 1) per)) (messages_in w c))"

lemma list_messages_quiet:
  assumes "quiet w" and "find (\<lambda>r. dc_id r = i) (dm_conversations w) = Some c" "participant actor c"
    and "0 \<le> go_mul ((if page \<le> 0 then 1 else page) - 1) per"
  shows "\<exists>n. list_messages actor i page per w = (Inr (message_page w i page per, n), w)"
  using assms by (simp add: list_messages_def conversations_get_by_id_def messages_list_by_conversation_def message_page_def
      andThen_def fetch_row_def fetch_raw_def fetch_val_def guard_def ret_def)

text \<open>With a page size of 1 to 200, the pages read one after the other are the conversation.\<close>

lemma page_offset:
  assumes "1 \<le> p" and "0 \<le> per" and "int p * per < 2 ^ 63"
  shows "go_mul ((if int p \<le> 0 then 1 else int p) - 1) per = int (p - 1) * per"
proof -
  have "int (p - 1) * per \<le> int p * per" using assms by (intro mult_right_mono) auto
  with assms have "wrap64 (int (p - 1) * per) = int (p - 1) * per"
    by (intro wrap64_id) (auto intro: order_trans [of _ 0])
  with assms(1) show ?thesis by (simp add: go_mul_def of_nat_diff)
qed

lemma pages_in_order:
  assumes "1 \<le> per" "per \<le> 200" and "int q * per < 2 ^ 63"
  shows "concat (map (\<lambda>p. message_page w c (int p) per) [1..<Suc q]) = take (q * nat per) (messages_in w c)"
  using assms(3)
proof (induction q)
  case (Suc q)
  have "int q * per \<le> int (Suc q) * per" using assms(1) by (intro mult_right_mono) auto
  with Suc.prems have "int q * per < 2 ^ 63" by simp
  from Suc.IH [OF this]
  have IH: "concat (map (\<lambda>p. message_page w c (int p) per) [1..<Suc q]) = take (q * nat per) (messages_in w c)" .
  have page: "message_page w c (int (Suc q)) per = take (nat per) (drop (q * nat per) (messages_in w c))"
    using page_offset [of "Suc q" per] Suc.prems assms(1,2)
    by (simp only: message_page_def) (simp add: message_limit_def nat_mult_distrib)
  have up: "[1..<Suc (Suc q)] = [1..<Suc q] @ [Suc q]" by simp
  have "take (Suc q * nat per) (messages_in w c) = take (q * nat per) (messages_in w c) @ take (nat per) (drop (q * nat per) (messages_in w c))"
    by (simp only: mult_Suc add.commute [of "nat per"] take_add)
  then show ?case by (simp only: up map_append concat_append IH list.map concat.simps append_Nil2 page)
qed simp

text \<open>With a larger one, the pages are as far apart as it says, but hold 200 messages: those between are on none.\<close>

lemma message_lost:
  assumes "200 < per" and "200 \<le> int k mod per" and "k < length (messages_in w c)" and "distinct (map dm_id (dm_messages w))"
    and "1 \<le> p" "int p * per < 2 ^ 63"
  shows "messages_in w c ! k \<notin> set (message_page w c (int p) per)"
proof
  let ?ms = "messages_in w c" and ?m = "nat (int (p - 1) * per)"
  assume "?ms ! k \<in> set (message_page w c (int p) per)"
  moreover have "message_page w c (int p) per = take 200 (drop ?m ?ms)"
    using page_offset [of p per] assms(1,5,6) by (simp only: message_page_def) (simp add: message_limit_def)
  ultimately obtain j where j: "j < 200" "?m + j < length ?ms" "?ms ! (?m + j) = ?ms ! k"
    by (auto simp: in_set_conv_nth)
  have "distinct ?ms"
    using assms(4) by (auto simp: messages_in_def distinct_map intro: distinct_filter)
  with j assms(3) have "k = ?m + j" by (simp add: nth_eq_iff_index_eq)
  then have "int k = int j + int (p - 1) * per" using assms(1) by simp
  then have "int k mod per = int j mod per" by simp
  also have "\<dots> = int j" using j(1) assms(1) by simp
  finally show False using assms(2) j(1) by simp
qed

section \<open>Deleting a post\<close>

text \<open>A deletion that succeeds removes the post and the replies below it, and nothing else.\<close>

lemma delete_post_effect:
  assumes "delete_post actor i admin w = (Inr (), v)"
  shows "discussion_posts v = filter (\<lambda>r. \<not> below (discussion_posts w) i (dp_id r)) (discussion_posts w)"
proof -
  have "wpre (posts_delete i) (\<lambda>_ v. discussion_posts v
      = filter (\<lambda>r. dp_id r \<notin> set (posts_below (discussion_posts w) [i])) (discussion_posts w)) (\<lambda>_ _. True) (w\<lparr>faults := f\<rparr>)" for f
    by (simp add: posts_delete_def wp pop_def)
  then have "wpre (delete_post actor i admin) (\<lambda>_ v. discussion_posts v
      = filter (\<lambda>r. dp_id r \<notin> set (posts_below (discussion_posts w) [i])) (discussion_posts w)) (\<lambda>_ _. True) w"
    unfolding delete_post_def
    by (intro wp_read_start wp_read_then) (auto intro!: moves)
  then show ?thesis using assms by (simp add: wpre_def posts_below_iff)
qed

end
