(* ===== verification/Media.thy ===== *)
theory Media
  imports CommunicationRepo Pdf Hex
begin

text \<open>
  Uploaded media: \<open>internal/storage/limits.go\<close> and \<open>scanner.go\<close>, the repository of
  \<open>internal/repository/postgres/media.go\<close> and \<open>MediaService\<close> (\<open>internal/service/media.go\<close>). The object store is
  the interface \<open>storage.ObjectStore\<close>: a record of functions, an argument of every operation, so it may answer
  differently to every request. What the service asks it to delete is logged in \<open>store_deletes\<close>; its errors
  are ignored there, as in the code. The virus scanner is another argument.
\<close>

section \<open>Purposes and limits\<close>

abbreviation purpose_avatar :: string where "purpose_avatar \<equiv> ''avatar''"
abbreviation purpose_cover :: string where "purpose_cover \<equiv> ''course_cover''"
abbreviation purpose_lesson :: string where "purpose_lesson \<equiv> ''lesson_media''"
abbreviation purpose_attachment :: string where "purpose_attachment \<equiv> ''assignment_attachment''"
abbreviation purpose_general :: string where "purpose_general \<equiv> ''general''"

abbreviation scan_pending :: string where "scan_pending \<equiv> ''pending''"
abbreviation scan_clean :: string where "scan_clean \<equiv> ''clean''"
abbreviation scan_infected :: string where "scan_infected \<equiv> ''infected''"
abbreviation scan_skipped :: string where "scan_skipped \<equiv> ''skipped''"

record purpose_limit =
  li_max_bytes :: nat
  li_allowed :: "string list"

definition purpose_limits :: "string \<rightharpoonup> purpose_limit" where
  "purpose_limits = [
     purpose_avatar \<mapsto> \<lparr>li_max_bytes = 5 * 2 ^ 20, li_allowed = [''image/jpeg'', ''image/png'', ''image/webp'', ''image/gif'']\<rparr>,
     purpose_cover \<mapsto> \<lparr>li_max_bytes = 10 * 2 ^ 20, li_allowed = [''image/'']\<rparr>,
     purpose_lesson \<mapsto> \<lparr>li_max_bytes = 500 * 2 ^ 20, li_allowed = [''video/'', ''audio/'', ''image/'', ''application/pdf'']\<rparr>,
     purpose_attachment \<mapsto> \<lparr>li_max_bytes = 50 * 2 ^ 20,
       li_allowed = [''application/pdf'', ''image/'', ''text/plain'', ''application/zip'']\<rparr>,
     purpose_general \<mapsto> \<lparr>li_max_bytes = 25 * 2 ^ 20, li_allowed = [''image/'', ''application/pdf'', ''video/'', ''audio/'']\<rparr>]"

definition limit_for :: "string \<Rightarrow> purpose_limit option" where
  "limit_for purpose = purpose_limits purpose"

definition type_admits :: "string \<Rightarrow> string \<Rightarrow> bool" where
  "type_admits ct allowed \<longleftrightarrow>
     (if allowed \<noteq> '''' \<and> last allowed = CHR ''/'' then take (length allowed) ct = allowed else ct = allowed)"

definition allowed_content_type :: "string \<Rightarrow> string \<Rightarrow> bool" where
  "allowed_content_type purpose content_type \<longleftrightarrow> (case purpose_limits purpose of
       None \<Rightarrow> False
     | Some l \<Rightarrow> list_ex (type_admits (to_lower (trim_space content_type))) (li_allowed l))"

text \<open>\<open>LimitFor\<close> where its second result is dropped: the zero value has no bytes.\<close>

definition max_bytes :: "string \<Rightarrow> int" where
  "max_bytes purpose = (case limit_for purpose of None \<Rightarrow> 0 | Some l \<Rightarrow> int (li_max_bytes l))"

text \<open>\<open>path.Ext\<close>: from the last dot on, unless a slash comes after it.\<close>

definition path_ext :: "string \<Rightarrow> string" where
  "path_ext s = (let r = rev s; tail = takeWhile (\<lambda>c. c \<noteq> CHR ''.'' \<and> c \<noteq> CHR ''/'') r
     in case drop (length tail) r of
          [] \<Rightarrow> ''''
        | c # _ \<Rightarrow> if c = CHR ''.'' then c # rev tail else '''')"

section \<open>The object store and the scanner\<close>

record object_store =
  os_configured :: bool
  os_presign :: "string \<Rightarrow> string \<Rightarrow> int \<Rightarrow> string option"
  os_head :: "string \<Rightarrow> (int \<times> string) option"
  os_public_url :: "string \<Rightarrow> string"

definition noop_store :: object_store where
  "noop_store = \<lparr>os_configured = False, os_presign = (\<lambda>_ _ _. None), os_head = (\<lambda>_. None), os_public_url = (\<lambda>_. '''')\<rparr>"

definition store_delete :: "string \<Rightarrow> unit act" where
  "store_delete key = (\<lambda>w. (Inr (), w\<lparr>store_deletes := store_deletes w @ [key]\<rparr>))"

type_synonym scanner = "media_asset \<Rightarrow> err + (string \<times> string)"

definition skip_scanner :: scanner where
  "skip_scanner a = Inr (scan_skipped, ''virus scan skipped (hook not configured)'')"

section \<open>The repository\<close>

definition media_live :: "media_asset \<Rightarrow> bool" where
  "media_live r \<longleftrightarrow> ma_deleted_at r = None"

text \<open>The constraints of one row: the types of its columns and its checks.\<close>

definition media_range :: "media_asset \<Rightarrow> bool" where
  "media_range a \<longleftrightarrow> list_all (\<lambda>v. case v of None \<Rightarrow> True | Some n \<Rightarrow> int4 n) [ma_duration a, ma_width a, ma_height a]"

definition media_checks :: "media_asset \<Rightarrow> bool" where
  "media_checks a \<longleftrightarrow> ma_purpose a \<in> {purpose_avatar, purpose_cover, purpose_lesson, purpose_attachment, purpose_general}
     \<and> ma_scan_status a \<in> {scan_pending, scan_clean, scan_infected, scan_skipped}
     \<and> 0 \<le> ma_size a \<and> sql_nonblank (ma_content_type a) \<and> sql_nonblank (ma_storage_key a)"

definition media_create :: "media_asset \<Rightarrow> media_asset act" where
  "media_create a = insert_row
     (\<lambda>w. violation (media_range a) (media_checks a)
        (pk_free (map ma_id (media_assets w)) w \<and> ma_storage_key a \<notin> set (map ma_storage_key (media_assets w)))
        (has_user w (ma_owner_id a) \<and> (case ma_course_id a of None \<Rightarrow> True | Some c \<Rightarrow> has_course w c)))
     (\<lambda>w. a\<lparr>ma_id := fresh_uuid w, ma_created_at := clock w, ma_updated_at := clock w, ma_deleted_at := None\<rparr>)
     (\<lambda>r w. w\<lparr>media_assets := media_assets w @ [r]\<rparr>)
     (insert_err ''media asset already exists'' ''create media asset'')"

definition media_get_by_id :: "uuid \<Rightarrow> media_asset act" where
  "media_get_by_id i = fetch_row
     (\<lambda>w. find (\<lambda>r. ma_id r = i \<and> media_live r) (media_assets w))
     ''media asset not found'' ''get media asset''"

definition media_write :: "media_asset \<Rightarrow> time \<Rightarrow> media_asset \<Rightarrow> media_asset" where
  "media_write a now r = r\<lparr>ma_status := ma_status a, ma_content_type := ma_content_type a, ma_filename := ma_filename a,
     ma_size := ma_size a, ma_public_url := ma_public_url a, ma_duration := ma_duration a, ma_width := ma_width a,
     ma_height := ma_height a, ma_scan_status := ma_scan_status a, ma_scan_note := ma_scan_note a, ma_updated_at := now\<rparr>"

definition media_update :: "media_asset \<Rightarrow> media_asset act" where
  "media_update a =
     (let own = (\<lambda>r. ma_id r = ma_id a \<and> media_live r)
      in andThen (exec_check (\<lambda>w. cnt own (media_assets w))
           (\<lambda>w. violation (media_range a)
              (list_all (\<lambda>r. media_checks (media_write a 0 r)) (filter own (media_assets w))) True True)
           (\<lambda>w. w\<lparr>media_assets := upd_where own (media_write a (clock w)) (media_assets w)\<rparr>)
           ''media asset not found'' ''update media asset'') (\<lambda>_.
         media_get_by_id (ma_id a)))"

definition media_list_by_owner :: "uuid \<Rightarrow> int \<Rightarrow> int \<Rightarrow> (media_asset list \<times> nat) act" where
  "media_list_by_owner u page0 per0 =
     (let page = (if page0 < 1 then 1 else page0);
          per = (if per0 < 1 \<or> 100 < per0 then 20 else per0);
          own = (\<lambda>r. ma_owner_id r = u \<and> media_live r)
      in andThen (fetch_val (\<lambda>w. cnt own (media_assets w)) ''count media assets'') (\<lambda>n.
         andThen (fetch_val (\<lambda>w. page_of page per (order_desc ma_created_at (filter own (media_assets w)))) ''list media assets'') (\<lambda>rows.
         ret (rows, n))))"

definition media_soft_delete :: "uuid \<Rightarrow> unit act" where
  "media_soft_delete i = exec_rows
     (\<lambda>w. cnt (\<lambda>r. ma_id r = i \<and> media_live r) (media_assets w))
     (\<lambda>w. w\<lparr>media_assets := upd_where (\<lambda>r. ma_id r = i \<and> media_live r)
        (\<lambda>r. r\<lparr>ma_deleted_at := Some (clock w), ma_status := MediaDeleted, ma_updated_at := clock w\<rparr>) (media_assets w)\<rparr>)
     ''media asset not found'' ''delete media asset''"

section \<open>The service\<close>

record media_input =
  mi_purpose :: string
  mi_content_type :: string
  mi_filename :: string
  mi_course_id :: "uuid option"
  mi_size :: int

record media_complete =
  mc_size :: "int option"
  mc_duration :: "int option"
  mc_width :: "int option"
  mc_height :: "int option"

record upload_intent =
  ui_asset :: media_asset
  ui_method :: string
  ui_upload_url :: string
  ui_headers :: "(string \<times> string) list"
  ui_expires_at :: time

text \<open>The lifetime of an upload URL in seconds (\<open>NewMediaService\<close>).\<close>

definition presign_lifetime :: "int \<Rightarrow> int" where
  "presign_lifetime ttl = (if ttl \<le> 0 then 15 * 60 else ttl)"

text \<open>A course named by the upload: its teacher and admins add any media to it, others two purposes.\<close>

definition media_course :: "uuid \<Rightarrow> string \<Rightarrow> uuid option \<Rightarrow> bool \<Rightarrow> uuid option act" where
  "media_course u purpose c admin = (case c of
       None \<Rightarrow> ret None
     | Some i \<Rightarrow> if i = '''' then ret None else
         andThen (courses_get_by_id i) (\<lambda>course.
         andThen (guard (admin \<or> co_teacher_id course = u \<or> purpose = purpose_attachment \<or> purpose = purpose_general)
           (forbidden ''only the course teacher can upload this media type for the course'')) (\<lambda>_.
         ret (Some i))))"

definition media_key :: "string \<Rightarrow> uuid \<Rightarrow> string \<Rightarrow> string \<Rightarrow> string" where
  "media_key purpose u random filename = purpose @ ''/'' @ u @ ''/'' @ hex_encode random @ path_ext filename"

definition create_upload ::
  "object_store \<Rightarrow> int \<Rightarrow> uuid \<Rightarrow> media_input \<Rightarrow> bool \<Rightarrow> string \<Rightarrow> upload_intent act" where
  "create_upload st ttl u i admin random =
     andThen (guard (os_configured st) (validation ''object storage is not configured'')) (\<lambda>_.
     let purpose = (if mi_purpose i = '''' then purpose_general else mi_purpose i);
         ct = to_lower (trim_space (mi_content_type i))
     in case limit_for purpose of
          None \<Rightarrow> raise (validation ''invalid purpose'')
        | Some limit \<Rightarrow>
     andThen (guard (ct \<noteq> '''') (validation ''content_type is required'')) (\<lambda>_.
     andThen (guard (allowed_content_type purpose ct) (validation ''content_type not allowed for this purpose'')) (\<lambda>_.
     andThen (guard (0 \<le> mi_size i) (validation ''size_bytes must be >= 0'')) (\<lambda>_.
     andThen (guard (mi_size i \<le> int (li_max_bytes limit))
       (validation (''declared size exceeds limit of '' @ decimal (li_max_bytes limit) @ '' bytes''))) (\<lambda>_.
     andThen (media_course u purpose (mi_course_id i) admin) (\<lambda>c.
     let key = media_key purpose u random (mi_filename i)
     in andThen (media_create \<lparr>ma_id = '''', ma_owner_id = u, ma_course_id = c, ma_purpose = purpose,
          ma_status = MediaPending, ma_content_type = ct, ma_filename = trim_space (mi_filename i), ma_size = mi_size i,
          ma_storage_key = key, ma_public_url = os_public_url st key, ma_duration = None, ma_width = None,
          ma_height = None, ma_scan_status = scan_pending, ma_scan_note = '''', ma_created_at = 0, ma_updated_at = 0,
          ma_deleted_at = None\<rparr>) (\<lambda>asset.
     case os_presign st key ct (presign_lifetime ttl) of
       None \<Rightarrow> raise (internal ''failed to create upload URL'')
     | Some url \<Rightarrow>
         andThen (asks clock) (\<lambda>now.
         ret \<lparr>ui_asset = asset, ui_method = ''PUT'', ui_upload_url = url, ui_headers = [(''Content-Type'', ct)],
              ui_expires_at = now + presign_lifetime ttl\<rparr>))))))))"

definition media_require_owner :: "uuid \<Rightarrow> uuid \<Rightarrow> bool \<Rightarrow> media_asset act" where
  "media_require_owner actor i admin =
     andThen (media_get_by_id i) (\<lambda>a.
     andThen (guard (admin \<or> ma_owner_id a = actor) (forbidden ''cannot modify this media asset'')) (\<lambda>_.
     ret a))"

text \<open>What a completed upload looks like before the scan and after it.\<close>

definition completed_asset :: "object_store \<Rightarrow> media_complete \<Rightarrow> int \<Rightarrow> string \<Rightarrow> media_asset \<Rightarrow> media_asset" where
  "completed_asset st i bytes ct a =
     a\<lparr>ma_content_type := (if ct \<noteq> '''' then ct else ma_content_type a),
       ma_size := (case mc_size i of None \<Rightarrow> bytes | Some n \<Rightarrow> n),
       ma_duration := mc_duration i, ma_width := mc_width i, ma_height := mc_height i,
       ma_public_url := os_public_url st (ma_storage_key a), ma_status := MediaUploaded\<rparr>"

definition scanned_asset :: "string \<Rightarrow> string \<Rightarrow> media_asset \<Rightarrow> media_asset" where
  "scanned_asset ss note a =
     a\<lparr>ma_scan_status := ss, ma_scan_note := note,
       ma_status := (if ss = scan_infected then MediaRejected
                     else if ss = scan_clean \<or> ss = scan_skipped then MediaReady else MediaUploaded)\<rparr>"

definition complete_upload ::
  "object_store \<Rightarrow> scanner \<Rightarrow> uuid \<Rightarrow> uuid \<Rightarrow> media_complete \<Rightarrow> bool \<Rightarrow> media_asset act" where
  "complete_upload st scan actor i inp admin =
     andThen (media_require_owner actor i admin) (\<lambda>a.
     andThen (guard (ma_status a = MediaPending \<or> ma_status a = MediaUploaded)
       (conflict ''media asset is not awaiting completion'')) (\<lambda>_.
     case os_head st (ma_storage_key a) of
       None \<Rightarrow> raise (validation ''uploaded object not found in storage; complete the PUT first'')
     | Some (bytes, ct) \<Rightarrow>
         if max_bytes (ma_purpose a) < bytes
         then andThen (store_delete (ma_storage_key a)) (\<lambda>_.
              andThen (ignoring (media_update
                (a\<lparr>ma_status := MediaRejected, ma_scan_note := ''exceeded size limit after upload''\<rparr>))) (\<lambda>_.
              raise (validation ''uploaded object exceeds size limit'')))
         else (let b = completed_asset st inp bytes ct a
               in case scan b of
                    Inl e \<Rightarrow> raise e
                  | Inr (ss, note) \<Rightarrow> media_update (scanned_asset ss note b))))"

definition get_media :: "uuid \<Rightarrow> uuid \<Rightarrow> bool \<Rightarrow> media_asset act" where
  "get_media actor i admin =
     andThen (media_get_by_id i) (\<lambda>a.
     if admin \<or> ma_owner_id a = actor then ret a
     else case ma_course_id a of
       None \<Rightarrow> raise (forbidden ''cannot view this media asset'')
     | Some c \<Rightarrow> andThen (orElse (andThen (courses_get_by_id c) (\<lambda>course. ret (co_teacher_id course = actor))) (\<lambda>_. ret False))
         (\<lambda>teacher. if teacher then ret a else raise (forbidden ''cannot view this media asset'')))"

definition list_my_media :: "uuid \<Rightarrow> int \<Rightarrow> int \<Rightarrow> (media_asset list \<times> nat) act" where
  "list_my_media actor page per = media_list_by_owner actor page per"

definition delete_media :: "uuid \<Rightarrow> uuid \<Rightarrow> bool \<Rightarrow> unit act" where
  "delete_media actor i admin =
     andThen (media_require_owner actor i admin) (\<lambda>a.
     andThen (store_delete (ma_storage_key a)) (\<lambda>_.
     media_soft_delete i))"

definition apply_scan_result :: "uuid \<Rightarrow> uuid \<Rightarrow> string \<Rightarrow> string \<Rightarrow> bool \<Rightarrow> media_asset act" where
  "apply_scan_result actor i status note admin =
     andThen (guard admin (forbidden ''only admins can apply scan results'')) (\<lambda>_.
     andThen (media_get_by_id i) (\<lambda>a.
     andThen (guard (status \<in> {scan_clean, scan_infected, scan_skipped, scan_pending}) (validation ''invalid scan_status'')) (\<lambda>_.
     let b = a\<lparr>ma_scan_status := status, ma_scan_note := trim_space note\<rparr>
     in if status = scan_infected
        then andThen (store_delete (ma_storage_key a)) (\<lambda>_. media_update (b\<lparr>ma_status := MediaRejected\<rparr>))
        else if (status = scan_clean \<or> status = scan_skipped) \<and> (ma_status a = MediaUploaded \<or> ma_status a = MediaPending)
        then media_update (b\<lparr>ma_status := MediaReady\<rparr>)
        else media_update b)))"

definition avatar_upload_intent :: "object_store \<Rightarrow> int \<Rightarrow> uuid \<Rightarrow> string \<Rightarrow> upload_intent act" where
  "avatar_upload_intent st ttl u random = create_upload st ttl u
     \<lparr>mi_purpose = purpose_avatar, mi_content_type = ''image/jpeg'', mi_filename = ''avatar.jpg'',
      mi_course_id = None, mi_size = 5 * 2 ^ 20\<rparr> False random"

end
