(* ===== verification/MediaRules.thy ===== *)
theory MediaRules
  imports Media CertificateRules
begin

text \<open>
  What uploaded media promise over any run of requests: the states of an asset are left in one direction only,
  an asset that was found infected is never ready, and what an asset is for, whose it is and where it lies is
  fixed when it is created. The last section shows what the code takes on trust from its callers.
\<close>

section \<open>The life of an asset\<close>

inductive media_request :: "world \<Rightarrow> world \<Rightarrow> bool" where
  req_create_upload: "media_request w (snd (create_upload st ttl u i admin random w))"
| req_avatar_upload: "media_request w (snd (avatar_upload_intent st ttl u random w))"
| req_complete_upload: "media_request w (snd (complete_upload st scan actor a inp admin w))"
| req_get_media: "media_request w (snd (get_media actor a admin w))"
| req_list_media: "media_request w (snd (list_my_media actor page per w))"
| req_delete_media: "media_request w (snd (delete_media actor a admin w))"
| req_apply_scan: "media_request w (snd (apply_scan_result actor a verdict note admin w))"

fun may_become :: "media_status \<Rightarrow> media_status \<Rightarrow> bool" where
  "may_become MediaPending st = True"
| "may_become MediaUploaded st = (st \<noteq> MediaPending)"
| "may_become MediaReady st = (st \<in> {MediaReady, MediaRejected, MediaDeleted})"
| "may_become MediaRejected st = (st \<in> {MediaRejected, MediaDeleted})"
| "may_become MediaDeleted st = (st = MediaDeleted)"

definition asset_ok :: "media_asset \<Rightarrow> bool" where
  "asset_ok a \<longleftrightarrow> 0 \<le> ma_size a \<and> (ma_scan_status a = scan_infected \<longrightarrow> ma_status a \<in> {MediaRejected, MediaDeleted})
     \<and> (media_live a \<longleftrightarrow> ma_status a \<noteq> MediaDeleted)"

definition media_ok :: "world \<Rightarrow> bool" where
  "media_ok w \<longleftrightarrow> distinct (map ma_id (media_assets w)) \<and> distinct (map ma_storage_key (media_assets w))
     \<and> list_all asset_ok (media_assets w)"

definition asset_follows :: "media_asset \<Rightarrow> media_asset \<Rightarrow> bool" where
  "asset_follows r s \<longleftrightarrow> ma_id s = ma_id r \<and> ma_owner_id s = ma_owner_id r \<and> ma_course_id s = ma_course_id r
     \<and> ma_purpose s = ma_purpose r \<and> ma_storage_key s = ma_storage_key r \<and> may_become (ma_status r) (ma_status s)"

definition media_step :: "world \<Rightarrow> world \<Rightarrow> bool" where
  "media_step w v \<longleftrightarrow> (media_ok w \<longrightarrow> media_ok v
     \<and> (\<forall>r \<in> set (media_assets w). \<exists>s \<in> set (media_assets v). asset_follows r s))"

lemma may_become_refl [simp]: "may_become s s"
  by (cases s) simp_all

lemma may_become_trans: "may_become r s \<Longrightarrow> may_become s t \<Longrightarrow> may_become r t"
  by (cases r; cases s; cases t) simp_all

lemma asset_follows_refl: "asset_follows r r"
  by (simp add: asset_follows_def)

lemma asset_follows_trans: "asset_follows r s \<Longrightarrow> asset_follows s t \<Longrightarrow> asset_follows r t"
  unfolding asset_follows_def using may_become_trans by metis

lemma media_same: "media_assets v = media_assets w \<Longrightarrow> media_step w v"
  using asset_follows_refl by (auto simp: media_step_def media_ok_def)

interpretation assets: world_order media_step
proof unfold_locales
  show "media_step w v \<Longrightarrow> media_step v u \<Longrightarrow> media_step w u" for w v u
    unfolding media_step_def using asset_follows_trans by meson
qed (simp_all add: media_same)

lemma media_left: "media_assets u = media_assets w \<Longrightarrow> media_step u v = media_step w v"
  by (simp add: media_step_def media_ok_def)

lemma media_reads [moves]:
  "changes read_only (media_get_by_id i)" "changes read_only (media_list_by_owner u page per)"
  "changes read_only (media_require_owner actor i admin)" "changes read_only (media_course u purpose c admin)"
  "changes read_only (get_media actor i admin)"
  by (auto simp: media_get_by_id_def media_list_by_owner_def media_require_owner_def media_course_def get_media_def Let_def
      intro!: moves split: option.split)

lemma media_reads_step: "changes read_only m \<Longrightarrow> changes media_step m"
  by (rule reads_respect) (simp_all add: media_same)

lemmas media_steps [moves] = media_reads [THEN media_reads_step]

lemma wp_store_delete:
  "wpre (andThen (store_delete key) g) Q E w = wpre (g ()) Q E (w\<lparr>store_deletes := store_deletes w @ [key]\<rparr>)"
  by (simp add: wpre_def andThen_def store_delete_def)

lemma store_delete_step [moves]: "changes media_step (store_delete key)"
  by (simp add: changes_def store_delete_def media_same)

text \<open>A row that is changed, alone with its identifier.\<close>

lemma asset_updated:
  assumes "\<And>r. r \<in> set (media_assets w) \<Longrightarrow> ma_id r = i \<Longrightarrow> media_live r \<Longrightarrow> media_ok w \<Longrightarrow> asset_follows r (f r) \<and> asset_ok (f r)"
    and v: "media_assets v = upd_where (\<lambda>r. ma_id r = i \<and> media_live r) f (media_assets w)"
  shows "media_step w v"
  unfolding media_step_def
proof (intro impI conjI ballI)
  let ?g = "\<lambda>r. if ma_id r = i \<and> media_live r then f r else r"
  assume ok: "media_ok w"
  have row: "asset_follows r (?g r) \<and> asset_ok (?g r)" if "r \<in> set (media_assets w)" for r
    using that ok assms(1) [of r] by (auto simp: asset_follows_refl media_ok_def list_all_iff)
  have rows: "media_assets v = map ?g (media_assets w)" by (simp add: v upd_where_def)
  have "map ma_id (map ?g (media_assets w)) = map ma_id (media_assets w)"
    "map ma_storage_key (map ?g (media_assets w)) = map ma_storage_key (media_assets w)"
    unfolding map_map comp_def using row by (auto simp: asset_follows_def)
  moreover have "list_all asset_ok (map ?g (media_assets w))"
    unfolding list.pred_map comp_def using row by (simp only: list_all_iff) blast
  ultimately show "media_ok v"
    using ok unfolding media_ok_def rows by (simp only:)
  fix r assume "r \<in> set (media_assets w)"
  with row [OF this] show "\<exists>s \<in> set (media_assets v). asset_follows r s"
    unfolding rows set_map by blast
qed

definition asset_of :: "world \<Rightarrow> uuid \<Rightarrow> media_asset option" where
  "asset_of w i = find (\<lambda>r. ma_id r = i \<and> media_live r) (media_assets w)"

lemma asset_of_unique:
  assumes "media_ok w" and "asset_of w i = Some a" and "r \<in> set (media_assets w)" "ma_id r = i"
  shows "r = a"
proof -
  have "a \<in> set (media_assets w)" "ma_id a = i"
    using find_SomeD [OF assms(2) [unfolded asset_of_def]] by simp_all
  with assms show ?thesis by (intro distinct_key_unique [of ma_id "media_assets w"]) (simp_all add: media_ok_def)
qed

lemma wp_the_asset:
  assumes "\<And>e f. E e (w\<lparr>faults := f\<rparr>)" and "\<And>a f. asset_of w i = Some a \<Longrightarrow> wpre (g a) Q E (w\<lparr>faults := f\<rparr>)"
  shows "wpre (andThen (media_get_by_id i) g) Q E w"
  using assms by (auto simp: media_get_by_id_def asset_of_def wp pop_def split: option.split)

lemma wp_owned_asset:
  assumes "\<And>e f. E e (w\<lparr>faults := f\<rparr>)"
    and "\<And>a f. asset_of w i = Some a \<Longrightarrow> admin \<or> ma_owner_id a = actor \<Longrightarrow> wpre (g a) Q E (w\<lparr>faults := f\<rparr>)"
  shows "wpre (andThen (media_require_owner actor i admin) g) Q E w"
  using assms by (auto simp: media_require_owner_def media_get_by_id_def asset_of_def wp pop_def split: option.split)

text \<open>A write of an asset that was read before, in a state its own may become.\<close>

definition next_asset :: "media_asset \<Rightarrow> media_asset \<Rightarrow> bool" where
  "next_asset a b \<longleftrightarrow> ma_id b = ma_id a \<and> may_become (ma_status a) (ma_status b) \<and> ma_status b \<noteq> MediaDeleted
     \<and> (ma_scan_status b = scan_infected \<longrightarrow> ma_status b = MediaRejected)"

lemma media_write_step:
  assumes "asset_of w i = Some a" and "next_asset a b" and u: "media_assets u = media_assets w"
  shows "wpre (media_update b) (\<lambda>_. media_step w) (\<lambda>_. media_step w) u"
proof -
  have i: "ma_id a = i" using assms(1) find_SomeD [of _ "media_assets w" a] by (auto simp: asset_of_def)
  let ?own = "\<lambda>r. ma_id r = ma_id b \<and> media_live r"
  have step: "media_step w v" if v: "media_assets v = upd_where ?own (media_write b t) (media_assets w)"
    and checks: "list_all (\<lambda>r. media_checks (media_write b 0 r)) (filter ?own (media_assets w))" for v t
  proof (rule asset_updated [OF _ v])
    fix r assume r: "r \<in> set (media_assets w)" "ma_id r = ma_id b" "media_live r" and ok: "media_ok w"
    with assms(1,2) i have a: "r = a" by (intro asset_of_unique [OF ok assms(1)]) (simp_all add: next_asset_def)
    have "0 \<le> ma_size b" using checks r by (auto simp: list_all_iff media_checks_def media_write_def)
    then show "asset_follows r (media_write b t r) \<and> asset_ok (media_write b t r)"
      using assms(2) r(3) by (auto simp: a asset_follows_def asset_ok_def media_write_def next_asset_def media_live_def)
  qed
  have "wpre (exec_check (\<lambda>w. cnt ?own (media_assets w))
        (\<lambda>w. violation (media_range b) (list_all (\<lambda>r. media_checks (media_write b 0 r)) (filter ?own (media_assets w))) True True)
        (\<lambda>w. w\<lparr>media_assets := upd_where ?own (media_write b (clock w)) (media_assets w)\<rparr>)
        ''media asset not found'' ''update media asset'') (\<lambda>_. media_step w) (\<lambda>_. media_step w) u"
    using step u by (auto simp: wp_exec_check media_same violation_def pop_def split: if_split_asm)
  then show ?thesis
    unfolding media_update_def Let_def by (rule assets.wp_then_changes) (rule moves)
qed

lemma wp_raise_fun: "wpre (raise e) Q E = E e"
  by (simp add: fun_eq_iff wp_raise)

lemma complete_step: "changes media_step (complete_upload st scan actor i inp admin)"
proof (rule assets.changes_wp)
  fix w
  have here: "media_step w (w\<lparr>faults := f\<rparr>)" for f by (simp add: media_same)
  have written: "wpre (media_update b) (\<lambda>_. media_step w) (\<lambda>_. media_step w) (w\<lparr>faults := f\<rparr>)"
    "wpre (ignoring (media_update b)) (\<lambda>_. media_step w) (\<lambda>_. media_step w) (w\<lparr>faults := f, store_deletes := ds\<rparr>)"
    if "asset_of w i = Some a" "next_asset a b" for a b f ds
    using media_write_step [OF that] by (simp_all add: wp_ignoring)
  show "wpre (complete_upload st scan actor i inp admin) (\<lambda>_. media_step w) (\<lambda>_. media_step w) w"
    unfolding complete_upload_def
  proof (rule wp_owned_asset)
    show "media_step w (w\<lparr>faults := f\<rparr>)" for f by (rule here)
    fix a f assume a: "asset_of w i = Some a"
    have scanned: "next_asset a (scanned_asset ss m (completed_asset st inp n ct a))" if "ma_status a \<in> {MediaPending, MediaUploaded}" for ss m n ct
      using that by (auto simp: next_asset_def scanned_asset_def completed_asset_def)
    have rejected: "next_asset a (a\<lparr>ma_status := MediaRejected, ma_scan_note := n\<rparr>)" if "ma_status a \<in> {MediaPending, MediaUploaded}" for n
      using that by (auto simp: next_asset_def)
    show "wpre (andThen (guard (ma_status a = MediaPending \<or> ma_status a = MediaUploaded)
       (conflict ''media asset is not awaiting completion'')) (\<lambda>_.
     case os_head st (ma_storage_key a) of
       None \<Rightarrow> raise (validation ''uploaded object not found in storage; complete the PUT first'')
     | Some (bytes, ct) \<Rightarrow>
         if max_bytes (ma_purpose a) < bytes
         then andThen (store_delete (ma_storage_key a)) (\<lambda>_.
              andThen (ignoring (media_update
                (a\<lparr>ma_status := MediaRejected, ma_scan_note := ''exceeded size limit after upload''\<rparr>))) (\<lambda>_.
              raise (validation ''uploaded object exceeds size limit'')))
         else (let b = completed_asset st inp bytes ct a
               in case scan b of
                    Inl e \<Rightarrow> raise e
                  | Inr (ss, m) \<Rightarrow> media_update (scanned_asset ss m b))))
      (\<lambda>_. media_step w) (\<lambda>_. media_step w) (w\<lparr>faults := f\<rparr>)"
      using here written(1) [OF a scanned] written(2) [OF a rejected]
      by (auto simp: wp_guard_then wp_raise_fun wp_store_delete wp_andThen [of "ignoring _"] Let_def
          split: option.split sum.split)
  qed
qed

lemma delete_step: "changes media_step (delete_media actor i admin)"
proof -
  have "media_step w (w\<lparr>media_assets := upd_where (\<lambda>r. ma_id r = i \<and> media_live r)
        (\<lambda>r. r\<lparr>ma_deleted_at := Some (clock w), ma_status := MediaDeleted, ma_updated_at := clock w\<rparr>) (media_assets w)\<rparr>)" for w
  proof (rule asset_updated [where i = i])
    fix r assume "r \<in> set (media_assets w)" "media_ok w"
    moreover have "may_become (ma_status r) MediaDeleted" by (cases "ma_status r") simp_all
    ultimately show "asset_follows r (r\<lparr>ma_deleted_at := Some (clock w), ma_status := MediaDeleted, ma_updated_at := clock w\<rparr>)
        \<and> asset_ok (r\<lparr>ma_deleted_at := Some (clock w), ma_status := MediaDeleted, ma_updated_at := clock w\<rparr>)"
      by (auto simp: asset_follows_def asset_ok_def media_live_def media_ok_def list_all_iff)
  qed simp
  then have "changes media_step (media_soft_delete i)"
    unfolding media_soft_delete_def by (rule assets.changes_exec_rows)
  then show ?thesis unfolding delete_media_def by (intro moves)
qed

lemma scan_result_step: "changes media_step (apply_scan_result actor i verdict note admin)"
proof (rule assets.changes_wp)
  fix w
  have here: "media_step w (w\<lparr>faults := f\<rparr>)" "media_step w w" for f by (simp_all add: media_same)
  have old: "ma_status a \<noteq> MediaDeleted" if "asset_of w i = Some a" "media_ok w" for a
    using that find_SomeD [of _ "media_assets w" a] by (auto simp: asset_of_def media_ok_def list_all_iff asset_ok_def)
  show "wpre (apply_scan_result actor i verdict note admin) (\<lambda>_. media_step w) (\<lambda>_. media_step w) w"
  proof (cases "media_ok w")
    case True
    have "wpre (media_update (a\<lparr>ma_scan_status := verdict, ma_scan_note := n\<rparr>)) (\<lambda>_. media_step w) (\<lambda>_. media_step w) (w\<lparr>faults := f\<rparr>)"
      "ma_status a = MediaUploaded \<or> ma_status a = MediaPending \<Longrightarrow>
         wpre (media_update (a\<lparr>ma_scan_status := verdict, ma_scan_note := n, ma_status := MediaReady\<rparr>)) (\<lambda>_. media_step w) (\<lambda>_. media_step w) (w\<lparr>faults := f\<rparr>)"
      if "asset_of w i = Some a" "verdict \<noteq> scan_infected" for a n f
      using that old [OF that(1) True] by (auto intro!: media_write_step simp: next_asset_def)
    moreover have "wpre (media_update (a\<lparr>ma_scan_status := verdict, ma_scan_note := n, ma_status := MediaRejected\<rparr>))
         (\<lambda>_. media_step w) (\<lambda>_. media_step w) (w\<lparr>faults := f, store_deletes := ds\<rparr>)"
      if "asset_of w i = Some a" for a n f ds
    proof -
      have "may_become (ma_status a) MediaRejected" using old [OF that True] by (cases "ma_status a") simp_all
      then show ?thesis using that by (auto intro!: media_write_step simp: next_asset_def)
    qed
    ultimately show ?thesis
      unfolding apply_scan_result_def
      by (auto simp: wp_guard_then here wp_store_delete Let_def
          intro!: wp_the_asset)
  next
    case False
    then show ?thesis by (auto simp: wpre_def media_step_def split: prod.split sum.split)
  qed
qed

lemma create_step [moves]: "changes media_step (media_create a)" if "ma_status a = MediaPending" "ma_scan_status a = scan_pending"
  unfolding media_create_def
  by (rule assets.changes_insert_row)
    (use that in \<open>auto simp: media_step_def media_ok_def pk_free_def asset_ok_def media_live_def media_checks_def violation_def
      split: if_split_asm intro: asset_follows_refl\<close>)

lemma upload_step: "changes media_step (create_upload st ttl u i admin random)"
  unfolding create_upload_def Let_def
  by (auto intro!: moves split: option.split)

lemma media_run: "rtranclp media_request w v \<Longrightarrow> media_step w v"
proof (induction rule: rtranclp_induct)
  case (step u v)
  from step(2) have "media_step u v"
  proof cases
    case req_list_media
    have "changes media_step (list_my_media actor page per)" for actor page per
      unfolding list_my_media_def by (rule moves)
    then show ?thesis using req_list_media by (simp add: changes_def)
  qed (use upload_step complete_step delete_step scan_result_step media_steps(5) in
      \<open>simp_all add: changes_def avatar_upload_intent_def\<close>)
  with step(3) show ?case by (rule assets.R_trans)
qed (simp add: media_same)

section \<open>What is checked\<close>

text \<open>An accepted upload: its type and its declared size are within the limits of its purpose, and its place in
  the store names its purpose and its owner.\<close>

definition within_limits :: "string \<Rightarrow> media_asset \<Rightarrow> bool" where
  "within_limits u a \<longleftrightarrow> allowed_content_type (ma_purpose a) (ma_content_type a) \<and> 0 \<le> ma_size a
     \<and> ma_size a \<le> max_bytes (ma_purpose a) \<and> ma_owner_id a = u \<and> ma_status a = MediaPending
     \<and> (\<exists>name. ma_storage_key a = ma_purpose a @ ''/'' @ u @ ''/'' @ name)"

lemma wp_media_create:
  assumes "\<And>r v. media_assets v = media_assets w @ [r] \<Longrightarrow>
      r = a\<lparr>ma_id := ma_id r, ma_created_at := ma_created_at r, ma_updated_at := ma_updated_at r, ma_deleted_at := None\<rparr> \<Longrightarrow>
      wpre (g r) Q (\<lambda>_ _. True) v"
  shows "wpre (andThen (media_create a) g) Q (\<lambda>_ _. True) w"
  by (auto simp: media_create_def wp pop_def intro!: assms split: option.split)

lemma upload_accepted:
  assumes "create_upload st ttl u i admin random w = (Inr ui, v)"
  shows "within_limits u (ui_asset ui) \<and> media_assets v = media_assets w @ [ui_asset ui]"
proof -
  let ?Q = "\<lambda>ui v. within_limits u (ui_asset ui) \<and> media_assets v = media_assets w @ [ui_asset ui]"
  have rest: "wpre (andThen (media_create a) (\<lambda>asset. case os_presign st key ct (presign_lifetime ttl) of
       None \<Rightarrow> raise e
     | Some url \<Rightarrow> andThen (asks clock) (\<lambda>now. ret \<lparr>ui_asset = asset, ui_method = ''PUT'', ui_upload_url = url,
           ui_headers = [(''Content-Type'', ct)], ui_expires_at = now + presign_lifetime ttl\<rparr>)))
     ?Q (\<lambda>_ _. True) (w\<lparr>faults := f\<rparr>)" if a: "within_limits u a" for a key ct e f
  proof (rule wp_media_create)
    fix r v assume v: "media_assets v = media_assets (w\<lparr>faults := f\<rparr>) @ [r]"
      and r: "r = a\<lparr>ma_id := ma_id r, ma_created_at := ma_created_at r, ma_updated_at := ma_updated_at r, ma_deleted_at := None\<rparr>"
    have "within_limits u r" using a by (subst r) (simp add: within_limits_def)
    with v show "wpre (case os_presign st key ct (presign_lifetime ttl) of
       None \<Rightarrow> raise e
     | Some url \<Rightarrow> andThen (asks clock) (\<lambda>now. ret \<lparr>ui_asset = r, ui_method = ''PUT'', ui_upload_url = url,
           ui_headers = [(''Content-Type'', ct)], ui_expires_at = now + presign_lifetime ttl\<rparr>)) ?Q (\<lambda>_ _. True) v"
      by (auto simp: wp_raise wp_asks_then wp_ret split: option.split)
  qed
  have new: "within_limits u (mk (media_key p u random name))"
    if "limit_for p = Some l" "allowed_content_type p ct" "0 \<le> n" "n \<le> int (li_max_bytes l)"
      and mk: "\<And>k. ma_purpose (mk k) = p \<and> ma_content_type (mk k) = ct \<and> ma_size (mk k) = n \<and> ma_owner_id (mk k) = u
        \<and> ma_status (mk k) = MediaPending \<and> ma_storage_key (mk k) = k" for p l ct n mk name
    using that by (auto simp: within_limits_def max_bytes_def media_key_def)
  have "wpre (create_upload st ttl u i admin random) ?Q (\<lambda>_ _. True) w"
    unfolding create_upload_def Let_def
    by (auto simp: wp_guard_then wp_raise intro!: wp_read_start [OF media_reads(4)] rest new split: option.split)
  then show ?thesis using assms by (simp add: wpre_def)
qed

text \<open>Whoever is neither the owner nor an admin neither completes nor deletes an asset.\<close>

lemma media_denied:
  assumes "asset_of w i = Some a" and "ma_owner_id a \<noteq> actor"
  shows "\<exists>e. fst (complete_upload st scan actor i inp False w) = Inl e"
    "read_only w (snd (complete_upload st scan actor i inp False w))"
    "\<exists>e. fst (delete_media actor i False w) = Inl e" "read_only w (snd (delete_media actor i False w))"
proof -
  have "wpre (complete_upload st scan actor i inp False) (\<lambda>_ _. False) (\<lambda>_. read_only w) w"
    "wpre (delete_media actor i False) (\<lambda>_ _. False) (\<lambda>_. read_only w) w"
    unfolding complete_upload_def delete_media_def using assms
    by (auto intro!: wp_owned_asset simp: read_only_def)
  then show "\<exists>e. fst (complete_upload st scan actor i inp False w) = Inl e"
    "read_only w (snd (complete_upload st scan actor i inp False w))"
    "\<exists>e. fst (delete_media actor i False w) = Inl e" "read_only w (snd (delete_media actor i False w))"
    by (simp_all add: wpre_def split: prod.splits sum.splits)
qed

section \<open>What is taken on trust\<close>

text \<open>When the database answers, an update of an asset that is there writes the values it is given.\<close>

lemma media_update_quiet:
  assumes "quiet w" and "media_ok w" and "asset_of w i = Some a" and "ma_id b = i"
    and "media_range b" "media_checks (media_write b 0 a)"
  shows "\<exists>v. media_update b w = (Inr (media_write b (clock w) a), v)"
proof -
  let ?own = "\<lambda>r. ma_id r = ma_id b \<and> media_live r"
  have a: "a \<in> set (media_assets w)" "?own a"
    using find_SomeD [OF assms(3) [unfolded asset_of_def]] assms(4) by simp_all
  have "cnt ?own (media_assets w) \<noteq> 0" using a by (auto simp: cnt_def filter_empty_conv)
  moreover have "list_all (\<lambda>r. media_checks (media_write b 0 r)) (filter ?own (media_assets w))"
    using asset_of_unique [OF assms(2,3)] assms(4,6) by (auto simp: list_all_iff)
  moreover have "find ?own (upd_where ?own (media_write b t) rs) = map_option (media_write b t) (find ?own rs)" for t rs
    by (induction rs) (auto simp: upd_where_def media_write_def media_live_def)
  ultimately show ?thesis
    using assms(1,3,4,5)
    by (simp add: media_update_def Let_def exec_check_def violation_def andThen_def media_get_by_id_def fetch_row_def asset_of_def)
qed

text \<open>The size a client reports replaces the size the store reports, and no limit is applied to it.\<close>

lemma reported_size_wins:
  assumes "complete_upload st scan actor i inp admin w = (Inr b, v)" and "mc_size inp = Some n"
  shows "ma_size b = n"
proof -
  have update: "wpre (media_update x) (\<lambda>b _. ma_size b = ma_size x) (\<lambda>_ _. True) u" for x u
  proof -
    have "find P (upd_where P (media_write x t) rs) = map_option (media_write x t) (find P rs)"
      if "P = (\<lambda>r. ma_id r = ma_id x \<and> media_live r)" for P t rs
      by (induction rs) (auto simp: that upd_where_def media_write_def media_live_def)
    then show ?thesis
      by (auto simp: media_update_def Let_def media_get_by_id_def wp media_write_def pop_def split: option.split)
  qed
  have scanned: "wpre (media_update (scanned_asset ss m (completed_asset st inp bytes ct a))) (\<lambda>b _. ma_size b = n) (\<lambda>_ _. True) u"
    for ss m bytes ct a u
    using update [of "scanned_asset ss m (completed_asset st inp bytes ct a)"] assms(2)
    by (simp add: scanned_asset_def completed_asset_def)
  have any: "wpre (media_update x) (\<lambda>_ _. True) (\<lambda>_ _. True) u" for x u
    by (simp add: wpre_def split: prod.split sum.split)
  have "wpre (complete_upload st scan actor i inp admin) (\<lambda>b _. ma_size b = n) (\<lambda>_ _. True) w"
    unfolding complete_upload_def using scanned any
    by (auto simp: wp_guard_then wp_raise_fun wp_store_delete wp_andThen [of "ignoring _"] wp_ignoring Let_def
        intro!: wp_owned_asset split: option.split sum.split)
  then show ?thesis using assms(1) by (simp add: wpre_def)
qed

text \<open>A verdict of the scanner makes an asset ready that was never uploaded: the store is not asked.\<close>

lemma pending_made_ready:
  assumes "quiet w" and "media_ok w" and "asset_of w i = Some a" and "ma_status a = MediaPending"
    and "media_range a" "media_checks a"
  shows "\<exists>b v. apply_scan_result actor i scan_clean note True w = (Inr b, v) \<and> ma_status b = MediaReady"
proof -
  let ?b = "a\<lparr>ma_scan_status := scan_clean, ma_scan_note := trim_space note, ma_status := MediaReady\<rparr>"
  have "media_checks (media_write ?b 0 a)" "media_range ?b" "ma_id ?b = i"
    using assms(5,6) find_SomeD [OF assms(3) [unfolded asset_of_def]] by (simp_all add: media_checks_def media_write_def media_range_def)
  from media_update_quiet [OF assms(1-3) this(3,2,1)] obtain v where "media_update ?b w = (Inr (media_write ?b (clock w) a), v)" by blast
  then have "apply_scan_result actor i scan_clean note True w = (Inr (media_write ?b (clock w) a), v)"
    using assms(1,3,4)
    by (simp add: apply_scan_result_def guard_def ret_def andThen_def media_get_by_id_def fetch_row_def asset_of_def Let_def)
  then show ?thesis by (auto simp: media_write_def)
qed

end
