(* ===== verification/Discovery.thy ===== *)
theory Discovery
  imports UserRepo EnrollmentRepo Rbac
begin

text \<open>
  Discovery and guardians: \<open>internal/i18n\<close> (the choice of a language), \<open>DiscoveryService\<close> and \<open>ParentService\<close>
  (\<open>internal/service/discovery.go\<close>) with their repositories (\<open>internal/repository/postgres/discovery.go\<close>).
  PostgreSQL's text search is a parameter: \<open>rank q r\<close> is the rank of the course \<open>r\<close> for the query \<open>q\<close>, a
  \<open>float4\<close> counted in units of its smallest value, or nothing if_wanted the course does not match.
\<close>

section \<open>Lists in texts, languages and feature flags\<close>

text \<open>\<open>strings.Split\<close> by one character: always at least one part.\<close>

fun split_on :: "char \<Rightarrow> string \<Rightarrow> string list" where
  "split_on c [] = [[]]"
| "split_on c (x # xs) = (if x = c then [] # split_on c xs
     else (case split_on c xs of [] \<Rightarrow> [[x]] | p # ps \<Rightarrow> (x # p) # ps))"

definition split_trimmed :: "string \<Rightarrow> string list" where
  "split_trimmed s = filter (\<lambda>p. p \<noteq> '''') (map trim_space (split_on (CHR '','') s))"

definition split_feature_flags :: "string \<Rightarrow> string list" where
  "split_feature_flags s = (if trim_space s = '''' then [] else split_trimmed (trim_space s))"

definition split_csv :: "string \<Rightarrow> string list" where
  "split_csv s = (if split_trimmed s = [] then [''*''] else split_trimmed s)"

record locale_info =
  lo_code :: string
  lo_name :: string
  lo_native :: string
  lo_rtl :: bool

definition supported_locales :: "locale_info list" where
  "supported_locales =
     [\<lparr>lo_code = ''en'', lo_name = ''English'', lo_native = ''English'', lo_rtl = False\<rparr>,
      \<lparr>lo_code = ''am'', lo_name = ''Amharic'',
       lo_native = [CHR 0xE1, CHR 0x8A, CHR 0xA0, CHR 0xE1, CHR 0x88, CHR 0x9B, CHR 0xE1, CHR 0x88, CHR 0xAD,
         CHR 0xE1, CHR 0x8A, CHR 0x9B], lo_rtl = False\<rparr>]"

text \<open>\<open>s[:strings.Index(s, c)]\<close>, or all of \<open>s\<close> without \<open>c\<close>.\<close>

definition cut_at :: "char \<Rightarrow> string \<Rightarrow> string" where
  "cut_at c s = takeWhile (\<lambda>x. x \<noteq> c) s"

definition normalize_locale :: "string \<Rightarrow> string" where
  "normalize_locale code = (let c = cut_at (CHR ''-'') (to_lower (trim_space code))
     in if c \<in> lo_code ` set supported_locales then c else '''')"

definition accepted_locale :: "string \<Rightarrow> string" where
  "accepted_locale part = normalize_locale (cut_at (CHR '';'') (trim_space part))"

definition resolve_locale :: "string \<Rightarrow> string \<Rightarrow> string" where
  "resolve_locale explicit accept =
     (if normalize_locale explicit \<noteq> '''' then normalize_locale explicit
      else case find (\<lambda>c. c \<noteq> '''') (map accepted_locale (split_on (CHR '','') accept)) of
             None \<Rightarrow> ''en'' | Some c \<Rightarrow> c)"

definition normalize_or_en :: "string \<Rightarrow> string" where
  "normalize_or_en code = (if normalize_locale code \<noteq> '''' then normalize_locale code else ''en'')"

definition default_flags :: "string \<rightharpoonup> bool" where
  "default_flags = (\<lambda>_. None)(''payments'' \<mapsto> True, ''live'' \<mapsto> True, ''certificates'' \<mapsto> True,
     ''communication'' \<mapsto> True, ''search'' \<mapsto> True, ''parent_links'' \<mapsto> True)"

text \<open>\<open>strings.TrimPrefix\<close> of one character.\<close>

definition trim_prefix :: "char \<Rightarrow> string \<Rightarrow> string" where
  "trim_prefix c s = (if s \<noteq> '''' \<and> hd s = c then tl s else s)"

definition flag_step :: "string \<Rightarrow> (string \<rightharpoonup> bool) \<Rightarrow> (string \<rightharpoonup> bool)" where
  "flag_step raw flags = (let name = trim_space (to_lower raw)
     in if name = '''' then flags
        else if hd name = CHR ''!'' \<or> hd name = CHR ''-''
        then flags(trim_prefix (CHR ''-'') (trim_prefix (CHR ''!'') name) \<mapsto> False)
        else flags(name \<mapsto> True))"

definition feature_flags :: "string list \<Rightarrow> (string \<rightharpoonup> bool)" where
  "feature_flags names = fold flag_step names default_flags"

section \<open>Search\<close>

record search_filter =
  sf_query :: string
  sf_type :: string
  sf_language :: string
  sf_level :: string
  sf_page :: int
  sf_per_page :: int

record teacher_hit =
  th_id :: uuid
  th_full_name :: string
  th_email :: string

text \<open>A slice that was not searched for is \<open>nil\<close>.\<close>

record search_results =
  sr_query :: string
  sr_courses :: "(course \<times> int) list option"
  sr_categories :: "category list option"
  sr_teachers :: "teacher_hit list option"

definition normalize_search_page :: "int \<Rightarrow> int \<Rightarrow> int \<times> int" where
  "normalize_search_page page per =
     (if page < 1 then 1 else page, if per < 1 then 20 else if 50 < per then 50 else per)"

text \<open>\<open>published_at DESC NULLS LAST\<close>.\<close>

definition newest_published :: "('r \<Rightarrow> course) \<Rightarrow> 'r list \<Rightarrow> 'r list" where
  "newest_published f rs = order_desc (\<lambda>r. the (co_published_at (f r))) (filter (\<lambda>r. co_published_at (f r) \<noteq> None) rs)
     @ filter (\<lambda>r. co_published_at (f r) = None) rs"

definition public_course :: "course \<Rightarrow> bool" where
  "public_course r \<longleftrightarrow> course_live r \<and> co_status r = CoursePublished"

definition course_hit :: "(string \<Rightarrow> course \<Rightarrow> int option) \<Rightarrow> string \<Rightarrow> search_filter \<Rightarrow> course \<Rightarrow> bool" where
  "course_hit rank q f r \<longleftrightarrow> public_course r \<and> rank q r \<noteq> None
     \<and> (trim_space (sf_language f) = '''' \<or> co_language r = trim_space (sf_language f))
     \<and> (sf_level f = '''' \<or> co_level r = sf_level f)"

definition search_courses ::
  "(string \<Rightarrow> course \<Rightarrow> int option) \<Rightarrow> string \<Rightarrow> search_filter \<Rightarrow> int \<Rightarrow> int \<Rightarrow> (course \<times> int) list act" where
  "search_courses rank q f page per = fetch_val
     (\<lambda>w. map (\<lambda>r. (scan_course w r, the (rank q r)))
        (page_of page per (order_desc (\<lambda>r. the (rank q r)) (newest_published id (filter (course_hit rank q f) (courses w))))))
     ''search courses''"

definition contains_pattern :: "string \<Rightarrow> string" where
  "contains_pattern q = ''%'' @ q @ ''%''"

definition search_categories :: "string \<Rightarrow> nat \<Rightarrow> category list act" where
  "search_categories q limit = fetch_val
     (\<lambda>w. take limit (sort_key cat_name (filter (\<lambda>c. ilike (contains_pattern q) (cat_name c)
          \<or> ilike (contains_pattern q) (cat_description c) \<or> ilike (contains_pattern q) (cat_slug c)) (categories w))))
     ''search categories''"

definition teacher_matches :: "world \<Rightarrow> string \<Rightarrow> user \<Rightarrow> bool" where
  "teacher_matches w q u \<longleftrightarrow> user_live u \<and> us_is_active u \<and> map_option us_role_code (scan_user w u) = Some role_teacher
     \<and> (ilike (contains_pattern q) (us_full_name u) \<or> ilike (contains_pattern q) (us_email u))"

definition search_teachers :: "string \<Rightarrow> nat \<Rightarrow> teacher_hit list act" where
  "search_teachers q limit = fetch_val
     (\<lambda>w. map (\<lambda>u. \<lparr>th_id = us_id u, th_full_name = us_full_name u, th_email = us_email u\<rparr>)
        (take limit (sort_key us_full_name (filter (teacher_matches w q) (users w)))))
     ''search teachers''"

definition if_wanted :: "bool \<Rightarrow> 'a act \<Rightarrow> 'a option act" where
  "if_wanted b m = (if b then andThen m (\<lambda>a. ret (Some a)) else ret None)"

definition search_all :: "(string \<Rightarrow> course \<Rightarrow> int option) \<Rightarrow> search_filter \<Rightarrow> search_results act" where
  "search_all rank f =
     (let q = trim_space (sf_query f); t = (if sf_type f = '''' then ''all'' else sf_type f);
          (page, per) = normalize_search_page (sf_page f) (sf_per_page f)
      in andThen (guard (q \<noteq> '''') (validation ''q is required'')) (\<lambda>_.
         andThen (if_wanted (t = ''all'' \<or> t = ''courses'') (search_courses rank q f page per)) (\<lambda>cs.
         andThen (if_wanted (t = ''all'' \<or> t = ''categories'') (search_categories q 10)) (\<lambda>cats.
         andThen (if_wanted (t = ''all'' \<or> t = ''teachers'') (search_teachers q 10)) (\<lambda>ts.
         ret \<lparr>sr_query = q, sr_courses = cs, sr_categories = cats, sr_teachers = ts\<rparr>)))))"

section \<open>Recommendations\<close>

record recommendation =
  rec_course :: course
  rec_reason :: string
  rec_score :: nat

text \<open>\<open>NOT EXISTS\<close> an enrollment of the learner that is active or waitlisted.\<close>

definition takes_part :: "world \<Rightarrow> uuid \<Rightarrow> uuid \<Rightarrow> bool" where
  "takes_part w u c \<longleftrightarrow> list_ex (\<lambda>e. en_course_id e = c \<and> en_user_id e = u
     \<and> (en_status e = EnActive \<or> en_status e = EnWaitlisted)) (enrollments w)"

definition active_learners :: "world \<Rightarrow> course \<Rightarrow> nat" where
  "active_learners w r = cnt (\<lambda>e. en_course_id e = co_id r \<and> en_status e = EnActive) (enrollments w)"

definition recommended_rows :: "world \<Rightarrow> uuid \<Rightarrow> string \<Rightarrow> course list" where
  "recommended_rows w u lang = sort_key (\<lambda>r. if co_language r = lang then (0 :: nat) else 1)
     (order_desc (\<lambda>r. int (active_learners w r))
       (newest_published id (filter (\<lambda>r. public_course r \<and> \<not> takes_part w u (co_id r)) (courses w))))"

definition recommendation_limit :: "int \<Rightarrow> nat" where
  "recommendation_limit n = nat (if n < 1 then 10 else if 20 < n then 20 else n)"

definition search_recommendations :: "uuid \<Rightarrow> string \<Rightarrow> int \<Rightarrow> recommendation list act" where
  "search_recommendations u locale limit =
     (let lang = (if trim_space locale = '''' then ''en'' else trim_space locale)
      in fetch_val (\<lambda>w. map (\<lambda>r. \<lparr>rec_course = scan_course w r,
             rec_reason = (if co_language r = lang then ''popular_in_your_language'' else ''popular''),
             rec_score = active_learners w r\<rparr>)
           (take (recommendation_limit limit) (recommended_rows w u lang))) ''recommendations'')"

definition recommendations :: "uuid \<Rightarrow> string \<Rightarrow> int \<Rightarrow> recommendation list act" where
  "recommendations u locale limit =
     andThen (guard (u \<noteq> '''') (unauthorized ''authentication required'')) (\<lambda>_.
     search_recommendations u locale limit)"

section \<open>Guardians and their learners\<close>

abbreviation link_active :: string where "link_active \<equiv> ''active''"
abbreviation link_revoked :: string where "link_revoked \<equiv> ''revoked''"

definition of_pair :: "uuid \<Rightarrow> uuid \<Rightarrow> parent_link \<Rightarrow> bool" where
  "of_pair p s r \<longleftrightarrow> pl_parent_id r = p \<and> pl_student_id r = s"

definition scan_link :: "world \<Rightarrow> parent_link \<Rightarrow> parent_link" where
  "scan_link w l = l\<lparr>pl_student_email := user_email_of w (pl_student_id l), pl_student_name := user_name_of w (pl_student_id l)\<rparr>"

text \<open>\<open>INSERT ... ON CONFLICT DO UPDATE ... RETURNING\<close>: a link that was revoked is active again.\<close>

definition links_upsert :: "uuid \<Rightarrow> uuid \<Rightarrow> unit act" where
  "links_upsert p s = upsert_row (\<lambda>w. list_ex (of_pair p s) (parent_links w))
     (\<lambda>w. violation True (p \<noteq> s) True True)
     (\<lambda>w. w\<lparr>parent_links := upd_where (of_pair p s) (\<lambda>r. r\<lparr>pl_status := link_active, pl_updated_at := clock w\<rparr>) (parent_links w)\<rparr>)
     (\<lambda>w. violation True (p \<noteq> s) (pk_free (map pl_id (parent_links w)) w) (has_user w p \<and> has_user w s))
     (\<lambda>w. w\<lparr>parent_links := parent_links w @ [\<lparr>pl_id = fresh_uuid w, pl_parent_id = p, pl_student_id = s,
        pl_status = link_active, pl_created_at = clock w, pl_updated_at = clock w, pl_student_email = '''', pl_student_name = ''''\<rparr>]\<rparr>)
     (\<lambda>st. WrapError ''create parent link'' (DriverError st))"

definition links_create :: "uuid \<Rightarrow> uuid \<Rightarrow> parent_link act" where
  "links_create p s =
     andThen (links_upsert p s) (\<lambda>_.
     asks (\<lambda>w. case find (of_pair p s) (parent_links w) of
       Some r \<Rightarrow> r\<lparr>pl_status := link_active\<rparr>
     | None \<Rightarrow> \<lparr>pl_id = '''', pl_parent_id = p, pl_student_id = s, pl_status = link_active, pl_created_at = 0,
         pl_updated_at = 0, pl_student_email = '''', pl_student_name = ''''\<rparr>))"

definition links_list_by_parent :: "uuid \<Rightarrow> parent_link list act" where
  "links_list_by_parent p = fetch_val
     (\<lambda>w. sort_key pl_student_name (map (scan_link w)
        (filter (\<lambda>r. pl_parent_id r = p \<and> pl_status r = link_active \<and> has_user w (pl_student_id r)) (parent_links w))))
     ''list parent links''"

definition standing_link :: "uuid \<Rightarrow> uuid \<Rightarrow> parent_link \<Rightarrow> bool" where
  "standing_link p s r \<longleftrightarrow> of_pair p s r \<and> pl_status r = link_active"

definition links_revoke :: "uuid \<Rightarrow> uuid \<Rightarrow> unit act" where
  "links_revoke p s = exec_rows (\<lambda>w. cnt (standing_link p s) (parent_links w))
     (\<lambda>w. w\<lparr>parent_links := upd_where (standing_link p s) (\<lambda>r. r\<lparr>pl_status := link_revoked, pl_updated_at := clock w\<rparr>) (parent_links w)\<rparr>)
     ''link not found'' ''revoke parent link''"

definition links_get_active :: "uuid \<Rightarrow> uuid \<Rightarrow> parent_link act" where
  "links_get_active p s = fetch_row
     (\<lambda>w. map_option (scan_link w) (find (\<lambda>r. standing_link p s r \<and> has_user w (pl_student_id r)) (parent_links w)))
     ''link not found'' ''get parent link''"

definition link_child :: "uuid \<Rightarrow> string \<Rightarrow> parent_link act" where
  "link_child p email0 =
     (let email = trim_space (to_lower email0)
      in andThen (guard (email \<noteq> '''') (validation ''student_email is required'')) (\<lambda>_.
         andThen (users_get_by_id p) (\<lambda>parent.
         andThen (guard (us_role_code parent = role_parent \<or> us_role_code parent = role_admin)
           (forbidden ''only parents or admins can link students'')) (\<lambda>_.
         andThen (users_get_by_email email) (\<lambda>student.
         andThen (guard (us_role_code student = role_student) (validation ''linked user must be a student'')) (\<lambda>_.
         andThen (guard (us_id student \<noteq> p) (validation ''cannot link yourself'')) (\<lambda>_.
         andThen (links_create p (us_id student)) (\<lambda>l.
         ret (l\<lparr>pl_student_email := us_email student, pl_student_name := us_full_name student\<rparr>)))))))))"

definition list_children :: "uuid \<Rightarrow> parent_link list act" where
  "list_children p = links_list_by_parent p"

definition unlink_child :: "uuid \<Rightarrow> uuid \<Rightarrow> unit act" where
  "unlink_child p s = links_revoke p s"

end
