(* ===== verification/Middleware.thy ===== *)
theory Middleware
  imports Discovery Providers Tokens Hex
begin

text \<open>
  The middleware of \<open>internal/middleware\<close>. A handler of package \<open>gin\<close> is a function from a request and its
  context to the context for the next handler or to the reply with which the chain is aborted. Headers are
  read by their canonical names. A token bucket of \<open>golang.org/x/time/rate\<close> is a parameter of type \<open>'b\<close>.
\<close>

section \<open>Requests and contexts\<close>

record http_request =
  hr_method :: string
  hr_path :: string
  hr_headers :: headers
  hr_lang :: string
  hr_ip :: string

text \<open>The values that \<open>c.Set\<close> stores, empty when they are not set, and the response headers.\<close>

record gin_context =
  gc_user_id :: string
  gc_email :: string
  gc_role :: string
  gc_request_id :: string
  gc_locale :: string
  gc_headers :: "(string \<times> string) list"

definition fresh_context :: gin_context where
  "fresh_context = \<lparr>gc_user_id = '''', gc_email = '''', gc_role = '''', gc_request_id = '''', gc_locale = '''', gc_headers = []\<rparr>"

datatype reply =
    Failed gin_context err
  | FailedCode gin_context int string string
  | Empty gin_context int

type_synonym middleware = "http_request \<Rightarrow> gin_context \<Rightarrow> reply + gin_context"

text \<open>\<open>Header().Set\<close> replaces the values of a header, \<open>Add\<close> appends one.\<close>

definition set_header :: "string \<Rightarrow> string \<Rightarrow> gin_context \<Rightarrow> gin_context" where
  "set_header k v c = c\<lparr>gc_headers := filter (\<lambda>h. fst h \<noteq> k) (gc_headers c) @ [(k, v)]\<rparr>"

definition add_header :: "string \<Rightarrow> string \<Rightarrow> gin_context \<Rightarrow> gin_context" where
  "add_header k v c = c\<lparr>gc_headers := gc_headers c @ [(k, v)]\<rparr>"

definition has_header :: "gin_context \<Rightarrow> string \<Rightarrow> string \<Rightarrow> bool" where
  "has_header c k v \<longleftrightarrow> (k, v) \<in> set (gc_headers c)"

text \<open>The chain of the handlers of a route.\<close>

fun chain :: "middleware list \<Rightarrow> middleware" where
  "chain [] r c = Inr c"
| "chain (m # ms) r c = (case m r c of Inl a \<Rightarrow> Inl a | Inr c' \<Rightarrow> chain ms r c')"

section \<open>Identity\<close>

text \<open>\<open>strings.SplitN(header, " ", 2)\<close>, when it has two parts.\<close>

definition split_scheme :: "string \<Rightarrow> (string \<times> string) option" where
  "split_scheme h = (case dropWhile (\<lambda>c. c \<noteq> CHR '' '') h of
       [] \<Rightarrow> None
     | _ # rest \<Rightarrow> Some (takeWhile (\<lambda>c. c \<noteq> CHR '' '') h, rest))"

definition bearer_token :: "string \<Rightarrow> string option" where
  "bearer_token h = (case split_scheme h of
       None \<Rightarrow> None
     | Some (scheme, token) \<Rightarrow> if equal_fold scheme ''Bearer'' \<and> token \<noteq> '''' then Some token else None)"

definition identified :: "access_claims \<Rightarrow> gin_context \<Rightarrow> gin_context" where
  "identified cl c = c\<lparr>gc_user_id := ac_user_id cl, gc_email := ac_email cl, gc_role := ac_role cl\<rparr>"

definition bearer_auth :: "crypto \<Rightarrow> token_manager \<Rightarrow> int \<Rightarrow> middleware" where
  "bearer_auth cr tm now r c =
     (let h = header_get (hr_headers r) ''Authorization''
      in if h = '''' then Inl (Failed c (unauthorized ''missing authorization header''))
         else case bearer_token h of
           None \<Rightarrow> Inl (Failed c (unauthorized ''invalid authorization header''))
         | Some token \<Rightarrow> (case parse_access_token cr tm now token of
             None \<Rightarrow> Inl (Failed c (unauthorized ''invalid or expired access token''))
           | Some cl \<Rightarrow> Inr (identified cl c)))"

definition optional_bearer_auth :: "crypto \<Rightarrow> token_manager \<Rightarrow> int \<Rightarrow> middleware" where
  "optional_bearer_auth cr tm now r c =
     (let h = header_get (hr_headers r) ''Authorization''
      in if h = '''' then Inr c
         else case bearer_token h of
           None \<Rightarrow> Inr c
         | Some token \<Rightarrow> (case parse_access_token cr tm now token of
             None \<Rightarrow> Inr c
           | Some cl \<Rightarrow> Inr (identified cl c)))"

section \<open>Roles\<close>

definition require_roles :: "string list \<Rightarrow> middleware" where
  "require_roles allowed r c =
     (if has_any_role (gc_role c) allowed then Inr c else Inl (Failed c (forbidden ''insufficient role'')))"

definition require_permission :: "permission \<Rightarrow> middleware" where
  "require_permission p r c =
     (if has_permission (gc_role c) p then Inr c else Inl (Failed c (forbidden ''insufficient permissions'')))"

section \<open>Headers\<close>

definition request_id :: "string option \<Rightarrow> middleware" where
  "request_id random r c =
     (let given = header_get (hr_headers r) ''X-Request-ID'';
          rid = (if given \<noteq> '''' then given
                 else case random of None \<Rightarrow> replicate 32 (CHR ''0'') | Some bytes \<Rightarrow> hex_encode bytes)
      in Inr (set_header ''X-Request-ID'' rid (c\<lparr>gc_request_id := rid\<rparr>)))"

definition locale_handler :: middleware where
  "locale_handler r c =
     (let l = resolve_locale (hr_lang r) (header_get (hr_headers r) ''Accept-Language'')
      in Inr (set_header ''Content-Language'' l (c\<lparr>gc_locale := l\<rparr>)))"

definition quoted :: "string \<Rightarrow> string" where
  "quoted s = CHR 0x27 # s @ [CHR 0x27]"

definition security_headers :: "bool \<Rightarrow> middleware" where
  "security_headers hsts r c =
     (let c1 = set_header ''Content-Security-Policy'' (''default-src '' @ quoted ''none'' @ ''; frame-ancestors '' @ quoted ''none'')
            (set_header ''Permissions-Policy'' ''camera=(), microphone=(), geolocation=()''
            (set_header ''Referrer-Policy'' ''strict-origin-when-cross-origin''
            (set_header ''X-Frame-Options'' ''DENY''
            (set_header ''X-Content-Type-Options'' ''nosniff'' c))))
      in Inr (if hsts then set_header ''Strict-Transport-Security'' ''max-age=31536000; includeSubDomains'' c1 else c1))"

record cors_config =
  cc_origins :: "string list"
  cc_credentials :: bool

definition cors_origins :: "cors_config \<Rightarrow> string list" where
  "cors_origins cfg = filter (\<lambda>o1. o1 \<noteq> '''' \<and> o1 \<noteq> ''*'') (map trim_space (cc_origins cfg))"

definition cors_allow_all :: "cors_config \<Rightarrow> bool" where
  "cors_allow_all cfg \<longleftrightarrow> ''*'' \<in> set (map trim_space (cc_origins cfg))"

definition cors_credentials :: "cors_config \<Rightarrow> bool" where
  "cors_credentials cfg \<longleftrightarrow> cc_credentials cfg \<and> \<not> cors_allow_all cfg"

definition cors :: "cors_config \<Rightarrow> middleware" where
  "cors cfg r c =
     (let origin = header_get (hr_headers r) ''Origin'';
          c1 = (if cors_allow_all cfg \<and> \<not> cors_credentials cfg then set_header ''Access-Control-Allow-Origin'' ''*'' c
                else if origin \<noteq> '''' \<and> origin \<in> set (cors_origins cfg)
                then add_header ''Vary'' ''Origin'' (set_header ''Access-Control-Allow-Origin'' origin c)
                else c);
          c2 = (if cors_credentials cfg then set_header ''Access-Control-Allow-Credentials'' ''true'' c1 else c1);
          c3 = set_header ''Access-Control-Max-Age'' ''86400''
                 (set_header ''Access-Control-Expose-Headers'' ''X-Request-ID''
                 (set_header ''Access-Control-Allow-Methods'' ''GET, POST, PUT, PATCH, DELETE, OPTIONS''
                 (set_header ''Access-Control-Allow-Headers''
                   ''Content-Type, Content-Length, Accept-Encoding, X-CSRF-Token, Authorization, Accept, Origin, Cache-Control, X-Requested-With, X-Request-ID, Idempotency-Key, Accept-Language'' c2)))
      in if hr_method r = ''OPTIONS'' then Inl (Empty c3 204) else Inr c3)"

section \<open>Rate limits\<close>

text \<open>The interface of a token bucket: \<open>NewLimiter\<close> with the rate and the burst of the limiter, and \<open>Allow\<close>.\<close>

record 'b bucket_ops =
  bo_new :: 'b
  bo_allow :: "time \<Rightarrow> 'b \<Rightarrow> bool \<times> 'b"

type_synonym 'b ip_limiters = "string \<rightharpoonup> 'b"

definition limiter_get :: "'b bucket_ops \<Rightarrow> string \<Rightarrow> 'b ip_limiters \<Rightarrow> 'b \<times> 'b ip_limiters" where
  "limiter_get ops ip ls = (case ls ip of
       Some b \<Rightarrow> (b, ls)
     | None \<Rightarrow> (bo_new ops, ls(ip \<mapsto> bo_new ops)))"

fun skip_paths :: "string \<Rightarrow> string list \<Rightarrow> bool" where
  "skip_paths path [] = False"
| "skip_paths path (s # ss) =
     (if s = '''' then skip_paths path ss
      else if path = s \<or> take (length s) path = s then True
      else skip_paths path ss)"

definition limit_except ::
  "'b bucket_ops \<Rightarrow> string list \<Rightarrow> time \<Rightarrow> http_request \<Rightarrow> gin_context \<Rightarrow> 'b ip_limiters \<Rightarrow> (reply + gin_context) \<times> 'b ip_limiters" where
  "limit_except ops skips now r c ls =
     (if skip_paths (hr_path r) skips then (Inr c, ls)
      else case limiter_get ops (hr_ip r) ls of (b, ls') \<Rightarrow>
        (case bo_allow ops now b of (ok, b') \<Rightarrow>
          (if ok then Inr c
           else Inl (FailedCode (set_header ''Retry-After'' ''1'' c) 429 ''rate_limited'' ''too many requests''),
           ls'(hr_ip r \<mapsto> b'))))"

definition limit_all ::
  "'b bucket_ops \<Rightarrow> time \<Rightarrow> http_request \<Rightarrow> gin_context \<Rightarrow> 'b ip_limiters \<Rightarrow> (reply + gin_context) \<times> 'b ip_limiters" where
  "limit_all ops now r c ls = limit_except ops [] now r c ls"

text \<open>One tick of \<open>CleanupPeriodically\<close>.\<close>

definition cleanup_tick :: "'b ip_limiters \<Rightarrow> 'b ip_limiters" where
  "cleanup_tick ls = (\<lambda>_. None)"

section \<open>Facts\<close>

lemma bearer_auth_Inr:
  assumes "bearer_auth cr tm now r c = Inr c'"
  obtains token cl where "bearer_token (header_get (hr_headers r) ''Authorization'') = Some token"
    and "parse_access_token cr tm now token = Some cl" and "c' = identified cl c"
  using assms by (auto simp: bearer_auth_def Let_def split: if_splits option.splits)

lemma bearer_auth_Inl:
  assumes "bearer_auth cr tm now r c = Inl a"
  obtains m where "a = Failed c (unauthorized m)"
  using assms by (auto simp: bearer_auth_def Let_def split: if_splits option.splits)

text \<open>The optional check never aborts, and identifies the caller exactly when the other one does.\<close>

lemma optional_bearer_auth_eq:
  "optional_bearer_auth cr tm now r c = Inr (case bearer_auth cr tm now r c of Inl _ \<Rightarrow> c | Inr c' \<Rightarrow> c')"
  by (simp add: optional_bearer_auth_def bearer_auth_def Let_def split: option.split)

text \<open>A scheme in any case is accepted; the rest of the header is the token.\<close>

lemma bearer_token_scheme:
  assumes "equal_fold s ''Bearer''" and "t \<noteq> ''''"
  shows "bearer_token (s @ CHR '' '' # t) = Some t"
proof -
  have "\<forall>c \<in> set s. c \<noteq> CHR '' ''"
  proof
    fix c assume "c \<in> set s"
    then have "lower_char c \<in> set (to_lower s)" by (simp add: to_lower_def)
    moreover have "to_lower s = ''bearer''"
    proof -
      have "to_lower ''Bearer'' = ''bearer''" by code_simp
      with assms(1) show ?thesis by (simp add: equal_fold_def)
    qed
    moreover have "lower_char (CHR '' '') = CHR '' ''" by code_simp
    ultimately show "c \<noteq> CHR '' ''" by auto
  qed
  then have "split_scheme (s @ CHR '' '' # t) = Some (s, t)"
    by (simp add: split_scheme_def dropWhile_append3 takeWhile_append2)
  with assms show ?thesis by (simp add: bearer_token_def)
qed

text \<open>The reply never allows every origin together with credentials.\<close>

lemma set_header_iff: "has_header (set_header k v c) k' v' \<longleftrightarrow> (if k' = k then v' = v else has_header c k' v')"
  by (auto simp: has_header_def set_header_def)

lemma add_header_iff: "has_header (add_header k v c) k' v' \<longleftrightarrow> (k' = k \<and> v' = v) \<or> has_header c k' v'"
  by (auto simp: has_header_def add_header_def)

definition reply_context :: "reply + gin_context \<Rightarrow> gin_context" where
  "reply_context x = (case x of Inl (Failed c e) \<Rightarrow> c | Inl (FailedCode c n a b) \<Rightarrow> c | Inl (Empty c n) \<Rightarrow> c | Inr c \<Rightarrow> c)"

lemma cors_origin_header:
  assumes "\<And>v. \<not> has_header c ''Access-Control-Allow-Origin'' v" "\<And>v. \<not> has_header c ''Access-Control-Allow-Credentials'' v"
    and "has_header (reply_context (cors cfg r c)) ''Access-Control-Allow-Origin'' v"
  shows "v = ''*'' \<and> cors_allow_all cfg \<and> \<not> has_header (reply_context (cors cfg r c)) ''Access-Control-Allow-Credentials'' ''true''
    \<or> v = header_get (hr_headers r) ''Origin'' \<and> v \<in> set (cors_origins cfg)"
  using assms
  by (auto simp: cors_def Let_def reply_context_def set_header_iff add_header_iff cors_credentials_def split: if_splits)

text \<open>A client spends its own bucket only, and requests to the skipped paths spend none.\<close>

lemma limit_isolated:
  assumes "ip \<noteq> hr_ip r"
  shows "snd (limit_except ops skips now r c ls) ip = ls ip"
  using assms by (auto simp: limit_except_def limiter_get_def split: option.split prod.split)

lemma limit_skipped: "skip_paths (hr_path r) skips \<Longrightarrow> limit_except ops skips now r c ls = (Inr c, ls)"
  by (simp add: limit_except_def)

lemma skip_paths_iff: "skip_paths path skips \<longleftrightarrow> (\<exists>s \<in> set skips. s \<noteq> '''' \<and> take (length s) path = s)"
  by (induction skips) auto

text \<open>After a tick every client has a full bucket again, busy ones too.\<close>

lemma cleanup_refills:
  "fst (limit_all ops now r c (cleanup_tick ls)) = Inr c \<longleftrightarrow> fst (bo_allow ops now (bo_new ops))"
  by (auto simp: limit_all_def limit_except_def limiter_get_def cleanup_tick_def split: prod.split)

end
