(* ===== verification/Routes.thy ===== *)
theory Routes
  imports Middleware
begin

text \<open>
  The routing table of \<open>registerRoutes\<close> and the chain of handlers in front of every route (\<open>New\<close>), both of
  \<open>internal/server/server.go\<close>, for a server with a database. A route names the handler it ends in; its guards
  are the middleware of its group and its own, in order. \<open>AuthLimit\<close> is the limiter of the authentication
  routes, whose answer is an argument. Metrics and logging observe requests and are left out.
\<close>

section \<open>Guards\<close>

datatype route_guard = Bearer | OptionalBearer | Permits permission | AuthLimit

record route =
  rte_method :: string
  rte_path :: string
  rte_guards :: "route_guard list"
  rte_handler :: string

definition route :: "string \<Rightarrow> string \<Rightarrow> route_guard list \<Rightarrow> string \<Rightarrow> route" where
  "route m p gs h = \<lparr>rte_method = m, rte_path = p, rte_guards = gs, rte_handler = h\<rparr>"

fun guard_handler :: "crypto \<Rightarrow> token_manager \<Rightarrow> int \<Rightarrow> bool \<Rightarrow> route_guard \<Rightarrow> middleware" where
  "guard_handler cr tm now allow Bearer = bearer_auth cr tm now"
| "guard_handler cr tm now allow OptionalBearer = optional_bearer_auth cr tm now"
| "guard_handler cr tm now allow (Permits p) = require_permission p"
| "guard_handler cr tm now allow AuthLimit = (\<lambda>r c. if allow then Inr c
     else Inl (FailedCode (set_header ''Retry-After'' ''1'' c) 429 ''rate_limited'' ''too many requests''))"

definition admit :: "crypto \<Rightarrow> token_manager \<Rightarrow> int \<Rightarrow> bool \<Rightarrow> route \<Rightarrow> middleware" where
  "admit cr tm now allow rt = chain (map (guard_handler cr tm now allow) (rte_guards rt))"

text \<open>The handlers in front of all routes.\<close>

definition enter ::
  "'b bucket_ops option \<Rightarrow> bool \<Rightarrow> cors_config \<Rightarrow> string option \<Rightarrow> time \<Rightarrow> http_request \<Rightarrow> 'b ip_limiters \<Rightarrow>
   (reply + gin_context) \<times> 'b ip_limiters" where
  "enter ops hsts cfg random now r ls =
     (case chain [request_id random, locale_handler, security_headers hsts, cors cfg] r fresh_context of
        Inl a \<Rightarrow> (Inl a, ls)
      | Inr c \<Rightarrow> (case ops of
          None \<Rightarrow> (Inr c, ls)
        | Some b \<Rightarrow> limit_except b [''/health'', ''/ready'', ''/metrics'', ''/swagger''] now r c ls))"

text \<open>\<open>isPlatformAdmin\<close> of the handlers.\<close>

definition is_platform_admin :: "gin_context \<Rightarrow> bool" where
  "is_platform_admin c \<longleftrightarrow> gc_role c = role_admin"

section \<open>The table\<close>

definition root_routes :: "route list" where
  "root_routes = [
     route ''GET'' ''/health'' [] ''HealthCheck'',
     route ''GET'' ''/ready'' [] ''ReadyCheck'',
     route ''GET'' ''/swagger/*any'' [] ''Swagger'']"

definition v1_routes :: "route list" where
  "v1_routes = [
     route ''GET'' ''/api/v1/'' [] ''Welcome'',
     route ''GET'' ''/api/v1/roles'' [] ''ListRoles'']"

definition catalogue_routes :: "route list" where
  "catalogue_routes = [
     route ''GET'' ''/api/v1/categories'' [] ''ListCategories'',
     route ''POST'' ''/api/v1/categories'' [Bearer, Permits PermCoursesManage] ''CreateCategory'']"

definition me_routes :: "route list" where
  "me_routes = [
     route ''GET'' ''/api/v1/me/media'' [Bearer, Permits PermProfileRead] ''ListMyMedia'',
     route ''GET'' ''/api/v1/me/enrollments'' [Bearer, Permits PermCoursesRead] ''ListMyEnrollments'',
     route ''GET'' ''/api/v1/me/progress'' [Bearer, Permits PermCoursesRead] ''ListMyProgress'',
     route ''GET'' ''/api/v1/me/calendar'' [Bearer, Permits PermCoursesRead] ''ListCalendar'',
     route ''GET'' ''/api/v1/me/conversations'' [Bearer, Permits PermProfileRead] ''ListConversations'',
     route ''GET'' ''/api/v1/me/notifications'' [Bearer, Permits PermProfileRead] ''ListNotifications'',
     route ''POST'' ''/api/v1/me/notifications/read-all'' [Bearer, Permits PermProfileRead] ''MarkAllNotificationsRead'',
     route ''GET'' ''/api/v1/me/certificates'' [Bearer, Permits PermCoursesRead] ''ListMyCertificates'',
     route ''GET'' ''/api/v1/me/orders'' [Bearer, Permits PermCoursesRead] ''ListMyOrders'',
     route ''GET'' ''/api/v1/me/recommendations'' [Bearer, Permits PermCoursesRead] ''Recommendations'',
     route ''GET'' ''/api/v1/me/children'' [Bearer, Permits PermProfileRead] ''ListChildren'',
     route ''POST'' ''/api/v1/me/children/link'' [Bearer, Permits PermProfileRead] ''LinkChild'',
     route ''DELETE'' ''/api/v1/me/children/:studentId'' [Bearer, Permits PermProfileRead] ''UnlinkChild'',
     route ''GET'' ''/api/v1/me/transcript'' [Bearer, Permits PermCoursesRead] ''MyTranscript'']"

definition open_routes :: "route list" where
  "open_routes = [
     route ''GET'' ''/api/v1/certificates/verify/:code'' [] ''VerifyCertificate'',
     route ''GET'' ''/api/v1/search'' [] ''Search'',
     route ''GET'' ''/api/v1/features'' [] ''FeatureFlags'',
     route ''GET'' ''/api/v1/locales'' [] ''Locales'',
     route ''GET'' ''/api/v1/i18n/messages'' [] ''Messages'',
     route ''POST'' ''/api/v1/webhooks/payments/:provider'' [] ''PaymentWebhook'']"

definition auth_routes :: "route list" where
  "auth_routes = [
     route ''POST'' ''/api/v1/auth/register'' [AuthLimit] ''Register'',
     route ''POST'' ''/api/v1/auth/login'' [AuthLimit] ''Login'',
     route ''POST'' ''/api/v1/auth/refresh'' [AuthLimit] ''Refresh'',
     route ''POST'' ''/api/v1/auth/logout'' [AuthLimit] ''Logout'',
     route ''POST'' ''/api/v1/auth/forgot-password'' [AuthLimit] ''ForgotPassword'',
     route ''POST'' ''/api/v1/auth/reset-password'' [AuthLimit] ''ResetPassword'',
     route ''POST'' ''/api/v1/auth/verify-email'' [AuthLimit] ''VerifyEmail'',
     route ''GET'' ''/api/v1/auth/me'' [AuthLimit, Bearer] ''Me'']"

definition users_routes :: "route list" where
  "users_routes = [
     route ''GET'' ''/api/v1/users/me'' [Bearer] ''GetMyProfile'',
     route ''PATCH'' ''/api/v1/users/me'' [Bearer, Permits PermProfileWrite] ''UpdateMyProfile'',
     route ''PUT'' ''/api/v1/users/me/avatar'' [Bearer, Permits PermProfileWrite] ''SetMyAvatar'',
     route ''GET'' ''/api/v1/users/me/avatar/upload-intent'' [Bearer, Permits PermProfileWrite] ''AvatarUploadIntent'']"

definition media_routes :: "route list" where
  "media_routes = [
     route ''POST'' ''/api/v1/media/uploads'' [Bearer, Permits PermProfileWrite] ''CreateUpload'',
     route ''POST'' ''/api/v1/media/:id/complete'' [Bearer, Permits PermProfileWrite] ''CompleteUpload'',
     route ''GET'' ''/api/v1/media/:id'' [Bearer, Permits PermProfileRead] ''GetMedia'',
     route ''DELETE'' ''/api/v1/media/:id'' [Bearer, Permits PermProfileWrite] ''DeleteMedia'',
     route ''POST'' ''/api/v1/media/:id/scan-result'' [Bearer, Permits PermUsersManage] ''ApplyScanResult'']"

definition admin_routes :: "route list" where
  "admin_routes = [
     route ''GET'' ''/api/v1/admin/users'' [Bearer, Permits PermUsersManage] ''AdminListUsers'',
     route ''GET'' ''/api/v1/admin/users/:id'' [Bearer, Permits PermUsersManage] ''AdminGetUser'',
     route ''PATCH'' ''/api/v1/admin/users/:id'' [Bearer, Permits PermUsersManage] ''AdminUpdateUser'',
     route ''DELETE'' ''/api/v1/admin/users/:id'' [Bearer, Permits PermUsersManage] ''AdminDeleteUser'',
     route ''GET'' ''/api/v1/admin/overview'' [Bearer, Permits PermUsersManage] ''AdminOverview'',
     route ''GET'' ''/api/v1/admin/reports/enrollments'' [Bearer, Permits PermUsersManage] ''EnrollmentReport'',
     route ''GET'' ''/api/v1/admin/reports/revenue'' [Bearer, Permits PermUsersManage] ''RevenueReport'',
     route ''GET'' ''/api/v1/admin/reports/users'' [Bearer, Permits PermUsersManage] ''UserGrowthReport'']"

definition orgs_routes :: "route list" where
  "orgs_routes = [
     route ''POST'' ''/api/v1/organizations'' [Bearer, Permits PermOrgsCreate] ''CreateOrganization'',
     route ''GET'' ''/api/v1/organizations'' [Bearer, Permits PermOrgsRead] ''ListMyOrganizations'',
     route ''POST'' ''/api/v1/organizations/invites/accept'' [Bearer, Permits PermOrgsRead] ''AcceptInvite'',
     route ''GET'' ''/api/v1/organizations/:id'' [Bearer, Permits PermOrgsRead] ''GetOrganization'',
     route ''PATCH'' ''/api/v1/organizations/:id'' [Bearer, Permits PermOrgsRead] ''UpdateOrganization'',
     route ''DELETE'' ''/api/v1/organizations/:id'' [Bearer, Permits PermOrgsRead] ''DeleteOrganization'',
     route ''GET'' ''/api/v1/organizations/:id/members'' [Bearer, Permits PermOrgsRead] ''ListMembers'',
     route ''PATCH'' ''/api/v1/organizations/:id/members/:userId'' [Bearer, Permits PermOrgsRead] ''UpdateMemberRole'',
     route ''DELETE'' ''/api/v1/organizations/:id/members/:userId'' [Bearer, Permits PermOrgsRead] ''RemoveMember'',
     route ''POST'' ''/api/v1/organizations/:id/invites'' [Bearer, Permits PermOrgsRead] ''CreateInvite'',
     route ''GET'' ''/api/v1/organizations/:id/invites'' [Bearer, Permits PermOrgsRead] ''ListInvites'',
     route ''DELETE'' ''/api/v1/organizations/:id/invites/:inviteId'' [Bearer, Permits PermOrgsRead] ''RevokeInvite'']"

definition courses_routes :: "route list" where
  "courses_routes = [
     route ''GET'' ''/api/v1/courses'' [OptionalBearer] ''ListCourses'',
     route ''GET'' ''/api/v1/courses/:id'' [OptionalBearer] ''GetCourse'',
     route ''POST'' ''/api/v1/courses'' [Bearer, Permits PermCoursesWrite] ''CreateCourse'',
     route ''PATCH'' ''/api/v1/courses/:id'' [Bearer, Permits PermCoursesWrite] ''UpdateCourse'',
     route ''PUT'' ''/api/v1/courses/:id/tags'' [Bearer, Permits PermCoursesWrite] ''SetCourseTags'',
     route ''POST'' ''/api/v1/courses/:id/publish'' [Bearer, Permits PermCoursesWrite] ''PublishCourse'',
     route ''POST'' ''/api/v1/courses/:id/archive'' [Bearer, Permits PermCoursesWrite] ''ArchiveCourse'',
     route ''DELETE'' ''/api/v1/courses/:id'' [Bearer, Permits PermCoursesWrite] ''DeleteCourse'',
     route ''GET'' ''/api/v1/courses/:id/curriculum'' [OptionalBearer] ''GetCurriculum'',
     route ''POST'' ''/api/v1/courses/:id/modules'' [Bearer, Permits PermCoursesWrite] ''CreateModule'',
     route ''PUT'' ''/api/v1/courses/:id/modules/reorder'' [Bearer, Permits PermCoursesWrite] ''ReorderModules'',
     route ''POST'' ''/api/v1/courses/:id/enroll'' [Bearer, Permits PermCoursesRead] ''Enroll'',
     route ''DELETE'' ''/api/v1/courses/:id/enroll'' [Bearer, Permits PermCoursesRead] ''Unenroll'',
     route ''GET'' ''/api/v1/courses/:id/enrollments'' [Bearer, Permits PermCoursesWrite] ''ListCourseEnrollments'',
     route ''GET'' ''/api/v1/courses/:id/access'' [Bearer, Permits PermCoursesRead] ''GetCourseAccess'',
     route ''PATCH'' ''/api/v1/courses/:id/enrollment-settings'' [Bearer, Permits PermCoursesWrite] ''UpdateEnrollmentSettings'',
     route ''POST'' ''/api/v1/courses/:id/invite-codes'' [Bearer, Permits PermCoursesWrite] ''CreateInviteCode'',
     route ''GET'' ''/api/v1/courses/:id/invite-codes'' [Bearer, Permits PermCoursesWrite] ''ListInviteCodes'',
     route ''DELETE'' ''/api/v1/courses/:id/invite-codes/:codeId'' [Bearer, Permits PermCoursesWrite] ''RevokeInviteCode'',
     route ''GET'' ''/api/v1/courses/:id/progress'' [Bearer, Permits PermCoursesRead] ''GetCourseProgress'',
     route ''POST'' ''/api/v1/courses/:id/quizzes'' [Bearer, Permits PermCoursesWrite] ''CreateQuiz'',
     route ''GET'' ''/api/v1/courses/:id/quizzes'' [Bearer, Permits PermCoursesRead] ''ListQuizzes'',
     route ''POST'' ''/api/v1/courses/:id/assignments'' [Bearer, Permits PermCoursesWrite] ''CreateAssignment'',
     route ''GET'' ''/api/v1/courses/:id/assignments'' [Bearer, Permits PermCoursesRead] ''ListAssignments'',
     route ''GET'' ''/api/v1/courses/:id/gradebook'' [Bearer, Permits PermCoursesWrite] ''Gradebook'',
     route ''POST'' ''/api/v1/courses/:id/sessions'' [Bearer, Permits PermCoursesWrite] ''CreateSession'',
     route ''GET'' ''/api/v1/courses/:id/sessions'' [Bearer, Permits PermCoursesRead] ''ListCourseSessions'',
     route ''POST'' ''/api/v1/courses/:id/announcements'' [Bearer, Permits PermCoursesWrite] ''CreateAnnouncement'',
     route ''GET'' ''/api/v1/courses/:id/announcements'' [Bearer, Permits PermCoursesRead] ''ListAnnouncements'',
     route ''POST'' ''/api/v1/courses/:id/threads'' [Bearer, Permits PermCoursesRead] ''CreateThread'',
     route ''GET'' ''/api/v1/courses/:id/threads'' [Bearer, Permits PermCoursesRead] ''ListThreads'',
     route ''POST'' ''/api/v1/courses/:id/checkout'' [Bearer, Permits PermCoursesRead] ''CreateCheckout'',
     route ''GET'' ''/api/v1/courses/:id/orders'' [Bearer, Permits PermCoursesWrite] ''ListCourseOrders'',
     route ''GET'' ''/api/v1/courses/:id/analytics'' [Bearer, Permits PermCoursesWrite] ''CourseAnalytics'',
     route ''POST'' ''/api/v1/courses/:id/certificate'' [Bearer, Permits PermCoursesRead] ''IssueCertificate'',
     route ''GET'' ''/api/v1/courses/:id/certificates'' [Bearer, Permits PermCoursesWrite] ''ListCourseCertificates'',
     route ''GET'' ''/api/v1/courses/:id/transcript/:userId'' [Bearer, Permits PermCoursesWrite] ''UserCourseTranscript'']"

definition orders_routes :: "route list" where
  "orders_routes = [
     route ''GET'' ''/api/v1/orders/:orderId'' [Bearer, Permits PermCoursesRead] ''GetOrder'',
     route ''POST'' ''/api/v1/orders/:orderId/confirm'' [Bearer, Permits PermCoursesRead] ''ConfirmOrder'',
     route ''POST'' ''/api/v1/orders/:orderId/refund'' [Bearer, Permits PermCoursesRead, Permits PermCoursesWrite] ''RefundOrder'']"

definition coupons_routes :: "route list" where
  "coupons_routes = [
     route ''POST'' ''/api/v1/coupons'' [Bearer, Permits PermCoursesManage] ''CreateCoupon'',
     route ''GET'' ''/api/v1/coupons'' [Bearer, Permits PermCoursesRead] ''ListCoupons'',
     route ''POST'' ''/api/v1/coupons/:couponId/revoke'' [Bearer, Permits PermCoursesManage] ''RevokeCoupon'']"

definition certificates_routes :: "route list" where
  "certificates_routes = [
     route ''GET'' ''/api/v1/certificates/:certificateId'' [Bearer, Permits PermCoursesRead] ''GetCertificate'',
     route ''GET'' ''/api/v1/certificates/:certificateId/download'' [Bearer, Permits PermCoursesRead] ''DownloadCertificate'',
     route ''POST'' ''/api/v1/certificates/:certificateId/revoke'' [Bearer, Permits PermCoursesWrite] ''RevokeCertificate'']"

definition announcements_routes :: "route list" where
  "announcements_routes = [
     route ''GET'' ''/api/v1/announcements/:announcementId'' [Bearer, Permits PermCoursesRead] ''GetAnnouncement'',
     route ''PATCH'' ''/api/v1/announcements/:announcementId'' [Bearer, Permits PermCoursesWrite] ''UpdateAnnouncement'',
     route ''POST'' ''/api/v1/announcements/:announcementId/publish'' [Bearer, Permits PermCoursesWrite] ''PublishAnnouncement'',
     route ''DELETE'' ''/api/v1/announcements/:announcementId'' [Bearer, Permits PermCoursesWrite] ''DeleteAnnouncement'']"

definition threads_routes :: "route list" where
  "threads_routes = [
     route ''GET'' ''/api/v1/threads/:threadId'' [Bearer, Permits PermCoursesRead] ''GetThread'',
     route ''POST'' ''/api/v1/threads/:threadId/lock'' [Bearer, Permits PermCoursesWrite] ''LockThread'',
     route ''POST'' ''/api/v1/threads/:threadId/posts'' [Bearer, Permits PermCoursesRead] ''CreatePost'',
     route ''GET'' ''/api/v1/threads/:threadId/posts'' [Bearer, Permits PermCoursesRead] ''ListPosts'']"

definition posts_routes :: "route list" where
  "posts_routes = [
     route ''PATCH'' ''/api/v1/posts/:postId'' [Bearer, Permits PermCoursesRead] ''UpdatePost'',
     route ''DELETE'' ''/api/v1/posts/:postId'' [Bearer, Permits PermCoursesRead] ''DeletePost'']"

definition conversations_routes :: "route list" where
  "conversations_routes = [
     route ''POST'' ''/api/v1/conversations'' [Bearer, Permits PermProfileRead] ''StartConversation'',
     route ''GET'' ''/api/v1/conversations/:id/messages'' [Bearer, Permits PermProfileRead] ''ListMessages'',
     route ''POST'' ''/api/v1/conversations/:id/messages'' [Bearer, Permits PermProfileRead] ''SendMessage'',
     route ''POST'' ''/api/v1/conversations/:id/read'' [Bearer, Permits PermProfileRead] ''MarkConversationRead'']"

definition notifications_routes :: "route list" where
  "notifications_routes = [
     route ''POST'' ''/api/v1/notifications/:id/read'' [Bearer, Permits PermProfileRead] ''MarkNotificationRead'']"

definition sessions_routes :: "route list" where
  "sessions_routes = [
     route ''GET'' ''/api/v1/sessions/:sessionId'' [Bearer, Permits PermCoursesRead] ''GetSession'',
     route ''PATCH'' ''/api/v1/sessions/:sessionId'' [Bearer, Permits PermCoursesWrite] ''UpdateSession'',
     route ''POST'' ''/api/v1/sessions/:sessionId/publish'' [Bearer, Permits PermCoursesWrite] ''PublishSession'',
     route ''POST'' ''/api/v1/sessions/:sessionId/complete'' [Bearer, Permits PermCoursesWrite] ''CompleteSession'',
     route ''POST'' ''/api/v1/sessions/:sessionId/cancel'' [Bearer, Permits PermCoursesWrite] ''CancelSession'',
     route ''POST'' ''/api/v1/sessions/:sessionId/generate-link'' [Bearer, Permits PermCoursesWrite] ''GenerateLink'',
     route ''GET'' ''/api/v1/sessions/:sessionId/join'' [Bearer, Permits PermCoursesRead] ''JoinSession'',
     route ''GET'' ''/api/v1/sessions/:sessionId/attendance'' [Bearer, Permits PermCoursesWrite] ''ListAttendance'',
     route ''PUT'' ''/api/v1/sessions/:sessionId/attendance/:userId'' [Bearer, Permits PermCoursesWrite] ''MarkAttendance'',
     route ''POST'' ''/api/v1/sessions/:sessionId/attendance/check-in'' [Bearer, Permits PermCoursesRead] ''CheckIn'']"

definition quizzes_routes :: "route list" where
  "quizzes_routes = [
     route ''GET'' ''/api/v1/quizzes/:quizId'' [Bearer, Permits PermCoursesRead] ''GetQuiz'',
     route ''PATCH'' ''/api/v1/quizzes/:quizId'' [Bearer, Permits PermCoursesWrite] ''UpdateQuiz'',
     route ''POST'' ''/api/v1/quizzes/:quizId/publish'' [Bearer, Permits PermCoursesWrite] ''PublishQuiz'',
     route ''POST'' ''/api/v1/quizzes/:quizId/questions'' [Bearer, Permits PermCoursesWrite] ''AddQuestion'',
     route ''PUT'' ''/api/v1/quizzes/:quizId/questions/reorder'' [Bearer, Permits PermCoursesWrite] ''ReorderQuestions'',
     route ''POST'' ''/api/v1/quizzes/:quizId/attempts'' [Bearer, Permits PermCoursesRead] ''StartAttempt'',
     route ''GET'' ''/api/v1/quizzes/:quizId/attempts'' [Bearer, Permits PermCoursesRead] ''ListMyAttempts'']"

definition questions_routes :: "route list" where
  "questions_routes = [
     route ''PATCH'' ''/api/v1/questions/:questionId'' [Bearer, Permits PermCoursesWrite] ''UpdateQuestion'',
     route ''DELETE'' ''/api/v1/questions/:questionId'' [Bearer, Permits PermCoursesWrite] ''DeleteQuestion'']"

definition attempts_routes :: "route list" where
  "attempts_routes = [
     route ''GET'' ''/api/v1/attempts/:attemptId'' [Bearer, Permits PermCoursesRead] ''GetAttempt'',
     route ''PUT'' ''/api/v1/attempts/:attemptId/answers'' [Bearer, Permits PermCoursesRead] ''SaveAnswers'',
     route ''POST'' ''/api/v1/attempts/:attemptId/submit'' [Bearer, Permits PermCoursesRead] ''SubmitAttempt'']"

definition assignments_routes :: "route list" where
  "assignments_routes = [
     route ''GET'' ''/api/v1/assignments/:assignmentId'' [Bearer, Permits PermCoursesRead] ''GetAssignment'',
     route ''PATCH'' ''/api/v1/assignments/:assignmentId'' [Bearer, Permits PermCoursesWrite] ''UpdateAssignment'',
     route ''POST'' ''/api/v1/assignments/:assignmentId/publish'' [Bearer, Permits PermCoursesWrite] ''PublishAssignment'',
     route ''PUT'' ''/api/v1/assignments/:assignmentId/submission'' [Bearer, Permits PermCoursesRead] ''UpsertSubmission'',
     route ''GET'' ''/api/v1/assignments/:assignmentId/submission'' [Bearer, Permits PermCoursesRead] ''GetMySubmission'',
     route ''GET'' ''/api/v1/assignments/:assignmentId/submissions'' [Bearer, Permits PermCoursesWrite] ''ListSubmissions'']"

definition submissions_routes :: "route list" where
  "submissions_routes = [
     route ''POST'' ''/api/v1/submissions/:submissionId/grade'' [Bearer, Permits PermCoursesWrite] ''GradeSubmission'']"

definition modules_routes :: "route list" where
  "modules_routes = [
     route ''PATCH'' ''/api/v1/modules/:moduleId'' [Bearer, Permits PermCoursesWrite] ''UpdateModule'',
     route ''DELETE'' ''/api/v1/modules/:moduleId'' [Bearer, Permits PermCoursesWrite] ''DeleteModule'',
     route ''POST'' ''/api/v1/modules/:moduleId/lessons'' [Bearer, Permits PermCoursesWrite] ''CreateLesson'',
     route ''PUT'' ''/api/v1/modules/:moduleId/lessons/reorder'' [Bearer, Permits PermCoursesWrite] ''ReorderLessons'']"

definition lessons_routes :: "route list" where
  "lessons_routes = [
     route ''PATCH'' ''/api/v1/lessons/:lessonId'' [Bearer, Permits PermCoursesWrite] ''UpdateLesson'',
     route ''POST'' ''/api/v1/lessons/:lessonId/publish'' [Bearer, Permits PermCoursesWrite] ''PublishLesson'',
     route ''POST'' ''/api/v1/lessons/:lessonId/unpublish'' [Bearer, Permits PermCoursesWrite] ''UnpublishLesson'',
     route ''DELETE'' ''/api/v1/lessons/:lessonId'' [Bearer, Permits PermCoursesWrite] ''DeleteLesson'',
     route ''POST'' ''/api/v1/lessons/:lessonId/blocks'' [Bearer, Permits PermCoursesWrite] ''CreateBlock'',
     route ''PUT'' ''/api/v1/lessons/:lessonId/blocks/reorder'' [Bearer, Permits PermCoursesWrite] ''ReorderBlocks'',
     route ''PUT'' ''/api/v1/lessons/:lessonId/progress'' [Bearer, Permits PermCoursesRead] ''UpsertLessonProgress'',
     route ''GET'' ''/api/v1/lessons/:lessonId/progress'' [Bearer, Permits PermCoursesRead] ''GetLessonProgress'']"

definition blocks_routes :: "route list" where
  "blocks_routes = [
     route ''PATCH'' ''/api/v1/blocks/:blockId'' [Bearer, Permits PermCoursesWrite] ''UpdateBlock'',
     route ''DELETE'' ''/api/v1/blocks/:blockId'' [Bearer, Permits PermCoursesWrite] ''DeleteBlock'']"

definition metrics_routes :: "bool \<Rightarrow> route list" where
  "metrics_routes enabled = (if enabled then [route ''GET'' ''/metrics'' [] ''Prometheus''] else [])"

definition routes :: "bool \<Rightarrow> route list" where
    "routes metrics = metrics_routes metrics @ root_routes @ v1_routes @ catalogue_routes @ me_routes @ open_routes @
     auth_routes @ users_routes @ media_routes @ admin_routes @ orgs_routes @ courses_routes @ orders_routes @
     coupons_routes @ certificates_routes @ announcements_routes @ threads_routes @ posts_routes @ conversations_routes
     @ notifications_routes @ sessions_routes @ quizzes_routes @ questions_routes @ attempts_routes @ assignments_routes
     @ submissions_routes @ modules_routes @ lessons_routes @ blocks_routes"

section \<open>What the guards ask for\<close>

text \<open>The permissions of a route, and whether it asks for a token.\<close>

definition asked :: "route \<Rightarrow> permission list" where
  "asked rt = List.map_filter (\<lambda>g. case g of Permits p \<Rightarrow> Some p | _ \<Rightarrow> None) (rte_guards rt)"

definition needs_token :: "route \<Rightarrow> bool" where
  "needs_token rt \<longleftrightarrow> Bearer \<in> set (rte_guards rt)"

text \<open>A permission is asked for after the token that tells the role.\<close>

fun in_order :: "route_guard list \<Rightarrow> bool" where
  "in_order [] = True"
| "in_order (Permits p # gs) = False"
| "in_order (Bearer # gs) = list_all (\<lambda>g. g \<noteq> OptionalBearer) gs"
| "in_order (g # gs) = in_order gs"

definition anonymous_routes :: "(string \<times> string) list" where
  "anonymous_routes =
    [(''GET'', ''/metrics''), (''GET'', ''/health''), (''GET'', ''/ready''), (''GET'', ''/swagger/*any''),
     (''GET'', ''/api/v1/''), (''GET'', ''/api/v1/roles''), (''GET'', ''/api/v1/categories''),
     (''GET'', ''/api/v1/certificates/verify/:code''), (''GET'', ''/api/v1/search''), (''GET'', ''/api/v1/features''),
     (''GET'', ''/api/v1/locales''), (''GET'', ''/api/v1/i18n/messages''), (''POST'', ''/api/v1/webhooks/payments/:provider''),
     (''POST'', ''/api/v1/auth/register''), (''POST'', ''/api/v1/auth/login''), (''POST'', ''/api/v1/auth/refresh''),
     (''POST'', ''/api/v1/auth/logout''), (''POST'', ''/api/v1/auth/forgot-password''),
     (''POST'', ''/api/v1/auth/reset-password''), (''POST'', ''/api/v1/auth/verify-email''),
     (''GET'', ''/api/v1/courses''), (''GET'', ''/api/v1/courses/:id''), (''GET'', ''/api/v1/courses/:id/curriculum'')]"

lemma anonymous_exactly:
  "map (\<lambda>rt. (rte_method rt, rte_path rt)) (filter (\<lambda>rt. \<not> needs_token rt) (routes True)) = anonymous_routes"
  by code_simp

lemma routes_in_order: "list_all (\<lambda>rt. in_order (rte_guards rt)) (routes True)"
  by code_simp

lemma admin_routes_guarded:
  "list_all (\<lambda>rt. take 13 (rte_path rt) \<noteq> ''/api/v1/admin'' \<or> PermUsersManage \<in> set (asked rt)) (routes True)"
  by code_simp

end
