(* ===== verification/RouteRules.thy ===== *)
theory RouteRules
  imports Routes
begin

text \<open>
  Who gets through to the handlers: without a valid token only the routes of \<open>anonymous_routes\<close> are reached;
  with one, exactly the routes whose permissions the role of the token has, and the handler sees the
  identity of the token. Every reply carries the security headers.
\<close>

section \<open>Chains of guards\<close>

lemma chain_passes:
  assumes "chain ms r c = Inr c'" and "m \<in> set ms"
  shows "\<exists>c1 c2. m r c1 = Inr c2"
  using assms by (induction ms arbitrary: c) (auto split: sum.splits)

definition claims_of :: "crypto \<Rightarrow> token_manager \<Rightarrow> int \<Rightarrow> http_request \<Rightarrow> access_claims option" where
  "claims_of cr tm now r = (case bearer_token (header_get (hr_headers r) ''Authorization'') of
       None \<Rightarrow> None
     | Some token \<Rightarrow> parse_access_token cr tm now token)"

lemma bearer_token_empty [simp]: "bearer_token '''' = None"
  by (simp add: bearer_token_def split_scheme_def)

lemma bearer_auth_claims:
  "bearer_auth cr tm now r c = Inr c' \<longleftrightarrow> (\<exists>cl. claims_of cr tm now r = Some cl \<and> c' = identified cl c)"
  by (auto simp: bearer_auth_def claims_of_def Let_def split: option.splits)

lemma optional_bearer_auth_claims:
  "optional_bearer_auth cr tm now r c = Inr (case claims_of cr tm now r of None \<Rightarrow> c | Some cl \<Rightarrow> identified cl c)"
  by (simp add: optional_bearer_auth_def claims_of_def Let_def split: option.split)

lemma identified_role [simp]: "gc_role (identified cl c) = ac_role cl" "gc_user_id (identified cl c) = ac_user_id cl"
  by (simp_all add: identified_def)

text \<open>After the token only permissions and the limiter are asked.\<close>

lemma admitted_after:
  assumes "list_all (\<lambda>g. g \<noteq> OptionalBearer \<and> g \<noteq> Bearer) gs"
  shows "chain (map (guard_handler cr tm now allow) gs) r c = Inr c' \<longleftrightarrow> c' = c
    \<and> (\<forall>p. Permits p \<in> set gs \<longrightarrow> has_permission (gc_role c) p) \<and> (AuthLimit \<in> set gs \<longrightarrow> allow)"
  using assms
proof (induction gs)
  case (Cons g gs)
  then show ?case by (cases g) (auto simp: require_permission_def)
qed auto

definition one_token :: "route_guard list \<Rightarrow> bool" where
  "one_token gs \<longleftrightarrow> in_order gs \<and> length (filter (\<lambda>g. g = Bearer) gs) \<le> 1"

lemma routes_one_token: "list_all (\<lambda>rt. one_token (rte_guards rt)) (routes True)"
  by code_simp

lemma routes_all: "rt \<in> set (routes m) \<Longrightarrow> rt \<in> set (routes True)"
  by (auto simp: routes_def metrics_routes_def split: if_splits)

lemma admitted_guards:
  assumes "one_token gs" and "Bearer \<in> set gs" and "chain (map (guard_handler cr tm now allow) gs) r c = Inr c'"
  shows "\<exists>cl. claims_of cr tm now r = Some cl \<and> gc_role c' = ac_role cl \<and> gc_user_id c' = ac_user_id cl
       \<and> (\<forall>p. Permits p \<in> set gs \<longrightarrow> has_permission (ac_role cl) p) \<and> (AuthLimit \<in> set gs \<longrightarrow> allow)"
  using assms
proof (induction gs arbitrary: c)
  case (Cons g gs)
  show ?case
  proof (cases g)
    case Bearer
    with Cons.prems have "list_all (\<lambda>g. g \<noteq> OptionalBearer \<and> g \<noteq> route_guard.Bearer) gs"
      by (auto simp: one_token_def list_all_iff filter_empty_conv)
    with Bearer Cons.prems(3) show ?thesis
      by (auto simp: admitted_after bearer_auth_claims split: sum.splits)
  next
    case OptionalBearer
    with Cons.prems obtain c1 where "chain (map (guard_handler cr tm now allow) gs) r c1 = Inr c'"
      by (auto simp: optional_bearer_auth_claims)
    from Cons.IH [OF _ _ this] Cons.prems OptionalBearer show ?thesis by (simp add: one_token_def)
  next
    case (Permits p)
    with Cons.prems show ?thesis by (simp add: one_token_def)
  next
    case AuthLimit
    with Cons.prems(3) have "chain (map (guard_handler cr tm now allow) gs) r c = Inr c'" "allow"
      by (auto split: if_splits)
    from Cons.IH [OF _ _ this(1)] this(2) Cons.prems AuthLimit show ?thesis by (simp add: one_token_def)
  qed
qed simp

section \<open>Who reaches a handler\<close>

lemma asked_iff: "p \<in> set (asked rt) \<longleftrightarrow> Permits p \<in> set (rte_guards rt)"
  unfolding asked_def by (induction "rte_guards rt" arbitrary: rt) (auto simp: List.map_filter_def split: route_guard.splits)

lemma anonymous_reach:
  assumes "rt \<in> set (routes m)" and "admit cr tm now allow rt r c = Inr c'" and "claims_of cr tm now r = None"
  shows "(rte_method rt, rte_path rt) \<in> set anonymous_routes"
proof -
  have "\<not> needs_token rt"
  proof
    assume "needs_token rt"
    then have "bearer_auth cr tm now \<in> set (map (guard_handler cr tm now allow) (rte_guards rt))"
      unfolding needs_token_def by force
    from chain_passes [OF assms(2) [unfolded admit_def] this] assms(3) show False by (simp add: bearer_auth_claims)
  qed
  with routes_all [OF assms(1)] show ?thesis
    unfolding anonymous_exactly [symmetric] by force
qed

lemma token_reach:
  assumes "rt \<in> set (routes m)" and "needs_token rt" and "admit cr tm now allow rt r c = Inr c'"
  obtains cl where "claims_of cr tm now r = Some cl" and "gc_user_id c' = ac_user_id cl" and "gc_role c' = ac_role cl"
    and "\<And>p. p \<in> set (asked rt) \<Longrightarrow> has_permission (ac_role cl) p"
proof -
  have "one_token (rte_guards rt)" using routes_one_token routes_all [OF assms(1)] by (auto simp: list_all_iff)
  from admitted_guards [OF this, of cr tm now allow r c c'] assms(2,3) that show ?thesis
    by (auto simp: needs_token_def admit_def asked_iff)
qed

lemma users_manage_admin: "has_permission role PermUsersManage \<Longrightarrow> role = role_admin"
  by (auto simp: has_permission_def role_permissions_def split: if_splits)

lemma admin_reach:
  assumes "rt \<in> set (routes m)" and "take 13 (rte_path rt) = ''/api/v1/admin''" and "admit cr tm now allow rt r c = Inr c'"
  shows "is_platform_admin c' \<and> (\<exists>cl. claims_of cr tm now r = Some cl \<and> ac_role cl = role_admin \<and> gc_user_id c' = ac_user_id cl)"
proof -
  have asks: "PermUsersManage \<in> set (asked rt)"
    using admin_routes_guarded routes_all [OF assms(1)] assms(2) by (auto simp: list_all_iff)
  have "needs_token rt"
  proof (rule ccontr)
    assume "\<not> needs_token rt"
    then have "(rte_method rt, rte_path rt) \<in> set anonymous_routes"
      unfolding anonymous_exactly [symmetric] using routes_all [OF assms(1)] by force
    moreover have "list_all (\<lambda>(m, p). take 13 p \<noteq> ''/api/v1/admin'') anonymous_routes" by code_simp
    ultimately show False using assms(2) by (auto simp: list_all_iff)
  qed
  from token_reach [OF assms(1) this assms(3)] obtain cl
    where cl: "claims_of cr tm now r = Some cl" "gc_user_id c' = ac_user_id cl" "gc_role c' = ac_role cl"
      "\<And>p. p \<in> set (asked rt) \<Longrightarrow> has_permission (ac_role cl) p" by blast
  with asks have "ac_role cl = role_admin" by (intro users_manage_admin) blast
  with cl show ?thesis by (auto simp: is_platform_admin_def)
qed

text \<open>A learner passes the guards of no route that asks for a permission to write courses.\<close>

lemma learners_write_no_course:
  assumes "rt \<in> set (routes m)" and "PermCoursesWrite \<in> set (asked rt) \<or> PermCoursesManage \<in> set (asked rt)" and "needs_token rt"
    and "claims_of cr tm now r = Some cl" and "ac_role cl \<in> {role_student, role_parent}"
  shows "\<exists>a. admit cr tm now allow rt r c = Inl a"
proof (cases "admit cr tm now allow rt r c")
  case (Inr c')
  from token_reach [OF assms(1,3) Inr] assms(2,4) have "has_permission (ac_role cl) PermCoursesWrite \<or> has_permission (ac_role cl) PermCoursesManage"
    by auto
  with assms(5) show ?thesis by (auto simp: has_permission_def role_permissions_def)
qed simp

section \<open>Headers of every reply\<close>

definition cors_names :: "string set" where
  "cors_names = {''Access-Control-Allow-Origin'', ''Vary'', ''Access-Control-Allow-Credentials'', ''Access-Control-Allow-Headers'',
    ''Access-Control-Allow-Methods'', ''Access-Control-Expose-Headers'', ''Access-Control-Max-Age''}"

lemma cors_keeps:
  assumes "k \<notin> cors_names"
  shows "has_header (reply_context (cors cfg r c)) k v = has_header c k v"
  using assms by (simp add: cors_names_def cors_def Let_def reply_context_def set_header_iff add_header_iff)

lemma limit_keeps:
  assumes "k \<noteq> ''Retry-After''"
  shows "has_header (reply_context (fst (limit_except b skips now r c ls))) k v = has_header c k v"
  using assms by (simp add: limit_except_def reply_context_def set_header_iff split: prod.split)

lemma chain_append: "chain (ms @ ns) r c = (case chain ms r c of Inl a \<Rightarrow> Inl a | Inr c' \<Rightarrow> chain ns r c')"
  by (induction ms arbitrary: c) (auto split: sum.split)

lemma enter_keeps:
  assumes "k \<notin> cors_names" "k \<noteq> ''Retry-After''"
    and "chain [request_id random, locale_handler, security_headers hsts] r fresh_context = Inr c"
  shows "has_header (reply_context (fst (enter ops hsts cfg random now r ls))) k v = has_header c k v"
proof -
  have "chain [request_id random, locale_handler, security_headers hsts, cors cfg] r fresh_context = cors cfg r c"
  proof -
    have "chain ([request_id random, locale_handler, security_headers hsts] @ [cors cfg]) r fresh_context = cors cfg r c"
      unfolding chain_append assms(3) by (simp split: sum.split)
    then show ?thesis by (simp only: append.simps)
  qed
  moreover have "has_header (reply_context (cors cfg r c)) k v = has_header c k v"
    by (rule cors_keeps [OF assms(1)])
  moreover have "reply_context (Inr c') = c'" for c' by (simp add: reply_context_def)
  ultimately show ?thesis
    unfolding enter_def using assms(2)
    by (cases "cors cfg r c") (simp_all add: limit_keeps split: option.split)
qed

lemma protective_headers:
  "has_header (reply_context (fst (enter ops hsts cfg random now r ls))) ''X-Frame-Options'' ''DENY''
   \<and> has_header (reply_context (fst (enter ops hsts cfg random now r ls))) ''X-Content-Type-Options'' ''nosniff''"
proof -
  let ?c = "projr (chain [request_id random, locale_handler, security_headers hsts] r fresh_context)"
  have c: "chain [request_id random, locale_handler, security_headers hsts] r fresh_context = Inr ?c"
    by (simp add: request_id_def locale_handler_def security_headers_def Let_def)
  have "has_header ?c ''X-Frame-Options'' ''DENY'' \<and> has_header ?c ''X-Content-Type-Options'' ''nosniff''"
    by (simp add: request_id_def locale_handler_def security_headers_def Let_def set_header_iff)
  then show ?thesis by (simp add: enter_keeps [OF _ _ c] cors_names_def)
qed

end
