(* ===== verification/Academy.thy ===== *)
theory Academy
  imports Classroom AccountRules OrgRules LiveRules CommunicationRules MediaRules RouteRules
begin

text \<open>The sample classroom grown into an academy: a quiz of two questions with a graded attempt, a
  learner who finished the course, a revoked certificate, a scheduled session, a thread whose posts answer
  each other, an organization with one owner and a session of a logged-in user.\<close>

definition sample_option :: "string \<Rightarrow> bool \<Rightarrow> quiz_option" where
  "sample_option i right = \<lparr>op_id = i, op_text = i, op_correct = right\<rparr>"

definition sample_question :: "uuid \<Rightarrow> quiz_question" where
  "sample_question i = \<lparr>qq_id = i, qq_quiz_id = ''q1'', qq_type = type_mcq, qq_prompt = i, qq_points = 2,
     qq_position = 0, qq_options = [sample_option ''a'' True, sample_option ''b'' True, sample_option ''c'' False],
     qq_correct_answer = '''', qq_created_at = 1, qq_updated_at = 1\<rparr>"

definition sample_quiz :: quiz where
  "sample_quiz = \<lparr>qz_id = ''q1'', qz_course_id = ''free'', qz_title = ''one'', qz_description = '''',
     qz_status = QuizPublished, qz_time_limit = None, qz_max_attempts = Some 2, qz_pass_percent = 50,
     qz_shuffle = False, qz_created_at = 1, qz_updated_at = 1, qz_questions = []\<rparr>"

definition sample_attempt :: quiz_attempt where
  "sample_attempt = (new_attempt ''q1'' ''abebe'' 1 3)\<lparr>at_id := ''t1'', at_status := AttemptGraded, at_score := 2,
     at_max := 4, at_percent := 50, at_passed := True, at_graded_at := Some 4, at_submitted_at := Some 4\<rparr>"

definition sample_course_progress :: course_progress where
  "sample_course_progress = \<lparr>pr_id = ''cp1'', pr_user_id = ''abebe'', pr_course_id = ''free'',
     pr_enrollment_id = Some ''e1'', pr_percent = 100, pr_completed = 2, pr_total = 2, pr_last_lesson_id = None,
     pr_completed_at = Some 5, pr_created_at = 2, pr_updated_at = 5, pr_course_title = '''', pr_course_slug = ''''\<rparr>"

definition sample_certificate :: certificate where
  "sample_certificate = \<lparr>ce_id = ''c1'', ce_course_id = ''free'', ce_user_id = ''sara'', ce_code = ''ABCD'',
     ce_learner_name = ''sara'', ce_course_title = ''free'', ce_storage_key = '''', ce_public_url = '''',
     ce_issued_at = 5, ce_revoked_at = Some 6, ce_created_at = 5, ce_updated_at = 6, ce_course_slug = '''',
     ce_user_email = ''''\<rparr>"

definition sample_session :: live_session where
  "sample_session = \<lparr>ls_id = ''s1'', ls_course_id = ''free'', ls_lesson_id = None, ls_title = ''live'',
     ls_description = '''', ls_status = SessionScheduled, ls_starts_at = 20, ls_ends_at = 30, ls_timezone = ''UTC'',
     ls_provider = ''custom'', ls_join_url = ''https://x'', ls_host_url = '''', ls_external_id = '''',
     ls_metadata = Map.empty, ls_created_by = ''teacher'', ls_created_at = 1, ls_updated_at = 1,
     ls_course_title = '''', ls_course_slug = ''''\<rparr>"

definition sample_post :: "uuid \<Rightarrow> uuid option \<Rightarrow> discussion_post" where
  "sample_post i parent = \<lparr>dp_id = i, dp_thread_id = ''th1'', dp_author_id = ''abebe'', dp_parent_id = parent,
     dp_body = i, dp_created_at = 2, dp_updated_at = 2, dp_author_name = ''''\<rparr>"

definition sample_thread :: discussion_thread where
  "sample_thread = \<lparr>dt_id = ''th1'', dt_course_id = ''free'', dt_author_id = ''abebe'', dt_title = ''why'',
     dt_status = ThreadOpen, dt_created_at = 2, dt_updated_at = 2, dt_author_name = '''', dt_post_count = 0\<rparr>"

definition sample_member :: "uuid \<Rightarrow> string \<Rightarrow> org_member" where
  "sample_member u role = \<lparr>om_id = u, om_org_id = ''g1'', om_user_id = u, om_role = role, om_joined_at = 1,
     om_created_at = 1, om_user_email = '''', om_user_name = ''''\<rparr>"

definition academy :: world where
  "academy = classroom\<lparr>world.quizzes := [sample_quiz], quiz_questions := [sample_question ''qq1'', sample_question ''qq2''],
     quiz_attempts := [sample_attempt], course_progresses := [sample_course_progress],
     certificates := [sample_certificate], live_sessions := [sample_session],
     discussion_threads := [sample_thread],
     discussion_posts := [sample_post ''p1'' None, sample_post ''p2'' (Some ''p1''), sample_post ''p3'' (Some ''p2''),
       sample_post ''p4'' None],
     org_members := [sample_member ''teacher'' owner, sample_member ''abebe'' ''member''],
     refresh_tokens := [\<lparr>rt_id = ''r1'', rt_user_id = ''abebe'', rt_hash = ''#raw'', rt_expires_at = 100,
       rt_revoked_at = None, rt_created_at = 1\<rparr>]\<rparr>"

lemmas academy_defs = academy_def sample_option_def sample_question_def sample_quiz_def sample_attempt_def new_attempt_def
  sample_course_progress_def sample_certificate_def sample_session_def sample_post_def sample_thread_def sample_member_def
  classroom_defs

definition sample_crypto :: crypto where
  "sample_crypto = \<lparr>sha256_hex = (\<lambda>s. ''#'' @ s), bcrypt_hash = (\<lambda>salt p. Some (''bcrypt:'' @ p)),
     bcrypt_check = (\<lambda>h p. h = ''bcrypt:'' @ p), jwt_sign = (\<lambda>k c. Some (k @ ac_user_id c)), jwt_parse = (\<lambda>t k s. None)\<rparr>"

definition sample_auth :: auth_config where
  "sample_auth = \<lparr>au_tokens = \<lparr>tm_secret = ''s'', tm_access_ttl = 900, tm_refresh_ttl = 3600\<rparr>, au_expose_dev = False\<rparr>"

lemma one_request:
  "assessment_request u v \<Longrightarrow> rtranclp assessment_request u v"
  "live_request cfg u v \<Longrightarrow> rtranclp (live_request cfg) u v"
  "org_request uc cr dev u v \<Longrightarrow> rtranclp (org_request uc cr dev) u v"
  "media_request u v \<Longrightarrow> rtranclp media_request u v"
  by (rule r_into_rtranclp; assumption)+

lemma sample_key: "op_id ` {o1 \<in> set (qq_options (sample_question i)). op_correct o1} = {''a'', ''b''}"
proof -
  have "{o1 \<in> set (qq_options (sample_question i)). op_correct o1} = {sample_option ''a'' True, sample_option ''b'' True}"
    by (auto simp: sample_question_def sample_option_def)
  then show ?thesis by (simp add: sample_option_def)
qed

lemma academy_quiet: "quiet academy"
  by (simp add: academy_def classroom_def school_def)

lemma academy_attempts: "attempts_ok academy"
  by (simp add: attempts_ok_def numbered_def attempt_row_ok_def open_attempt_def cnt_def academy_defs)

lemma academy_not_author: "not_author academy ''abebe'' ''q1''"
  by (simp add: not_author_def quiz_of_def AssessmentRules.teaches_def live_course_def course_live_def academy_defs)

lemma academy_issued:
  "\<exists>cert v. issue_certificate ''abebe'' ''free'' None False (Some ''code'') academy = (Inr cert, v)"
proof -
  have "isl (fst (issue_certificate ''abebe'' ''free'' None False (Some ''code'') academy)) = False" by code_simp
  then show ?thesis by (metis isl_def prod.collapse sum.exhaust_sel)
qed

lemma academy_certificates: "certificates_ok academy"
  by (simp add: certificates_ok_def academy_defs)

lemma academy_code: "code_of ''abcd '' = ce_code sample_certificate"
  by code_simp

lemma academy_verified: "\<exists>cv v. verify_certificate ''abcd '' academy = (Inr cv, v)"
proof -
  have "isl (fst (verify_certificate ''abcd '' academy)) = False" by code_simp
  then show ?thesis by (metis isl_def prod.collapse sum.exhaust_sel)
qed

lemma academy_sessions: "sessions_ok academy"
  by (simp add: sessions_ok_def academy_defs)

lemma academy_post_deleted: "\<exists>v. delete_post ''abebe'' ''p1'' False academy = (Inr (), v)"
  by (simp add: delete_post_def posts_get_by_id_def threads_get_by_id_def require_post_write_def posts_delete_def
      fetch_row_def exec_rows_def andThen_def ret_def has_user_def scan_post_def scan_thread_def cnt_def academy_defs)

lemma academy_logout: "\<exists>v. logout sample_crypto ''raw'' academy = (Inr (), v)"
  by (simp add: logout_def guard_def asks_def refresh_revoke_def exec_count_def andThen_def ret_def trim_eval academy_defs)

lemma academy_owners: "distinct (member_keys academy)" "owners ''g1'' academy = 1"
  by (simp_all add: member_keys_def owners_def cnt_def academy_defs)

lemma academy_gradebook:
  obtains es v e cell where "gradebook ''teacher'' ''free'' False academy = (Inr es, v)" and "e \<in> set es"
    and "cell \<in> set (gb_quizzes e)"
proof -
  have "(case fst (gradebook ''teacher'' ''free'' False academy) of Inl e \<Rightarrow> False
     | Inr es \<Rightarrow> list_ex (\<lambda>e. gb_quizzes e \<noteq> []) es) = True"
    by code_simp
  then obtain es e where "fst (gradebook ''teacher'' ''free'' False academy) = Inr es" "e \<in> set es" "gb_quizzes e \<noteq> []"
    by (auto simp: list_ex_iff split: sum.splits)
  then show ?thesis
    using that [of es "snd (gradebook ''teacher'' ''free'' False academy)" e "hd (gb_quizzes e)"]
    by (metis list.set_sel(1) prod.collapse)
qed

text \<open>An uploaded file, and a token of an administrator.\<close>

definition sample_asset :: media_asset where
  "sample_asset = \<lparr>ma_id = ''a1'', ma_owner_id = ''abebe'', ma_course_id = None, ma_purpose = purpose_general,
     ma_status = MediaUploaded, ma_content_type = ''image/png'', ma_filename = ''a.png'', ma_size = 10,
     ma_storage_key = ''general/abebe/00.png'', ma_public_url = '''', ma_duration = None, ma_width = None, ma_height = None,
     ma_scan_status = scan_pending, ma_scan_note = '''', ma_created_at = 2, ma_updated_at = 2, ma_deleted_at = None\<rparr>"

definition gallery :: world where
  "gallery = academy\<lparr>media_assets := [sample_asset]\<rparr>"

lemma gallery_ok: "media_ok gallery"
  by (simp add: media_ok_def asset_ok_def media_live_def gallery_def sample_asset_def)

definition sample_claims :: access_claims where
  "sample_claims = \<lparr>ac_user_id = ''head'', ac_email = ''head@school.et'', ac_role = role_admin, ac_expires_at = 100,
     ac_issued_at = 1, ac_issuer = issuer, ac_subject = ''head''\<rparr>"

definition admin_crypto :: crypto where
  "admin_crypto = sample_crypto\<lparr>jwt_parse := (\<lambda>now k s. if s = ''t'' then Some sample_claims else None)\<rparr>"

definition admin_call :: http_request where
  "admin_call = \<lparr>hr_method = ''GET'', hr_path = ''/api/v1/admin/users'', hr_headers = (\<lambda>_. None)(''Authorization'' \<mapsto> ''bearer t''),
     hr_lang = '''', hr_ip = ''10.0.0.1''\<rparr>"

lemma admin_call_claims: "claims_of admin_crypto (au_tokens sample_auth) 10 admin_call = Some sample_claims"
proof -
  have "bearer_token ''bearer t'' = Some ''t''" by code_simp
  then show ?thesis
    by (simp add: claims_of_def admin_call_def header_get_def parse_access_token_def admin_crypto_def)
qed

lemma admin_call_admitted:
  "admit admin_crypto (au_tokens sample_auth) 10 True (hd admin_routes) admin_call fresh_context = Inr (identified sample_claims fresh_context)"
proof -
  have "bearer_auth admin_crypto (au_tokens sample_auth) 10 admin_call fresh_context = Inr (identified sample_claims fresh_context)"
    by (simp add: bearer_auth_claims admin_call_claims)
  moreover have "has_permission role_admin PermUsersManage" by code_simp
  moreover have "rte_guards (hd admin_routes) = [Bearer, Permits PermUsersManage]"
    by (simp add: admin_routes_def route_def)
  ultimately show ?thesis
    by (simp add: admit_def require_permission_def sample_claims_def)
qed

end
