(* ===== verification/DiscoveryRules.thy ===== *)
theory DiscoveryRules
  imports Discovery CertificateRules
begin

text \<open>
  What discovery promises: searches and recommendations show public courses only, in pages of a bounded size
  and in the stated order; the language that is resolved is always a supported one. Guardians: over any run
  there is one link for each pair, between two people, and only a learner's own row appears in it. The last
  section shows that the learner is not asked.
\<close>

section \<open>Languages and flags\<close>

lemma normalize_locale_supported: "normalize_locale c = '''' \<or> normalize_locale c \<in> {''en'', ''am''}"
  by (auto simp: normalize_locale_def supported_locales_def Let_def)

lemma resolve_locale_supported: "resolve_locale explicit accept \<in> {''en'', ''am''}"
proof (cases "normalize_locale explicit = ''''")
  case True
  show ?thesis
  proof (cases "find (\<lambda>c. c \<noteq> '''') (map accepted_locale (split_on (CHR '','') accept))")
    case (Some c)
    from find_SomeD [OF Some] obtain p where "c = accepted_locale p" "c \<noteq> ''''" by auto
    with Some True show ?thesis using normalize_locale_supported by (auto simp: resolve_locale_def accepted_locale_def)
  qed (simp add: resolve_locale_def True)
next
  case False
  then show ?thesis using normalize_locale_supported [of explicit] by (auto simp: resolve_locale_def)
qed

text \<open>Splitting at commas is undone by joining.\<close>

fun join_with :: "char \<Rightarrow> string list \<Rightarrow> string" where
  "join_with c [] = ''''"
| "join_with c [p] = p"
| "join_with c (p # q # ps) = p @ c # join_with c (q # ps)"

lemma split_on_nonempty [simp]: "split_on c s \<noteq> []"
  by (induction s) (auto split: list.split)

lemma join_split: "join_with c (split_on c s) = s"
proof (induction s)
  case (Cons x s)
  obtain p ps where parts: "split_on c s = p # ps" by (cases "split_on c s") auto
  with Cons show ?case by (cases ps) auto
qed simp

lemma parts_clean: "p \<in> set (split_on c s) \<Longrightarrow> c \<notin> set p"
  by (induction s arbitrary: p) (auto split: if_splits list.splits)

text \<open>The last entry of the configuration about a flag decides.\<close>

lemma last_flag_decides:
  assumes "trim_space (to_lower raw) = name" and "name \<noteq> ''''" "hd name \<noteq> CHR ''!''" "hd name \<noteq> CHR ''-''"
  shows "feature_flags (names @ [raw]) name = Some True"
  using assms by (simp add: feature_flags_def flag_step_def)

lemma last_flag_denies:
  assumes "trim_space (to_lower raw) = CHR ''!'' # name" and "name \<noteq> ''''" "hd name \<noteq> CHR ''-''"
  shows "feature_flags (names @ [raw]) name = Some False"
  using assms by (simp add: feature_flags_def flag_step_def trim_prefix_def)

section \<open>What is shown\<close>

lemma set_newest_published [simp]: "set (newest_published f rs) = set rs"
  by (auto simp: newest_published_def)

definition shown_course :: "world \<Rightarrow> course \<Rightarrow> bool" where
  "shown_course w c \<longleftrightarrow> (\<exists>r \<in> set (courses w). public_course r \<and> c = scan_course w r)"

lemma scan_course_after_pop [simp]: "scan_course (pop w) = scan_course w"
  by (simp add: fun_eq_iff)

lemma search_courses_shown:
  assumes "search_courses rank q f page per w = (Inr hits, v)" and "0 \<le> per"
  shows "length hits \<le> nat per \<and> (\<forall>(c, n) \<in> set hits. shown_course w c)"
proof -
  let ?rows = "page_of page per (order_desc (\<lambda>r. the (rank q r)) (newest_published id (filter (course_hit rank q f) (courses w))))"
  have eq: "hits = map (\<lambda>r. (scan_course w r, the (rank q r))) ?rows"
    using assms(1) by (auto simp: search_courses_def fetch_val_def split: if_splits)
  have "set ?rows \<subseteq> {r \<in> set (courses w). course_hit rank q f r}"
    by (rule subset_trans [OF set_page_of]) auto
  then have "\<forall>r \<in> set ?rows. r \<in> set (courses w) \<and> public_course r" by (auto simp: course_hit_def)
  then have "\<forall>r \<in> set ?rows. shown_course w (scan_course w r)" by (auto simp only: shown_course_def)
  moreover have "length hits \<le> nat per" using length_page_of [OF assms(2)] by (simp only: eq length_map)
  ultimately show ?thesis by (simp add: eq)
qed

lemma normalize_search_bounds:
  "normalize_search_page page per = (p, n) \<Longrightarrow> 1 \<le> p \<and> 1 \<le> n \<and> n \<le> 50"
  by (auto simp: normalize_search_page_def)

text \<open>A recommendation is a public course the learner takes no part in; courses in the language of the learner
  come first, among them those with more active learners.\<close>

lemma recommended_rows_set:
  "set (recommended_rows w u lang) = {r \<in> set (courses w). public_course r \<and> \<not> takes_part w u (co_id r)}"
  by (auto simp: recommended_rows_def)

definition ranks_above :: "world \<Rightarrow> string \<Rightarrow> course \<Rightarrow> course \<Rightarrow> bool" where
  "ranks_above w lang r s \<longleftrightarrow> (if co_language r = lang then co_language s \<noteq> lang \<or> active_learners w s \<le> active_learners w r
     else co_language s \<noteq> lang \<and> active_learners w s \<le> active_learners w r)"

lemma sorted_stable_two:
  fixes f :: "'a \<Rightarrow> 'b :: linorder" and g :: "'a \<Rightarrow> 'c :: linorder"
  assumes "sorted (map g xs)"
  shows "sorted_wrt (\<lambda>x y. f x < f y \<or> f x = f y \<and> g x \<le> g y) (sort_key f xs)"
proof -
  have g: "sorted (map g (filter (\<lambda>y. f y = k) (sort_key f xs)))" for k
  proof -
    have "filter (\<lambda>y. f y = k) (sort_key f xs) = filter (\<lambda>y. f y = k) xs" using sort_key_stable [of f k xs] by simp
    then show ?thesis using sorted_filter [OF assms, of "\<lambda>y. f y = k"] by simp
  qed
  have f: "sorted (map f (sort_key f xs))" by simp
  show ?thesis
    unfolding sorted_wrt_iff_nth_less
  proof (intro allI impI)
    fix i j assume ij: "i < j" "j < length (sort_key f xs)"
    let ?ys = "sort_key f xs"
    have le: "f (?ys ! i) \<le> f (?ys ! j)" using f ij by (simp add: sorted_iff_nth_mono)
    show "f (?ys ! i) < f (?ys ! j) \<or> f (?ys ! i) = f (?ys ! j) \<and> g (?ys ! i) \<le> g (?ys ! j)"
    proof (cases "f (?ys ! i) = f (?ys ! j)")
      case True
      have split: "?ys = take (Suc i) ?ys @ drop (Suc i) ?ys" by simp
      have mem: "?ys ! j \<in> set (drop (Suc i) ?ys)" using ij nth_mem [of "j - Suc i" "drop (Suc i) ?ys"] by simp
      have "sorted_wrt (\<lambda>x y. g x \<le> g y) (filter (\<lambda>y. f y = f (?ys ! j)) (take i ?ys @ ?ys ! i # drop (Suc i) ?ys))"
        using g [of "f (?ys ! j)"] ij by (simp only: sorted_map id_take_nth_drop [symmetric])
      then have "g (?ys ! i) \<le> g (?ys ! j)" using True mem by (auto simp: sorted_wrt_append)
      with True show ?thesis by simp
    qed (use le in auto)
  qed
qed

lemma recommended_in_order: "sorted_wrt (ranks_above w lang) (recommended_rows w u lang)"
proof -
  have "sorted_wrt (\<lambda>x y. (if co_language x = lang then (0 :: nat) else 1) < (if co_language y = lang then 0 else 1)
      \<or> (if co_language x = lang then (0 :: nat) else 1) = (if co_language y = lang then 0 else 1)
        \<and> - int (active_learners w x) \<le> - int (active_learners w y)) (recommended_rows w u lang)"
    unfolding recommended_rows_def by (rule sorted_stable_two) (simp add: order_desc_def)
  then show ?thesis
    by (rule sorted_wrt_mono_rel [rotated]) (auto simp: ranks_above_def split: if_splits)
qed

lemma takes_part_pop [simp]: "takes_part (pop w) = takes_part w" "active_learners (pop w) = active_learners w"
  "recommended_rows (pop w) = recommended_rows w"
  by (simp_all add: takes_part_def active_learners_def recommended_rows_def fun_eq_iff)

lemma recommendations_shown:
  assumes "recommendations u locale limit w = (Inr recs, v)"
  shows "length recs \<le> 20 \<and> (\<forall>r \<in> set recs. shown_course w (rec_course r) \<and> \<not> takes_part w u (co_id (rec_course r)))"
proof -
  define lang where "lang = (if trim_space locale = '''' then ''en'' else trim_space locale)"
  let ?rows = "take (recommendation_limit limit) (recommended_rows w u lang)"
  have "recs = map (\<lambda>r. \<lparr>rec_course = scan_course w r,
       rec_reason = (if co_language r = lang then ''popular_in_your_language'' else ''popular''), rec_score = active_learners w r\<rparr>) ?rows"
    using assms by (auto simp: recommendations_def search_recommendations_def guard_def ret_def raise_def andThen_def fetch_val_def
        lang_def [symmetric] Let_def
        split: if_splits)
  moreover have "recommendation_limit limit \<le> 20" by (simp add: recommendation_limit_def nat_le_iff)
  moreover have "\<forall>r \<in> set ?rows. r \<in> set (courses w) \<and> public_course r \<and> \<not> takes_part w u (co_id r)"
    using recommended_rows_set [of w u lang] by (auto dest: in_set_takeD)
  moreover have "co_id (scan_course w r) = co_id r" for r by (simp add: scan_course_def)
  ultimately show ?thesis by (auto simp: shown_course_def)
qed

section \<open>Guardians\<close>

inductive guardian_request :: "world \<Rightarrow> world \<Rightarrow> bool" where
  req_link: "guardian_request w (snd (link_child p email w))"
| req_children: "guardian_request w (snd (list_children p w))"
| req_unlink: "guardian_request w (snd (unlink_child p s w))"

definition links_ok :: "world \<Rightarrow> bool" where
  "links_ok w \<longleftrightarrow> distinct (map pl_id (parent_links w)) \<and> distinct (map (\<lambda>r. (pl_parent_id r, pl_student_id r)) (parent_links w))
     \<and> list_all (\<lambda>r. pl_parent_id r \<noteq> pl_student_id r \<and> pl_status r \<in> {link_active, link_revoked}) (parent_links w)"

lemma links_frame: "parent_links v = parent_links w \<Longrightarrow> links_ok v = links_ok w"
  by (simp add: links_ok_def)

interpretation guardians: world_invariant links_ok
  by unfold_locales (simp_all add: links_ok_def)

lemma links_mapped:
  assumes "links_ok w" and "\<And>r. pl_id (f r) = pl_id r \<and> pl_parent_id (f r) = pl_parent_id r \<and> pl_student_id (f r) = pl_student_id r
     \<and> pl_status (f r) \<in> {link_active, link_revoked}"
  shows "links_ok (w\<lparr>parent_links := upd_where P f (parent_links w)\<rparr>)"
  using assms by (auto simp: links_ok_def upd_where_def comp_def if_distrib list_all_iff cong: if_cong)

lemma links_kept [moves]: "changes (keeping links_ok) (links_create p s)" "changes (keeping links_ok) (links_revoke p s)"
proof -
  have "changes (keeping links_ok) (links_upsert p s)"
    unfolding links_upsert_def
  proof (rule guardians.kept.changes_upsert_row)
    show "keeping links_ok w (w\<lparr>parent_links := upd_where (of_pair p s)
        (\<lambda>r. r\<lparr>pl_status := link_active, pl_updated_at := clock w\<rparr>) (parent_links w)\<rparr>)" for w
      by (simp add: keeping_def links_mapped)
  qed (auto simp: keeping_def links_ok_def pk_free_def violation_def of_pair_def list_ex_iff split: if_split_asm)
  then show "changes (keeping links_ok) (links_create p s)"
    unfolding links_create_def by (intro moves)
  show "changes (keeping links_ok) (links_revoke p s)"
    unfolding links_revoke_def by (rule guardians.kept.changes_exec_rows) (simp add: keeping_def links_mapped)
qed

lemma links_reads [moves]:
  "changes read_only (links_list_by_parent p)" "changes read_only (links_get_active p s)"
  "changes read_only (users_get_by_id u)" "changes read_only (users_get_by_email e)"
  by (simp_all add: links_list_by_parent_def links_get_active_def users_get_by_id_def users_get_by_email_def read_only_fetch)

lemma links_reads_keep: "changes read_only m \<Longrightarrow> changes (keeping links_ok) m"
  by (rule reads_respect) (simp_all add: keeping_def links_ok_def)

lemmas links_steps [moves] = links_reads [THEN links_reads_keep]

lemma guardian_run: "rtranclp guardian_request w v \<Longrightarrow> keeping links_ok w v"
proof (induction rule: rtranclp_induct)
  case (step u v)
  have "changes (keeping links_ok) (link_child p email)" "changes (keeping links_ok) (list_children p)"
    "changes (keeping links_ok) (unlink_child p s)" for p email s
    unfolding link_child_def list_children_def unlink_child_def Let_def by (intro moves)+
  note operations = this [unfolded changes_def, rule_format]
  from step(2) have "keeping links_ok u v" by cases (simp_all add: operations)
  with step(3) show ?case by (simp add: keeping_def)
qed (simp add: keeping_def)

definition linked_to :: "world \<Rightarrow> uuid \<Rightarrow> uuid \<Rightarrow> bool" where
  "linked_to w p s \<longleftrightarrow> list_ex (standing_link p s) (parent_links w)"

text \<open>Whoever links a learner is a parent or an admin, and the learner is one.\<close>

lemma linked_again:
  assumes "list_ex (of_pair p s) (parent_links v)"
  shows "linked_to (v\<lparr>parent_links := upd_where (of_pair p s) (\<lambda>r. r\<lparr>pl_status := link_active, pl_updated_at := t\<rparr>) (parent_links v)\<rparr>) p s"
proof -
  let ?f = "\<lambda>r. r\<lparr>pl_status := link_active, pl_updated_at := t\<rparr>"
  obtain r where r: "r \<in> set (parent_links v)" "of_pair p s r" using assms by (auto simp: list_ex_iff)
  then have "?f r \<in> set (upd_where (of_pair p s) ?f (parent_links v))" unfolding set_upd_where by (intro image_eqI [of _ _ r]) simp_all
  moreover have "standing_link p s (?f r)" using r(2) by (simp add: standing_link_def of_pair_def)
  ultimately show ?thesis unfolding linked_to_def list_ex_iff by (intro bexI) simp_all
qed

lemma linked_cut: "\<not> linked_to (v\<lparr>parent_links := upd_where (standing_link p s) (\<lambda>r. r\<lparr>pl_status := link_revoked, pl_updated_at := t\<rparr>) (parent_links v)\<rparr>) p s"
  by (auto simp: linked_to_def list_ex_iff set_upd_where standing_link_def)

lemma wp_links_upsert: "wpre (links_upsert p s) (\<lambda>_ v. linked_to v p s) (\<lambda>_ _. True) w"
proof -
  show ?thesis
    using linked_again [where v = "pop w"]
    by (simp add: links_upsert_def wp_upsert_row linked_to_def standing_link_def of_pair_def split: option.split)
qed

lemma wp_links_create:
  assumes "\<And>e v. E e v" and "\<And>r v. linked_to v p s \<Longrightarrow> pl_status r = link_active \<Longrightarrow> wpre (g r) Q E v"
  shows "wpre (andThen (links_create p s) g) Q E w"
proof -
  have "wpre (links_create p s) (\<lambda>r v. linked_to v p s \<and> pl_status r = link_active) (\<lambda>_ _. True) w"
    unfolding links_create_def wp_andThen
    by (rule wp_mono [OF wp_links_upsert]) (simp_all add: wp_asks split: option.split)
  then show ?thesis
    unfolding wp_andThen by (rule wp_mono) (use assms in auto)
qed

lemma link_needs_roles:
  assumes "link_child p email w = (Inr l, v)"
  obtains parent student u1 u2 where "live_user w p = Some u1" and "scan_user w u1 = Some parent"
    and "us_role_code parent \<in> {role_parent, role_admin}" and "u2 \<in> set (users w)" "scan_user w u2 = Some student"
    and "us_role_code student = role_student" and "linked_to v p (us_id student)" and "pl_status l = link_active"
proof -
  have scans: "scan_user (w\<lparr>faults := f\<rparr>) = scan_user w" "live_user (w\<lparr>faults := f\<rparr>) = live_user w" for f
    by (simp_all add: scan_user_def live_user_def fun_eq_iff)
  let ?Q = "\<lambda>l v. \<exists>u1 u2 parent student. live_user w p = Some u1 \<and> scan_user w u1 = Some parent
    \<and> us_role_code parent \<in> {role_parent, role_admin} \<and> u2 \<in> set (users w) \<and> scan_user w u2 = Some student
    \<and> us_role_code student = role_student \<and> linked_to v p (us_id student) \<and> pl_status l = link_active"
  have "wpre (link_child p email) ?Q (\<lambda>_ _. True) w"
    unfolding link_child_def Let_def
    by (auto simp: wp_guard_then users_get_by_id_def users_get_by_email_def wp_andThen [of "fetch_row s m c" for s m c] wp_fetch_row
        wp_ret scans pop_def intro!: wp_links_create dest!: find_SomeD split: option.splits) blast+
  then show ?thesis using assms that by (auto simp: wpre_def)
qed

text \<open>After an unlinking the learner is not listed.\<close>

lemma unlinked:
  assumes "unlink_child p s w = (Inr (), v)"
  shows "\<not> linked_to v p s"
proof -
  have "wpre (unlink_child p s) (\<lambda>_ v. \<not> linked_to v p s) (\<lambda>_ _. True) w"
    using linked_cut [where v = "pop w"] by (simp add: unlink_child_def links_revoke_def wp_exec_rows)
  then show ?thesis using assms by (simp add: wpre_def)
qed

text \<open>The learner is not asked: any parent account that knows the address of a learner gets the link.\<close>

lemma links_without_consent:
  assumes "quiet w" and "trim_space (to_lower email) \<noteq> ''''" and "live_user w p = Some u1" "scan_user w u1 = Some parent"
    and "us_role_code parent = role_parent"
    and "find (email_is (trim_space (trim_space (to_lower email)))) (users w) = Some u2" "scan_user w u2 = Some student"
    and "us_role_code student = role_student" "us_id student \<noteq> p"
    and "has_user w p" "has_user w (us_id student)" "pk_free (map pl_id (parent_links w)) w"
  shows "\<exists>l v. link_child p email w = (Inr l, v) \<and> linked_to v p (us_id student)"
proof -
  have "\<exists>v. links_upsert p (us_id student) w = (Inr (), v)"
    using assms(1,9-12) by (simp add: links_upsert_def upsert_row_def violation_def)
  then obtain v where v: "links_upsert p (us_id student) w = (Inr (), v)" by blast
  have "users_get_by_id p w = (Inr parent, w)" "users_get_by_email (trim_space (to_lower email)) w = (Inr student, w)"
    using assms(1,3,4,6,7) by (simp_all add: users_get_by_id_def users_get_by_email_def fetch_row_def)
  then have "\<exists>l. link_child p email w = (Inr l, v)"
    using assms(2,5,8,9)
    by (simp add: link_child_def guard_def ret_def andThen_def links_create_def v asks_def)
  then obtain l where l: "link_child p email w = (Inr l, v)" by blast
  have "wpre (andThen (links_create p (us_id student)) (\<lambda>_. ret ())) (\<lambda>_ v. linked_to v p (us_id student)) (\<lambda>_ _. True) w"
    by (rule wp_links_create) (simp_all add: wp_ret)
  then have "linked_to v p (us_id student)"
    by (simp add: wpre_def links_create_def andThen_def v asks_def ret_def)
  with l show ?thesis by blast
qed

end
