(* ===== verification/Analytics.thy ===== *)
theory Analytics
  imports AssessmentRepo CertificateRepo OrgRepo PaymentRepo Progress Pdf
begin

text \<open>
  Reports: \<open>internal/repository/postgres/analytics.go\<close> and \<open>AnalyticsService\<close> (\<open>internal/service/analytics.go\<close>).
  \<open>GROUP BY\<close> is a list of groups, one for each key that occurs. The parsers of dates of package \<open>time\<close> are
  parameters. The completion rate is computed with 64-bit floating point numbers, which are written out
  (\<open>nearest\<close>); all other numbers are integers.
\<close>

section \<open>Floating point\<close>

function bit_length :: "int \<Rightarrow> int" where
  "bit_length n = (if n \<le> 0 then 0 else 1 + bit_length (n div 2))"
  by pat_completeness auto
termination
  by (relation "measure nat") auto

declare bit_length.simps [simp del]

text \<open>\<open>a / b\<close> rounded to an integer, a tie to the even one.\<close>

definition round_even :: "int \<Rightarrow> int \<Rightarrow> int" where
  "round_even a b = (let q = a div b; r = a mod b
     in if 2 * r < b \<or> 2 * r = b \<and> even q then q else q + 1)"

text \<open>
  The \<open>float64\<close> next to the fraction \<open>a / b\<close>, again as a fraction: 53 significant bits. The numbers of the
  reports are not negative and stay away from the largest and the smallest exponents.
\<close>

definition scaled :: "int \<times> int \<Rightarrow> int \<Rightarrow> int \<times> int" where
  "scaled x k = (if 0 \<le> k then (fst x * 2 ^ nat k, snd x) else (fst x, snd x * 2 ^ nat (- k)))"

definition nearest :: "int \<times> int \<Rightarrow> int \<times> int" where
  "nearest x = (if fst x = 0 then (0, 1)
     else let k0 = 53 + bit_length (snd x) - bit_length (fst x);
              y = scaled x k0;
              k = (if 2 ^ 53 * snd y \<le> fst y then k0 - 1 else k0);
              z = scaled x k;
              m = round_even (fst z) (snd z)
          in if 0 \<le> k then (m, 2 ^ nat k) else (m * 2 ^ nat (- k), 1))"

text \<open>\<open>int(float64(c) / float64(n) * 100 + 0.5)\<close>.\<close>

definition float_percent :: "int \<Rightarrow> int \<Rightarrow> int" where
  "float_percent c n =
     (let x = nearest (c, 1); y = nearest (n, 1);
          q = nearest (fst x * snd y, snd x * fst y);
          p = nearest (100 * fst q, snd q);
          s = nearest (2 * fst p + snd p, 2 * snd p)
      in fst s div snd s)"

section \<open>Grouping\<close>

definition groups :: "('r \<Rightarrow> 'k) \<Rightarrow> 'r list \<Rightarrow> ('k \<times> 'r list) list" where
  "groups key rs = map (\<lambda>k. (k, filter (\<lambda>r. key r = k) rs)) (remdups (map key rs))"

text \<open>The Go map that a loop over the rows of \<open>SELECT key, COUNT(*) ... GROUP BY key\<close> fills.\<close>

definition counts_by :: "('r \<Rightarrow> string) \<Rightarrow> 'r list \<Rightarrow> (string \<rightharpoonup> nat)" where
  "counts_by key rs = map_of (map (\<lambda>(k, g). (k, length g)) (groups key rs))"

definition total_by :: "('r \<Rightarrow> int) \<Rightarrow> 'r list \<Rightarrow> int" where
  "total_by f rs = sum_list (map f rs)"

definition order_desc_text :: "('r \<Rightarrow> string) \<Rightarrow> 'r list \<Rightarrow> 'r list" where
  "order_desc_text key rs = rev (sort_key key (rev rs))"

text \<open>\<open>to_char(date_trunc('day', t AT TIME ZONE 'UTC'), 'YYYY-MM-DD')\<close>, for years from 0 on.\<close>

definition report_day :: "time \<Rightarrow> string" where
  "report_day t = (case civil (t div 86400) of (y, m, d) \<Rightarrow>
     padded 4 (nat y) @ ''-'' @ padded 2 m @ ''-'' @ padded 2 d)"

section \<open>The platform\<close>

record platform_overview =
  po_generated_at :: time
  po_users :: nat
  po_users_by_role :: "string \<rightharpoonup> nat"
  po_courses :: nat
  po_courses_by_status :: "string \<rightharpoonup> nat"
  po_enrollments :: nat
  po_enrollments_by_status :: "string \<rightharpoonup> nat"
  po_organizations :: nat
  po_certificates :: nat
  po_orders_paid :: nat
  po_revenue :: int
  po_currency :: string
  po_enrollments_7d :: nat
  po_revenue_7d :: int
  po_users_7d :: nat

definition paid_order :: "purchase_order \<Rightarrow> bool" where
  "paid_order r \<longleftrightarrow> od_status r = OrderPaid"

text \<open>\<open>COALESCE(MAX(currency), 'ETB')\<close>, texts ordered by bytes.\<close>

definition max_currency :: "purchase_order list \<Rightarrow> string" where
  "max_currency rs = (case rs of [] \<Rightarrow> ''ETB'' | r # rs' \<Rightarrow> fold (\<lambda>x m. if m < od_currency x then od_currency x else m) rs' (od_currency r))"

definition working_user :: "user \<Rightarrow> bool" where
  "working_user u \<longleftrightarrow> us_deleted_at u = None \<and> us_is_active u"

definition role_rows :: "world \<Rightarrow> (user \<Rightarrow> bool) \<Rightarrow> (user \<times> string) list" where
  "role_rows w P = List.map_filter (\<lambda>u. if P u
     then map_option (\<lambda>r. (u, ro_code r)) (find (\<lambda>r. ro_id r = us_role_id u) (roles w)) else None) (users w)"

definition week_ago :: "time \<Rightarrow> time" where
  "week_ago now = now - 7 * 86400"

definition platform_overview_of :: "platform_overview act" where
  "platform_overview_of =
     andThen (asks clock) (\<lambda>now.
     andThen (fetch_val (\<lambda>w. cnt working_user (users w)) ''count users'') (\<lambda>n_users.
     andThen (fetch_val (\<lambda>w. counts_by snd (role_rows w working_user)) ''users by role'') (\<lambda>by_role.
     andThen (fetch_val (\<lambda>w. cnt course_live (courses w)) ''count courses'') (\<lambda>n_courses.
     andThen (fetch_val (\<lambda>w. counts_by (\<lambda>r. course_status_text (co_status r)) (filter course_live (courses w))) ''courses by status'') (\<lambda>by_status.
     andThen (fetch_val (\<lambda>w. length (enrollments w)) ''count enrollments'') (\<lambda>n_enr.
     andThen (fetch_val (\<lambda>w. counts_by (\<lambda>r. enrollment_status_text (en_status r)) (enrollments w)) ''enrollments by status'') (\<lambda>enr_status.
     andThen (fetch_val (\<lambda>w. cnt org_live (organizations w)) ''count organizations'') (\<lambda>n_orgs.
     andThen (fetch_val (\<lambda>w. cnt (\<lambda>r. ce_revoked_at r = None) (certificates w)) ''count certificates'') (\<lambda>n_certs.
     andThen (fetch_val (\<lambda>w. let rs = filter paid_order (orders w) in (length rs, total_by od_total rs, max_currency rs)) ''revenue totals'') (\<lambda>(n_paid, revenue, currency).
     andThen (fetch_val (\<lambda>w. cnt (\<lambda>r. week_ago now \<le> en_created_at r) (enrollments w)) ''enrollments last 7d'') (\<lambda>enr_7d.
     andThen (fetch_val (\<lambda>w. total_by od_total (filter (\<lambda>r. paid_order r
         \<and> (case od_paid_at r of None \<Rightarrow> False | Some t \<Rightarrow> week_ago now \<le> t)) (orders w))) ''revenue last 7d'') (\<lambda>revenue_7d.
     andThen (fetch_val (\<lambda>w. cnt (\<lambda>u. us_deleted_at u = None \<and> week_ago now \<le> us_created_at u) (users w)) ''users last 7d'') (\<lambda>users_7d.
     ret \<lparr>po_generated_at = now, po_users = n_users, po_users_by_role = by_role, po_courses = n_courses,
       po_courses_by_status = by_status, po_enrollments = n_enr, po_enrollments_by_status = enr_status,
       po_organizations = n_orgs, po_certificates = n_certs, po_orders_paid = n_paid, po_revenue = revenue,
       po_currency = currency, po_enrollments_7d = enr_7d, po_revenue_7d = revenue_7d, po_users_7d = users_7d\<rparr>)))))))))))))"

section \<open>One course\<close>

record course_analytics =
  cs_course_id :: uuid
  cs_title :: string
  cs_generated_at :: time
  cs_active :: nat
  cs_waitlisted :: nat
  cs_cancelled :: nat
  cs_completions :: nat
  cs_completion_rate :: int
  cs_average_progress :: int
  cs_orders_paid :: nat
  cs_revenue :: int
  cs_currency :: string
  cs_certificates :: nat
  cs_quizzes :: nat
  cs_assignments :: nat

text \<open>
  \<open>int(avg + 0.5)\<close> of an average that PostgreSQL computes exactly to 16 digits: the nearest integer, a half
  upwards, for up to \<open>10 ^ 12\<close> rows.
\<close>

definition average_percent :: "course_progress list \<Rightarrow> int" where
  "average_percent rs = (if rs = [] then 0
     else go_quot (2 * total_by pr_percent rs + int (length rs)) (2 * int (length rs)))"

definition completion_rate :: "nat \<Rightarrow> nat \<Rightarrow> int" where
  "completion_rate done active = (if 0 < active then float_percent (int done) (int active) else 0)"

definition with_status :: "world \<Rightarrow> uuid \<Rightarrow> enrollment_status \<Rightarrow> nat" where
  "with_status w c st = cnt (\<lambda>r. en_course_id r = c \<and> en_status r = st) (enrollments w)"

definition course_analytics_of :: "uuid \<Rightarrow> course_analytics act" where
  "course_analytics_of c =
     andThen (asks clock) (\<lambda>now.
     andThen (fetch_row (\<lambda>w. map_option (\<lambda>r. (co_title r, co_currency r)) (find (\<lambda>r. co_id r = c \<and> course_live r) (courses w)))
       ''course not found'' ''course title'') (\<lambda>(title, currency).
     andThen (fetch_val (\<lambda>w. (with_status w c EnActive, with_status w c EnWaitlisted, with_status w c EnCancelled))
       ''enrollment counts'') (\<lambda>(active, waiting, cancelled).
     andThen (fetch_val (\<lambda>w. cnt (\<lambda>r. pr_course_id r = c \<and> pr_completed_at r \<noteq> None) (course_progresses w)) ''completion count'') (\<lambda>done.
     andThen (fetch_val (\<lambda>w. average_percent (filter (\<lambda>r. pr_course_id r = c) (course_progresses w))) ''avg progress'') (\<lambda>avg.
     andThen (fetch_val (\<lambda>w. let rs = filter (\<lambda>r. od_course_id r = c \<and> paid_order r) (orders w) in (length rs, total_by od_total rs))
       ''course revenue'') (\<lambda>(n_paid, revenue).
     andThen (fetch_val (\<lambda>w. cnt (\<lambda>r. ce_course_id r = c \<and> ce_revoked_at r = None) (certificates w)) ''certificates'') (\<lambda>certs.
     andThen (fetch_val (\<lambda>w. cnt (\<lambda>r. qz_course_id r = c \<and> qz_status r = QuizPublished) (quizzes w)) ''quizzes'') (\<lambda>n_quizzes.
     andThen (fetch_val (\<lambda>w. cnt (\<lambda>r. as_course_id r = c \<and> as_status r = AssignmentPublished) (assignments w)) ''assignments'') (\<lambda>n_assignments.
     ret \<lparr>cs_course_id = c, cs_title = title, cs_generated_at = now, cs_active = active, cs_waitlisted = waiting,
       cs_cancelled = cancelled, cs_completions = done, cs_completion_rate = completion_rate done active,
       cs_average_progress = avg, cs_orders_paid = n_paid, cs_revenue = revenue, cs_currency = currency,
       cs_certificates = certs, cs_quizzes = n_quizzes, cs_assignments = n_assignments\<rparr>)))))))))"

section \<open>Reports\<close>

record report_range =
  rg_from :: "time option"
  rg_to :: "time option"

definition report_bounds :: "report_range \<Rightarrow> time \<Rightarrow> time \<times> time" where
  "report_bounds f now =
     (let to_t = (case rg_to f of None \<Rightarrow> now | Some t \<Rightarrow> t);
          month_ago = to_t - 30 * 86400;
          from_t = (case rg_from f of None \<Rightarrow> month_ago | Some t \<Rightarrow> t)
      in (if from_t < to_t then from_t else month_ago, to_t))"

record enrollment_report_row =
  er_period :: string
  er_course_id :: uuid
  er_title :: string
  er_status :: string
  er_count :: nat

definition enrollment_report_rows :: "world \<Rightarrow> enrollment list \<Rightarrow> enrollment_report_row list" where
  "enrollment_report_rows w rs = order_desc_text er_period (sort_key er_title (sort_key er_status
     (map (\<lambda>((d, c, st), g). \<lparr>er_period = d, er_course_id = c, er_title = course_title_of w c, er_status = st,
            er_count = length g\<rparr>)
       (groups (\<lambda>r. (report_day (en_created_at r), en_course_id r, enrollment_status_text (en_status r))) rs))))"

definition enrollment_report :: "report_range \<Rightarrow> enrollment_report_row list act" where
  "enrollment_report f =
     andThen (asks (\<lambda>w. report_bounds f (clock w))) (\<lambda>(from_t, to_t).
     fetch_val (\<lambda>w. enrollment_report_rows w (filter (\<lambda>r. from_t \<le> en_created_at r \<and> en_created_at r < to_t) (enrollments w)))
       ''enrollment report'')"

record revenue_report_row =
  rr_period :: string
  rr_course_id :: uuid
  rr_title :: string
  rr_currency :: string
  rr_orders :: nat
  rr_revenue :: int

definition paid_within :: "time \<Rightarrow> time \<Rightarrow> purchase_order \<Rightarrow> bool" where
  "paid_within from_t to_t r \<longleftrightarrow> paid_order r \<and> (case od_paid_at r of None \<Rightarrow> False | Some t \<Rightarrow> from_t \<le> t \<and> t < to_t)"

definition revenue_report_rows :: "world \<Rightarrow> purchase_order list \<Rightarrow> revenue_report_row list" where
  "revenue_report_rows w rs = order_desc_text rr_period (sort_key rr_title
     (map (\<lambda>((d, c, cur), g). \<lparr>rr_period = d, rr_course_id = c, rr_title = course_title_of w c, rr_currency = cur,
            rr_orders = length g, rr_revenue = total_by od_total g\<rparr>)
       (groups (\<lambda>r. (report_day (case od_paid_at r of None \<Rightarrow> 0 | Some t \<Rightarrow> t), od_course_id r, od_currency r)) rs)))"

definition revenue_report :: "report_range \<Rightarrow> revenue_report_row list act" where
  "revenue_report f =
     andThen (asks (\<lambda>w. report_bounds f (clock w))) (\<lambda>(from_t, to_t).
     fetch_val (\<lambda>w. revenue_report_rows w (filter (paid_within from_t to_t) (orders w))) ''revenue report'')"

record growth_point =
  gp_period :: string
  gp_role :: string
  gp_count :: nat

definition growth_rows :: "(user \<times> string) list \<Rightarrow> growth_point list" where
  "growth_rows rs = order_desc_text gp_period (sort_key gp_role
     (map (\<lambda>((d, code), g). \<lparr>gp_period = d, gp_role = code, gp_count = length g\<rparr>)
       (groups (\<lambda>(u, code). (report_day (us_created_at u), code)) rs)))"

definition user_growth_report :: "report_range \<Rightarrow> growth_point list act" where
  "user_growth_report f =
     andThen (asks (\<lambda>w. report_bounds f (clock w))) (\<lambda>(from_t, to_t).
     fetch_val (\<lambda>w. growth_rows (role_rows w (\<lambda>u. us_deleted_at u = None \<and> from_t \<le> us_created_at u \<and> us_created_at u < to_t)))
       ''user growth report'')"

section \<open>The service\<close>

definition require_course_view :: "uuid \<Rightarrow> uuid \<Rightarrow> bool \<Rightarrow> unit act" where
  "require_course_view actor c admin =
     andThen (courses_get_by_id c) (\<lambda>course.
     if admin \<or> co_teacher_id course = actor then ret ()
     else raise (forbidden ''only the course teacher or an admin can view analytics''))"

definition view_course_analytics :: "uuid \<Rightarrow> uuid \<Rightarrow> bool \<Rightarrow> course_analytics act" where
  "view_course_analytics actor c admin = andThen (require_course_view actor c admin) (\<lambda>_. course_analytics_of c)"

text \<open>\<open>ParseReportRange\<close>; a day as the end of the range is included.\<close>

definition parse_bound ::
  "(string \<Rightarrow> time option) \<Rightarrow> (string \<Rightarrow> time option) \<Rightarrow> time \<Rightarrow> string \<Rightarrow> string \<Rightarrow> err + time option" where
  "parse_bound rfc3339 day extra msg raw =
     (if raw = '''' then Inr None
      else case rfc3339 raw of
        Some t \<Rightarrow> Inr (Some t)
      | None \<Rightarrow> (case day raw of Some t \<Rightarrow> Inr (Some (t + extra)) | None \<Rightarrow> Inl (validation msg)))"

definition parse_report_range ::
  "(string \<Rightarrow> time option) \<Rightarrow> (string \<Rightarrow> time option) \<Rightarrow> string \<Rightarrow> string \<Rightarrow> err + report_range" where
  "parse_report_range rfc3339 day from_raw to_raw =
     (case parse_bound rfc3339 day 0 ''from must be YYYY-MM-DD or RFC3339'' from_raw of
        Inl e \<Rightarrow> Inl e
      | Inr f \<Rightarrow> (case parse_bound rfc3339 day 86400 ''to must be YYYY-MM-DD or RFC3339'' to_raw of
          Inl e \<Rightarrow> Inl e
        | Inr t \<Rightarrow> Inr \<lparr>rg_from = f, rg_to = t\<rparr>))"

end
