(* ===== verification/AnalyticsRules.thy ===== *)
theory AnalyticsRules
  imports Analytics CertificateRules "HOL-Library.Multiset"
begin

text \<open>
  What the reports add up to: the rows of a report partition the records of its range, whatever the grouping,
  so their totals are the totals of the records. The range is never empty. The rates of a course are
  rounded in floating point, and the completion rate may exceed a hundred.
\<close>

section \<open>Groups\<close>

lemma sum_groups:
  fixes f :: "'r \<Rightarrow> 'n :: comm_monoid_add"
  shows "sum_list (map (\<lambda>(k, g). sum_list (map f g)) (groups key rs)) = sum_list (map f rs)"
proof -
  have "sum_list (map f rs) = sum_list (map (\<lambda>k. sum_list (map f (filter (\<lambda>r. key r = k) rs))) ks)"
    if "distinct ks" "set (map key rs) \<subseteq> set ks" for ks
    using that(2)
  proof (induction rs)
    case (Cons r rs)
    have "sum_list (map (\<lambda>k. sum_list (map f (filter (\<lambda>x. key x = k) (r # rs)))) ks)
        = sum_list (map (\<lambda>k. (if key r = k then f r else 0) + sum_list (map f (filter (\<lambda>x. key x = k) rs))) ks)"
      by (rule arg_cong [of _ _ sum_list], rule map_cong) simp_all
    also have "\<dots> = sum_list (map (\<lambda>k. if key r = k then f r else 0) ks)
        + sum_list (map (\<lambda>k. sum_list (map f (filter (\<lambda>x. key x = k) rs))) ks)"
      by (rule sum_list_addf)
    also have "sum_list (map (\<lambda>k. if key r = k then f r else 0) ks) = f r"
      using Cons.prems that(1) by (simp add: sum_list_distinct_conv_sum_set sum.delta)
    also have "sum_list (map (\<lambda>k. sum_list (map f (filter (\<lambda>x. key x = k) rs))) ks) = sum_list (map f rs)"
      using Cons by simp
    finally show ?case by simp
  qed simp
  from this [of "remdups (map key rs)"] show ?thesis by (simp add: groups_def comp_def)
qed

lemma count_groups: "sum_list (map (\<lambda>(k, g). length g) (groups key rs)) = length rs"
  using sum_groups [of "\<lambda>_. 1 :: nat" key rs] by (simp add: sum_list_triv case_prod_beta')

lemma groups_members: "(k, g) \<in> set (groups key rs) \<Longrightarrow> g = filter (\<lambda>r. key r = k) rs \<and> g \<noteq> []"
  by (auto simp: groups_def filter_empty_conv)

lemma distinct_groups: "distinct (map fst (groups key rs))"
  by (simp add: groups_def comp_def)

lemma counts_by_at: "counts_by key rs k = (if k \<in> set (map key rs) then Some (cnt (\<lambda>r. key r = k) rs) else None)"
  by (auto simp: counts_by_def groups_def comp_def map_of_map_restrict restrict_map_def cnt_def)

text \<open>The orderings of a report permute its rows.\<close>

lemma mset_order_desc_text [simp]: "mset (order_desc_text key rs) = mset rs"
  by (simp add: order_desc_text_def)

lemma sum_mset_same: "mset xs = mset ys \<Longrightarrow> sum_list (map f xs) = (sum_list (map f ys) :: 'n :: comm_monoid_add)"
  by (metis mset_map sum_mset_sum_list)

section \<open>Reports\<close>

lemma report_bounds_ordered: "report_bounds f now = (from_t, to_t) \<Longrightarrow> from_t < to_t"
  by (auto simp: report_bounds_def Let_def split: if_splits)

lemma revenue_rows_total:
  "total_by rr_revenue (revenue_report_rows w rs) = total_by od_total rs"
  "sum_list (map rr_orders (revenue_report_rows w rs)) = length rs"
proof -
  let ?key = "\<lambda>r. (report_day (case od_paid_at r of None \<Rightarrow> 0 | Some t \<Rightarrow> t), od_course_id r, od_currency r)"
  let ?rows = "map (\<lambda>((d, c, cur), g). \<lparr>rr_period = d, rr_course_id = c, rr_title = course_title_of w c, rr_currency = cur,
            rr_orders = length g, rr_revenue = total_by od_total g\<rparr>) (groups ?key rs)"
  have perm: "mset (revenue_report_rows w rs) = mset ?rows" by (simp add: revenue_report_rows_def)
  show "total_by rr_revenue (revenue_report_rows w rs) = total_by od_total rs"
    using sum_groups [of od_total ?key rs]
    by (simp add: total_by_def sum_mset_same [OF perm] comp_def case_prod_beta')
  show "sum_list (map rr_orders (revenue_report_rows w rs)) = length rs"
    using count_groups [of ?key rs] by (simp add: sum_mset_same [OF perm] comp_def case_prod_beta')
qed

lemma revenue_reported:
  assumes "revenue_report f w = (Inr rows, v)" and "report_bounds f (clock w) = (from_t, to_t)"
  shows "total_by rr_revenue rows = total_by od_total (filter (paid_within from_t to_t) (orders w))
    \<and> sum_list (map rr_orders rows) = cnt (paid_within from_t to_t) (orders w)"
proof -
  have "rows = revenue_report_rows (pop w) (filter (paid_within from_t to_t) (orders w))"
    using assms by (auto simp: revenue_report_def andThen_def asks_def fetch_val_def split: if_splits)
  then show ?thesis by (simp add: revenue_rows_total cnt_def)
qed

lemma enrollment_rows_total: "sum_list (map er_count (enrollment_report_rows w rs)) = length rs"
proof -
  let ?key = "\<lambda>r. (report_day (en_created_at r), en_course_id r, enrollment_status_text (en_status r))"
  let ?rows = "map (\<lambda>((d, c, st), g). \<lparr>er_period = d, er_course_id = c, er_title = course_title_of w c, er_status = st,
            er_count = length g\<rparr>) (groups ?key rs)"
  have perm: "mset (enrollment_report_rows w rs) = mset ?rows" by (simp add: enrollment_report_rows_def)
  show ?thesis
    using count_groups [of ?key rs] by (simp add: sum_mset_same [OF perm] comp_def case_prod_beta')
qed

lemma enrollments_reported:
  assumes "enrollment_report f w = (Inr rows, v)" and "report_bounds f (clock w) = (from_t, to_t)"
  shows "sum_list (map er_count rows) = cnt (\<lambda>r. from_t \<le> en_created_at r \<and> en_created_at r < to_t) (enrollments w)"
proof -
  have "rows = enrollment_report_rows (pop w) (filter (\<lambda>r. from_t \<le> en_created_at r \<and> en_created_at r < to_t) (enrollments w))"
    using assms by (auto simp: enrollment_report_def andThen_def asks_def fetch_val_def split: if_splits)
  then show ?thesis by (simp only: enrollment_rows_total cnt_def)
qed

section \<open>A course\<close>

lemma analytics_denied:
  assumes "live_course w c = Some course" and "co_teacher_id course \<noteq> actor"
  shows "\<exists>e. fst (view_course_analytics actor c False w) = Inl e"
    and "read_only w (snd (view_course_analytics actor c False w))"
proof -
  have "wpre (view_course_analytics actor c False) (\<lambda>_ _. False) (\<lambda>_. read_only w) w"
    using assms
    by (auto simp: view_course_analytics_def require_course_view_def wp_andThen courses_get_by_id_eq wp_fetch_row wp_raise pop_def
        reads.R_refl read_only_def split: option.split)
  then show "\<exists>e. fst (view_course_analytics actor c False w) = Inl e"
    "read_only w (snd (view_course_analytics actor c False w))"
    by (simp_all add: wpre_def split: prod.splits sum.splits)
qed

text \<open>One active learner, two who completed the course: the rate is 200 percent.\<close>

lemma rate_above_hundred: "completion_rate 2 1 = 200"
  by code_simp

end
