(* ===== verification/Spec2Isabelle.thy ===== *)
theory Spec2Isabelle
  imports Classroom Rbac Courses Catalogue Academy DiscoveryRules AnalyticsRules
begin

text \<open>
  The server of the Asnakech school platform: a Go program (\<open>src/internal\<close>) of HTTP handlers, services and
  PostgreSQL repositories. This development models the services and the repositories as functions on
  one state, the database, and the middleware and routing table in front of them, and proves what holds of them.

  \<^bold>\<open>The state.\<close> \<open>Schema.world\<close> has one list of rows for each table of \<open>src/migrations\<close>, rows being records
  with the fields of \<open>internal/domain\<close>. It also holds what the server gets from outside: the clock, the
  supply of fresh identifiers and the answers of the database driver to the next statements (\<open>faults\<close>;
  \<open>True\<close> for a statement that fails). So every theorem about an arbitrary \<open>world\<close> covers requests that are
  cut off at any statement. A service method is a value of type \<open>'a act\<close>, a function from a world to an
  error or a result and the world it leaves (\<open>Effects\<close>, with weakest preconditions, the collection \<open>wp\<close>,
  and closure rules for relations between the worlds before and after, the collection \<open>moves\<close>). The
  repository methods are built from the statements of \<open>Schema\<close>; a constraint of the migrations is the
  SQLSTATE the statement fails with. The fields of a Go value that a query joins are empty in the
  stored row. Concurrent requests interleave between statements; except in C8, runs are sequences of
  whole requests.

  \<^bold>\<open>Theories and sources.\<close>
  \<^item> \<open>Prelude\<close>, \<open>Effects\<close>: Go strings and integers, tables, operations. \<open>Apperr\<close>: \<open>internal/apperr\<close>, the
    failure side of \<open>internal/response\<close>. \<open>Rbac\<close>: \<open>internal/rbac\<close>. \<open>Schema\<close>: \<open>internal/domain\<close>, statements.
  \<^item> \<open>CourseRepo\<close>, \<open>EnrollmentRepo\<close>, \<open>PaymentRepo\<close>, \<open>CurriculumRepo\<close>, \<open>UserRepo\<close>, \<open>OrgRepo\<close>, \<open>AssessmentRepo\<close>,
    \<open>CertificateRepo\<close>, \<open>LiveRepo\<close>, \<open>CommunicationRepo\<close>: the files of these names in
    \<open>internal/repository/postgres\<close>, one definition per method; the tables of progress, media, discovery and
    analytics stand in the theories of their services.
  \<^item> \<open>Enrollments\<close> (\<open>internal/service/enrollment.go\<close>); \<open>Seats\<close> and \<open>Roster\<close> and \<open>Invites\<close>: its invariants;
    \<open>Admission\<close>: the abstract decision an enrollment request implements.
  \<^item> \<open>Providers\<close> (\<open>internal/payment\<close>), \<open>Payments\<close> (\<open>internal/service/payment.go\<close>); \<open>Ledger\<close>, \<open>PaymentFrame\<close>,
    \<open>Purchases\<close>, \<open>PaymentRules\<close>: the life of orders, what payments leave alone, the links between orders and
    enrollments, webhooks and checkouts.
  \<^item> \<open>Curriculum\<close> (\<open>internal/service/curriculum.go\<close>); \<open>Ordering\<close>: the reordering loop; \<open>CurriculumRules\<close>: views
    and rights. \<open>Progress\<close> (\<open>internal/service/progress.go\<close>); \<open>Learning\<close>, \<open>Completion\<close>: its invariants and scores.
  \<^item> \<open>Slugs\<close>: \<open>slugify\<close>. \<open>Courses\<close> (\<open>internal/service/course.go\<close>); \<open>Catalogue\<close>: the life of courses, what
    listings show. \<open>Organizations\<close> (\<open>internal/service/organization.go\<close>); \<open>OrgRules\<close>: owners and invitations.
  \<^item> \<open>Hex\<close>, \<open>Tokens\<close> (\<open>internal/auth\<close>), \<open>Accounts\<close> (\<open>internal/service/auth.go\<close>, \<open>user.go\<close>); \<open>AccountRules\<close>: the
    life of refresh and reset tokens, what each request needs.
  \<^item> \<open>Grading\<close>, \<open>Assessments\<close> (\<open>internal/service/assessment.go\<close>); \<open>AttemptRules\<close>, \<open>AssessmentRules\<close>: attempts and
    submissions over runs, scores, the secrecy of the keys, the gradebook.
  \<^item> \<open>Certificates\<close> (\<open>internal/service/certificate.go\<close>), \<open>Pdf\<close> (\<open>internal/certificate/pdf.go\<close>);
    \<open>CertificateRules\<close>: earning, revoking, verifying.
  \<^item> \<open>LiveSessions\<close> (\<open>internal/service/live.go\<close>, \<open>internal/live\<close>); \<open>LiveRules\<close>: the life of sessions, links,
    attendance, the calendar.
  \<^item> \<open>Communication\<close> (\<open>internal/service/communication.go\<close>, \<open>internal/notify\<close>); \<open>CommunicationRules\<close>: reach of
    announcements, threads and the cascade of replies, messages.
  \<^item> \<open>Media\<close> (\<open>internal/service/media.go\<close>, \<open>internal/storage\<close>); \<open>MediaRules\<close>: the life of assets, limits, rights.
  \<^item> \<open>Discovery\<close> (\<open>internal/service/discovery.go\<close>, \<open>internal/i18n\<close>, the lists of \<open>internal/config\<close>);
    \<open>DiscoveryRules\<close>: languages, what searches and recommendations show, guardians.
  \<^item> \<open>Analytics\<close> (\<open>internal/service/analytics.go\<close>); \<open>AnalyticsRules\<close>: totals of the reports, rights.
  \<^item> \<open>Middleware\<close> (\<open>internal/middleware\<close>), \<open>Routes\<close> (\<open>internal/server/server.go\<close>: the routing table with the
    guards of every route); \<open>RouteRules\<close>: who reaches which handler.
  \<^item> \<open>Samples\<close>, \<open>Classroom\<close>, \<open>Academy\<close>: worlds on which the theorems are tried.

  \<^bold>\<open>Parameters\<close>, code that is not in the repository: JSON decoding, HMAC-SHA256, SHA-256, bcrypt and JWT
  (records \<open>codecs\<close> and \<open>crypto\<close>), random bytes, PostgreSQL's full-text match and rank, the iteration order
  of Go maps, the tables of package \<open>unicode\<close> beyond ASCII, \<open>url.ParseRequestURI\<close>, the two date parsers of
  the reports, the object store (\<open>object_store\<close>), the virus scanner, the token bucket of the rate limiter
  (\<open>bucket_ops\<close>). JSON columns hold the lists and maps they encode.

  \<^bold>\<open>Bounds.\<close> Recursion is structural or has a measure (\<open>trim_left\<close>, \<open>runes\<close>, \<open>decimal\<close>, \<open>bit_length\<close>; for the
  cascade \<open>posts_below\<close> the posts not yet reached), so no fuel is used and every operation is total.
  Products that Go computes in 64 bits wrap (\<open>go_mul\<close>); a value stored in an \<open>INTEGER\<close> column outside 32 bits
  fails with SQLSTATE 22003. Letters are folded as ASCII ones (\<open>strings.ToLower\<close>, SQL \<open>lower\<close>),
  identifiers are canonical UUID texts and texts are ordered by bytes. The clock stands still within a
  request. Where the code drops an error the model goes on (\<open>ignoring\<close>), and where it uses a row
  after a failed read the request ends with the error \<open>Panic\<close>.

  \<^bold>\<open>Not modelled.\<close> The HTTP handlers bind JSON bodies and parameters to the arguments of the service methods
  and their results to JSON; the routes that lead to them and the checks before them are modelled. Left
  out are also the construction of the components and the start and stop of the process
  (\<open>server.go\<close>, \<open>cmd\<close>), the reading of the environment, logging and metrics, which only observe, the calls of
  the S3 client, the message catalogs of \<open>i18n\<close> and the generated API documentation.
\<close>

section \<open>Seats and roster\<close>

text \<open>C1. No run of requests on enrollments and payments, by anyone and with the database failing at
  any statement, takes a course above its capacity when it starts within the capacities.\<close>

theorem capacity_respected:
  assumes "rtranclp (payment_request cd cfg) w w'"
    and "distinct (map en_id (enrollments w))" and "within_capacity w"
  shows "within_capacity w'"
  using seat_frame.paid.payments [OF assms(1)] assms(2,3) by (rule seat_step_within)

theorem capacity_respected_witness:
  "within_capacity (snd (enroll ''hana'' ''free'' ''JOIN'' school))"
proof (rule capacity_respected [of sample_codecs sample_config school])
  show "(payment_request sample_codecs sample_config)\<^sup>*\<^sup>* school (snd (enroll ''hana'' ''free'' ''JOIN'' school))"
    by (intro one_enrollment req_enroll)
qed (use school_roster in \<open>simp_all add: school_capacity roster_ok_def\<close>)



text \<open>C3. When the database answers, an enrollment request the admission rules accept succeeds, and its
  effect is the abstract one: the learner's status is set, one event is logged, the code is used once.\<close>

theorem enroll_implements_admission:
  assumes "quiet w" "roster_ok w" "spare_ids w" "has_user w actor" "countable_uses w"
    and "admission w actor c code = Inr (iv, st)"
  shows "\<exists>en w'. enroll actor c code w = (Inr en, w') \<and> enrolled_as actor c iv st w en w'"
  using assms by (rule enroll_admitted)

theorem enroll_implements_admission_witness:
  "\<exists>en w'. enroll ''hana'' ''free'' ''JOIN'' school = (Inr en, w')
     \<and> enrolled_as ''hana'' ''free'' (Some (hd (invite_codes school))) EnWaitlisted school en w'"
  by (rule enroll_implements_admission [OF school_quiet school_roster school_spare _ _ school_admission])
    (simp_all add: has_user_def countable_uses_def int4_def sample_defs)

text \<open>C4. A request the admission rules refuse fails with the rule's error and changes nothing.\<close>

theorem enroll_refusal_changes_nothing:
  assumes "quiet w" and "admission w actor c code = Inl e"
  shows "enroll actor c code w = (Inl e, w)"
  using assms by (rule enroll_refused)

theorem enroll_refusal_changes_nothing_witness:
  "enroll ''teacher'' ''free'' '''' school
     = (Inl (validation ''teachers cannot enroll in their own course''), school)"
  by (rule enroll_refusal_changes_nothing [OF school_quiet])
    (simp add: admission_def live_course_def course_live_def sample_defs)



text \<open>C6. Access to the content of a course: exactly an admin, the teacher, and a learner with an active
  enrollment have it; the request writes nothing. This holds for any answers of the database.\<close>

theorem access_decision:
  assumes "get_access actor c admin w = (r, w')"
  shows "read_only w w' \<and> (case r of Inl e \<Rightarrow> True
    | Inr a \<Rightarrow> (\<exists>course. live_course w c = Some course \<and> (ca_can_access a \<longleftrightarrow> admin
        \<or> actor \<noteq> '''' \<and> (co_teacher_id course = actor \<or> status_of w (c, actor) = Some EnActive))))"
  using changesD [OF get_access_reads assms] get_access_result [of actor c admin w] assms
  by (auto simp: wpre_def split: sum.splits)

theorem access_decision_witness:
  "read_only school (snd (get_access ''sara'' ''free'' False school))"
  by (rule access_decision [THEN conjunct1, OF prod.collapse [symmetric]])

text \<open>C7. No invite code is ever used more often than its limit.\<close>

theorem invite_limit_kept:
  assumes "rtranclp (payment_request cd cfg) w w'" and "invites_ok w"
  shows "invites_ok w'"
  using invite_frame.paid.payments [OF assms(1)] assms(2) by (simp add: keeping_def)

theorem invite_limit_kept_witness: "invites_ok (snd (enroll ''hana'' ''free'' ''JOIN'' school))"
  by (rule invite_limit_kept [OF one_enrollment [OF req_enroll] school_invites])


section \<open>Orders\<close>

text \<open>C9. The life of an order: over any run its terms are fixed, its status only moves along the
  allowed transitions, and a stamp once set stays; an order never disappears.\<close>

theorem order_life:
  assumes "rtranclp (payment_request cd cfg) w w'" and "ledger_ok w" and "r \<in> set (orders w)"
  shows "\<exists>s \<in> set (orders w'). order_evolves r s"
  using ledger_run.payments [OF assms(1)] assms(2,3) by (simp add: ledger_step_def)

theorem order_life_witness:
  "\<exists>s \<in> set (orders (snd (confirm_manual ''abebe'' ''o1'' school))). order_evolves sample_order s"
  by (rule order_life [OF one_payment [OF req_confirm]])
    (use school_paid in \<open>simp_all add: paid_ok_def school_def\<close>)

text \<open>C10. Over any run the stamps of every order agree with its status, its total is the amount less a
  discount between nothing and the amount, and a paid or refunded order has an enrollment of its buyer
  in its course.\<close>

theorem orders_consistent:
  assumes "rtranclp (payment_request cd cfg) w w'" and "paid_ok w"
  shows "\<forall>od \<in> set (orders w'). order_ok od
    \<and> (od_status od \<in> {OrderPaid, OrderRefunded} \<longrightarrow>
        (\<exists>e \<in> set (enrollments w'). od_enrollment_id od = Some (en_id e)
           \<and> en_course_id e = od_course_id od \<and> en_user_id e = od_user_id od))"
proof
  have ok: "paid_ok w'"
    using paid_run.payments [OF assms(1)] assms(2) by (simp add: keeping_def)
  fix od assume od: "od \<in> set (orders w')"
  with ok have "order_ok od" "order_linked w' od"
    by (auto simp: paid_ok_def ledger_ok_def linked_def)
  then show "order_ok od \<and> (od_status od \<in> {OrderPaid, OrderRefunded} \<longrightarrow>
        (\<exists>e \<in> set (enrollments w'). od_enrollment_id od = Some (en_id e)
           \<and> en_course_id e = od_course_id od \<and> en_user_id e = od_user_id od))"
    by (auto simp: order_ok_def order_stamped_def order_stamps_def order_linked_def has_row_def list_ex_iff
        split: option.splits)
qed

theorem orders_consistent_witness:
  "list_all order_ok (orders (snd (confirm_manual ''abebe'' ''o1'' school)))"
  unfolding list_all_iff using orders_consistent [OF one_payment [OF req_confirm] school_paid] by blast

text \<open>C11. A webhook acts at most once: once it has been answered, a redelivery of the same event writes
  nothing, whatever ran in between.\<close>

theorem webhook_acts_once:
  assumes "pv_parse (provider_for cd cfg p) hs body = Inr r"
    and "pk_free (map wh_id (webhook_events w)) w" and "handle_webhook cd cfg p hs body w = (Inr od, w1)"
    and "rtranclp (payment_request cd cfg) w1 w2"
  shows "read_only w2 (snd (handle_webhook cd cfg p hs body w2))"
proof -
  have "recorded w2 (pv_type (provider_for cd cfg p)) (wr_event_id r)"
    using handle_webhook_records [OF assms(1-3)] event_run.paid.payments [OF assms(4)]
    by (simp add: events_kept_def)
  with assms(1) show ?thesis by (rule handle_webhook_duplicate)
qed

theorem webhook_acts_once_witness:
  "\<exists>od w1. handle_webhook sample_codecs sample_config ''manual'' sample_headers ''o1'' school = (Inr od, w1)
     \<and> read_only w1 (snd (handle_webhook sample_codecs sample_config ''manual'' sample_headers ''o1'' w1))"
proof -
  obtain od w1 where w1: "handle_webhook sample_codecs sample_config ''manual'' sample_headers ''o1'' school = (Inr od, w1)"
    using school_webhook by blast
  have "pk_free (map wh_id (webhook_events school)) school" by (simp add: pk_free_def school_def)
  with w1 show ?thesis using webhook_acts_once [OF sample_parse _ w1 rtranclp.rtrancl_refl] by blast
qed



text \<open>C13. A manual webhook without the HMAC of its body under the configured secret is refused, and
  nothing is read or written.\<close>

theorem unsigned_webhook_refused:
  assumes "trim_space (pc_webhook_secret cfg) \<noteq> ''''"
    and "to_lower (trim_space (header_get hs ''X-Payment-Signature''))
          \<noteq> hmac_sha256_hex cd (trim_space (pc_webhook_secret cfg)) body"
  shows "\<exists>m. handle_webhook cd cfg ''manual'' hs body w = (Inl (forbidden m), w)"
  using assms by (rule manual_signature)

theorem unsigned_webhook_refused_witness:
  "\<exists>m. handle_webhook sample_codecs sample_config ''manual'' (\<lambda>_. None) ''o1'' school = (Inl (forbidden m), school)"
  by (rule unsigned_webhook_refused)
    (simp_all add: sample_payment_defs trim_eval header_get_def to_lower_def)

text \<open>C14. Only the teacher of the course or an admin can refund, and only a paid order: any other request
  fails and writes nothing.\<close>

theorem refund_needs_right:
  assumes "\<not> may_refund w actor i admin"
  shows "\<exists>e. fst (refund actor i admin w) = Inl e \<and> read_only w (snd (refund actor i admin w))"
  using assms by (rule refund_denied)

theorem refund_needs_right_witness:
  "\<exists>e. fst (refund ''abebe'' ''o1'' False school) = Inl e \<and> read_only school (snd (refund ''abebe'' ''o1'' False school))"
  by (rule refund_needs_right) (simp add: may_refund_def sample_defs)

text \<open>C15. The discount of a stored coupon on a stored price: the 64-bit computation does not overflow,
  its value is the percentage or the fixed value cut at the amount.\<close>

theorem discount_value:
  assumes "0 \<le> amount" "int4 amount" "coupon_checks c" "int4 (cp_discount_value c)"
  shows "compute_discount c amount =
      (if cp_discount_type c = ''percent'' then amount * cp_discount_value c div 100
       else min amount (cp_discount_value c))
    \<and> 0 \<le> compute_discount c amount \<and> compute_discount c amount \<le> amount"
  using compute_discount_value [OF assms] by blast

theorem discount_value_witness: "compute_discount (hd (coupons school)) 1001 = 500"
  using discount_value [of 1001 "hd (coupons school)"]
  by (simp add: int4_def coupon_checks_def sql_nonblank_def sample_defs)

text \<open>C16. A checkout with an idempotency key that succeeded is answered, while its order is pending, with
  that order and its session, whatever ran in between and whoever asks; no second order is placed.\<close>

theorem checkout_replayed:
  assumes "trim_space key \<noteq> ''''" and "create_checkout cd cfg actor c code key p w = (Inr r, w1)"
    and "rtranclp (payment_request cd cfg) w1 w2" and "quiet w2"
    and "keyed_order w2 (trim_space key) = Some od" "od_status od = OrderPending"
  shows "od_id od = od_id (ck_order r)
    \<and> create_checkout cd cfg actor' c' code' key p' w2 = (Inr (r\<lparr>ck_order := scan_order w2 od\<rparr>), w2)"
proof -
  have "checkout_of cd cfg (trim_space key) r w1"
    using create_checkout_keyed [OF assms(1), of cd cfg actor c code p w] assms(2) by (simp add: wpre_def)
  with key_run.paid.payments [OF assms(3)] have "checkout_of cd cfg (trim_space key) r w2"
    by (rule checkout_of_kept)
  with assms(5) show ?thesis
    by (auto simp: checkout_of_def intro: create_checkout_replay [OF assms(1,4) _ assms(5,6)])
qed

theorem checkout_replayed_witness:
  "\<exists>r w1 od. create_checkout sample_codecs sample_config ''sara'' ''paid'' ''half'' ''k7'' ''manual'' school = (Inr r, w1)
     \<and> create_checkout sample_codecs sample_config ''hana'' ''free'' '''' ''k7'' ''stripe'' w1
         = (Inr (r\<lparr>ck_order := scan_order w1 od\<rparr>), w1)"
proof -
  obtain r w1 where c: "create_checkout sample_codecs sample_config ''sara'' ''paid'' ''half'' ''k7'' ''manual'' school = (Inr r, w1)"
    using school_checkout(1) by blast
  have k: "trim_space ''k7'' = ''k7''" by (simp add: trim_eval)
  obtain od where od: "keyed_order w1 (trim_space ''k7'') = Some od" "od_status od = OrderPending"
    using school_checkout(3) by (auto simp: c k)
  have "trim_space ''k7'' \<noteq> ''''" "quiet w1"
    using school_checkout(2) by (simp_all add: c k)
  from checkout_replayed [OF this(1) c rtranclp.rtrancl_refl this(2) od] c show ?thesis by blast
qed


section \<open>Curriculum and progress\<close>

text \<open>C18. Over any run of progress requests, with the database failing anywhere, the progress rows stay
  well formed (one per learner and lesson, completed exactly at 100 percent with a time) and no work is
  lost: every row keeps its identity, its percentage does not fall, a completed lesson stays completed.\<close>

theorem lesson_work_kept:
  assumes "rtranclp progress_request w w'" and "progress_ok w"
  shows "progress_ok w' \<and> (\<forall>r \<in> set (lesson_progresses w). \<exists>s \<in> set (lesson_progresses w'). row_grows r s)"
  using run_evolves [OF assms(1)] assms(2) by (simp add: progress_evolves_def rows_grow_def)

theorem lesson_work_kept_witness:
  "progress_ok (snd (upsert_lesson_progress ''abebe'' ''l1'' half_done classroom))"
  using lesson_work_kept [OF one_progress [OF req_record] classroom_progress] by blast

text \<open>C19. Progress on a lesson is recorded only for a learner with an active enrollment in its course, on
  a published lesson, after its prerequisite was completed: any other request fails and writes nothing.\<close>

theorem progress_needs_right:
  assumes "\<not> may_learn w actor l"
  shows "\<exists>e. fst (upsert_lesson_progress actor l i w) = Inl e \<and> read_only w (snd (upsert_lesson_progress actor l i w))"
  using assms by (rule progress_refused)

theorem progress_needs_right_witness:
  "\<exists>e. fst (upsert_lesson_progress ''abebe'' ''l2'' all_done classroom) = Inl e
     \<and> read_only classroom (snd (upsert_lesson_progress ''abebe'' ''l2'' all_done classroom))"
  by (rule progress_needs_right)
    (simp add: may_learn_def course_of_lesson_def completed_by_def of_user_lesson_def classroom_defs)

text \<open>C20. The course progress a request returns counts as completed exactly when the course has
  published lessons and the learner has completed each of them.\<close>

theorem course_completed_exactly:
  assumes "upsert_lesson_progress actor l i w = (Inr (saved, cp), w')"
    and "progress_ok w" and "distinct (map le_id (lessons w))"
  shows "\<exists>le c. course_of_lesson w l = Some (le, c) \<and> pr_completed cp \<le> pr_total cp
    \<and> (pr_completed_at cp \<noteq> None \<longleftrightarrow> course_finished w' actor c)"
proof -
  have "progress_evolves w w'"
    using upsert_progress_evolves assms(1) by (rule changesD)
  then have "lesson_rows_ok (lesson_progresses w')" "distinct (map le_id (lessons w'))"
    using assms(2,3) by (simp_all add: progress_evolves_def progress_ok_def)
  moreover obtain le c where "course_of_lesson w l = Some (le, c)" "scored w' actor c cp"
    by (rule upsert_scores [OF assms(1)])
  ultimately show ?thesis using finished_iff [of w' actor c cp] by blast
qed

theorem course_completed_exactly_witness:
  "\<exists>saved cp w'. upsert_lesson_progress ''abebe'' ''l1'' all_done classroom = (Inr (saved, cp), w')
     \<and> pr_completed cp \<le> pr_total cp"
proof -
  have "isl (fst (upsert_lesson_progress ''abebe'' ''l1'' all_done classroom)) = False" by code_simp
  then obtain saved cp w' where r: "upsert_lesson_progress ''abebe'' ''l1'' all_done classroom = (Inr (saved, cp), w')"
    by (metis isl_def prod.collapse sum.exhaust_sel)
  with course_completed_exactly [OF r classroom_progress classroom_lessons] show ?thesis by blast
qed

text \<open>C21. Only a lesson's prerequisite on itself is rejected. Two lessons that require each other, which
  two edits bring about, lock out for good every learner who has completed neither.\<close>

theorem prerequisite_cycle_locks:
  assumes "rtranclp progress_request w w'" and "locked u a b w"
  shows "\<not> may_learn w' u a \<and> \<not> may_learn w' u b \<and> \<not> completed_by w' u a \<and> \<not> completed_by w' u b"
  using run_keeps_locked [OF assms] blocked_lesson by (auto simp: locked_def prerequisite_cycle_def)

theorem prerequisite_cycle_locks_witness:
  "\<not> may_learn (snd (upsert_lesson_progress ''abebe'' ''l1'' all_done cyclic_classroom)) ''abebe'' ''l1''"
  using prerequisite_cycle_locks [OF one_progress [OF req_record] cyclic_locked [THEN iffD2, OF TrueI]] by blast

text \<open>C22. What somebody who is neither an admin nor the teacher sees of a curriculum: nothing of a course
  that is not published; else published lessons only, and their contents only with an active enrollment.\<close>

theorem learner_view:
  assumes "get_tree c actor False w = (Inr nodes, w')" and "live_course w c = Some course"
    and "actor = '''' \<or> co_teacher_id course \<noteq> actor"
  shows "co_status course = CoursePublished
    \<and> list_all (\<lambda>(m, ls). list_all (\<lambda>(l, blocks). le_status l = LessonPublished
         \<and> (blocks = [] \<or> enrolled_active w actor c)) ls) nodes"
proof -
  note view = tree_for_learners [OF assms(1,2)]
  have "actor \<noteq> '''' \<longrightarrow> co_teacher_id course \<noteq> actor" using assms(3) by blast
  from view [OF this] show ?thesis
    unfolding list_all_iff open_lesson_def by (simp add: case_prod_beta) blast
qed

theorem learner_view_witness:
  "\<exists>nodes w'. get_tree ''free'' ''sara'' False classroom = (Inr nodes, w')
    \<and> list_all (\<lambda>(m, ls). list_all (\<lambda>(l, blocks). le_status l = LessonPublished
         \<and> (blocks = [] \<or> enrolled_active classroom ''sara'' ''free'')) ls) nodes"
proof -
  obtain nodes w' where tree: "get_tree ''free'' ''sara'' False classroom = (Inr nodes, w')"
    using classroom_tree by blast
  have "''sara'' = '''' \<or> co_teacher_id (scan_course classroom (sample_course ''free'' 0 (Some 1))) \<noteq> ''sara''"
    by (simp add: sample_course_def)
  from learner_view [OF tree classroom_free this] tree show ?thesis by blast
qed

text \<open>C23. Somebody who teaches no course and is no admin changes nothing of any curriculum, by any of the
  requests to edit one.\<close>

theorem outsiders_edit_nothing:
  assumes "curriculum_edit uc actor w w'" and "\<not> teaches_some w actor"
  shows "read_only w w'"
  using assms by (rule outsider_edits)

theorem outsiders_edit_nothing_witness:
  "read_only classroom (snd (delete_lesson ''sara'' ''l1'' False classroom))"
  by (rule outsiders_edit_nothing [OF edit_delete_lesson])
    (simp add: teaches_some_def classroom_defs)

text \<open>C24. A reordering by a list of exactly the lessons of a module succeeds and leaves the lessons in
  the order of the list.\<close>

theorem lessons_reordered:
  assumes "quiet w" and "find (\<lambda>r. mo_id r = m) (course_modules w) = Some md"
    and "live_course w (mo_course_id md) = Some course" and "admin \<or> co_teacher_id course = actor"
    and "orderable lessons_table m ids w"
  shows "\<exists>w'. reorder_lessons actor m ids admin w = (Inr (), w') \<and> map le_id (children lessons_table m w') = ids"
  unfolding lessons_reordered_run [OF assms(1-4)]
  using lessons_ordered.reorder_orders [OF assms(1,5)] by (auto simp: lessons_table_def)

theorem lessons_reordered_witness:
  "\<exists>w'. reorder_lessons ''teacher'' ''m1'' [''l3'', ''l1'', ''l2''] False classroom = (Inr (), w')
     \<and> map le_id (children lessons_table ''m1'' w') = [''l3'', ''l1'', ''l2'']"
proof -
  have "find (\<lambda>r. mo_id r = ''m1'') (course_modules classroom) = Some (hd (course_modules classroom))"
    "live_course classroom (mo_course_id (hd (course_modules classroom)))
       = Some (scan_course classroom (sample_course ''free'' 0 (Some 1)))"
    "False \<or> co_teacher_id (scan_course classroom (sample_course ''free'' 0 (Some 1))) = ''teacher''"
    using classroom_free by (simp_all add: classroom_def sample_course_def)
  then show ?thesis using lessons_reordered [OF classroom_quiet _ _ _ classroom_orderable] by blast
qed

text \<open>C25. A reordering that fails, at whichever statement, leaves the tables as they were.\<close>

theorem reordering_all_or_nothing:
  assumes "reorder_lessons actor m ids admin w = (Inl e, w')"
  shows "w' = rollback_to w w'"
  using assms by (rule lessons_reorder_fails)

theorem reordering_all_or_nothing_witness:
  "\<exists>e w'. reorder_lessons ''teacher'' ''m1'' [''l3'', ''l9''] False classroom = (Inl e, w') \<and> lessons w' = lessons classroom"
proof -
  obtain e w' where r: "reorder_lessons ''teacher'' ''m1'' [''l3'', ''l9''] False classroom = (Inl e, w')"
    using classroom_bad_reorder by blast
  have "lessons (rollback_to classroom w') = lessons classroom" by (simp add: rollback_to_def)
  with reordering_all_or_nothing [OF r] r show ?thesis by metis
qed

text \<open>C26. A slug consists of words of lower-case letters and digits joined by single dashes, of at most 64
  characters, and making a slug of a slug changes nothing.\<close>

theorem slugs_well_formed: "is_slug (slugify uc s) \<and> slugify uc (slugify uc s) = slugify uc s"
  using slugify_slug [OF slugify_is_slug] slugify_is_slug by blast

section \<open>Assessments and certificates\<close>

text \<open>C27. Over any run of requests to the assessments, with the database failing anywhere, the attempts stay well
  formed (numbered from 1 per learner and quiz, at most one open, a graded one with a percentage between 0
  and 100), and an attempt once graded is never changed.\<close>

theorem attempts_kept:
  assumes "rtranclp assessment_request w v" and "attempts_ok w"
  shows "attempts_ok v \<and> (\<forall>a \<in> set (quiz_attempts w). \<not> open_attempt a \<longrightarrow> a \<in> set (quiz_attempts v))"
  using attempts.assessment_run [OF assms(1)] assms(2) by (simp add: attempts_step_def)

theorem attempts_kept_witness:
  "attempts_ok (snd (start_attempt ''abebe'' ''q1'' academy))
     \<and> sample_attempt \<in> set (quiz_attempts (snd (start_attempt ''abebe'' ''q1'' academy)))"
proof -
  have "sample_attempt \<in> set (quiz_attempts academy)" "\<not> open_attempt sample_attempt"
    by (simp_all add: open_attempt_def academy_defs)
  then show ?thesis
    using attempts_kept [OF one_request(1) [OF req_start_attempt] academy_attempts] by blast
qed

text \<open>C28. Grading a multiple-choice question by counting and looking up agrees, for a selection without
  repetitions, with the reference: all the points exactly for the set of the correct options.\<close>

theorem selection_graded_as_set:
  assumes "qq_type q = type_mcq" and "distinct (an_selected a)"
  shows "grade_answer q a = (if set (an_selected a) = op_id ` {o1 \<in> set (qq_options q). op_correct o1}
      then (True, qq_points q) else (False, 0))"
  using grade_mcq_distinct [OF assms] grade_answer_cases [of q a] by (auto simp: set_correct_ids)

theorem selection_graded_as_set_witness:
  "grade_answer (sample_question ''qq1'') ((blank_answer ''t1'' ''qq1'')\<lparr>an_selected := [''b'', ''a'']\<rparr>) = (True, 2)"
  by (subst selection_graded_as_set) (simp_all add: sample_key, simp_all add: sample_question_def blank_answer_def insert_commute)

text \<open>C29. What a learner is answered about a quiz does not depend on its keys: the answer is the same when the
  correct options and the correct answers are erased from the database.\<close>

theorem learner_never_sees_key:
  assumes "not_author w actor q"
  shows "get_quiz actor q False (without_keys w) = apsnd without_keys (get_quiz actor q False w)"
  using assms by (rule learner_sees_no_key)

theorem learner_never_sees_key_witness:
  "fst (get_quiz ''abebe'' ''q1'' False (without_keys academy)) = fst (get_quiz ''abebe'' ''q1'' False academy)"
  by (simp add: learner_never_sees_key [OF academy_not_author])

text \<open>C30. The gradebook of a teacher and the transcript of a learner, which are computed by different queries,
  agree on the best percentage and on the number of attempts at every quiz.\<close>

theorem gradebook_agrees:
  assumes "quiet w" and "distinct (map qz_id (quizzes w))" and "gradebook actor c admin w = (Inr es, v)"
    and "e \<in> set es" and "cell \<in> set (gb_quizzes e)"
  shows "\<exists>q \<in> set (quizzes w). qz_id q = gq_quiz_id cell \<and> qz_course_id q = c
    \<and> (\<exists>s. transcript_quiz (gb_user_id e) q w = (Inr s, w)
         \<and> gq_percent s = gq_percent cell \<and> gq_attempts s = gq_attempts cell)"
  using assms by (rule gradebook_matches_transcript)

theorem gradebook_agrees_witness:
  "\<exists>es v e cell s. gradebook ''teacher'' ''free'' False academy = (Inr es, v) \<and> e \<in> set es \<and> cell \<in> set (gb_quizzes e)
     \<and> transcript_quiz (gb_user_id e) sample_quiz academy = (Inr s, academy) \<and> gq_percent s = gq_percent cell"
proof -
  obtain es v e cell where g: "gradebook ''teacher'' ''free'' False academy = (Inr es, v)" "e \<in> set es" "cell \<in> set (gb_quizzes e)"
    by (rule academy_gradebook)
  have "distinct (map qz_id (quizzes academy))" "set (quizzes academy) = {sample_quiz}" by (simp_all add: academy_def)
  with gradebook_agrees [OF academy_quiet _ g]
  have "\<exists>s. transcript_quiz (gb_user_id e) sample_quiz academy = (Inr s, academy) \<and> gq_percent s = gq_percent cell"
    by auto
  with g show ?thesis by blast
qed



text \<open>C32. A revoked certificate is never again reported as valid, whatever requests run after the revocation.\<close>

theorem revocation_is_final:
  assumes "rtranclp certificate_request w v" and "certificates_ok w"
    and "c \<in> set (certificates w)" "ce_revoked_at c \<noteq> None" "code_of raw = ce_code c"
    and "verify_certificate raw v = (Inr cv, v')"
  shows "\<not> cv_valid cv"
  using assms by (rule revoked_never_valid)

theorem revocation_is_final_witness:
  "\<exists>cv v. verify_certificate ''abcd '' academy = (Inr cv, v) \<and> \<not> cv_valid cv"
proof -
  obtain cv v where v: "verify_certificate ''abcd '' academy = (Inr cv, v)" using academy_verified by blast
  moreover have "\<not> cv_valid cv"
    by (rule revocation_is_final [OF rtranclp.rtrancl_refl academy_certificates _ _ _ v, of sample_certificate])
      (simp_all add: academy_code, simp_all add: academy_def sample_certificate_def)
  ultimately show ?thesis by blast
qed


section \<open>Live sessions and communication\<close>



text \<open>C35. The cascade of deleting a post ends, for any parent links, with no reply left to add, and removes the
  post and everything below it and nothing else.\<close>

theorem replies_deleted_exactly:
  assumes "delete_post actor i admin w = (Inr (), v)"
  shows "replies (discussion_posts w) (posts_below (discussion_posts w) [i]) = []
    \<and> discussion_posts v = filter (\<lambda>r. \<not> below (discussion_posts w) i (dp_id r)) (discussion_posts w)"
  using posts_below_closed delete_post_effect [OF assms] by blast

theorem replies_deleted_exactly_witness:
  "\<exists>v. delete_post ''abebe'' ''p1'' False academy = (Inr (), v)
     \<and> discussion_posts v = filter (\<lambda>r. \<not> below (discussion_posts academy) ''p1'' (dp_id r)) (discussion_posts academy)"
  using academy_post_deleted replies_deleted_exactly by blast

text \<open>C36. Publishing an announcement queues at most twenty notifications, however many learners the course has:
  the list of enrollments is asked for with a page size that the repository replaces by twenty.\<close>

theorem announcement_limited:
  "outbox_grows 20 w (snd (publish_announcement actor i admin w))"
  by (rule announcement_reaches_one_page)

section \<open>Accounts and organizations\<close>

text \<open>C37. A refresh token that was used to log out is refused for ever after, whatever account requests run in
  between, and the refused request writes nothing.\<close>

theorem logged_out_stays_out:
  assumes "logout cr raw w = (Inr (), v)" and "session_with (hash_token cr raw) w \<noteq> None"
    and "rtranclp (account_request cr cfg) v u"
  shows "\<exists>e. fst (refresh_session cr cfg' random raw u) = Inl e \<and> read_only u (snd (refresh_session cr cfg' random raw u))"
proof -
  have "revoked (hash_token cr raw) u"
    using logout_revokes [OF assms(1,2)] tokens.account_run [OF assms(3)] by (simp add: tokens_step_def)
  then show ?thesis using revoked_refused by blast
qed

theorem logged_out_stays_out_witness:
  "\<exists>e v. logout sample_crypto ''raw'' academy = (Inr (), v) \<and> fst (refresh_session sample_crypto sample_auth None ''raw'' v) = Inl e"
proof -
  obtain v where v: "logout sample_crypto ''raw'' academy = (Inr (), v)" using academy_logout by blast
  have "session_with (hash_token sample_crypto ''raw'') academy \<noteq> None"
    by (simp add: session_with_def hash_token_def sample_crypto_def academy_def)
  from logged_out_stays_out [OF v this rtranclp.rtrancl_refl] v show ?thesis by blast
qed

text \<open>C38. No run of requests on organizations, by anyone, leaves an organization that has an owner without one.\<close>

theorem last_owner_kept:
  assumes "rtranclp (org_request uc cr dev) w v" and "distinct (member_keys w)" and "1 \<le> owners g w"
  shows "1 \<le> owners g v"
  using owned.org_run [OF assms(1)] assms(2,3) by (simp add: owners_step_def)

theorem last_owner_kept_witness: "1 \<le> owners ''g1'' (snd (remove_member ''teacher'' ''g1'' ''teacher'' False academy))"
  by (rule last_owner_kept [OF one_request(3) [OF req_remove_member]]) (simp_all add: academy_owners)

section \<open>Requests and files\<close>



text \<open>C40. Over any run of media requests the rows keep their keys unique and their sizes non-negative, every asset
  keeps its owner, purpose and storage key and moves forward only, and an infected one is never served again.\<close>

theorem media_life:
  assumes "rtranclp media_request w v" and "media_ok w"
  shows "media_ok v \<and> (\<forall>r \<in> set (media_assets w). \<exists>s \<in> set (media_assets v). asset_follows r s)"
  using media_run [OF assms(1)] assms(2) by (simp add: media_step_def)

theorem media_life_witness:
  "\<exists>s \<in> set (media_assets (snd (delete_media ''abebe'' ''f1'' False gallery))). asset_follows sample_asset s"
proof -
  have "sample_asset \<in> set (media_assets gallery)" by (simp add: gallery_def)
  then show ?thesis using media_life [OF one_request(4) [OF req_delete_media] gallery_ok] by blast
qed

section \<open>Roles, errors and confirmations\<close>

text \<open>The permissions listed for a role are sorted, without repetition and exactly those the checks
  grant, whatever the iteration order of the map.\<close>

theorem permissions_listed:
  assumes "role_permissions role = Some ps" "set out = set ps"
  shows "sorted (permissions_for out role) \<and> distinct (permissions_for out role)
    \<and> set (permissions_for out role) = {p. has_permission role p}"
  using assms by (rule permissions_for_spec)

theorem permissions_listed_witness:
  "sorted (permissions_for [PermOrgsRead, PermOrgsCreate, PermCoursesRead, PermRolesRead, PermProfileWrite,
     PermProfileRead] role_parent)"
  using permissions_listed [of role_parent "[PermProfileRead, PermProfileWrite, PermRolesRead, PermCoursesRead, PermOrgsCreate,
              PermOrgsRead]" "[PermOrgsRead, PermOrgsCreate, PermCoursesRead, PermRolesRead, PermProfileWrite,
     PermProfileRead]"] by (simp add: role_permissions_def insert_commute)

text \<open>A failure of the database is reported as an internal error with a fixed text, not as the
  driver's text and not as a missing record.\<close>

theorem outage_reported_generically:
  assumes "down w"
  shows "\<exists>e. fst (enroll actor c code w) = Inl e
    \<and> fail_response e = \<lparr>fb_status = 500, fb_success = False, fb_code = ''internal_error'',
        fb_message = ''an unexpected error occurred''\<rparr>"
  using assms by (simp add: enroll_def courses_get_by_id_def fetch_row_def andThen_def fail_hides_driver_text)

theorem outage_reported_generically_witness:
  "\<exists>e. fst (enroll ''hana'' ''free'' '''' (school\<lparr>faults := [True]\<rparr>)) = Inl e
    \<and> fail_response e = \<lparr>fb_status = 500, fb_success = False, fb_code = ''internal_error'',
        fb_message = ''an unexpected error occurred''\<rparr>"
  by (rule outage_reported_generically) (simp add: down_def)

text \<open>Only the buyer can confirm an order by hand, only a pending one of the manual provider.\<close>

theorem confirm_needs_right:
  assumes "\<not> may_confirm w actor i"
  shows "\<exists>e. fst (confirm_manual actor i w) = Inl e \<and> read_only w (snd (confirm_manual actor i w))"
  using assms by (rule confirm_denied)

theorem confirm_needs_right_witness:
  "\<exists>e. fst (confirm_manual ''sara'' ''o1'' school) = Inl e \<and> read_only school (snd (confirm_manual ''sara'' ''o1'' school))"
  by (rule confirm_needs_right) (simp add: may_confirm_def sample_defs)

end
